(* ===== verification/Prelude.thy ===== *)
theory Prelude
  imports Main "HOL-Library.Word" "HOL-Library.Monad_Syntax" "HOL-Library.Sublist"
begin

text \<open>
  The shared base of the development: the machine types of the C sources, the byte order
  conversions and the split of a \<^verbatim>\<open>pid_tgid\<close> value that many programs perform, trace output as
  data, C strings, errno values, and the generic lemmas on words and lists the components share.

  C integers are words of their width: \<^verbatim>\<open>u8\<close>, \<^verbatim>\<open>u16\<close>, \<^verbatim>\<open>u32\<close>, \<^verbatim>\<open>u64\<close> for the unsigned ones and,
  since a \<^verbatim>\<open>pid_t\<close> or an \<^verbatim>\<open>int\<close> is the same 32 bits read with a sign, \<^verbatim>\<open>s32\<close> for the signed ones
  (read with \<^term>\<open>sint\<close> where the sign matters). Return codes of helpers, system calls and programs
  are \<^typ>\<open>int\<close>: they lie between -4095 and a small count, far from the ends of a C \<^verbatim>\<open>int\<close>.
\<close>

unbundle bit_operations_syntax

section \<open>Machine types\<close>

type_synonym u8 = "8 word"
type_synonym u16 = "16 word"
type_synonym u32 = "32 word"
type_synonym u64 = "64 word"
type_synonym s32 = "32 word"
type_synonym bytes = "u8 list"


text \<open>The errno values the sources and the helper contracts mention.\<close>

definition ENOENT :: int where "ENOENT = 2"
definition ESRCH :: int where "ESRCH = 3"
definition EINTR :: int where "EINTR = 4"
definition E2BIG :: int where "E2BIG = 7"
definition EFAULT :: int where "EFAULT = 14"
definition EEXIST :: int where "EEXIST = 17"
definition EINVAL :: int where "EINVAL = 22"

lemmas errno_defs = ENOENT_def ESRCH_def EINTR_def E2BIG_def EFAULT_def EEXIST_def EINVAL_def

section \<open>Process identifiers\<close>

text \<open>
  \<^verbatim>\<open>bpf_get_current_pid_tgid()\<close> returns the thread group id in the upper and the thread id in the
  lower half of a \<^verbatim>\<open>u64\<close>. The programs take it apart with \<^verbatim>\<open>>> 32\<close> and with a narrowing
  conversion (or a mask); \<open>pid_tgid_join\<close> is the value the helper builds.
\<close>

definition tgid_of :: "u64 \<Rightarrow> u32" where
  "tgid_of w = ucast (drop_bit 32 w)"

definition tid_of :: "u64 \<Rightarrow> u32" where
  "tid_of w = ucast w"

definition pid_tgid_join :: "u32 \<Rightarrow> u32 \<Rightarrow> u64" where
  "pid_tgid_join tgid tid = push_bit 32 (ucast tgid) OR ucast tid"

section \<open>Byte order\<close>

text \<open>
  The programs run on little-endian machines (the x86 and arm64 kernels of the headers under
  \<^verbatim>\<open>vmlinux/\<close>): a multi-byte load puts the byte at the lowest address into the low bits, and the
  network-to-host conversions swap the bytes.
\<close>

definition le16 :: "u8 \<Rightarrow> u8 \<Rightarrow> u16" where
  "le16 b0 b1 = ucast b0 OR push_bit 8 (ucast b1)"

definition be16 :: "u8 \<Rightarrow> u8 \<Rightarrow> u16" where
  "be16 b0 b1 = le16 b1 b0"

definition le32 :: "u8 \<Rightarrow> u8 \<Rightarrow> u8 \<Rightarrow> u8 \<Rightarrow> u32" where
  "le32 b0 b1 b2 b3 =
     ucast b0 OR push_bit 8 (ucast b1) OR push_bit 16 (ucast b2) OR push_bit 24 (ucast b3)"

definition be32 :: "u8 \<Rightarrow> u8 \<Rightarrow> u8 \<Rightarrow> u8 \<Rightarrow> u32" where
  "be32 b0 b1 b2 b3 = le32 b3 b2 b1 b0"

definition byte_of :: "nat \<Rightarrow> 'a::len word \<Rightarrow> u8" where
  "byte_of i w = ucast (drop_bit (8 * i) w)"

definition bytes_of_u16 :: "u16 \<Rightarrow> bytes" where
  "bytes_of_u16 w = [byte_of 0 w, byte_of 1 w]"

definition bytes_of_u32 :: "u32 \<Rightarrow> bytes" where
  "bytes_of_u32 w = [byte_of 0 w, byte_of 1 w, byte_of 2 w, byte_of 3 w]"

definition ntohs :: "u16 \<Rightarrow> u16" where
  "ntohs w = le16 (byte_of 1 w) (byte_of 0 w)"

definition htons :: "u16 \<Rightarrow> u16" where
  "htons w = ntohs w"

definition ntohl :: "u32 \<Rightarrow> u32" where
  "ntohl w = le32 (byte_of 3 w) (byte_of 2 w) (byte_of 1 w) (byte_of 0 w)"

section \<open>Trace output\<close>

text \<open>
  \<^verbatim>\<open>bpf_printk\<close> and \<^verbatim>\<open>bpf_trace_printk\<close> append a line to the trace pipe. The line is kept as the
  format string and its arguments.
\<close>

datatype printk_arg = PInt u32 | PLong u64 | PStr bytes

type_synonym printk = "string \<times> printk_arg list"

definition nl :: string where "nl = [CHR 0x0A]"

section \<open>C strings\<close>

text \<open>The string a byte buffer holds: the bytes before the first NUL.\<close>

definition c_str :: "bytes \<Rightarrow> bytes" where
  "c_str bs = takeWhile (\<lambda>b. b \<noteq> 0) bs"

text \<open>Decimal notation, as \<^verbatim>\<open>printf\<close> writes an unsigned number.\<close>

fun dec :: "nat \<Rightarrow> string" where
  "dec n = (if n < 10 then [char_of (48 + n)] else dec (n div 10) @ [char_of (48 + n mod 10)])"

declare dec.simps [simp del]

section \<open>Lemmas on words\<close>

lemma bit_u8_high: "8 \<le> n \<Longrightarrow> \<not> bit (w :: u8) n"
  using bit_imp_le_length [of w n] by auto

lemma bit_u32D: "bit (w :: u32) n \<Longrightarrow> n < 32"
  using bit_imp_le_length [of w n] by simp

lemma tgid_of_join [simp]: "tgid_of (pid_tgid_join g t) = g"
proof (rule bit_word_eqI)
  fix n assume "n < LENGTH(32)"
  then show "bit (tgid_of (pid_tgid_join g t)) n = bit g n"
    by (auto simp: tgid_of_def pid_tgid_join_def bit_simps dest: bit_u32D)
qed

lemma tid_of_join [simp]: "tid_of (pid_tgid_join g t) = t"
proof (rule bit_word_eqI)
  fix n assume "n < LENGTH(32)"
  then show "bit (tid_of (pid_tgid_join g t)) n = bit t n"
    by (auto simp: tid_of_def pid_tgid_join_def bit_simps)
qed

lemma join_split: "pid_tgid_join (tgid_of w) (tid_of w) = w"
proof (rule bit_word_eqI)
  fix n assume "n < LENGTH(64)"
  then show "bit (pid_tgid_join (tgid_of w) (tid_of w)) n = bit w n"
    by (auto simp: tgid_of_def tid_of_def pid_tgid_join_def bit_simps)
qed

text \<open>Masking with \<^verbatim>\<open>0xFFFFFFFF\<close> and narrowing is the same as narrowing.\<close>

lemma tid_of_mask: "ucast (w AND 0xFFFFFFFF :: u64) = tid_of w"
proof (rule bit_word_eqI)
  fix n assume "n < LENGTH(32)"
  moreover have "w AND 0xFFFFFFFF = w AND mask 32"
    by (simp add: mask_eq_exp_minus_1)
  ultimately show "bit (ucast (w AND 0xFFFFFFFF :: u64) :: u32) n = bit (tid_of w) n"
    by (simp only: tid_of_def bit_simps) auto
qed

lemma byte_of_le16 [simp]:
  "byte_of 0 (le16 a b) = a" "byte_of 1 (le16 a b) = b" "byte_of (Suc 0) (le16 a b) = b"
  by (auto intro!: bit_word_eqI simp: byte_of_def le16_def bit_simps bit_u8_high)

lemma byte_of_le32 [simp]:
  "byte_of 0 (le32 a b c d) = a" "byte_of 1 (le32 a b c d) = b" "byte_of (Suc 0) (le32 a b c d) = b"
  "byte_of 2 (le32 a b c d) = c" "byte_of 3 (le32 a b c d) = d"
  by (auto intro!: bit_word_eqI simp: byte_of_def le32_def bit_simps bit_u8_high)

lemma le16_bytes: "le16 (byte_of 0 w) (byte_of 1 w) = w"
  by (auto intro!: bit_word_eqI simp: byte_of_def le16_def bit_simps)

lemma le32_bytes: "le32 (byte_of 0 w) (byte_of 1 w) (byte_of 2 w) (byte_of 3 w) = w"
proof (rule bit_word_eqI)
  fix n assume "n < LENGTH(32)"
  then consider "n < 8" | m where "n = 8 + m" "m < 8" | m where "n = 16 + m" "m < 8" | m where "n = 24 + m" "m < 8"
    by (cases "n < 8"; cases "n < 16"; cases "n < 24") (fastforce simp: le_iff_add not_less)+
  then show "bit (le32 (byte_of 0 w) (byte_of 1 w) (byte_of 2 w) (byte_of 3 w)) n = bit w n"
    by cases (auto simp: byte_of_def le32_def bit_simps)
qed

lemma length_bytes_of [simp]: "length (bytes_of_u16 h) = 2" "length (bytes_of_u32 w) = 4"
  by (simp_all add: bytes_of_u16_def bytes_of_u32_def)

lemma bytes_of_u32_inj: "bytes_of_u32 v = bytes_of_u32 w \<Longrightarrow> v = w"
  using le32_bytes [of v] le32_bytes [of w] by (simp add: bytes_of_u32_def)

lemma ntohs_le16 [simp]: "ntohs (le16 a b) = be16 a b"
  by (simp add: ntohs_def be16_def)

lemma ntohl_le32 [simp]: "ntohl (le32 a b c d) = be32 a b c d"
  by (simp add: ntohl_def be32_def)

lemma ntohs_ntohs [simp]: "ntohs (ntohs w) = w"
  using le16_bytes [of w] by (simp add: ntohs_def)

lemma htons_eq_iff: "(w = htons p) = (ntohs w = p)"
  by (metis htons_def ntohs_ntohs)

lemma unat_ucast_up: "LENGTH('a) \<le> LENGTH('b) \<Longrightarrow> unat (ucast (w :: 'a::len word) :: 'b::len word) = unat w"
proof -
  assume le: "LENGTH('a) \<le> LENGTH('b)"
  have "unat w < 2 ^ LENGTH('a)" by simp
  also have "\<dots> \<le> 2 ^ LENGTH('b)" using le by simp
  finally show ?thesis by (simp add: unsigned_ucast_eq take_bit_nat_eq_self)
qed

lemma be16_unat: "unat (be16 a b) = 256 * unat a + unat b"
proof -
  have dis: "push_bit 8 (ucast a :: u16) AND ucast b = 0"
    by (auto intro!: bit_word_eqI simp: bit_simps bit_u8_high)
  have "le16 b a = push_bit 8 (ucast a) + ucast b"
    using dis by (simp add: le16_def disjunctive_add_eq_or or.commute)
  moreover have "unat (push_bit 8 (ucast a :: u16)) = 256 * unat a"
    using unsigned_less [of a, where ?'a = nat]
    by (simp add: push_bit_eq_mult unat_word_ariths unat_ucast_up)
  ultimately show ?thesis
    using unsigned_less [of a, where ?'a = nat] unsigned_less [of b, where ?'a = nat]
    by (simp add: be16_def unat_word_ariths unat_ucast_up)
qed

section \<open>Lemmas on lists\<close>

lemma c_str_no_nul: "0 \<notin> set (c_str bs)"
  by (auto simp: c_str_def dest: set_takeWhileD)

lemma c_str_append_nul: "0 \<notin> set xs \<Longrightarrow> c_str (xs @ 0 # ys) = xs"
  by (induction xs) (auto simp: c_str_def)

lemma c_str_id: "0 \<notin> set xs \<Longrightarrow> c_str xs = xs"
  by (induction xs) (auto simp: c_str_def)

lemma c_str_zeroes [simp]: "c_str (replicate n 0) = []"
  by (cases n) (simp_all add: c_str_def)

lemma c_str_pad: "0 \<notin> set bs \<Longrightarrow> c_str (bs @ replicate n 0) = bs"
  by (cases n) (simp_all add: c_str_id c_str_append_nul)

lemma c_str_Cons: "c_str (x # xs) = (if x = 0 then [] else x # c_str xs)"
  by (simp add: c_str_def)

section \<open>Lemmas on decimal notation\<close>

lemma dec_digits: "set (dec n) \<subseteq> {char_of k | k. 48 \<le> k \<and> k \<le> (57 :: nat)}"
proof (induction n rule: dec.induct)
  case (1 n)
  have d: "char_of (48 + n mod 10) \<in> {char_of k | k. 48 \<le> k \<and> k \<le> (57 :: nat)}"
    by (intro CollectI exI [of _ "48 + n mod 10"]) auto
  show ?case
  proof (cases "n < 10")
    case True
    then have "n mod 10 = n" by simp
    with True d show ?thesis by (subst dec.simps) simp
  next
    case False
    with 1 d show ?thesis by (subst dec.simps) auto
  qed
qed

lemma dec_no_dot: "CHR ''.'' \<notin> set (dec n)"
proof
  assume "CHR ''.'' \<in> set (dec n)"
  with dec_digits obtain k where k: "CHR ''.'' = char_of k" "48 \<le> k" "k \<le> (57 :: nat)" by fastforce
  then have "of_char CHR ''.'' = k" by (simp add: of_char_of)
  with k(2) show False by simp
qed

lemma dec_inj: "dec m = dec n \<Longrightarrow> m = n"
proof (induction m arbitrary: n rule: dec.induct)
  case (1 m)
  have digit: "i = j" if "char_of (48 + i) = (char_of (48 + j) :: char)" "i < 10" "j < 10" for i j :: nat
  proof -
    have "of_char (char_of (48 + i) :: char) = 48 + i" "of_char (char_of (48 + j) :: char) = 48 + j"
      using that(2,3) by (simp_all add: of_char_of)
    with that(1) show ?thesis by simp
  qed
  have ne: "dec k \<noteq> []" for k by (subst dec.simps) simp
  have small: "dec k = [char_of (48 + k)]" if "k < 10" for k using that by (subst dec.simps) simp
  have large: "dec k = dec (k div 10) @ [char_of (48 + k mod 10)]" if "\<not> k < 10" for k
    using that by (subst dec.simps) simp
  show ?case
  proof (cases "m < 10"; cases "n < 10")
    assume "m < 10" "n < 10"
    with "1.prems" show ?thesis using digit [of m n] by (simp add: small)
  next
    assume "m < 10" "\<not> n < 10"
    with "1.prems" show ?thesis using ne [of "n div 10"] by (auto simp: small large [of n])
  next
    assume "\<not> m < 10" "n < 10"
    with "1.prems" show ?thesis using ne [of "m div 10"] by (auto simp: small large [of m])
  next
    assume m: "\<not> m < 10" and n: "\<not> n < 10"
    then have "dec (m div 10) = dec (n div 10)" and "char_of (48 + m mod 10) = (char_of (48 + n mod 10) :: char)"
      using "1.prems" by (simp_all only: large [OF m] large [OF n] append1_eq_conv)
    from digit [OF this(2)] have "m mod 10 = n mod 10" by simp
    moreover from "1.IH" [OF m \<open>dec (m div 10) = dec (n div 10)\<close>] have "m div 10 = n div 10" .
    ultimately show ?thesis by (metis div_mult_mod_eq)
  qed
qed

end
