(* ===== verification/Bpf_Helpers.thy ===== *)
theory Bpf_Helpers
  imports Prelude "HOL-Library.AList"
begin

text \<open>
  The kernel side the programs call, as interfaces. The BPF helpers are kernel code that is not
  part of this repository, so every handler of the model takes them as an argument: a record of
  operations on an opaque state. What the programs rely on is stated once per interface, as the
  assumptions of a locale (\<open>bpf_map\<close>, \<open>bpf_hash_map\<close>, \<open>bpf_array_map\<close>, \<open>bpf_ringbuf\<close>,
  \<open>bpf_perf\<close>), taken from the descriptions in bpf(2) and bpf-helpers(7). Each locale is interpreted
  on an executable instance that follows those descriptions (capacity limits, flags and error codes
  included); the witnesses run the programs on these instances.

  The locale \<open>event_source\<close> is the contract the tracing programs share: one invocation adds at most
  one record to the output, and only a good one. Its lemmas lift that to runs of any length.
\<close>

section \<open>Maps\<close>

record ('m, 'k, 'v) map_ops =
  map_lookup :: "'m \<Rightarrow> 'k \<Rightarrow> 'v option"
  map_update :: "'m \<Rightarrow> 'k \<Rightarrow> 'v \<Rightarrow> u64 \<Rightarrow> 'm \<times> int"
  map_delete :: "'m \<Rightarrow> 'k \<Rightarrow> 'm \<times> int"

definition BPF_ANY :: u64 where "BPF_ANY = 0"
definition BPF_NOEXIST :: u64 where "BPF_NOEXIST = 1"
definition BPF_EXIST :: u64 where "BPF_EXIST = 2"

text \<open>Any map type: an update that returns 0 stores the value, one that fails changes nothing.\<close>

locale bpf_map =
  fixes ops :: "('m, 'k, 'v) map_ops"
  assumes update_ok: "map_update ops m k v f = (m', 0) \<Longrightarrow>
    map_lookup ops m' = (map_lookup ops m)(k \<mapsto> v)"
  and update_err: "map_update ops m k v f = (m', rc) \<Longrightarrow> rc \<noteq> 0 \<Longrightarrow>
    map_lookup ops m' = map_lookup ops m"
begin

lemma lookup_update_same:
  "snd (map_update ops m k v f) = 0 \<Longrightarrow> map_lookup ops (fst (map_update ops m k v f)) k = Some v"
  using update_ok [of m k v f] by (cases "map_update ops m k v f") auto

lemma lookup_update_other:
  "k' \<noteq> k \<Longrightarrow> map_lookup ops (fst (map_update ops m k v f)) k' = map_lookup ops m k'"
  using update_ok [of m k v f] update_err [of m k v f]
  by (cases "map_update ops m k v f"; cases "snd (map_update ops m k v f) = 0") auto

lemma lookup_update:
  "map_lookup ops (fst (map_update ops m k v f)) =
     (if snd (map_update ops m k v f) = 0 then (map_lookup ops m)(k \<mapsto> v) else map_lookup ops m)"
  using update_ok [of m k v f] update_err [of m k v f] by (cases "map_update ops m k v f") auto

end

text \<open>
  A hash map: an element that is deleted is gone (deleting an absent one fails and changes
  nothing), and an update with \<^verbatim>\<open>BPF_ANY\<close> succeeds while the key is present or the map holds
  fewer than \<^verbatim>\<open>max_entries\<close> elements.
\<close>

locale bpf_hash_map = bpf_map ops for ops :: "('m, 'k, 'v) map_ops" +
  fixes max_entries :: nat
  assumes delete_gone: "map_lookup ops (fst (map_delete ops m k)) = (map_lookup ops m)(k := None)"
  and room: "map_lookup ops m k \<noteq> None \<or>
      (finite (dom (map_lookup ops m)) \<and> card (dom (map_lookup ops m)) < max_entries) \<Longrightarrow>
      snd (map_update ops m k v BPF_ANY) = 0"
begin

lemma update_any:
  "card (dom (map_lookup ops m)) < max_entries \<Longrightarrow> finite (dom (map_lookup ops m)) \<Longrightarrow>
   map_lookup ops (fst (map_update ops m k v BPF_ANY)) = (map_lookup ops m)(k \<mapsto> v)"
  by (simp add: lookup_update room)

end

text \<open>An array map: the elements \<open>0\<close> to \<open>max_entries - 1\<close> always exist, and no others.\<close>

locale bpf_array_map = bpf_map ops for ops :: "('m, u32, 'v) map_ops" +
  fixes max_entries :: nat
  assumes present: "(map_lookup ops m k \<noteq> None) = (unat k < max_entries)"
  and array_update: "unat k < max_entries \<Longrightarrow> snd (map_update ops m k v BPF_ANY) = 0"

section \<open>Ring buffers and perf buffers\<close>

text \<open>
  \<^verbatim>\<open>bpf_ringbuf_reserve\<close> returns the memory of a new sample, whose contents are unspecified, or
  NULL; \<^verbatim>\<open>bpf_ringbuf_submit\<close> hands the sample to the consumer. \<open>rb_committed\<close> is what the consumer
  has been given so far, oldest first.
\<close>

record ('r, 'e) ringbuf_ops =
  rb_reserve :: "'r \<Rightarrow> nat \<Rightarrow> ('e \<times> 'r) option"
  rb_submit :: "'r \<Rightarrow> 'e \<Rightarrow> 'r"
  rb_committed :: "'r \<Rightarrow> 'e list"

locale bpf_ringbuf =
  fixes ops :: "('r, 'e) ringbuf_ops"
  assumes reserve_committed: "rb_reserve ops r n = Some (e, r') \<Longrightarrow>
    rb_committed ops r' = rb_committed ops r"
  and submit_committed: "rb_committed ops (rb_submit ops r e) = rb_committed ops r @ [e]"
begin

lemma reserve_submit:
  "rb_reserve ops r n = Some (e, r') \<Longrightarrow>
   rb_committed ops (rb_submit ops r' e') = rb_committed ops r @ [e']"
  by (simp add: reserve_committed submit_committed)

end

record ('p, 'e) perf_ops =
  perf_output :: "'p \<Rightarrow> 'e \<Rightarrow> nat \<Rightarrow> 'p \<times> int"
  perf_records :: "'p \<Rightarrow> 'e list"

locale bpf_perf =
  fixes ops :: "('p, 'e) perf_ops"
  assumes output_ok: "perf_output ops p e n = (p', 0) \<Longrightarrow> perf_records ops p' = perf_records ops p @ [e]"
  and output_err: "perf_output ops p e n = (p', rc) \<Longrightarrow> rc \<noteq> 0 \<Longrightarrow>
    perf_records ops p' = perf_records ops p"
begin

lemma output_records:
  "perf_records ops (fst (perf_output ops p e n)) =
     (if snd (perf_output ops p e n) = 0 then perf_records ops p @ [e] else perf_records ops p)"
  using output_ok [of p e n] output_err [of p e n] by (cases "perf_output ops p e n") auto

end

section \<open>Runs of a program\<close>

text \<open>A program is attached to a hook: the kernel invokes its handler once per hit, in sequence.\<close>

fun run_steps :: "('i \<Rightarrow> 's \<Rightarrow> 's \<times> int) \<Rightarrow> 'i list \<Rightarrow> 's \<Rightarrow> 's" where
  "run_steps step [] s = s"
| "run_steps step (i # is) s = run_steps step is (fst (step i s))"

lemma run_steps_append: "run_steps step (xs @ ys) s = run_steps step ys (run_steps step xs s)"
  by (induction xs arbitrary: s) auto

text \<open>
  \<open>inv\<close> is what every invocation keeps, \<open>emitted\<close> the records handed to user space so far, and
  \<open>good\<close> what holds of each record when it is emitted.
\<close>

locale event_source =
  fixes step :: "'i \<Rightarrow> 's \<Rightarrow> 's \<times> int"
  and inv :: "'s \<Rightarrow> bool"
  and emitted :: "'s \<Rightarrow> 'e list"
  and good :: "'e \<Rightarrow> bool"
  assumes step_inv: "inv s \<Longrightarrow> inv (fst (step i s))"
  and step_emits: "inv s \<Longrightarrow> emitted (fst (step i s)) = emitted s \<or>
    (\<exists>e. emitted (fst (step i s)) = emitted s @ [e] \<and> good e)"
begin

lemma run_inv: "inv s \<Longrightarrow> inv (run_steps step is s)"
  by (induction "is" arbitrary: s) (auto simp: step_inv)

lemma run_emits:
  "inv s \<Longrightarrow> \<exists>es. emitted (run_steps step is s) = emitted s @ es \<and> length es \<le> length is \<and>
    list_all good es"
proof (induction "is" arbitrary: s)
  case Nil
  show ?case by simp
next
  case (Cons i "is")
  from Cons.IH [OF step_inv [OF Cons.prems]] obtain es where
    es: "emitted (run_steps step is (fst (step i s))) = emitted (fst (step i s)) @ es"
    and len: "length es \<le> length is" and good: "list_all good es" by blast
  from step_emits [OF Cons.prems, of i] show ?case
  proof (elim disjE exE conjE)
    assume "emitted (fst (step i s)) = emitted s"
    with es len good show ?thesis by (intro exI [of _ es]) auto
  next
    fix e assume "emitted (fst (step i s)) = emitted s @ [e]" and "good e"
    with es len good show ?thesis by (intro exI [of _ "e # es"]) auto
  qed
qed

lemma run_prefix: "inv s \<Longrightarrow> prefix (emitted s) (emitted (run_steps step is s))"
  using run_emits [of s "is"] by (auto simp: prefix_def)

end

section \<open>The invocation context\<close>

text \<open>
  What the helpers without a map argument return during one invocation. \<open>current_comm n\<close> is the
  contents of an \<open>n\<close>-byte buffer after \<^verbatim>\<open>bpf_get_current_comm\<close>, with the return code.
\<close>

record task_env =
  current_pid_tgid :: u64
  current_uid_gid :: u64
  current_cgroup_id :: u64
  current_comm :: "nat \<Rightarrow> bytes \<times> int"
  ktime_ns :: u64
  smp_processor_id :: u32

text \<open>
  The documented behaviour of \<^verbatim>\<open>bpf_get_current_comm\<close>: the buffer is filled, NUL-terminated on
  success and zeroed on failure, and the name it holds is the \<^verbatim>\<open>comm\<close> of the task, a
  \<^verbatim>\<open>TASK_COMM_LEN\<close> (16) byte string with its terminator.
\<close>

definition TASK_COMM_LEN :: nat where "TASK_COMM_LEN = 16"

definition comm_filled :: "task_env \<Rightarrow> nat \<Rightarrow> bool" where
  "comm_filled env n \<longleftrightarrow> length (fst (current_comm env n)) = n \<and> 0 \<in> set (fst (current_comm env n)) \<and>
     length (c_str (fst (current_comm env n))) < TASK_COMM_LEN"

text \<open>
  \<^verbatim>\<open>bpf_get_current_comm\<close> copies the name with \<^verbatim>\<open>strscpy_pad\<close>: the rest of the buffer is zero.
\<close>

definition comm_padded :: "task_env \<Rightarrow> nat \<Rightarrow> bool" where
  "comm_padded env n \<longleftrightarrow>
     (let b = fst (current_comm env n)
      in length b = n \<and> b = c_str b @ replicate (n - length (c_str b)) 0 \<and> length (c_str b) < TASK_COMM_LEN)"

text \<open>A task whose name is \<open>name\<close>, for the concrete runs of the witnesses.\<close>

definition comm_of :: "bytes \<Rightarrow> nat \<Rightarrow> bytes \<times> int" where
  "comm_of name n = (take n (take (n - 1) name @ replicate n 0), 0)"

section \<open>Executable instances of the interfaces\<close>

text \<open>A hash map of at most \<open>n\<close> elements, kept as an association list.\<close>

definition al_size :: "('k \<times> 'v) list \<Rightarrow> nat" where
  "al_size al = length (remdups (map fst al))"

definition hash_update :: "nat \<Rightarrow> ('k \<times> 'v) list \<Rightarrow> 'k \<Rightarrow> 'v \<Rightarrow> u64 \<Rightarrow> ('k \<times> 'v) list \<times> int" where
  "hash_update n al k v f =
     (if BPF_EXIST < f then (al, - EINVAL)
      else if f = BPF_NOEXIST \<and> map_of al k \<noteq> None then (al, - EEXIST)
      else if f = BPF_EXIST \<and> map_of al k = None then (al, - ENOENT)
      else if map_of al k = None \<and> n \<le> al_size al then (al, - E2BIG)
      else (AList.update k v al, 0))"

definition hash_delete :: "('k \<times> 'v) list \<Rightarrow> 'k \<Rightarrow> ('k \<times> 'v) list \<times> int" where
  "hash_delete al k = (if map_of al k = None then (al, - ENOENT) else (AList.delete k al, 0))"

definition hash_ops :: "nat \<Rightarrow> (('k \<times> 'v) list, 'k, 'v) map_ops" where
  "hash_ops n = \<lparr>map_lookup = map_of, map_update = hash_update n, map_delete = hash_delete\<rparr>"

text \<open>An array map of \<open>n\<close> elements; a shorter list stands for zeroes (\<open>z\<close>) at the end.\<close>

definition array_lookup :: "nat \<Rightarrow> 'v \<Rightarrow> 'v list \<Rightarrow> u32 \<Rightarrow> 'v option" where
  "array_lookup n z vs k =
     (if unat k < n then Some (if unat k < length vs then vs ! unat k else z) else None)"

definition array_update_elem :: "nat \<Rightarrow> 'v \<Rightarrow> 'v list \<Rightarrow> u32 \<Rightarrow> 'v \<Rightarrow> u64 \<Rightarrow> 'v list \<times> int" where
  "array_update_elem n z vs k v f =
     (if BPF_EXIST < f then (vs, - EINVAL)
      else if n \<le> unat k then (vs, - E2BIG)
      else if f = BPF_NOEXIST then (vs, - EEXIST)
      else ((vs @ replicate (Suc (unat k) - length vs) z)[unat k := v], 0))"

definition array_ops :: "nat \<Rightarrow> 'v \<Rightarrow> ('v list, u32, 'v) map_ops" where
  "array_ops n z = \<lparr>map_lookup = array_lookup n z, map_update = array_update_elem n z,
     map_delete = (\<lambda>vs k. (vs, - EINVAL))\<rparr>"

text \<open>
  A ring buffer with \<open>rbi_free\<close> bytes left; a sample takes its size and an 8-byte header, rounded
  up to 8 bytes. A reserved sample holds the arbitrary contents \<open>junk\<close>.
\<close>

record 'e ringbuf_inst =
  rbi_free :: nat
  rbi_done :: "'e list"

definition ringbuf_reserve :: "'e \<Rightarrow> 'e ringbuf_inst \<Rightarrow> nat \<Rightarrow> ('e \<times> 'e ringbuf_inst) option" where
  "ringbuf_reserve junk r n =
     (let need = (n + 8 + 7) div 8 * 8 in
      if need \<le> rbi_free r then Some (junk, r\<lparr>rbi_free := rbi_free r - need\<rparr>) else None)"

definition ringbuf_inst_ops :: "'e \<Rightarrow> ('e ringbuf_inst, 'e) ringbuf_ops" where
  "ringbuf_inst_ops junk = \<lparr>rb_reserve = ringbuf_reserve junk,
     rb_submit = (\<lambda>r e. r\<lparr>rbi_done := rbi_done r @ [e]\<rparr>), rb_committed = rbi_done\<rparr>"

text \<open>A perf buffer with room for \<open>k\<close> more records; a full one refuses the record.\<close>

definition perf_inst_output :: "nat \<times> 'e list \<Rightarrow> 'e \<Rightarrow> nat \<Rightarrow> (nat \<times> 'e list) \<times> int" where
  "perf_inst_output p e n =
     (case p of (0, es) \<Rightarrow> (p, - ENOENT) | (Suc k, es) \<Rightarrow> ((k, es @ [e]), 0))"

definition perf_inst_ops :: "(nat \<times> 'e list, 'e) perf_ops" where
  "perf_inst_ops = \<lparr>perf_output = perf_inst_output, perf_records = snd\<rparr>"

lemmas inst_defs = hash_ops_def hash_update_def hash_delete_def array_ops_def array_lookup_def
  array_update_elem_def ringbuf_inst_ops_def ringbuf_reserve_def perf_inst_ops_def
  perf_inst_output_def BPF_ANY_def BPF_NOEXIST_def BPF_EXIST_def errno_defs Let_def

lemma al_size_card: "al_size al = card (dom (map_of al))"
  by (simp add: al_size_def dom_map_of_conv_image_fst length_remdups_card_conv)

interpretation hash: bpf_hash_map "hash_ops n" n
proof unfold_locales
  fix m :: "('a \<times> 'b) list" and k v f m'
  assume "map_update (hash_ops n) m k v f = (m', 0)"
  then show "map_lookup (hash_ops n) m' = (map_lookup (hash_ops n) m)(k \<mapsto> v)"
    by (auto simp: inst_defs update_conv' split: if_splits)
next
  fix m :: "('a \<times> 'b) list" and k v f m' rc
  assume "map_update (hash_ops n) m k v f = (m', rc)" and "rc \<noteq> 0"
  then show "map_lookup (hash_ops n) m' = map_lookup (hash_ops n) m"
    by (auto simp: inst_defs split: if_splits)
next
  fix m :: "('a \<times> 'b) list" and k
  show "map_lookup (hash_ops n) (fst (map_delete (hash_ops n) m k)) = (map_lookup (hash_ops n) m)(k := None)"
    by (auto simp: inst_defs delete_conv' fun_eq_iff)
next
  fix m :: "('a \<times> 'b) list" and k v
  assume "map_lookup (hash_ops n) m k \<noteq> None \<or>
    finite (dom (map_lookup (hash_ops n) m)) \<and> card (dom (map_lookup (hash_ops n) m)) < n"
  then show "snd (map_update (hash_ops n) m k v BPF_ANY) = 0"
    by (auto simp: inst_defs al_size_card)
qed

interpretation array: bpf_array_map "array_ops n z" n
proof unfold_locales
  fix m :: "'a list" and k v f m'
  assume "map_update (array_ops n z) m k v f = (m', 0)"
  then show "map_lookup (array_ops n z) m' = (map_lookup (array_ops n z) m)(k \<mapsto> v)"
    by (auto simp: inst_defs fun_eq_iff nth_list_update nth_append word_unat_eq_iff split: if_splits)
next
  fix m :: "'a list" and k v f m' rc
  assume "map_update (array_ops n z) m k v f = (m', rc)" and "rc \<noteq> 0"
  then show "map_lookup (array_ops n z) m' = map_lookup (array_ops n z) m"
    by (auto simp: inst_defs split: if_splits)
next
  fix m :: "'a list" and k
  show "(map_lookup (array_ops n z) m k \<noteq> None) = (unat k < n)"
    by (simp add: inst_defs)
next
  fix k :: u32 and m :: "'a list" and v
  assume "unat k < n"
  then show "snd (map_update (array_ops n z) m k v BPF_ANY) = 0"
    by (simp add: inst_defs)
qed

interpretation ringbuf: bpf_ringbuf "ringbuf_inst_ops junk"
  by unfold_locales (auto simp: inst_defs split: if_splits)

interpretation perf: bpf_perf perf_inst_ops
  by unfold_locales (auto simp: inst_defs split: prod.splits nat.splits)

end
