(* ===== verification/Layout.thy ===== *)
theory Layout
  imports Prelude
begin

text \<open>
  The memory layout of C types on the 64-bit targets of the programs: \<open>csizeof\<close>, \<open>calign\<close> and the
  offsets of members, bit-fields, anonymous members, arrays and unions included. The layout of the
  structures that cross a boundary (packet headers, samples sent to user space, kernel structures
  read by the programs) is computed from a transcription of their declarations.

  A declaration is a \<open>ctype\<close>. A member is a \<open>Field\<close> or a \<open>Bits\<close> bit-field (name, size of the declared
  type in bytes, width in bits); an unnamed member has the empty name. Scalars are aligned to
  their size. The positions are computed in bits, front to back, as the ABI prescribes: a member
  starts at the next multiple of its alignment, a bit-field that would cross a unit of its declared
  type starts in the next one.
\<close>

section \<open>Types\<close>

datatype ctype =
    CScalar nat
  | CArray ctype nat
  | CStruct "cfield list"
  | CUnion "cfield list"
and cfield = Field string ctype | Bits string nat nat

abbreviation "c_char \<equiv> CScalar 1"
abbreviation "c_short \<equiv> CScalar 2"
abbreviation "c_int \<equiv> CScalar 4"
abbreviation "c_long \<equiv> CScalar 8"
abbreviation "c_ptr \<equiv> CScalar 8"

section \<open>Sizes, alignments and offsets\<close>

definition round_up :: "nat \<Rightarrow> nat \<Rightarrow> nat" where
  "round_up a n = (n + (a - 1)) div a * a"

fun calign :: "ctype \<Rightarrow> nat" and falign :: "cfield list \<Rightarrow> nat" where
  "calign (CScalar n) = n"
| "calign (CArray t k) = calign t"
| "calign (CStruct fs) = falign fs"
| "calign (CUnion fs) = falign fs"
| "falign [] = 1"
| "falign (Field s t # fs) = max (calign t) (falign fs)"
| "falign (Bits s n w # fs) = (if s = [] then falign fs else max n (falign fs))"

definition bit_start :: "nat \<Rightarrow> nat \<Rightarrow> nat \<Rightarrow> nat" where
  "bit_start p n w = (if w = 0 \<or> 8 * n < p mod (8 * n) + w then round_up (8 * n) p else p)"

definition field_start :: "nat \<Rightarrow> nat \<Rightarrow> nat" where
  "field_start p a = 8 * round_up a ((p + 7) div 8)"

fun csizeof :: "ctype \<Rightarrow> nat" and fend :: "nat \<Rightarrow> cfield list \<Rightarrow> nat"
  and umax :: "cfield list \<Rightarrow> nat" where
  "csizeof (CScalar n) = n"
| "csizeof (CArray t k) = k * csizeof t"
| "csizeof (CStruct fs) = round_up (falign fs) ((fend 0 fs + 7) div 8)"
| "csizeof (CUnion fs) = round_up (falign fs) (umax fs)"
| "fend p [] = p"
| "fend p (Field s t # fs) = fend (field_start p (calign t) + 8 * csizeof t) fs"
| "fend p (Bits s n w # fs) = fend (bit_start p n w + w) fs"
| "umax [] = 0"
| "umax (Field s t # fs) = max (csizeof t) (umax fs)"
| "umax (Bits s n w # fs) = max ((w + 7) div 8) (umax fs)"

text \<open>Name, offset and width, in bits, of the members of a struct, in the order of declaration.\<close>

fun flayout :: "nat \<Rightarrow> cfield list \<Rightarrow> (string \<times> nat \<times> nat) list" where
  "flayout p [] = []"
| "flayout p (Field s t # fs) =
     (let b = field_start p (calign t) in (s, b, 8 * csizeof t) # flayout (b + 8 * csizeof t) fs)"
| "flayout p (Bits s n w # fs) =
     (let b = bit_start p n w in (s, b, w) # flayout (b + w) fs)"

text \<open>The offset in bits of a member, also through anonymous members.\<close>

fun moff :: "ctype \<Rightarrow> string \<Rightarrow> nat option" and moffs :: "nat \<Rightarrow> cfield list \<Rightarrow> string \<Rightarrow> nat option"
  and moffu :: "cfield list \<Rightarrow> string \<Rightarrow> nat option" where
  "moff (CScalar n) x = None"
| "moff (CArray t k) x = None"
| "moff (CStruct fs) x = moffs 0 fs x"
| "moff (CUnion fs) x = moffu fs x"
| "moffs p [] x = None"
| "moffs p (Field s t # fs) x =
     (let b = field_start p (calign t) in
      if s = x then Some b
      else case (if s = [] then moff t x else None) of
             Some d \<Rightarrow> Some (b + d)
           | None \<Rightarrow> moffs (b + 8 * csizeof t) fs x)"
| "moffs p (Bits s n w # fs) x =
     (let b = bit_start p n w in if s = x then Some b else moffs (b + w) fs x)"
| "moffu [] x = None"
| "moffu (Field s t # fs) x =
     (if s = x then Some 0
      else case (if s = [] then moff t x else None) of Some d \<Rightarrow> Some d | None \<Rightarrow> moffu fs x)"
| "moffu (Bits s n w # fs) x = (if s = x then Some 0 else moffu fs x)"

definition offsetof :: "ctype \<Rightarrow> string \<Rightarrow> nat" where
  "offsetof t x = (case moff t x of Some b \<Rightarrow> b div 8 | None \<Rightarrow> 0)"

definition has_member :: "ctype \<Rightarrow> string \<Rightarrow> bool" where
  "has_member t x = (moff t x \<noteq> None)"

text \<open>The type of a member, with the declared type for a bit-field.\<close>

fun mtype :: "ctype \<Rightarrow> string \<Rightarrow> ctype option" and mtypes :: "cfield list \<Rightarrow> string \<Rightarrow> ctype option" where
  "mtype (CScalar n) x = None"
| "mtype (CArray t k) x = None"
| "mtype (CStruct fs) x = mtypes fs x"
| "mtype (CUnion fs) x = mtypes fs x"
| "mtypes [] x = None"
| "mtypes (Field s t # fs) x =
     (if s = x then Some t
      else case (if s = [] then mtype t x else None) of Some u \<Rightarrow> Some u | None \<Rightarrow> mtypes fs x)"
| "mtypes (Bits s n w # fs) x = (if s = x then Some (CScalar n) else mtypes fs x)"

text \<open>A declaration is well-formed when scalars have a size and bit-fields fit their declared type.\<close>

fun wf_type :: "ctype \<Rightarrow> bool" and wf_fields :: "cfield list \<Rightarrow> bool" where
  "wf_type (CScalar n) = (0 < n)"
| "wf_type (CArray t k) = wf_type t"
| "wf_type (CStruct fs) = wf_fields fs"
| "wf_type (CUnion fs) = wf_fields fs"
| "wf_fields [] = True"
| "wf_fields (Field s t # fs) = (wf_type t \<and> wf_fields fs)"
| "wf_fields (Bits s n w # fs) = (0 < n \<and> w \<le> 8 * n \<and> wf_fields fs)"

section \<open>Lemmas\<close>

lemma round_up_dvd: "a dvd round_up a n"
  by (simp add: round_up_def)

lemma round_up_ge: "0 < a \<Longrightarrow> n \<le> round_up a n"
proof -
  assume "0 < a"
  have "(n + (a - 1)) div a * a + (n + (a - 1)) mod a = n + (a - 1)" by simp
  moreover have "(n + (a - 1)) mod a < a" using \<open>0 < a\<close> by (rule mod_less_divisor)
  ultimately show ?thesis unfolding round_up_def by linarith
qed

lemma round_up_lt: "0 < a \<Longrightarrow> round_up a n < n + a"
proof -
  assume "0 < a"
  have "round_up a n \<le> n + (a - 1)" unfolding round_up_def by simp
  with \<open>0 < a\<close> show ?thesis by linarith
qed

lemma calign_pos: "wf_type t \<Longrightarrow> 0 < calign t" and falign_pos: "0 < falign fs"
  by (induction t and fs rule: calign_falign.induct) auto

lemma field_start_ge: "0 < a \<Longrightarrow> p \<le> field_start p a"
proof -
  assume "0 < a"
  then have "(p + 7) div 8 \<le> round_up a ((p + 7) div 8)" by (rule round_up_ge)
  then show ?thesis unfolding field_start_def by linarith
qed

lemma bit_start_ge: "0 < n \<Longrightarrow> p \<le> bit_start p n w"
  by (simp add: bit_start_def round_up_ge)

text \<open>The members of a struct lie, in order and apart, between its start and its end.\<close>

lemma flayout_bounds:
  "wf_fields fs \<Longrightarrow> p \<le> fend p fs \<and> (\<forall>(s, b, w) \<in> set (flayout p fs). p \<le> b \<and> b + w \<le> fend p fs)"
proof (induction p fs rule: flayout.induct)
  case (1 p)
  show ?case by simp
next
  case (2 p s t fs)
  let ?b = "field_start p (calign t)"
  from 2 have "?b + 8 * csizeof t \<le> fend (?b + 8 * csizeof t) fs \<and>
      (\<forall>(s, b, w) \<in> set (flayout (?b + 8 * csizeof t) fs). ?b + 8 * csizeof t \<le> b \<and> b + w \<le> fend (?b + 8 * csizeof t) fs)"
    by simp
  moreover have "p \<le> ?b" using 2 calign_pos by (simp add: field_start_ge)
  ultimately show ?case by (fastforce simp: Let_def)
next
  case (3 p s n w fs)
  let ?b = "bit_start p n w"
  from 3 have "?b + w \<le> fend (?b + w) fs \<and>
      (\<forall>(s, b, w') \<in> set (flayout (?b + w) fs). ?b + w \<le> b \<and> b + w' \<le> fend (?b + w) fs)"
    by simp
  moreover have "p \<le> ?b" using 3 by (simp add: bit_start_ge)
  ultimately show ?case by (fastforce simp: Let_def)
qed

lemma flayout_disjoint:
  "wf_fields fs \<Longrightarrow> sorted_wrt (\<lambda>(s, b, w) (s', b', w'). b + w \<le> b') (flayout p fs)"
proof (induction p fs rule: flayout.induct)
  case (2 p s t fs)
  then show ?case
    using flayout_bounds [of fs "field_start p (calign t) + 8 * csizeof t"] by (fastforce simp: Let_def)
next
  case (3 p s n w fs)
  then show ?case
    using flayout_bounds [of fs "bit_start p n w + w"] by (fastforce simp: Let_def)
qed simp

lemma fend_le_size: "wf_fields fs \<Longrightarrow> fend 0 fs \<le> 8 * csizeof (CStruct fs)"
  using round_up_ge [OF falign_pos, of "(fend 0 fs + 7) div 8" fs] by simp

lemma csizeof_dvd: "calign t dvd csizeof t"
  by (induction t) (auto simp: round_up_dvd)

section \<open>Members lie inside their object\<close>

text \<open>
  Offset, width and alignment, all in bits, of a member, also through anonymous members: the object
  that \<^verbatim>\<open>BPF_CORE_READ\<close> of the member touches.
\<close>

fun mslot :: "ctype \<Rightarrow> string \<Rightarrow> (nat \<times> nat \<times> nat) option"
  and mslots :: "nat \<Rightarrow> cfield list \<Rightarrow> string \<Rightarrow> (nat \<times> nat \<times> nat) option"
  and mslotu :: "cfield list \<Rightarrow> string \<Rightarrow> (nat \<times> nat \<times> nat) option" where
  "mslot (CScalar n) x = None"
| "mslot (CArray t k) x = None"
| "mslot (CStruct fs) x = mslots 0 fs x"
| "mslot (CUnion fs) x = mslotu fs x"
| "mslots p [] x = None"
| "mslots p (Field s t # fs) x =
     (let b = field_start p (calign t) in
      if s = x then Some (b, 8 * csizeof t, 8 * calign t)
      else case (if s = [] then mslot t x else None) of
             Some (d, w, a) \<Rightarrow> Some (b + d, w, a)
           | None \<Rightarrow> mslots (b + 8 * csizeof t) fs x)"
| "mslots p (Bits s n w # fs) x =
     (let b = bit_start p n w in if s = x then Some (b, w, 1) else mslots (b + w) fs x)"
| "mslotu [] x = None"
| "mslotu (Field s t # fs) x =
     (if s = x then Some (0, 8 * csizeof t, 8 * calign t)
      else case (if s = [] then mslot t x else None) of Some r \<Rightarrow> Some r | None \<Rightarrow> mslotu fs x)"
| "mslotu (Bits s n w # fs) x = (if s = x then Some (0, w, 1) else mslotu fs x)"

lemma mslot_moff:
  "moff t x = map_option fst (mslot t x)" "moffs p fs x = map_option fst (mslots p fs x)" "moffu fs x = map_option fst (mslotu fs x)"
  by (induction t x and p fs x and fs x rule: mslot_mslots_mslotu.induct)
    (auto simp: moffs.simps Let_def split: option.splits)

text \<open>Scalars have one of the sizes of the machine.\<close>

fun natural :: "ctype \<Rightarrow> bool" and natural_fields :: "cfield list \<Rightarrow> bool" where
  "natural (CScalar n) = (n \<in> {1, 2, 4, 8, 16})"
| "natural (CArray t k) = natural t"
| "natural (CStruct fs) = natural_fields fs"
| "natural (CUnion fs) = natural_fields fs"
| "natural_fields [] = True"
| "natural_fields (Field s t # fs) = (natural t \<and> natural_fields fs)"
| "natural_fields (Bits s n w # fs) = (n \<in> {1, 2, 4, 8, 16} \<and> natural_fields fs)"

lemma natural_align:
  "natural t \<Longrightarrow> calign t \<in> {1, 2, 4, 8, 16}" "natural_fields fs \<Longrightarrow> falign fs \<in> {1, 2, 4, 8, 16}"
  by (induction t and fs rule: calign_falign.induct) (auto simp: max_def)

lemma natural_dvd: "m \<in> {1, 2, 4, 8, 16} \<Longrightarrow> n \<in> {1, 2, 4, 8, 16 :: nat} \<Longrightarrow> m \<le> n \<Longrightarrow> m dvd n"
  by auto

definition slot_ok :: "nat \<Rightarrow> nat \<Rightarrow> nat \<Rightarrow> nat \<times> nat \<times> nat \<Rightarrow> bool" where
  "slot_ok lo hi al r \<longleftrightarrow> (case r of (b, w, a) \<Rightarrow> lo \<le> b \<and> b + w \<le> hi \<and> a dvd b \<and> a dvd 8 * al)"

lemma slot_okD: "slot_ok lo hi al (b, w, a) \<Longrightarrow> lo \<le> b \<and> b + w \<le> hi \<and> a dvd b"
  by (simp add: slot_ok_def)

lemma fend_ge: "wf_fields fs \<Longrightarrow> p \<le> fend p fs"
  using flayout_bounds by blast

lemma natural_max:
  assumes "m \<in> {1, 2, 4, 8, 16}" and "n \<in> {1, 2, 4, 8, 16 :: nat}"
  shows "m dvd max m n" "n dvd max m n"
  using natural_dvd [OF assms] natural_dvd [OF assms(2,1)] by (auto simp: max_def)

lemma slot_ok_weaken: "slot_ok lo hi al r \<Longrightarrow> lo' \<le> lo \<Longrightarrow> hi \<le> hi' \<Longrightarrow> al dvd al' \<Longrightarrow> slot_ok lo' hi' al' r"
  by (auto simp: slot_ok_def intro: dvd_trans [OF _ mult_dvd_mono [OF dvd_refl]])

lemma slot_ok_shift:
  "slot_ok 0 hi al (d, w, a) \<Longrightarrow> 8 * al dvd b \<Longrightarrow> slot_ok b (b + hi) al (b + d, w, a)"
  by (auto simp: slot_ok_def intro: dvd_add dvd_trans)

lemma field_start_dvd: "8 * a dvd field_start p a"
  by (simp add: field_start_def round_up_dvd)

lemma mslot_ok:
  "wf_type t \<Longrightarrow> natural t \<Longrightarrow> mslot t x = Some r \<Longrightarrow> slot_ok 0 (8 * csizeof t) (calign t) r"
  "wf_fields fs \<Longrightarrow> natural_fields fs \<Longrightarrow> mslots p fs x = Some r \<Longrightarrow> slot_ok p (fend p fs) (falign fs) r"
  "wf_fields fs \<Longrightarrow> natural_fields fs \<Longrightarrow> mslotu fs x = Some r \<Longrightarrow> slot_ok 0 (8 * umax fs) (falign fs) r"
proof (induction t x and p fs x and fs x arbitrary: r and r and r rule: mslot_mslots_mslotu.induct)
  case (3 fs x)
  then have "slot_ok 0 (fend 0 fs) (falign fs) r" by simp
  then show ?case by (rule slot_ok_weaken) (use fend_le_size [of fs] "3.prems" in simp_all)
next
  case (4 fs x)
  then have "slot_ok 0 (8 * umax fs) (falign fs) r" by simp
  then show ?case by (rule slot_ok_weaken) (use round_up_ge [OF falign_pos, of "umax fs" fs] in simp_all)
next
  case (6 p s t fs x)
  let ?b = "field_start p (calign t)"
  have wf: "wf_type t" "wf_fields fs" "natural t" "natural_fields fs" using "6.prems" by simp_all
  note al = natural_max [OF natural_align(1) [OF wf(3)] natural_align(2) [OF wf(4)]]
  have ge: "p \<le> ?b" "?b + 8 * csizeof t \<le> fend (?b + 8 * csizeof t) fs"
    using wf by (simp_all add: field_start_ge calign_pos fend_ge)
  show ?case
  proof (cases "s = x")
    case True
    then have "r = (?b, 8 * csizeof t, 8 * calign t)" using "6.prems"(3) by (simp add: Let_def)
    then show ?thesis using ge al by (simp add: slot_ok_def field_start_dvd)
  next
    case False
    show ?thesis
    proof (cases "if s = [] then mslot t x else None")
      case None
      with False "6.prems"(3) have "mslots (?b + 8 * csizeof t) fs x = Some r" by (simp add: Let_def)
      with "6.IH"(2) [OF refl False None] wf have "slot_ok (?b + 8 * csizeof t) (fend (?b + 8 * csizeof t) fs) (falign fs) r" by simp
      then show ?thesis by (rule slot_ok_weaken) (use ge al in simp_all)
    next
      case (Some q)
      obtain d w a where q: "q = (d, w, a)" by (cases q)
      from Some have "s = []" "mslot t x = Some q" by (auto split: if_splits)
      with "6.IH"(1) [OF refl False] wf have "slot_ok 0 (8 * csizeof t) (calign t) (d, w, a)" by (simp add: q)
      from slot_ok_shift [OF this field_start_dvd] have "slot_ok ?b (?b + 8 * csizeof t) (calign t) (?b + d, w, a)" .
      moreover have "r = (?b + d, w, a)" using False Some q "6.prems"(3) by (simp add: Let_def)
      ultimately have "slot_ok ?b (?b + 8 * csizeof t) (calign t) r" by simp
      then show ?thesis by (rule slot_ok_weaken) (use ge al in simp_all)
    qed
  qed
next
  case (7 p s n w fs x)
  have n: "0 < n" "n \<in> {1, 2, 4, 8, 16}" "wf_fields fs" "natural_fields fs" using "7.prems" by simp_all
  have al: "falign fs dvd falign (Bits s n w # fs)"
    using natural_max(2) [OF n(2) natural_align(2) [OF n(4)]] by simp
  have b: "p \<le> bit_start p n w" "bit_start p n w + w \<le> fend (bit_start p n w + w) fs"
    using n by (simp_all add: bit_start_ge fend_ge)
  show ?case
  proof (cases "s = x")
    case True
    with "7.prems"(3) have "r = (bit_start p n w, w, 1)" by (simp add: Let_def)
    with b show ?thesis by (simp add: slot_ok_def)
  next
    case False
    with "7.prems"(3) have "mslots (bit_start p n w + w) fs x = Some r" by (simp add: Let_def)
    from "7.IH" [OF refl False n(3,4) this] show ?thesis
      by (rule slot_ok_weaken) (use b al in simp_all)
  qed
next
  case (9 s t fs x)
  have wf: "wf_type t" "wf_fields fs" "natural t" "natural_fields fs" using "9.prems" by simp_all
  note al = natural_max [OF natural_align(1) [OF wf(3)] natural_align(2) [OF wf(4)]]
  consider "s = x" "r = (0, 8 * csizeof t, 8 * calign t)" | "s \<noteq> x" "s = []" "mslot t x = Some r"
    | "s \<noteq> x" "(if s = [] then mslot t x else None) = None" "mslotu fs x = Some r"
    using "9.prems"(3) by (auto split: if_splits option.splits)
  then show ?case
  proof cases
    case 1
    with al show ?thesis by (simp add: slot_ok_def)
  next
    case 2
    from "9.IH"(1) [OF 2(1,2) wf(1,3) 2(3)] show ?thesis by (rule slot_ok_weaken) (use al in simp_all)
  next
    case 3
    from "9.IH"(2) [OF 3(1,2) wf(2,4) 3(3)] show ?thesis by (rule slot_ok_weaken) (use al in simp_all)
  qed
next
  case (10 s n w fs x)
  have n: "n \<in> {1, 2, 4, 8, 16}" "wf_fields fs" "natural_fields fs" using "10.prems" by simp_all
  have al: "falign fs dvd falign (Bits s n w # fs)"
    using natural_max(2) [OF n(1) natural_align(2) [OF n(3)]] by simp
  show ?case
  proof (cases "s = x")
    case True
    with "10.prems"(3) show ?thesis by (auto simp: slot_ok_def)
  next
    case False
    with "10.prems"(3) have "mslotu fs x = Some r" by simp
    from "10.IH" [OF False n(2,3) this] show ?thesis by (rule slot_ok_weaken) (use al in simp_all)
  qed
qed simp_all

section \<open>Evaluation\<close>

text \<open>
  Rules that evaluate sizes and offsets of concrete declarations. The size and alignment of every
  transcribed declaration is added to the collection, so that a declaration that embeds another
  one does not unfold it again.
\<close>

named_theorems layout_eval

declare round_up_def [layout_eval] field_start_def [layout_eval] bit_start_def [layout_eval]

lemma moffs_hit [layout_eval]: "moffs p (Field x t # fs) x = Some (field_start p (calign t))"
  by (simp add: Let_def)

lemma moffs_skip [layout_eval]:
  "s \<noteq> x \<Longrightarrow> s \<noteq> [] \<Longrightarrow>
   moffs p (Field s t # fs) x = moffs (field_start p (calign t) + 8 * csizeof t) fs x"
  by (simp add: Let_def)

lemma moffs_anon_Some [layout_eval]:
  "moff t (c # x) = Some d \<Longrightarrow> moffs p (Field [] t # fs) (c # x) = Some (field_start p (calign t) + d)"
  by (simp add: Let_def)

lemma moffs_anon_None [layout_eval]:
  "moff t (c # x) = None \<Longrightarrow>
   moffs p (Field [] t # fs) (c # x) = moffs (field_start p (calign t) + 8 * csizeof t) fs (c # x)"
  by (simp add: Let_def)

lemma moffs_bits_hit [layout_eval]: "moffs p (Bits x n w # fs) x = Some (bit_start p n w)"
  by (simp add: Let_def)

lemma moffs_bits_skip [layout_eval]:
  "s \<noteq> x \<Longrightarrow> moffs p (Bits s n w # fs) x = moffs (bit_start p n w + w) fs x"
  by (simp add: Let_def)

lemma moffs_Nil [layout_eval]: "moffs p [] x = None"
  by simp

declare moffs.simps [simp del]

lemma mtypes_hit [layout_eval]: "mtypes (Field x t # fs) x = Some t"
  by simp

lemma mtypes_skip [layout_eval]: "s \<noteq> x \<Longrightarrow> s \<noteq> [] \<Longrightarrow> mtypes (Field s t # fs) x = mtypes fs x"
  by simp

lemma mtypes_anon [layout_eval]:
  "mtypes (Field [] t # fs) (c # x) = (case mtype t (c # x) of Some u \<Rightarrow> Some u | None \<Rightarrow> mtypes fs (c # x))"
  by simp

lemma mtypes_bits [layout_eval]: "s \<noteq> x \<Longrightarrow> mtypes (Bits s n w # fs) x = mtypes fs x" "mtypes (Bits x n w # fs) x = Some (CScalar n)"
  by simp_all

lemma mtypes_Nil [layout_eval]: "mtypes [] x = None"
  by simp

declare mtypes.simps [simp del]

end
