(* ===== verification/Podsnoop.thy ===== *)
theory Podsnoop
  imports Bpf_Helpers Layout
begin

text \<open>
  The pod snooper of \<^verbatim>\<open>ebpf-pod-resize-libbpf-co-re\<close>: \<^verbatim>\<open>src/bpf/podsnoop.bpf.c\<close> with its header
  \<^verbatim>\<open>podsnoop.h\<close>, and the part of \<^verbatim>\<open>src/main.rs\<close> that fills the map the program reads.

  User space stores one command per container in \<^verbatim>\<open>resize_containers_map\<close>, keyed by cgroup id. On
  every \<^verbatim>\<open>execve\<close> the program looks the cgroup of the task up, compares the name of the task with
  the stored command byte by byte, and on a match sends an event to user space.
\<close>

section \<open>Data\<close>

definition BUF_SIZE :: nat where "BUF_SIZE = 32"
definition MAX_NUM_CONTAINERS :: nat where "MAX_NUM_CONTAINERS = 4096"

record pod_command =
  cmd :: bytes

record pod_exec_event =
  cgroup_id :: u64
  cgroup_pid :: u32
  cgroup_cmd :: bytes

record ('m, 'p) podsnoop_state =
  resize_containers_map :: 'm
  pod_exec_events :: 'p
  ps_trace :: "printk list"

definition pod_exec_event_layout :: ctype where
  "pod_exec_event_layout = CStruct
     [Field ''cgroup_id'' c_long,
      Field ''cgroup_pid'' c_int,
      Field ''cgroup_cmd'' (CArray c_char BUF_SIZE)]"

text \<open>\<^verbatim>\<open>sizeof(struct pod_exec_event)\<close>\<close>

definition sizeof_pod_exec_event :: nat where "sizeof_pod_exec_event = csizeof pod_exec_event_layout"

section \<open>The program\<close>

text \<open>
  The comparison loop. \<^verbatim>\<open>cgroup_cmd\<close> holds \<^verbatim>\<open>u8\<close> and \<^verbatim>\<open>cmd\<close> holds \<^verbatim>\<open>char\<close>, which is signed for the
  BPF target: both sides of \<^verbatim>\<open>!=\<close> are promoted to \<^verbatim>\<open>int\<close>, the first without and the second
  with its sign.
\<close>

function cmd_equal_from :: "nat \<Rightarrow> bytes \<Rightarrow> bytes \<Rightarrow> bool" where
  "cmd_equal_from i a b =
     (if i < BUF_SIZE then
        if uint (a ! i) \<noteq> sint (b ! i) then False
        else if a ! i = 0 \<or> b ! i = 0 then True
        else cmd_equal_from (Suc i) a b
      else True)"
  by pat_completeness auto
termination
  by (relation "measure (\<lambda>(i, a, b). BUF_SIZE - i)") auto

declare cmd_equal_from.simps [simp del]

definition podsnoop ::
  "('m, u64, pod_command) map_ops \<Rightarrow> ('p, pod_exec_event) perf_ops \<Rightarrow> task_env \<Rightarrow>
   ('m, 'p) podsnoop_state \<Rightarrow> ('m, 'p) podsnoop_state \<times> int" where
  "podsnoop mops pops env st =
     (let cgid = current_cgroup_id env in
      case map_lookup mops (resize_containers_map st) cgid of
        None \<Rightarrow> (st, 0)
      | Some val \<Rightarrow>
          let comm = fst (current_comm env BUF_SIZE) in
          if cmd_equal_from 0 comm (cmd val) then
            let pxevent = \<lparr>cgroup_id = cgid,
                           cgroup_pid = ucast (current_pid_tgid env AND 0xFFFFFFFF),
                           cgroup_cmd = comm\<rparr>;
                (p', rv) = perf_output pops (pod_exec_events st) pxevent sizeof_pod_exec_event;
                t1 = (if rv \<noteq> 0
                      then [(''DBG: podsnoop call to bpf_perf_event_output failed. ErrCode: %d'' @ nl,
                             [PLong (word_of_int rv)])]
                      else []);
                t2 = [(''VDBG: { \"cgroup_id\": \"%llu\", \"cgroup_pid\": \"%lu\", \"command\": \"%s\" }'',
                       [PLong cgid, PInt (cgroup_pid pxevent), PStr comm])]
            in (st\<lparr>pod_exec_events := p', ps_trace := ps_trace st @ t1 @ t2\<rparr>, 0)
          else (st, 0))"

section \<open>Filling the map from user space\<close>

text \<open>
  \<^verbatim>\<open>create_resize_bpf_map_entry\<close> copies the bytes of the command into a zeroed 32-byte array, one
  index at a time; an index past the end panics (\<^term>\<open>None\<close>). The entry is then stored under the
  cgroup id; the result of the update is only printed.
\<close>

fun fill_cmd_value :: "nat \<Rightarrow> bytes \<Rightarrow> bytes \<Rightarrow> bytes option" where
  "fill_cmd_value i [] v = Some v"
| "fill_cmd_value i (b # bs) v =
     (if i < length v then fill_cmd_value (Suc i) bs (v[i := b]) else None)"

definition cmd_value :: "bytes \<Rightarrow> bytes option" where
  "cmd_value cmd_bytes = fill_cmd_value 0 cmd_bytes (replicate 32 0)"

definition store_resize_command ::
  "('m, u64, pod_command) map_ops \<Rightarrow> u64 \<Rightarrow> bytes \<Rightarrow> 'm \<Rightarrow> 'm option" where
  "store_resize_command mops cgid cmd_bytes m =
     (case cmd_value cmd_bytes of
        None \<Rightarrow> None
      | Some v \<Rightarrow> Some (fst (map_update mops m cgid \<lparr>cmd = v\<rparr> BPF_ANY)))"

section \<open>The comparison loop\<close>

text \<open>A byte compares equal to a \<^verbatim>\<open>char\<close> exactly when they have the same bits and the sign bit is clear.\<close>

lemma byte_char_eq: "(uint (a :: u8) = sint (b :: u8)) = (a = b \<and> b < 128)"
proof -
  have lt: "uint b < 256" using unsigned_less [of b, where ?'a = int] by simp
  have neg: "(uint b + 128) mod 256 = uint b - 128" if "128 \<le> uint b"
  proof -
    have "(uint b + 128) mod 256 = ((uint b - 128) + 256) mod 256" by (simp add: add.commute)
    also have "\<dots> = uint b - 128" using that lt by (simp only: mod_add_self2) simp
    finally show ?thesis .
  qed
  have "sint b = (if b < 128 then uint b else uint b - 256)"
    using lt neg by (simp add: sint_uint signed_take_bit_eq_take_bit_shift take_bit_eq_mod word_less_def)
  moreover have "uint a \<noteq> uint b - 256" using lt unsigned_greater_eq [of a, where ?'a = int] by linarith
  ultimately show ?thesis using lt by (auto simp: word_uint_eq_iff)
qed


lemma drop_buf:
  "length a = BUF_SIZE \<Longrightarrow> i < BUF_SIZE \<Longrightarrow> drop i a = a ! i # drop (Suc i) a"
  by (simp add: Cons_nth_drop_Suc)

lemma cmd_equal_from_iff:
  assumes "length a = BUF_SIZE" and "length b = BUF_SIZE"
  shows "cmd_equal_from i a b =
    (c_str (drop i a) = c_str (drop i b) \<and> list_all (\<lambda>x. x < 128) (c_str (drop i b)))"
  using assms
proof (induction i a b rule: cmd_equal_from.induct)
  case (1 i a b)
  show ?case
  proof (cases "i < BUF_SIZE")
    case False
    with "1.prems" show ?thesis by (simp add: cmd_equal_from.simps [of i a b] c_str_def)
  next
    case True
    with "1.prems" have d: "drop i a = a ! i # drop (Suc i) a" "drop i b = b ! i # drop (Suc i) b"
      by (simp_all add: drop_buf)
    show ?thesis
    proof (cases "uint (a ! i) \<noteq> sint (b ! i) \<or> a ! i = 0 \<or> b ! i = 0")
      case stop: True
      with True show ?thesis unfolding d
        by (auto simp: cmd_equal_from.simps [of i a b] c_str_Cons byte_char_eq)
    next
      case False
      with True "1.IH" "1.prems" show ?thesis unfolding d
        by (simp add: cmd_equal_from.simps [of i a b] c_str_Cons byte_char_eq)
    qed
  qed
qed

lemma fill_cmd_value_closed:
  "i + length bs \<le> length v \<Longrightarrow> fill_cmd_value i bs v = Some (take i v @ bs @ drop (i + length bs) v)"
proof (induction bs arbitrary: i v)
  case Nil
  then show ?case by simp
next
  case (Cons b bs)
  then have "fill_cmd_value (Suc i) bs (v[i := b]) =
    Some (take (Suc i) (v[i := b]) @ bs @ drop (Suc i + length bs) (v[i := b]))"
    by simp
  moreover from Cons.prems have "take (Suc i) (v[i := b]) = take i v @ [b]"
    by (simp add: take_Suc_conv_app_nth)
  ultimately show ?case using Cons.prems by simp
qed

lemma fill_cmd_value_panic: "length v < i + length bs \<Longrightarrow> i \<le> length v \<Longrightarrow> fill_cmd_value i bs v = None"
  by (induction bs arbitrary: i v) auto

lemma cmd_value_eq:
  "cmd_value bs = (if length bs \<le> BUF_SIZE then Some (bs @ replicate (BUF_SIZE - length bs) 0) else None)"
  by (simp add: cmd_value_def fill_cmd_value_closed fill_cmd_value_panic BUF_SIZE_def)

section \<open>Properties of the program\<close>

text \<open>What an emitted event says: its cgroup is in the map and its command matches the stored one.\<close>

definition event_matches ::
  "('m, u64, pod_command) map_ops \<Rightarrow> 'm \<Rightarrow> pod_exec_event \<Rightarrow> bool" where
  "event_matches mops m e \<longleftrightarrow>
     (case map_lookup mops m (cgroup_id e) of
        None \<Rightarrow> False
      | Some val \<Rightarrow> cmd_equal_from 0 (cgroup_cmd e) (cmd val))"

lemma podsnoop_event_source:
  assumes "bpf_perf pops"
  shows "event_source (podsnoop mops pops) (\<lambda>st. resize_containers_map st = m)
    (\<lambda>st. perf_records pops (pod_exec_events st)) (event_matches mops m)"
  by unfold_locales
    (auto simp: podsnoop_def event_matches_def Let_def case_prod_beta bpf_perf.output_records [OF assms]
      split: option.splits if_splits)


interpretation snoop: event_source "podsnoop mops perf_inst_ops" "\<lambda>st. resize_containers_map st = m"
  "\<lambda>st. perf_records perf_inst_ops (pod_exec_events st)" "event_matches mops m"
  by (rule podsnoop_event_source) (rule perf.bpf_perf_axioms)

text \<open>The event one invocation sends, if it sends one.\<close>

definition pod_event :: "task_env \<Rightarrow> pod_exec_event" where
  "pod_event env = \<lparr>cgroup_id = current_cgroup_id env, cgroup_pid = tid_of (current_pid_tgid env),
     cgroup_cmd = fst (current_comm env BUF_SIZE)\<rparr>"

lemma podsnoop_cases:
  assumes "bpf_perf pops"
  shows "perf_records pops (pod_exec_events (fst (podsnoop mops pops env st))) =
    perf_records pops (pod_exec_events st) @
      (if event_matches mops (resize_containers_map st) (pod_event env) \<and>
          snd (perf_output pops (pod_exec_events st) (pod_event env) sizeof_pod_exec_event) = 0
       then [pod_event env] else [])"
  by (auto simp: podsnoop_def event_matches_def pod_event_def Let_def case_prod_beta tid_of_mask
      bpf_perf.output_records [OF assms] split: option.splits)

text \<open>A task with the pid 42, in the cgroup 7, whose name is \<open>name\<close>.\<close>

definition demo_env :: "bytes \<Rightarrow> task_env" where
  "demo_env name = \<lparr>current_pid_tgid = pid_tgid_join 42 42, current_uid_gid = 0, current_cgroup_id = 7,
     current_comm = comm_of name, ktime_ns = 1000, smp_processor_id = 0\<rparr>"

text \<open>C2: the byte comparison loop of \<^verbatim>\<open>podsnoop\<close> accepts exactly when the two 32-byte buffers hold
  the same C string and that string is ASCII. A command with a byte of 128 or more never matches,
  whatever the task is called, because one side of the comparison is sign-extended.\<close>

theorem cmd_equal_iff_same_ascii_string:
  assumes "length comm = BUF_SIZE" and "length stored = BUF_SIZE"
  shows "cmd_equal_from 0 comm stored \<longleftrightarrow>
    c_str comm = c_str stored \<and> list_all (\<lambda>x. x < 128) (c_str stored)"
  using assms by (simp add: cmd_equal_from_iff)

theorem cmd_equal_iff_same_ascii_string_witness:
  "cmd_equal_from 0 ([108, 115] @ replicate 30 0) ([108, 115] @ replicate 30 0) \<and>
   \<not> cmd_equal_from 0 ([195, 169] @ replicate 30 0) ([195, 169] @ replicate 30 0)"
  using cmd_equal_iff_same_ascii_string [of "[108, 115] @ replicate 30 0" "[108, 115] @ replicate 30 0"]
    cmd_equal_iff_same_ascii_string [of "[195, 169] @ replicate 30 0" "[195, 169] @ replicate 30 0"]
  by (simp add: BUF_SIZE_def c_str_Cons)

text \<open>One invocation of \<^verbatim>\<open>podsnoop\<close>, on every branch. It returns 0 and leaves the map alone; it
  adds exactly one record (the cgroup id, the lower half of the pid/tgid value and the task name)
  when the cgroup is in the map, the name matches and the perf buffer takes the record, and none
  otherwise; it writes to the trace exactly when the name matches.\<close>

lemma podsnoop_functional:
  assumes "bpf_perf pops"
  shows "snd (podsnoop mops pops env st) = 0 \<and>
    resize_containers_map (fst (podsnoop mops pops env st)) = resize_containers_map st \<and>
    perf_records pops (pod_exec_events (fst (podsnoop mops pops env st))) =
      perf_records pops (pod_exec_events st) @
        (if event_matches mops (resize_containers_map st) (pod_event env) \<and>
            snd (perf_output pops (pod_exec_events st) (pod_event env) sizeof_pod_exec_event) = 0
         then [pod_event env] else []) \<and>
    (ps_trace (fst (podsnoop mops pops env st)) = ps_trace st \<longleftrightarrow>
      \<not> event_matches mops (resize_containers_map st) (pod_event env))"
  unfolding podsnoop_cases [OF assms]
  by (auto simp: podsnoop_def event_matches_def pod_event_def Let_def case_prod_beta
      split: option.splits)

lemma podsnoop_functional_example:
  "perf_records perf_inst_ops (pod_exec_events (fst (podsnoop (hash_ops MAX_NUM_CONTAINERS) perf_inst_ops
     (demo_env [108, 115]) \<lparr>resize_containers_map = [(7, \<lparr>cmd = [108, 115] @ replicate 30 0\<rparr>)],
       pod_exec_events = (5, []), ps_trace = []\<rparr>))) =
   [\<lparr>cgroup_id = 7, cgroup_pid = 42, cgroup_cmd = [108, 115] @ replicate 30 0\<rparr>]"
proof -
  let ?st = "\<lparr>resize_containers_map = [(7 :: u64, \<lparr>cmd = [108, 115] @ replicate 30 0\<rparr>)],
       pod_exec_events = (5, []), ps_trace = []\<rparr>"
  have "event_matches (hash_ops MAX_NUM_CONTAINERS) (resize_containers_map ?st) (pod_event (demo_env [108, 115]))"
    by code_simp
  moreover have "snd (perf_output perf_inst_ops (pod_exec_events ?st) (pod_event (demo_env [108, 115]))
      sizeof_pod_exec_event) = 0" by code_simp
  moreover have "pod_event (demo_env [108, 115]) =
      \<lparr>cgroup_id = 7, cgroup_pid = 42, cgroup_cmd = [108, 115] @ replicate 30 0\<rparr>" by code_simp
  ultimately show ?thesis
    using podsnoop_functional [OF perf.bpf_perf_axioms, of "hash_ops MAX_NUM_CONTAINERS" "demo_env [108, 115]" ?st]
    by (simp add: perf_inst_ops_def)
qed

text \<open>Over any sequence of \<^verbatim>\<open>execve\<close> calls, user space receives at most one event per call,
  never loses one it already had, and every new event names a cgroup that is in the map with a
  command that matches the event's.\<close>

lemma podsnoop_run_sound:
  assumes "bpf_perf pops"
  shows "\<exists>es. perf_records pops (pod_exec_events (run_steps (podsnoop mops pops) envs st)) =
      perf_records pops (pod_exec_events st) @ es \<and> length es \<le> length envs \<and>
      list_all (event_matches mops (resize_containers_map st)) es"
  by (rule event_source.run_emits [OF podsnoop_event_source [OF assms]]) (rule refl)

lemma store_lookup:
  assumes "bpf_map mops" and "store_resize_command mops g c m = Some m'"
    and "\<And>v. snd (map_update mops m g v BPF_ANY) = 0"
  shows "length c \<le> BUF_SIZE \<and>
    map_lookup mops m' g = Some \<lparr>cmd = c @ replicate (BUF_SIZE - length c) 0\<rparr>"
  using assms(2,3) bpf_map.lookup_update_same [OF assms(1)]
  by (auto simp: store_resize_command_def cmd_value_eq split: if_splits)

lemma stored_matches:
  assumes "map_lookup mops m (current_cgroup_id env) = Some \<lparr>cmd = c @ replicate (BUF_SIZE - length c) 0\<rparr>"
    and "length c \<le> BUF_SIZE" and "0 \<notin> set c" and "length (fst (current_comm env BUF_SIZE)) = BUF_SIZE"
  shows "event_matches mops m (pod_event env) \<longleftrightarrow>
    c_str (fst (current_comm env BUF_SIZE)) = c \<and> list_all (\<lambda>x. x < 128) c"
  using assms by (simp add: event_matches_def pod_event_def cmd_equal_from_iff c_str_pad)

text \<open>C3: the two halves of the tool agree. After user space has stored a command for a cgroup
  (and the map took it), an \<^verbatim>\<open>execve\<close> in that cgroup produces an event exactly when the name of the
  task is that command, if the command is ASCII; a command of 16 bytes or more is accepted by
  user space (up to 32 bytes) but can never produce an event, since a task name has at most 15.\<close>

theorem stored_command_detected:
  assumes "bpf_map mops" and "bpf_perf pops"
    and "store_resize_command mops g c m = Some m'"
    and "\<And>v. snd (map_update mops m g v BPF_ANY) = 0"
    and "0 \<notin> set c" and "resize_containers_map st = m'"
    and "current_cgroup_id env = g" and "comm_filled env BUF_SIZE"
    and "snd (perf_output pops (pod_exec_events st) (pod_event env) sizeof_pod_exec_event) = 0"
  shows "perf_records pops (pod_exec_events (fst (podsnoop mops pops env st))) =
      perf_records pops (pod_exec_events st) @
        (if c_str (fst (current_comm env BUF_SIZE)) = c \<and> list_all (\<lambda>x. x < 128) c
         then [pod_event env] else []) \<and>
    (TASK_COMM_LEN \<le> length c \<longrightarrow> c_str (fst (current_comm env BUF_SIZE)) \<noteq> c)"
  using store_lookup [OF assms(1,3,4)] assms(5-9) stored_matches [of mops m' env c]
  by (auto simp: podsnoop_cases [OF assms(2)] comm_filled_def)

theorem stored_command_detected_witness:
  "perf_records perf_inst_ops (pod_exec_events (fst (podsnoop (hash_ops 4096) perf_inst_ops
     (demo_env [108, 115]) \<lparr>resize_containers_map = the (store_resize_command (hash_ops 4096) 7 [108, 115] []),
       pod_exec_events = (5, []), ps_trace = []\<rparr>))) = [pod_event (demo_env [108, 115])]"
proof -
  let ?m' = "the (store_resize_command (hash_ops 4096) 7 [108, 115] [])"
  let ?st = "\<lparr>resize_containers_map = ?m', pod_exec_events = (5, []), ps_trace = []\<rparr>"
  have "comm_filled (demo_env [108, 115]) BUF_SIZE" by code_simp
  moreover have "c_str (fst (current_comm (demo_env [108, 115]) BUF_SIZE)) = [108, 115]" by code_simp
  moreover have "store_resize_command (hash_ops 4096) 7 [108, 115] [] = Some ?m'"
    by (simp add: store_resize_command_def cmd_value_eq BUF_SIZE_def)
  ultimately show ?thesis
    using stored_command_detected [OF hash.bpf_map_axioms perf.bpf_perf_axioms, of 4096 7 "[108, 115]" "[]"
      ?m' ?st "demo_env [108, 115]"]
    by (simp add: inst_defs al_size_def demo_env_def)
qed

end
