(* ===== verification/Userspace.thy ===== *)
theory Userspace
  imports Bpf_Helpers
begin

text \<open>
  The user-space programs that open, load, attach and feed the BPF programs, as traces of actions.
  A \<^verbatim>\<open>main\<close> function of the model takes the results of the calls it makes into libbpf and the kernel
  (their code is not part of the repository) as an argument, and yields what it does, in order, with
  the way it ends.

  Resources are acquired and released by actions; \<open>monitor\<close> walks a trace and fails on a use or release
  of something not held and on a second acquisition. The locale \<open>disciplined\<close> is the contract every
  \<^verbatim>\<open>main\<close> keeps: no trace is ever refused, and an exit leaves nothing behind but what the program is
  known to leave. This theory holds the machinery, the loops the programs
  share, and the C library function \<^verbatim>\<open>strtol\<close> they read numbers with.
\<close>

section \<open>Actions and outcomes\<close>

datatype resource =
    Skel
  | RingBuf
  | Symbolizer
  | Sock
  | PerfFd nat
  | Link string
  | CpuLink nat
  | TcHook
  | TcFilter
  | Heap string

datatype action =
    Acquire resource
  | Use resource
  | Release resource
  | Invoke string "int list"
  | SetGlobal string int
  | Print printk
  | Eprint printk
  | Sleep int

text \<open>\<open>Running\<close>: the loop has not ended after the rounds given. \<open>Crashed\<close>: a NULL pointer is dereferenced.\<close>

datatype outcome = Exited int | Running | Crashed

type_synonym trace = "action list \<times> outcome"

definition emit :: "action list \<Rightarrow> trace \<Rightarrow> trace" where
  "emit as t = (as @ fst t, snd t)"

definition say :: "string \<Rightarrow> action" where "say s = Print (s @ nl, [])"
definition complain :: "string \<Rightarrow> action" where "complain s = Eprint (s @ nl, [])"

text \<open>
  \<^verbatim>\<open>libbpf_print_fn\<close>, the callback libbpf logs through: every program prints all messages but
  \<^verbatim>\<open>bootstrap\<close>, which drops the debug ones unless it is verbose.
\<close>

datatype print_level = LIBBPF_WARN | LIBBPF_INFO | LIBBPF_DEBUG

definition libbpf_print_fn :: "print_level \<Rightarrow> printk \<Rightarrow> action list" where
  "libbpf_print_fn level msg = [Eprint msg]"

definition bootstrap_print_fn :: "bool \<Rightarrow> print_level \<Rightarrow> printk \<Rightarrow> action list" where
  "bootstrap_print_fn verbose level msg =
     (if level = LIBBPF_DEBUG \<and> \<not> verbose then [] else [Eprint msg])"

definition started :: "string \<Rightarrow> action" where
  "started tail = say (''Successfully started! Please run `sudo cat /sys/kernel/debug/tracing/trace_pipe` '' @ tail)"

section \<open>strtol\<close>

definition LONG_MAX :: int where "LONG_MAX = 2 ^ 63 - 1"
definition LONG_MIN :: int where "LONG_MIN = - (2 ^ 63)"

definition is_space :: "char \<Rightarrow> bool" where
  "is_space c \<longleftrightarrow> of_char c \<in> {9, 10, 11, 12, 13, 32 :: nat}"

definition is_digit :: "char \<Rightarrow> bool" where
  "is_digit c \<longleftrightarrow> 48 \<le> (of_char c :: nat) \<and> (of_char c :: nat) \<le> 57"

definition digits_val :: "string \<Rightarrow> int" where
  "digits_val ds = foldl (\<lambda>a c. 10 * a + (int (of_char c) - 48)) 0 ds"

text \<open>
  \<^verbatim>\<open>strtol(s, NULL, 10)\<close>: leading space, a sign, the longest run of digits; saturates with
  \<^verbatim>\<open>errno = ERANGE\<close> (the second component).
\<close>

definition strtol10 :: "string \<Rightarrow> int \<times> bool" where
  "strtol10 s =
     (let t = dropWhile is_space s;
          (neg, u) = (case t of
              [] \<Rightarrow> (False, [])
            | c # r \<Rightarrow> if c = CHR ''-'' then (True, r) else if c = CHR ''+'' then (False, r) else (False, t));
          v = digits_val (takeWhile is_digit u);
          x = (if neg then - v else v)
      in if LONG_MAX < x then (LONG_MAX, True)
         else if x < LONG_MIN then (LONG_MIN, True)
         else (x, False))"

lemma dec_all_digits: "list_all is_digit (dec n)"
  using dec_digits [of n] by (fastforce simp: list_all_iff is_digit_def of_char_of)

lemma takeWhile_all: "list_all P xs \<Longrightarrow> takeWhile P xs = xs"
  by (induction xs) auto

lemma digits_val_dec: "digits_val (dec n) = int n"
proof (induction n rule: dec.induct)
  case (1 n)
  show ?case
  proof (cases "n < 10")
    case True
    then show ?thesis by (subst dec.simps) (simp add: digits_val_def of_char_of)
  next
    case False
    have "digits_val (dec n) = 10 * digits_val (dec (n div 10)) + int (n mod 10)"
      using False by (subst dec.simps) (simp add: digits_val_def of_char_of)
    also have "\<dots> = int (10 * (n div 10) + n mod 10)" by (simp only: 1 [OF False] of_nat_add of_nat_mult of_nat_numeral)
    finally show ?thesis by simp
  qed
qed

text \<open>\<^verbatim>\<open>strtol\<close> reads back what decimal notation writes.\<close>

lemma strtol10_dec:
  assumes "n < 2 ^ 63"
  shows "strtol10 (dec n) = (int n, False)"
proof -
  obtain c r where c: "dec n = c # r"
    by (cases "dec n") (simp_all add: dec.simps [of n] split: if_splits)
  have "is_digit c" using dec_all_digits [of n] by (simp add: c)
  then have d: "\<not> is_space c" "c \<noteq> CHR ''-''" "c \<noteq> CHR ''+''" by (auto simp: is_digit_def is_space_def)
  have t: "takeWhile is_digit (c # r) = dec n" unfolding c [symmetric] by (rule takeWhile_all [OF dec_all_digits])
  have "int n \<le> LONG_MAX" "LONG_MIN \<le> int n"
    using assms by (simp_all add: LONG_MAX_def LONG_MIN_def)
  then show ?thesis
    using t digits_val_dec [of n] unfolding strtol10_def c by (simp add: d Let_def split: if_splits)
qed

section \<open>Loops\<close>

text \<open>\<^verbatim>\<open>for (;;) { fprintf(stderr, "."); sleep(1); }\<close>, observed for \<open>n\<close> rounds.\<close>

definition dots_forever :: "nat \<Rightarrow> trace" where
  "dots_forever n = (concat (replicate n [Eprint (''.'', []), Sleep 1]), Running)"

text \<open>
  \<^verbatim>\<open>while (!exiting) { ... sleep(1); }\<close>: each element is the value of the flag, which the signal
  handler sets, when the loop tests it. The loop has ended when one of them is true.
\<close>

fun dots_until :: "action list \<Rightarrow> bool list \<Rightarrow> action list \<times> bool" where
  "dots_until body [] = ([], False)"
| "dots_until body (exiting # rest) =
     (if exiting then ([], True)
      else let (as, fin) = dots_until body rest in (body @ as, fin))"

text \<open>
  The polling loop of \<^verbatim>\<open>bootstrap.c\<close> and \<^verbatim>\<open>sockfilter.c\<close>. A round is the flag the loop tests and the
  result of the poll; \<open>report\<close> prints an error. The result is the value of \<^verbatim>\<open>err\<close> after the loop.
\<close>

fun poll_loop :: "(int \<Rightarrow> action) \<Rightarrow> action list \<Rightarrow> (bool \<times> int) list \<Rightarrow> int \<Rightarrow> action list \<times> int option" where
  "poll_loop report pause [] err = ([], None)"
| "poll_loop report pause ((exiting, r) # rest) err =
     (if exiting then ([], Some err)
      else if r = - EINTR then ([Use RingBuf], Some 0)
      else if r < 0 then ([Use RingBuf, report r], Some r)
      else let (as, res) = poll_loop report pause rest r in (Use RingBuf # pause @ as, res))"

section \<open>The resource monitor\<close>

fun monitor :: "resource list \<Rightarrow> action list \<Rightarrow> resource list option" where
  "monitor held [] = Some held"
| "monitor held (Acquire r # as) = (if r \<in> set held then None else monitor (r # held) as)"
| "monitor held (Use r # as) = (if r \<in> set held then monitor held as else None)"
| "monitor held (Release r # as) = (if r \<in> set held then monitor (removeAll r held) as else None)"
| "monitor held (Invoke f xs # as) = monitor held as"
| "monitor held (SetGlobal g v # as) = monitor held as"
| "monitor held (Print p # as) = monitor held as"
| "monitor held (Eprint p # as) = monitor held as"
| "monitor held (Sleep n # as) = monitor held as"

fun neutral :: "action \<Rightarrow> bool" where
  "neutral (Acquire r) = False"
| "neutral (Use r) = False"
| "neutral (Release r) = False"
| "neutral (Invoke f xs) = True"
| "neutral (SetGlobal g v) = True"
| "neutral (Print p) = True"
| "neutral (Eprint p) = True"
| "neutral (Sleep n) = True"

lemma monitor_append: "monitor held (as @ bs) = Option.bind (monitor held as) (\<lambda>h. monitor h bs)"
  by (induction held as rule: monitor.induct) auto

lemma monitor_neutral: "list_all neutral as \<Longrightarrow> monitor held (as @ bs) = monitor held bs"
proof (induction as)
  case (Cons a as)
  then show ?case by (cases a) auto
qed simp

lemma say_neutral [simp]: "neutral (say s)" "neutral (complain s)" "neutral (started s)"
  by (simp_all add: say_def complain_def started_def)

lemma monitor_say [simp]:
  "monitor held (say s # as) = monitor held as" "monitor held (complain s # as) = monitor held as"
  "monitor held (started s # as) = monitor held as"
  by (simp_all add: say_def complain_def started_def)

lemma emit_simps [simp]: "fst (emit as t) = as @ fst t" "snd (emit as t) = snd t"
  by (simp_all add: emit_def)

lemma dots_forever_runs [simp]: "snd (dots_forever n) = Running"
  by (simp add: dots_forever_def)

lemma monitor_dots_forever [simp]: "monitor held (fst (dots_forever n) @ bs) = monitor held bs"
  by (rule monitor_neutral) (induction n, simp_all add: dots_forever_def)

lemma monitor_dots_until [simp]:
  "list_all neutral body \<Longrightarrow> monitor held (fst (dots_until body fs) @ bs) = monitor held bs"
  by (rule monitor_neutral, induction body fs rule: dots_until.induct) (auto split: prod.splits)

lemma monitor_poll_loop [simp]:
  "RingBuf \<in> set held \<Longrightarrow> list_all neutral pause \<Longrightarrow> (\<And>r. neutral (report r)) \<Longrightarrow>
   monitor held (fst (poll_loop report pause rs err) @ bs) = monitor held bs"
proof (induction report pause rs err rule: poll_loop.induct)
  case (2 report pause exiting r rest err)
  have "monitor held (report r # bs) = monitor held bs"
    using monitor_neutral [of "[report r]" held bs] 2(4) by simp
  with 2 show ?case
    by (auto split: prod.splits simp: monitor_neutral)
qed simp

lemma monitor_loops_end [simp]:
  "monitor held (fst (dots_forever n)) = Some held"
  "list_all neutral body \<Longrightarrow> monitor held (fst (dots_until body fs)) = Some held"
  "RingBuf \<in> set held \<Longrightarrow> list_all neutral pause \<Longrightarrow> (\<And>r. neutral (report r)) \<Longrightarrow>
   monitor held (fst (poll_loop report pause rs err)) = Some held"
  using monitor_dots_forever [of held n "[]"] monitor_dots_until [of body held fs "[]"]
    monitor_poll_loop [of held pause report rs err "[]"] by simp_all

lemma monitor_release_map:
  "distinct rs \<Longrightarrow> set rs \<subseteq> set held \<Longrightarrow>
   monitor held (map Release rs @ as) = monitor (filter (\<lambda>r. r \<notin> set rs) held) as"
proof (induction rs arbitrary: held)
  case (Cons r rs)
  have "filter (\<lambda>x. x \<notin> set rs) (removeAll r held) = filter (\<lambda>x. x \<notin> set (r # rs)) held"
    by (auto simp: removeAll_filter_not_eq intro: filter_cong)
  moreover have "set rs \<subseteq> set (removeAll r held)" using Cons.prems by auto
  ultimately show ?case using Cons.IH [of "removeAll r held"] Cons.prems by simp
qed simp

text \<open>How the polling loop ends: by the flag or by a signal, after polls that all succeeded.\<close>

fun clean_end :: "(bool \<times> int) list \<Rightarrow> bool" where
  "clean_end [] = False"
| "clean_end ((exiting, r) # rest) = (exiting \<or> r = - EINTR \<or> (0 \<le> r \<and> clean_end rest))"

lemma poll_loop_clean:
  "0 \<le> err \<Longrightarrow> clean_end ps = (\<exists>e. snd (poll_loop report pause ps err) = Some e \<and> 0 \<le> e)"
proof (induction report pause ps err rule: poll_loop.induct)
  case (2 report pause exiting r rest err)
  then show ?case by (auto simp: EINTR_def Let_def case_prod_beta)
qed simp

lemma poll_loop_counts:
  "list_all ((\<le>) 0) counts \<Longrightarrow>
   snd (poll_loop report pause (map (Pair False) counts @ [(True, x)]) err) = Some (last (err # counts))"
  by (induction counts arbitrary: err) (auto simp: EINTR_def Let_def case_prod_beta)

text \<open>The counts of a trace that the monitor accepts.\<close>

definition acquired :: "resource \<Rightarrow> action list \<Rightarrow> nat" where
  "acquired r as = length (filter (\<lambda>a. a = Acquire r) as)"

definition released :: "resource \<Rightarrow> action list \<Rightarrow> nat" where
  "released r as = length (filter (\<lambda>a. a = Release r) as)"

lemma monitor_counts:
  "monitor held as = Some held' \<Longrightarrow>
   acquired r as + (if r \<in> set held then 1 else 0) = released r as + (if r \<in> set held' then 1 else 0)"
  by (induction held as rule: monitor.induct) (auto simp: acquired_def released_def split: if_splits)

section \<open>The contract of a main function\<close>

definition well_ended :: "trace \<Rightarrow> resource list \<Rightarrow> bool" where
  "well_ended t left \<longleftrightarrow> monitor [] (fst t) \<noteq> None \<and> (\<forall>c. snd t = Exited c \<longrightarrow> monitor [] (fst t) = Some left)"

locale disciplined =
  fixes main :: "'i \<Rightarrow> trace" and leaks :: "'i \<Rightarrow> resource list"
  assumes accepted: "monitor [] (fst (main i)) \<noteq> None"
  and exits: "snd (main i) = Exited c \<Longrightarrow> monitor [] (fst (main i)) = Some (leaks i)"
begin

lemma ends_well: "well_ended (main i) (leaks i)"
  using accepted exits by (simp add: well_ended_def)

lemma released_once:
  assumes "snd (main i) = Exited c" and "r \<notin> set (leaks i)"
  shows "released r (fst (main i)) = acquired r (fst (main i))"
  using monitor_counts [OF exits [OF assms(1)], of r] assms(2) by simp

lemma no_use_before_acquire:
  assumes "fst (main i) = as @ a # bs" and "a = Use r \<or> a = Release r"
  shows "Acquire r \<in> set as"
proof -
  from accepted [of i] assms(1) obtain h where h: "monitor [] as = Some h" and "monitor h (a # bs) \<noteq> None"
    by (cases "monitor [] as") (auto simp: monitor_append)
  with assms(2) have "r \<in> set h" by (auto split: if_splits)
  with monitor_counts [OF h, of r] have "0 < acquired r as" by simp
  then show ?thesis by (auto simp: acquired_def filter_empty_conv)
qed

end

end
