(* ===== verification/Rust_Std.thy ===== *)
theory Rust_Std
  imports Userspace
begin

text \<open>
  What the Rust sources use of the language and its standard library: results, panics and the \<^verbatim>\<open>?\<close>
  operator, arithmetic with and without overflow checks, UTF-8 validation, splitting and trimming of
  strings, and parsing of numbers. A Rust string is the list of its UTF-8 bytes.
\<close>

section \<open>Definitions\<close>

datatype 'a rust_result = Ok 'a | Err | Panic

text \<open>
  A call that may have no result at all: \<^term>\<open>None\<close> when it never returns, or when it reads memory outside
  the object it was given. \<open>rbind\<close> is the sequence of two calls, with \<^verbatim>\<open>?\<close> after the first one.
\<close>

type_synonym 'a run = "'a rust_result option"

definition ret :: "'a \<Rightarrow> 'a run" where "ret x = Some (Ok x)"

definition bail :: "'a run" where "bail = Some Err"

definition panic :: "'a run" where "panic = Some Panic"

definition rbind :: "'a run \<Rightarrow> ('a \<Rightarrow> 'b run) \<Rightarrow> 'b run" where
  "rbind m f = Option.bind m (\<lambda>r. case r of Ok x \<Rightarrow> f x | Err \<Rightarrow> bail | Panic \<Rightarrow> panic)"

definition returns :: "'a run \<Rightarrow> bool" where "returns m \<longleftrightarrow> m \<noteq> None"

text \<open>\<^verbatim>\<open>ensure!\<close>, and a loop over a list whose body may fail, with its results in order.\<close>

definition ensure :: "bool \<Rightarrow> 'a run \<Rightarrow> 'a run" where
  "ensure c m = (if c then m else bail)"

fun rmap :: "('a \<Rightarrow> 'b run) \<Rightarrow> 'a list \<Rightarrow> 'b list run" where
  "rmap f [] = ret []"
| "rmap f (x # xs) = rbind (f x) (\<lambda>y. rbind (rmap f xs) (\<lambda>ys. ret (y # ys)))"

text \<open>
  Arithmetic on \<^verbatim>\<open>u32\<close> and \<^verbatim>\<open>u8\<close>: with overflow checks (\<open>chk\<close>, the development profile) a result that does not fit
  panics, without them it wraps around.
\<close>

definition checked :: "bool \<Rightarrow> nat \<Rightarrow> 'w::len word run" where
  "checked chk n = (if chk \<and> 2 ^ LENGTH('w) \<le> n then panic else ret (of_nat n))"

text \<open>\<^verbatim>\<open>str::from_utf8\<close>: the well-formed byte sequences of the Unicode standard.\<close>

definition cont :: "nat \<Rightarrow> bool" where "cont b \<longleftrightarrow> 0x80 \<le> b \<and> b \<le> 0xBF"

fun utf8 :: "nat list \<Rightarrow> bool" where
  "utf8 [] = True"
| "utf8 (a # r) =
     (if a < 0x80 then utf8 r
      else if 0xC2 \<le> a \<and> a \<le> 0xDF then (case r of b # s \<Rightarrow> cont b \<and> utf8 s | _ \<Rightarrow> False)
      else if 0xE0 \<le> a \<and> a \<le> 0xEF then
        (case r of b # c # s \<Rightarrow> cont b \<and> (a = 0xE0 \<longrightarrow> 0xA0 \<le> b) \<and> (a = 0xED \<longrightarrow> b \<le> 0x9F) \<and> cont c \<and> utf8 s
         | _ \<Rightarrow> False)
      else if 0xF0 \<le> a \<and> a \<le> 0xF4 then
        (case r of b # c # d # s \<Rightarrow>
           cont b \<and> (a = 0xF0 \<longrightarrow> 0x90 \<le> b) \<and> (a = 0xF4 \<longrightarrow> b \<le> 0x8F) \<and> cont c \<and> cont d \<and> utf8 s
         | _ \<Rightarrow> False)
      else False)"

definition from_utf8 :: "string \<Rightarrow> string option" where
  "from_utf8 s = (if utf8 (map of_char s) then Some s else None)"

text \<open>
  \<^verbatim>\<open>String::from_utf8_lossy\<close>: a sequence that is not well-formed is given up at its first wrong byte, and what
  was read of it becomes one replacement character.
\<close>

definition REPLACEMENT :: "nat list" where "REPLACEMENT = [0xEF, 0xBF, 0xBD]"

definition second_ok :: "nat \<Rightarrow> nat \<Rightarrow> bool" where
  "second_ok a b \<longleftrightarrow> cont b \<and> (a = 0xE0 \<longrightarrow> 0xA0 \<le> b) \<and> (a = 0xED \<longrightarrow> b \<le> 0x9F) \<and>
     (a = 0xF0 \<longrightarrow> 0x90 \<le> b) \<and> (a = 0xF4 \<longrightarrow> b \<le> 0x8F)"

definition utf8_char_width :: "nat \<Rightarrow> nat" where
  "utf8_char_width a =
     (if a < 0x80 then 1 else if 0xC2 \<le> a \<and> a \<le> 0xDF then 2 else if 0xE0 \<le> a \<and> a \<le> 0xEF then 3
      else if 0xF0 \<le> a \<and> a \<le> 0xF4 then 4 else 0)"

text \<open>How far the character that starts with \<open>a\<close> can be read.\<close>

definition utf8_read :: "nat \<Rightarrow> nat list \<Rightarrow> nat" where
  "utf8_read a r =
     (if utf8_char_width a \<le> 1 \<or> r = [] \<or> \<not> second_ok a (hd r) then 0
      else Suc (length (takeWhile cont (take (utf8_char_width a - 2) (tl r)))))"

function utf8_lossy :: "nat list \<Rightarrow> nat list" where
  "utf8_lossy [] = []"
| "utf8_lossy (a # r) =
     (if Suc (utf8_read a r) = utf8_char_width a then a # take (utf8_read a r) r else REPLACEMENT) @
     utf8_lossy (drop (utf8_read a r) r)"
  by pat_completeness auto
termination
  by (relation "measure length") simp_all

declare utf8_lossy.simps(2) [simp del]

definition from_utf8_lossy :: "bytes \<Rightarrow> string" where
  "from_utf8_lossy bs = map char_of (utf8_lossy (map unat bs))"

definition str_of :: "bytes \<Rightarrow> string" where
  "str_of bs = map (\<lambda>b. char_of (unat b)) bs"

definition as_bytes :: "string \<Rightarrow> bytes" where
  "as_bytes s = map of_char s"

text \<open>\<^verbatim>\<open>str::split\<close> with a non-empty pattern, from left to right, without overlaps.\<close>

function str_split_from :: "string \<Rightarrow> string \<Rightarrow> string \<Rightarrow> string list" where
  "str_split_from pat acc s =
     (case s of
        [] \<Rightarrow> [rev acc]
      | c # r \<Rightarrow>
          if pat \<noteq> [] \<and> prefix pat s then rev acc # str_split_from pat [] (drop (length pat) s)
          else str_split_from pat (c # acc) r)"
  by pat_completeness auto
termination
  by (relation "measure (\<lambda>(pat, acc, s). length s)") (auto simp: prefix_def)

declare str_split_from.simps [simp del]

definition str_split :: "string \<Rightarrow> string \<Rightarrow> string list" where
  "str_split pat s = str_split_from pat [] s"

text \<open>\<^verbatim>\<open>str::trim\<close>: the characters with the property White_Space, in UTF-8, are taken off both ends.\<close>

definition WHITE_SPACE :: "string list" where
  "WHITE_SPACE =
     [[CHR 0x09], [CHR 0x0A], [CHR 0x0B], [CHR 0x0C], [CHR 0x0D], [CHR 0x20], [CHR 0xC2, CHR 0x85], [CHR 0xC2, CHR 0xA0],
      [CHR 0xE1, CHR 0x9A, CHR 0x80], [CHR 0xE2, CHR 0x80, CHR 0x80], [CHR 0xE2, CHR 0x80, CHR 0x81],
      [CHR 0xE2, CHR 0x80, CHR 0x82], [CHR 0xE2, CHR 0x80, CHR 0x83], [CHR 0xE2, CHR 0x80, CHR 0x84],
      [CHR 0xE2, CHR 0x80, CHR 0x85], [CHR 0xE2, CHR 0x80, CHR 0x86], [CHR 0xE2, CHR 0x80, CHR 0x87],
      [CHR 0xE2, CHR 0x80, CHR 0x88], [CHR 0xE2, CHR 0x80, CHR 0x89], [CHR 0xE2, CHR 0x80, CHR 0x8A],
      [CHR 0xE2, CHR 0x80, CHR 0xA8], [CHR 0xE2, CHR 0x80, CHR 0xA9], [CHR 0xE2, CHR 0x80, CHR 0xAF],
      [CHR 0xE2, CHR 0x81, CHR 0x9F], [CHR 0xE3, CHR 0x80, CHR 0x80]]"

function strip_prefixes :: "string list \<Rightarrow> string \<Rightarrow> string" where
  "strip_prefixes ws s =
     (case find (\<lambda>w. w \<noteq> [] \<and> prefix w s) ws of
        None \<Rightarrow> s
      | Some w \<Rightarrow> strip_prefixes ws (drop (length w) s))"
  by pat_completeness auto
termination
  by (relation "measure (\<lambda>(ws, s). length s)") (auto simp: find_Some_iff prefix_def)

declare strip_prefixes.simps [simp del]

definition str_trim :: "string \<Rightarrow> string" where
  "str_trim s = rev (strip_prefixes (map rev WHITE_SPACE) (rev (strip_prefixes WHITE_SPACE s)))"

text \<open>\<^verbatim>\<open>u64::from_str\<close>: an optional plus sign and at least one digit, nothing else, without overflow.\<close>

definition u64_from_str :: "string \<Rightarrow> u64 option" where
  "u64_from_str s =
     (let t = (case s of c # r \<Rightarrow> if c = CHR ''+'' then r else s | [] \<Rightarrow> [])
      in if t \<noteq> [] \<and> list_all is_digit t \<and> digits_val t < 2 ^ 64 then Some (word_of_int (digits_val t)) else None)"

section \<open>Lemmas on results\<close>

lemma rbind_simps [simp]:
  "rbind (ret x) f = f x" "rbind bail f = bail" "rbind panic f = panic" "rbind None f = None"
  by (simp_all add: rbind_def ret_def bail_def panic_def)

lemma run_distinct [simp]:
  "ret x \<noteq> bail" "bail \<noteq> ret x" "ret x \<noteq> panic" "panic \<noteq> ret x" "bail \<noteq> panic" "panic \<noteq> bail"
  "ret x \<noteq> None" "bail \<noteq> None" "panic \<noteq> None" "None \<noteq> ret x" "None \<noteq> bail" "None \<noteq> panic"
  "(ret x = ret y) = (x = y)"
  by (simp_all add: ret_def bail_def panic_def)

lemma returns_simps [simp]: "returns (ret x)" "returns bail" "returns panic" "\<not> returns None"
  by (simp_all add: returns_def)

lemma run_cases [case_names ret bail panic none]:
  obtains x where "m = ret x" | "m = bail" | "m = panic" | "m = None"
proof (cases m)
  case (Some r)
  then show ?thesis using that by (cases r) (simp_all add: ret_def bail_def panic_def)
qed (use that in blast)

lemma rbind_ret_iff: "rbind m f = ret y \<longleftrightarrow> (\<exists>x. m = ret x \<and> f x = ret y)"
  by (cases m rule: run_cases) auto

lemma rbind_cong [fundef_cong]:
  "m = m' \<Longrightarrow> (\<And>x. m' = ret x \<Longrightarrow> f x = f' x) \<Longrightarrow> rbind m f = rbind m' f'"
  by (cases m' rule: run_cases) auto

lemma rbind_returns: "returns m \<Longrightarrow> (\<And>x. m = ret x \<Longrightarrow> returns (f x)) \<Longrightarrow> returns (rbind m f)"
  by (cases m rule: run_cases) auto

lemma ensure_simps [simp]: "ensure True m = m" "ensure False m = bail"
  by (simp_all add: ensure_def)

lemma ensure_ret_iff: "ensure c m = ret x \<longleftrightarrow> c \<and> m = ret x"
  by (simp add: ensure_def)

lemma ensure_returns: "(c \<Longrightarrow> returns m) \<Longrightarrow> returns (ensure c m)"
  by (cases c) auto

lemma checked_returns [simp]: "returns (checked chk n)"
  by (simp add: checked_def)

lemma checked_code [code]:
  "(checked chk n :: 'w::len word run) = (if chk \<and> 2 ^ LENGTH('w) \<le> int n then panic else ret (of_nat n))"
  by (simp add: checked_def flip: of_nat_power_le_of_nat_cancel_iff)

lemma rmap_returns: "(\<And>x. x \<in> set xs \<Longrightarrow> returns (f x)) \<Longrightarrow> returns (rmap f xs)"
  by (induction xs) (auto intro!: rbind_returns)

lemma rmap_cong [fundef_cong]: "xs = ys \<Longrightarrow> (\<And>x. x \<in> set ys \<Longrightarrow> f x = g x) \<Longrightarrow> rmap f xs = rmap g ys"
  by (induction xs arbitrary: ys) auto

lemma rmap_ret_iff: "rmap f xs = ret ys \<longleftrightarrow> list_all2 (\<lambda>x y. f x = ret y) xs ys"
  by (induction xs arbitrary: ys) (auto simp: rbind_ret_iff list_all2_Cons1)

lemma rbind_mono [partial_function_mono]:
  "mono_option B \<Longrightarrow> (\<And>y. mono_option (\<lambda>f. C y f)) \<Longrightarrow> mono_option (\<lambda>f. rbind (B f) (\<lambda>y. C y f))"
  unfolding rbind_def 
proof (rule bind_mono, assumption)
  fix r assume "\<And>y. mono_option (\<lambda>f. C y f)"
  then show "mono_option (\<lambda>f. case r of Ok x \<Rightarrow> C x f | Err \<Rightarrow> bail | Panic \<Rightarrow> panic)"
    by (cases r) (auto intro: partial_function_mono)
qed

lemma ensure_mono [partial_function_mono]: "mono_option B \<Longrightarrow> mono_option (\<lambda>f. ensure c (B f))"
  by (cases c) (auto intro: partial_function_mono)

lemma rmap_mono [partial_function_mono]:
  "(\<And>x. mono_option (\<lambda>f. B x f)) \<Longrightarrow> mono_option (\<lambda>f. rmap (\<lambda>x. B x f) xs)"
  by (induction xs) (auto intro!: partial_function_mono)

section \<open>Lemmas on strings\<close>

lemma utf8_ascii: "list_all (\<lambda>b. b < 0x80) bs \<Longrightarrow> utf8 bs"
  by (induction bs) auto

text \<open>Well-formed text comes out as it is.\<close>

lemma utf8_lossy_id: "utf8 s \<Longrightarrow> utf8_lossy s = s"
proof (induction s rule: utf8.induct)
  case (2 a r)
  show ?case
  proof (cases "a < 0x80")
    case True
    with 2 show ?thesis by (simp add: utf8_lossy.simps(2) utf8_read_def utf8_char_width_def)
  next
    case False
    then obtain b s where r: "r = b # s" "utf8 (a # b # s)" using "2.prems" by (cases r) (simp_all split: if_splits)
    consider "0xC2 \<le> a" "a \<le> 0xDF" | "0xE0 \<le> a" "a \<le> 0xEF" | "0xF0 \<le> a" "a \<le> 0xF4"
      using "2.prems" False by (auto split: if_splits)
    then show ?thesis
    proof cases
      case 1
      with r "2.IH"(2) False show ?thesis
        by (simp add: utf8_lossy.simps(2) utf8_read_def utf8_char_width_def second_ok_def)
    next
      case 2
      with r False obtain c t where "s = c # t" by (cases s) simp_all
      with r "2.IH"(3) False 2 show ?thesis
        by (simp add: utf8_lossy.simps(2) utf8_read_def utf8_char_width_def second_ok_def)
    next
      case 3
      with r False obtain c d t where "s = c # d # t" by (cases s; cases "tl s") simp_all
      with r "2.IH"(4) False 3 show ?thesis
        by (simp add: utf8_lossy.simps(2) utf8_read_def utf8_char_width_def second_ok_def)
    qed
  qed
qed simp

lemma lossy_ascii: "list_all (\<lambda>b. b < 0x80) bs \<Longrightarrow> utf8_lossy bs = bs"
  by (simp add: utf8_lossy_id utf8_ascii)

lemma from_utf8_ascii: "list_all (\<lambda>c. of_char c < (0x80 :: nat)) s \<Longrightarrow> from_utf8 s = Some s"
  unfolding from_utf8_def by (simp add: utf8_ascii list_all_iff)

lemma str_split_from_plain:
  "hd pat \<notin> set a \<Longrightarrow> pat \<noteq> [] \<Longrightarrow> str_split_from pat acc (a @ r) = str_split_from pat (rev a @ acc) r"
proof (induction a arbitrary: acc)
  case (Cons c a)
  then have "\<not> prefix pat (c # a @ r)" by (cases pat) auto
  with Cons show ?case by (subst str_split_from.simps) simp
qed simp

lemma str_split_first:
  assumes "hd pat \<notin> set a" and "pat \<noteq> []"
  shows "str_split pat (a @ pat @ b) = a # str_split pat b"
proof -
  obtain c r where c: "pat @ b = c # r" using assms(2) by (cases "pat @ b") auto
  have "str_split_from pat (rev a) (pat @ b) = a # str_split_from pat [] (drop (length pat) (pat @ b))"
    using assms(2) prefixI [OF c [symmetric]] unfolding c by (subst str_split_from.simps) simp
  then show ?thesis by (simp add: str_split_def str_split_from_plain [OF assms])
qed

lemma str_split_none: "hd pat \<notin> set a \<Longrightarrow> pat \<noteq> [] \<Longrightarrow> str_split pat a = [a]"
  using str_split_from_plain [of pat a "[]" "[]"] by (simp add: str_split_def str_split_from.simps [of pat _ "[]"])

lemma u64_from_str_dec:
  assumes "n < 2 ^ 64"
  shows "u64_from_str (dec n) = Some (of_nat n)"
proof -
  obtain c r where c: "dec n = c # r"
    by (cases "dec n") (simp_all add: dec.simps [of n] split: if_splits)
  have "is_digit c" using dec_all_digits [of n] by (simp add: c)
  then have "c \<noteq> CHR ''+''" by (auto simp: is_digit_def)
  then show ?thesis
    using assms dec_all_digits [of n] digits_val_dec [of n] unfolding u64_from_str_def c by (simp add: Let_def)
qed

text \<open>The visible ASCII characters, as in a path of the cgroup file system.\<close>

definition graphic :: "char \<Rightarrow> bool" where
  "graphic c \<longleftrightarrow> 0x21 \<le> (of_char c :: nat) \<and> (of_char c :: nat) \<le> 0x7E"

lemma strip_none: "(\<And>w. w \<in> set ws \<Longrightarrow> w \<noteq> [] \<and> hd w \<noteq> c) \<Longrightarrow> strip_prefixes ws (c # s) = c # s"
proof -
  assume a: "\<And>w. w \<in> set ws \<Longrightarrow> w \<noteq> [] \<and> hd w \<noteq> c"
  have "\<not> prefix w (c # s)" if "w \<in> set ws" for w
    using a [OF that] by (cases w) auto
  then have "find (\<lambda>w. w \<noteq> [] \<and> prefix w (c # s)) ws = None"
    by (auto simp: find_None_iff)
  then show ?thesis by (subst strip_prefixes.simps) simp
qed

lemma white_space_hd:
  assumes "graphic c" and "w \<in> set WHITE_SPACE \<or> w \<in> set (map rev WHITE_SPACE)"
  shows "w \<noteq> [] \<and> hd w \<noteq> c"
proof -
  have all: "list_all (\<lambda>w. w \<noteq> [] \<and> \<not> graphic (hd w)) (WHITE_SPACE @ map rev WHITE_SPACE)" by code_simp
  then have "w \<noteq> [] \<and> \<not> graphic (hd w)" using assms(2) by (auto simp: list_all_iff)
  with assms(1) show ?thesis by auto
qed

lemma strip_graphic:
  assumes "graphic c"
  shows "strip_prefixes WHITE_SPACE (c # s) = c # s"
    and "strip_prefixes (map rev WHITE_SPACE) (c # s) = c # s"
  by (rule strip_none, rule white_space_hd [OF assms], blast)+

lemma strip_newline: "strip_prefixes (map rev WHITE_SPACE) (CHR 0x0A # s) = strip_prefixes (map rev WHITE_SPACE) s"
  by (subst strip_prefixes.simps) (simp add: WHITE_SPACE_def)

text \<open>A line of visible characters, trimmed, loses its newline only.\<close>

lemma str_trim_line:
  assumes "list_all graphic p" and "p \<noteq> []"
  shows "str_trim (p @ nl) = p"
proof -
  obtain c r where c: "p = c # r" using assms(2) by (cases p) auto
  obtain d q where d: "rev p = d # q" using assms(2) by (cases "rev p") auto
  have "set (rev p) = set p" by simp
  then have g: "graphic c" "graphic d" using assms(1) unfolding d by (auto simp: c list_all_iff)
  have "strip_prefixes WHITE_SPACE (p @ nl) = p @ nl" using g(1) by (simp add: c strip_graphic)
  moreover have "strip_prefixes (map rev WHITE_SPACE) (rev (p @ nl)) = rev p"
    using g(2) by (simp add: nl_def strip_newline d strip_graphic)
  ultimately show ?thesis by (simp add: str_trim_def)
qed

end
