(* ===== verification/Pod_Resize.thy ===== *)
theory Pod_Resize
  imports Podsnoop Rust_Std
begin

text \<open>
  The controller of the pod resize tool, \<^verbatim>\<open>ebpf-pod-resize-libbpf-co-re/src/main.rs\<close>. One thread watches the
  pods of the node and stores the commands of their \<^verbatim>\<open>ebpf-resize\<close> annotation in the map that the
  BPF program (\<^verbatim>\<open>Podsnoop\<close>) reads; another receives the events of the BPF program, looks up the pod
  of the event and starts the script that patches its resources.

  Rust strings are their UTF-8 bytes. A call yields the lines it prints and the scripts it starts,
  the new map, and \<open>Ok\<close>, \<open>Err\<close> or \<open>Panic\<close>: a failed \<^verbatim>\<open>unwrap\<close>, \<^verbatim>\<open>expect\<close> or index is a panic, which
  \<^verbatim>\<open>_ = f(...)\<close> does not catch, in contrast to an error. The JSON library, the Kubernetes client, the
  processes that are started and the \<^verbatim>\<open>plain\<close> crate are parameters; the file system does not change
  during one call.
\<close>

section \<open>Data\<close>

text \<open>The operations of \<^verbatim>\<open>serde_json::Value\<close> in use; an index that is not there yields the value \<^verbatim>\<open>Null\<close>.\<close>

record 'j json_ops =
  json_from_str :: "string \<Rightarrow> 'j option"
  json_index :: "'j \<Rightarrow> string \<Rightarrow> 'j"
  json_as_str :: "'j \<Rightarrow> string option"
  json_to_vec :: "'j \<Rightarrow> 'j list option"

text \<open>What the controller reads of a pod. Each \<^typ>\<open>'a option\<close> is an \<^verbatim>\<open>Option\<close> of the Kubernetes type.\<close>

record container_status =
  cs_name :: string
  cs_container_id :: "string option"

record pod =
  pod_name :: string
  pod_spec :: "string option option"
  pod_annotations :: "string \<Rightarrow> string option"
  pod_status :: "container_status list option option"

text \<open>
  The surroundings of a call: the environment variable \<^verbatim>\<open>MY_NODE_NAME\<close>, the standard output of a
  command (\<^term>\<open>None\<close> if it cannot be started), the JSON library, and the pod the API server returns
  for a namespace and a name (\<^term>\<open>None\<close> if the client cannot be set up or the request fails).
\<close>

record 'j host =
  my_node_name :: "string option"
  stdout_of :: "string list \<Rightarrow> string option"
  json :: "'j json_ops"
  kube_get :: "string \<Rightarrow> string \<Rightarrow> pod option"

datatype 'j rs_arg = RStr string | RNum int | RJson 'j

datatype 'j rs_action = Println string "'j rs_arg list" | Eprintln string "'j rs_arg list" | Spawn "string list"

type_synonym ('j, 'm) rs_run = "'j rs_action list \<times> 'm \<times> unit rust_result"

text \<open>\<^verbatim>\<open>_ = f(...); k\<close>: the error of \<^verbatim>\<open>f\<close> is dropped, its panic is not.\<close>

definition discard :: "('j, 'm) rs_run \<Rightarrow> ('m \<Rightarrow> ('j, 'm) rs_run) \<Rightarrow> ('j, 'm) rs_run" where
  "discard x k =
     (case x of (l, m, r) \<Rightarrow>
        if r = Panic then (l, m, Panic) else (case k m of (l', m', r') \<Rightarrow> (l @ l', m', r')))"

definition quot :: "string \<Rightarrow> string" where "quot s = [CHR 0x27] @ s @ [CHR 0x27]"

section \<open>Storing the commands of a pod\<close>

definition find_cmd :: "string \<Rightarrow> string \<Rightarrow> string list" where
  "find_cmd root dir_name = [''find'', root, ''-type'', ''d'', ''-name'', dir_name]"

definition cgroup_path :: "'j host \<Rightarrow> string \<Rightarrow> string option" where
  "cgroup_path h dir_name =
     do {
       out \<leftarrow> stdout_of h (find_cmd ''/sys/fs/cgroup/unified/kubepods'' dir_name);
       if length out = 0
       then do { v1 \<leftarrow> stdout_of h (find_cmd ''/sys/fs/cgroup/kubepods'' dir_name); from_utf8 v1 }
       else from_utf8 out
     }"

text \<open>From the container id to the text of the cgroup id, the inode number that \<^verbatim>\<open>ls\<close> prints first.\<close>

definition cgroup_id_text :: "'j host \<Rightarrow> string \<Rightarrow> string option" where
  "cgroup_id_text h cid =
     do {
       dir_name \<leftarrow> (let vec = str_split ''//'' cid in if 1 < length vec then Some (vec ! 1) else None);
       path \<leftarrow> cgroup_path h dir_name;
       out \<leftarrow> stdout_of h [''ls'', ''-ladi'', str_trim path];
       ls_cg_out \<leftarrow> from_utf8 out;
       Some (str_split '' '' ls_cg_out ! 0)
     }"

definition create_resize_bpf_map_entry ::
  "('m, u64, pod_command) map_ops \<Rightarrow> 'j host \<Rightarrow> string \<Rightarrow> string \<Rightarrow> 'm \<Rightarrow> ('j, 'm) rs_run" where
  "create_resize_bpf_map_entry mops h cid command rc_map =
     (case cgroup_id_text h cid of
        None \<Rightarrow> ([], rc_map, Panic)
      | Some id_text \<Rightarrow>
          let l1 = [Println (''DBG: cgroup_id: '' @ quot ''{}'' @ '' , cmd: '' @ quot ''{}'') [RStr id_text, RStr command]] in
          case u64_from_str id_text of
            None \<Rightarrow> (l1, rc_map, Panic)
          | Some cgroup_id_key \<Rightarrow>
              case cmd_value (as_bytes command) of
                None \<Rightarrow> (l1, rc_map, Panic)
              | Some v \<Rightarrow>
                  let (m', result) = map_update mops rc_map cgroup_id_key \<lparr>cmd = v\<rparr> BPF_ANY
                  in (l1 @ [Println (''DBG: rc_map update done. result: '' @ quot ''{:?}'') [RNum result]], m', Ok ()))"

fun store_commands ::
  "('m, u64, pod_command) map_ops \<Rightarrow> 'j host \<Rightarrow> string \<Rightarrow> 'j list \<Rightarrow> 'm \<Rightarrow> ('j, 'm) rs_run" where
  "store_commands mops h cid [] rc_map = ([], rc_map, Ok ())"
| "store_commands mops h cid (c # cmds) rc_map =
     (case json_as_str (json h) c of
        None \<Rightarrow> ([], rc_map, Panic)
      | Some command \<Rightarrow> discard (create_resize_bpf_map_entry mops h cid command rc_map) (store_commands mops h cid cmds))"

fun handle_statuses ::
  "('m, u64, pod_command) map_ops \<Rightarrow> 'j host \<Rightarrow> 'j \<Rightarrow> string \<Rightarrow> container_status list \<Rightarrow> 'm \<Rightarrow> ('j, 'm) rs_run" where
  "handle_statuses mops h resize_json cname [] rc_map = ([], rc_map, Ok ())"
| "handle_statuses mops h resize_json cname (cs # css) rc_map =
     (if cname = cs_name cs then
        (case cs_container_id cs of
           None \<Rightarrow> handle_statuses mops h resize_json cname css rc_map
         | Some cid \<Rightarrow>
             (case json_to_vec (json h) (json_index (json h) resize_json ''commands'') of
                None \<Rightarrow> ([], rc_map, Err)
              | Some cmds \<Rightarrow>
                  discard (store_commands mops h cid cmds rc_map) (handle_statuses mops h resize_json cname css)))
      else handle_statuses mops h resize_json cname css rc_map)"

definition other_node :: "string \<Rightarrow> pod \<Rightarrow> bool" where
  "other_node me p \<longleftrightarrow> (case pod_spec p of Some node_name \<Rightarrow> node_name \<noteq> Some me | None \<Rightarrow> False)"

definition pod_line :: "pod \<Rightarrow> 'j rs_action" where
  "pod_line p = Println (''DBG: Pod: '' @ quot ''{}'') [RStr (pod_name p)]"

definition handle_k8s_pod ::
  "('m, u64, pod_command) map_ops \<Rightarrow> 'j host \<Rightarrow> pod \<Rightarrow> 'm \<Rightarrow> ('j, 'm) rs_run" where
  "handle_k8s_pod mops h p rc_map =
     (case my_node_name h of
        None \<Rightarrow> ([], rc_map, Panic)
      | Some me \<Rightarrow>
          discard ([pod_line p], rc_map, Ok ()) (\<lambda>rc_map.
            if other_node me p then ([], rc_map, Ok ())
            else case pod_annotations p ''ebpf-resize'' of
              None \<Rightarrow> ([], rc_map, Ok ())
            | Some ann \<Rightarrow>
                (case json_from_str (json h) ann of
                   None \<Rightarrow> ([], rc_map, Err)
                 | Some resize_json \<Rightarrow>
                     (case json_as_str (json h) (json_index (json h) resize_json ''cname'') of
                        None \<Rightarrow> ([], rc_map, Panic)
                      | Some cname \<Rightarrow>
                          (case pod_status p of
                             Some (Some css) \<Rightarrow> handle_statuses mops h resize_json cname css rc_map
                           | _ \<Rightarrow> ([], rc_map, Ok ()))))))"

text \<open>
  The watch loop. An element is what \<^verbatim>\<open>try_next\<close> yields, with the surroundings at that time: a pod, or
  an error (\<^term>\<open>None\<close>), which ends the loop; the stream ends with the list.
\<close>

fun watch_pods ::
  "('m, u64, pod_command) map_ops \<Rightarrow> ('j host \<times> pod) option list \<Rightarrow> 'm \<Rightarrow> ('j, 'm) rs_run" where
  "watch_pods mops [] rc_map = ([], rc_map, Ok ())"
| "watch_pods mops (None # items) rc_map = ([], rc_map, Err)"
| "watch_pods mops (Some (h, p) # items) rc_map =
     discard ([pod_line p], rc_map, Ok ()) (\<lambda>rc_map.
       discard (handle_k8s_pod mops h p rc_map) (watch_pods mops items))"

section \<open>Resizing a pod on an event\<close>

definition resize_k8s_pod :: "'j host \<Rightarrow> string \<Rightarrow> string \<Rightarrow> string \<Rightarrow> 'j rs_action list \<times> unit rust_result" where
  "resize_k8s_pod h pod_ns name container_name =
     (case kube_get h pod_ns name of
        None \<Rightarrow> ([], Err)
      | Some v1_pod \<Rightarrow>
          case pod_annotations v1_pod ''ebpf-resize'' of
            None \<Rightarrow> ([], Ok ())
          | Some ann \<Rightarrow>
              case json_from_str (json h) ann of
                None \<Rightarrow> ([], Err)
              | Some resize_json \<Rightarrow>
                  let resize = json_index (json h) resize_json ''resize'';
                      l1 = [Println (''DBG: resizing pod NS: '' @ quot ''{}'' @ '' NAME: '' @ quot ''{}'' @ '' CNAME: '' @ quot ''{}''
                              @ '' RESIZE: '' @ quot ''{:?}'') [RStr pod_ns, RStr name, RStr container_name, RJson resize]]
                  in case json_as_str (json h) resize of
                       None \<Rightarrow> (l1, Panic)
                     | Some r \<Rightarrow>
                         let c = [''./patch-pod-resources.sh'', name, container_name, r, pod_ns] in
                         case stdout_of h c of
                           None \<Rightarrow> (l1, Panic)
                         | Some rszout \<Rightarrow>
                             (l1 @ [Spawn c, Println (''DBG: RSZOUT: '' @ quot ''{:?}'') [RStr rszout]], Ok ()))"

text \<open>The part of \<^verbatim>\<open>handle_pod_snoop_event\<close> after the event has been decoded.\<close>

definition resize_by_ids :: "'j host \<Rightarrow> u64 \<Rightarrow> u32 \<Rightarrow> 'j rs_action list \<times> unit rust_result" where
  "resize_by_ids h cgid pid =
     (let js = json h in
      case do { out \<leftarrow> stdout_of h [''./get-podns-podname-ctrname.sh'', dec (unat cgid), dec (unat pid)]; from_utf8 out } of
        None \<Rightarrow> ([], Panic)
      | Some pod_info_str \<Rightarrow>
          if length pod_info_str = 0 then ([], Ok ())
          else case do { v \<leftarrow> json_from_str js pod_info_str;
                         pod_ns \<leftarrow> json_as_str js (json_index js v ''pod_ns'');
                         name \<leftarrow> json_as_str js (json_index js v ''pod_name'');
                         container_name \<leftarrow> json_as_str js (json_index js v ''container_name'');
                         Some (pod_ns, name, container_name) } of
            None \<Rightarrow> ([], Panic)
          | Some (pod_ns, name, container_name) \<Rightarrow>
              let l1 = [Println (''VDBG: resizing pod NS: '' @ quot ''{}'' @ '' NAME: '' @ quot ''{}'' @ '' CNAME: '' @ quot ''{}'')
                          [RStr pod_ns, RStr name, RStr container_name]];
                  (l2, r) = resize_k8s_pod h pod_ns name container_name
              in (l1 @ l2, if r = Panic then Panic else Ok ()))"

definition handle_pod_snoop_event ::
  "(bytes \<Rightarrow> pod_exec_event option) \<Rightarrow> 'j host \<Rightarrow> int \<Rightarrow> bytes \<Rightarrow> 'j rs_action list \<times> unit rust_result" where
  "handle_pod_snoop_event copy_from_bytes h cpu data =
     (case copy_from_bytes data of
        None \<Rightarrow> ([], Panic)
      | Some px_event \<Rightarrow>
          if utf8 (map unat (cgroup_cmd px_event))
          then resize_by_ids h (cgroup_id px_event) (cgroup_pid px_event)
          else ([], Panic))"

definition handle_lost_events :: "int \<Rightarrow> u64 \<Rightarrow> 'j rs_action list" where
  "handle_lost_events cpu count = [Eprintln ''Lost {} events on CPU {}'' [RNum (uint count), RNum cpu]]"

text \<open>
  The perf thread: rounds of \<^verbatim>\<open>perf.poll\<close>, each with the callbacks it makes, or an error (\<^term>\<open>None\<close>), which
  ends the loop. \<^term>\<open>None\<close> as the result: still polling after the given rounds.
\<close>

datatype perf_call = Sample int bytes | Lost int u64

fun perf_callbacks ::
  "(bytes \<Rightarrow> pod_exec_event option) \<Rightarrow> ('j host \<times> perf_call) list \<Rightarrow> 'j rs_action list \<times> unit rust_result" where
  "perf_callbacks copy [] = ([], Ok ())"
| "perf_callbacks copy ((h, Lost cpu n) # cs) =
     (case perf_callbacks copy cs of (l, r) \<Rightarrow> (handle_lost_events cpu n @ l, r))"
| "perf_callbacks copy ((h, Sample cpu data) # cs) =
     (case handle_pod_snoop_event copy h cpu data of
        (l, Panic) \<Rightarrow> (l, Panic)
      | (l, _) \<Rightarrow> (case perf_callbacks copy cs of (l', r) \<Rightarrow> (l @ l', r)))"

fun perf_thread ::
  "(bytes \<Rightarrow> pod_exec_event option) \<Rightarrow> ('j host \<times> perf_call) list option list \<Rightarrow>
   'j rs_action list \<times> unit rust_result option" where
  "perf_thread copy [] = ([], None)"
| "perf_thread copy (None # rounds) = ([], Some Err)"
| "perf_thread copy (Some cs # rounds) =
     (case perf_callbacks copy cs of
        (l, Panic) \<Rightarrow> (l, Some Panic)
      | (l, _) \<Rightarrow> (case perf_thread copy rounds of (l', r) \<Rightarrow> (l @ l', r)))"

section \<open>Starting up\<close>

text \<open>Which of the steps before the watch succeed, and how the perf thread ends (\<^term>\<open>None\<close>: it does not).\<close>

record startup =
  su_setrlimit :: int
  su_client :: bool
  su_open :: bool
  su_load :: bool
  su_attach :: bool
  su_thread :: "unit rust_result option"

definition bump_memlock_rlimit :: "int \<Rightarrow> unit rust_result" where
  "bump_memlock_rlimit rc = (if rc \<noteq> 0 then Err else Ok ())"

definition load_ebpf_tracer_and_watch_k8s_pods ::
  "('m, u64, pod_command) map_ops \<Rightarrow> startup \<Rightarrow> ('j host \<times> pod) option list \<Rightarrow> 'm \<Rightarrow>
   'j rs_action list \<times> 'm \<times> unit rust_result option" where
  "load_ebpf_tracer_and_watch_k8s_pods mops su items rc_map =
     (if \<not> (su_client su \<and> su_open su \<and> su_load su \<and> su_attach su) then ([], rc_map, Some Err)
      else case watch_pods mops items rc_map of
        (l, m, Ok u) \<Rightarrow> (l, m, map_option (\<lambda>r. if r = Panic then Panic else Ok ()) (su_thread su))
      | (l, m, r) \<Rightarrow> (l, m, Some r))"

definition resize_main ::
  "('m, u64, pod_command) map_ops \<Rightarrow> startup \<Rightarrow> ('j host \<times> pod) option list \<Rightarrow> 'm \<Rightarrow>
   'j rs_action list \<times> 'm \<times> unit rust_result option" where
  "resize_main mops su items rc_map =
     (if bump_memlock_rlimit (su_setrlimit su) = Err then ([], rc_map, Some Err)
      else case load_ebpf_tracer_and_watch_k8s_pods mops su items rc_map of
        (l, m, None) \<Rightarrow> (l, m, None)
      | (l, m, Some Panic) \<Rightarrow> (l, m, Some Panic)
      | (l, m, Some r) \<Rightarrow> (l @ [Println ''DBG: DONE-DONE'' []], m, Some (Ok ())))"

section \<open>Lemmas on the map entries\<close>

text \<open>The key under which the commands of a container are stored.\<close>

definition cgroup_key :: "'j host \<Rightarrow> string \<Rightarrow> u64 option" where
  "cgroup_key h cid = Option.bind (cgroup_id_text h cid) u64_from_str"

lemma cgroup_key_found:
  assumes "CHR ''/'' \<notin> set scheme" and "CHR ''/'' \<notin> set dir"
    and "stdout_of h (find_cmd ''/sys/fs/cgroup/unified/kubepods'' dir) = Some (path @ nl)"
    and "list_all graphic path" and "path \<noteq> []"
    and "stdout_of h [''ls'', ''-ladi'', path] = Some (dec n @ '' '' @ rest)"
    and "utf8 (map of_char (dec n @ '' '' @ rest))" and "n < 2 ^ 64"
  shows "cgroup_key h (scheme @ ''//'' @ dir) = Some (of_nat n)"
proof -
  have "str_split ''//'' (scheme @ ''//'' @ dir) = [scheme, dir]"
    using str_split_first [of "''//''" scheme dir] str_split_none [of "''//''" dir] assms(1,2) by simp
  moreover have "from_utf8 (path @ nl) = Some (path @ nl)"
    using assms(4) by (intro from_utf8_ascii) (auto simp: list_all_iff graphic_def nl_def)
  moreover have "CHR '' '' \<notin> set (dec n)"
    using dec_all_digits [of n] by (auto simp: list_all_iff is_digit_def)
  then have "str_split '' '' (dec n @ '' '' @ rest) ! 0 = dec n"
    using str_split_first [of "'' ''" "dec n" rest] by simp
  ultimately show ?thesis
    using assms by (simp add: cgroup_key_def cgroup_id_text_def cgroup_path_def str_trim_line from_utf8_def
        u64_from_str_dec)
qed

definition padded_command :: "string \<Rightarrow> pod_command" where
  "padded_command c = \<lparr>cmd = as_bytes c @ replicate (BUF_SIZE - length c) 0\<rparr>"

lemma as_bytes_length [simp]: "length (as_bytes s) = length s"
  by (simp add: as_bytes_def)

lemma create_result:
  "snd (snd (create_resize_bpf_map_entry mops h cid c m)) =
     (if cgroup_key h cid \<noteq> None \<and> length c \<le> BUF_SIZE then Ok () else Panic)"
  by (auto simp: create_resize_bpf_map_entry_def cgroup_key_def cmd_value_eq Let_def case_prod_beta
      split: option.splits bind_splits)

lemma create_map:
  "fst (snd (create_resize_bpf_map_entry mops h cid c m)) =
     (case cgroup_key h cid of
        None \<Rightarrow> m
      | Some k \<Rightarrow> if length c \<le> BUF_SIZE then fst (map_update mops m k (padded_command c) BPF_ANY) else m)"
  by (auto simp: create_resize_bpf_map_entry_def cgroup_key_def padded_command_def cmd_value_eq Let_def case_prod_beta
      split: option.splits bind_splits)

lemma discard_result:
  "snd (snd (discard x k)) = (if snd (snd x) = Panic then Panic else snd (snd (k (fst (snd x)))))"
  "fst (snd (discard x k)) = (if snd (snd x) = Panic then fst (snd x) else fst (snd (k (fst (snd x)))))"
  by (auto simp: discard_def split: prod.splits)

lemmas run_results = create_result create_map discard_result

text \<open>A list of commands that are strings and fit leaves the last one in the map, and nothing else.\<close>

definition has_room :: "('m, 'k, 'v) map_ops \<Rightarrow> nat \<Rightarrow> 'm \<Rightarrow> 'k \<Rightarrow> bool" where
  "has_room mops n m k \<longleftrightarrow> map_lookup mops m k \<noteq> None \<or>
     finite (dom (map_lookup mops m)) \<and> card (dom (map_lookup mops m)) < n"

lemma has_room_update:
  assumes "bpf_hash_map mops n" and "has_room mops n m k"
  shows "map_lookup mops (fst (map_update mops m k v BPF_ANY)) = (map_lookup mops m)(k \<mapsto> v)"
    and "has_room mops n (fst (map_update mops m k v BPF_ANY)) k"
proof -
  show "map_lookup mops (fst (map_update mops m k v BPF_ANY)) = (map_lookup mops m)(k \<mapsto> v)"
    using bpf_hash_map.room [OF assms(1)] assms(2)
    by (simp add: has_room_def bpf_map.lookup_update [OF bpf_hash_map.axioms(1) [OF assms(1)]])
  then show "has_room mops n (fst (map_update mops m k v BPF_ANY)) k" by (simp add: has_room_def)
qed

lemma store_commands_last:
  assumes "bpf_hash_map mops n" and "cgroup_key h cid = Some k" and "has_room mops n m k"
    and "map (json_as_str (json h)) js = map Some cs" and "list_all (\<lambda>c. length c \<le> BUF_SIZE) cs"
  shows "snd (snd (store_commands mops h cid js m)) = Ok () \<and>
    map_lookup mops (fst (snd (store_commands mops h cid js m))) =
      (if cs = [] then map_lookup mops m else (map_lookup mops m)(k \<mapsto> padded_command (last cs)))"
  using assms(3-5)
proof (induction js arbitrary: cs m)
  case (Cons j js)
  then obtain c cs' where cs: "cs = c # cs'" "json_as_str (json h) j = Some c" "map (json_as_str (json h)) js = map Some cs'"
    by (cases cs) auto
  note up = has_room_update [OF assms(1) Cons.prems(1), of "padded_command c"]
  show ?case using Cons.IH [OF up(2) cs(3)] Cons.prems(3) cs(1,2) assms(2) by (simp add: run_results up(1) fun_eq_iff)
qed simp

lemma store_commands_panics_iff:
  assumes "map (json_as_str (json h)) js = map Some cs"
  shows "snd (snd (store_commands mops h cid js m)) = Panic \<longleftrightarrow>
    cs \<noteq> [] \<and> (cgroup_key h cid = None \<or> \<not> list_all (\<lambda>c. length c \<le> BUF_SIZE) cs)"
  using assms
proof (induction js arbitrary: cs m)
  case (Cons j js)
  then obtain c cs' where cs: "cs = c # cs'" "json_as_str (json h) j = Some c" "map (json_as_str (json h)) js = map Some cs'"
    by (cases cs) auto
  then show ?case using Cons.IH [OF cs(3)] by (auto simp: run_results)
qed simp

section \<open>What a pod asks for\<close>

text \<open>
  The request of a pod, if it runs on this node and has a readable annotation and container statuses:
  the annotation, the name of the container and the statuses. Its entries are all pairs of a cgroup of
  a container of that name and a command that fits.
\<close>

definition pod_request :: "'j host \<Rightarrow> pod \<Rightarrow> ('j \<times> string \<times> container_status list) option" where
  "pod_request h p =
     do {
       me \<leftarrow> my_node_name h;
       ann \<leftarrow> if other_node me p then None else pod_annotations p ''ebpf-resize'';
       resize_json \<leftarrow> json_from_str (json h) ann;
       cname \<leftarrow> json_as_str (json h) (json_index (json h) resize_json ''cname'');
       status \<leftarrow> pod_status p;
       css \<leftarrow> status;
       Some (resize_json, cname, css)
     }"

definition container_keys :: "'j host \<Rightarrow> string \<Rightarrow> container_status list \<Rightarrow> u64 list" where
  "container_keys h cname css =
     List.map_filter (\<lambda>cs. if cs_name cs = cname then Option.bind (cs_container_id cs) (cgroup_key h) else None) css"

definition commands_of :: "'j host \<Rightarrow> 'j \<Rightarrow> string list" where
  "commands_of h resize_json =
     (case json_to_vec (json h) (json_index (json h) resize_json ''commands'') of
        None \<Rightarrow> []
      | Some js \<Rightarrow> List.map_filter (json_as_str (json h)) js)"

definition fitting :: "string list \<Rightarrow> pod_command list" where
  "fitting cs = map padded_command (filter (\<lambda>c. length c \<le> BUF_SIZE) cs)"

definition requested_entries :: "'j host \<Rightarrow> pod \<Rightarrow> (u64 \<times> pod_command) list" where
  "requested_entries h p =
     (case pod_request h p of
        None \<Rightarrow> []
      | Some (resize_json, cname, css) \<Rightarrow>
          List.product (container_keys h cname css) (fitting (commands_of h resize_json)))"

text \<open>Every entry of the second map is in the first one or among \<open>E\<close>.\<close>

definition justified :: "('m, 'k, 'v) map_ops \<Rightarrow> 'm \<Rightarrow> 'm \<Rightarrow> ('k \<times> 'v) set \<Rightarrow> bool" where
  "justified mops m m' E \<longleftrightarrow> (\<forall>k v. map_lookup mops m' k = Some v \<longrightarrow> map_lookup mops m k = Some v \<or> (k, v) \<in> E)"

lemma justified_refl [simp]: "justified mops m m E"
  by (simp add: justified_def)

lemma justified_trans: "justified mops m m' E \<Longrightarrow> justified mops m' m'' F \<Longrightarrow> E \<union> F \<subseteq> G \<Longrightarrow> justified mops m m'' G"
  unfolding justified_def by blast

lemma justified_update:
  "bpf_map mops \<Longrightarrow> (k, v) \<in> E \<Longrightarrow> justified mops m (fst (map_update mops m k v f)) E"
  by (simp add: justified_def bpf_map.lookup_update)

lemma fitting_simps:
  "fitting [] = []"
  "fitting (c # cs) = (if length c \<le> BUF_SIZE then [padded_command c] else []) @ fitting cs"
  by (simp_all add: fitting_def)

lemma store_commands_justified:
  assumes "bpf_map mops"
  shows "justified mops m (fst (snd (store_commands mops h cid js m)))
    (set_option (cgroup_key h cid) \<times> set (fitting (List.map_filter (json_as_str (json h)) js)))"
proof (induction js arbitrary: m)
  case (Cons j js)
  let ?E = "\<lambda>cs. set_option (cgroup_key h cid) \<times> set (fitting cs)"
  show ?case
  proof (cases "json_as_str (json h) j")
    case (Some c)
    let ?m = "fst (snd (create_resize_bpf_map_entry mops h cid c m))"
    have first: "justified mops m ?m (?E [c])"
      by (auto simp: create_map fitting_simps justified_update [OF assms] split: option.split)
    have "justified mops m (fst (snd (store_commands mops h cid js ?m))) (?E (c # List.map_filter (json_as_str (json h)) js))"
      by (rule justified_trans [OF first Cons.IH]) (auto simp: fitting_simps)
    moreover have "justified mops m ?m (?E (c # List.map_filter (json_as_str (json h)) js))"
      by (rule justified_trans [OF first justified_refl [of _ _ "{}"]]) (auto simp: fitting_simps)
    ultimately show ?thesis by (simp add: Some discard_result map_filter_simps)
  qed simp
qed simp

lemma handle_statuses_justified:
  assumes "bpf_map mops"
  shows "justified mops m (fst (snd (handle_statuses mops h rj cname css m)))
    (set (container_keys h cname css) \<times> set (fitting (commands_of h rj)))"
proof (induction css arbitrary: m)
  case (Cons cs css)
  let ?E = "\<lambda>css. set (container_keys h cname css) \<times> set (fitting (commands_of h rj))"
  have sub: "?E css \<subseteq> ?E (cs # css)"
    by (auto simp: container_keys_def map_filter_simps split: option.splits)
  note skip = justified_trans [OF justified_refl [of _ _ "{}"] Cons.IH, unfolded Un_empty_left, OF sub]
  show ?case
  proof (cases "cname = cs_name cs \<and> cs_container_id cs \<noteq> None \<and>
      json_to_vec (json h) (json_index (json h) rj ''commands'') \<noteq> None")
    case True
    then obtain cid js where c: "cs_container_id cs = Some cid" "cname = cs_name cs"
      "json_to_vec (json h) (json_index (json h) rj ''commands'') = Some js" by auto
    let ?m = "fst (snd (store_commands mops h cid js m))"
    have key: "set_option (cgroup_key h cid) \<subseteq> set (container_keys h cname (cs # css))"
      using c by (auto simp: container_keys_def map_filter_simps split: option.splits)
    have first: "justified mops m ?m (?E (cs # css))"
      by (rule justified_trans [OF store_commands_justified [OF assms] justified_refl [of _ _ "{}"]])
        (use key in \<open>auto simp: commands_of_def c(3)\<close>)
    have "justified mops m (fst (snd (handle_statuses mops h rj cname css ?m))) (?E (cs # css))"
      by (rule justified_trans [OF first Cons.IH]) (use sub in auto)
    with first show ?thesis by (simp add: c discard_result)
  next
    case False
    with skip show ?thesis by (auto split: option.splits)
  qed
qed simp

lemma handle_k8s_pod_map:
  "fst (snd (handle_k8s_pod mops h p m)) =
     (case pod_request h p of None \<Rightarrow> m | Some (rj, cname, css) \<Rightarrow> fst (snd (handle_statuses mops h rj cname css m)))"
  by (auto simp: handle_k8s_pod_def pod_request_def discard_result split: option.splits)

lemma handle_k8s_pod_result:
  "pod_request h p = Some (rj, cname, css) \<Longrightarrow>
   snd (snd (handle_k8s_pod mops h p m)) = snd (snd (handle_statuses mops h rj cname css m))"
  by (auto simp: handle_k8s_pod_def pod_request_def discard_result split: option.splits bind_splits if_splits)

lemma handle_k8s_pod_justified:
  assumes "bpf_map mops"
  shows "justified mops m (fst (snd (handle_k8s_pod mops h p m))) (set (requested_entries h p))"
  using handle_statuses_justified [OF assms]
  by (auto simp: handle_k8s_pod_map requested_entries_def split: option.split)

lemma watch_justified:
  assumes "bpf_map mops"
  shows "justified mops m (fst (snd (watch_pods mops items m)))
    {e. \<exists>h p. Some (h, p) \<in> set items \<and> e \<in> set (requested_entries h p)}"
  using assms
proof (induction mops items m rule: watch_pods.induct)
  case (3 mops h p items m)
  let ?E = "\<lambda>items. {e. \<exists>h p. Some (h, p) \<in> set items \<and> e \<in> set (requested_entries h p)}"
  let ?m = "fst (snd (handle_k8s_pod mops h p m))"
  note first = handle_k8s_pod_justified [OF "3.prems", of m h p]
  show ?case
  proof (cases "snd (snd (handle_k8s_pod mops h p m)) = Panic")
    case True
    have "justified mops m ?m (?E (Some (h, p) # items))"
      by (rule justified_trans [OF first justified_refl [of _ _ "{}"]]) auto
    with True show ?thesis by (simp add: discard_result)
  next
    case False
    with "3.IH" "3.prems" have "justified mops ?m (fst (snd (watch_pods mops items ?m))) (?E items)"
      by (simp add: discard_result)
    then have "justified mops m (fst (snd (watch_pods mops items ?m))) (?E (Some (h, p) # items))"
      by (rule justified_trans [OF first]) auto
    with False show ?thesis by (simp add: discard_result)
  qed
qed simp_all

text \<open>The statuses that are skipped: those of other containers.\<close>

lemma handle_statuses_skip:
  "list_all (\<lambda>cs. cs_name cs \<noteq> cname) pre \<Longrightarrow>
   handle_statuses mops h rj cname (pre @ css) m = handle_statuses mops h rj cname css m"
  by (induction pre) auto

lemma handle_statuses_one:
  assumes "list_all (\<lambda>cs. cs_name cs \<noteq> cname) pre" and "list_all (\<lambda>cs. cs_name cs \<noteq> cname) post"
    and "cs_name cs = cname" and "cs_container_id cs = Some cid"
    and "json_to_vec (json h) (json_index (json h) rj ''commands'') = Some js"
  shows "snd (handle_statuses mops h rj cname (pre @ cs # post) m) =
    (case store_commands mops h cid js m of (l, m', r) \<Rightarrow> (m', if r = Panic then Panic else Ok ()))"
  using handle_statuses_skip [OF assms(1), of mops h rj "cs # post" m] handle_statuses_skip [OF assms(2), of mops h rj "[]"] assms(3-5)
  by (simp add: discard_def case_prod_beta prod_eq_iff)

lemma handled_pod_stores_last:
  assumes "bpf_hash_map mops n" and "pod_request h p = Some (rj, cname, pre @ cs # post)"
    and "list_all (\<lambda>c. cs_name c \<noteq> cname) (pre @ post)" and "cs_name cs = cname"
    and "cs_container_id cs = Some cid" and "cgroup_key h cid = Some k"
    and "json_to_vec (json h) (json_index (json h) rj ''commands'') = Some js"
    and "map (json_as_str (json h)) js = map Some cmds" and "cmds \<noteq> []"
    and "list_all (\<lambda>c. length c \<le> BUF_SIZE) cmds" and "has_room mops n m k"
  shows "snd (snd (handle_k8s_pod mops h p m)) = Ok () \<and>
    map_lookup mops (fst (snd (handle_k8s_pod mops h p m))) = (map_lookup mops m)(k \<mapsto> padded_command (last cmds))"
proof -
  note st = store_commands_last [OF assms(1,6,11,8,10)]
  have "snd (handle_statuses mops h rj cname (pre @ cs # post) m) =
      (fst (snd (store_commands mops h cid js m)), Ok ())"
    using handle_statuses_one [of cname pre post cs cid h rj js mops m] assms(3-5,7) st by (simp add: case_prod_beta)
  with st assms(9) show ?thesis
    by (simp add: handle_k8s_pod_result [OF assms(2)] handle_k8s_pod_map assms(2))
qed

section \<open>Concrete surroundings\<close>

text \<open>A JSON value, and a library that reads the three documents of the example below.\<close>

datatype jval = JNull | JStr string | JArr "jval list" | JObj "(string \<times> jval) list"

fun jval_index :: "jval \<Rightarrow> string \<Rightarrow> jval" where
  "jval_index (JObj kvs) k = (case map_of kvs k of Some v \<Rightarrow> v | None \<Rightarrow> JNull)"
| "jval_index _ k = JNull"

fun jval_str :: "jval \<Rightarrow> string option" where
  "jval_str (JStr s) = Some s"
| "jval_str _ = None"

fun jval_vec :: "jval \<Rightarrow> jval list option" where
  "jval_vec (JArr vs) = Some vs"
| "jval_vec _ = None"

definition demo_json :: "string list \<Rightarrow> jval json_ops" where
  "demo_json cmds = \<lparr>json_from_str = (\<lambda>s.
       if s = ''resize'' then Some (JObj [(''cname'', JStr ''web''), (''commands'', JArr (map JStr cmds)), (''resize'', JStr ''more'')])
       else if s = ''info'' then Some (JObj [(''pod_ns'', JStr ''default''), (''pod_name'', JStr ''pod''), (''container_name'', JStr ''web'')])
       else None),
     json_index = jval_index, json_as_str = jval_str, json_to_vec = jval_vec\<rparr>"

definition demo_pod :: pod where
  "demo_pod = \<lparr>pod_name = ''pod'', pod_spec = Some (Some ''node''), pod_annotations = [''ebpf-resize'' \<mapsto> ''resize''],
     pod_status = Some (Some [\<lparr>cs_name = ''web'', cs_container_id = Some ''cri://7a''\<rparr>])\<rparr>"

definition demo_host :: "string list \<Rightarrow> jval host" where
  "demo_host cmds = \<lparr>my_node_name = Some ''node'',
     stdout_of = (\<lambda>c. if c = find_cmd ''/sys/fs/cgroup/unified/kubepods'' ''7a'' then Some (''/sys/7a'' @ nl)
       else if c = [''ls'', ''-ladi'', ''/sys/7a''] then Some ''7 drwx''
       else if c = [''./get-podns-podname-ctrname.sh'', ''7'', ''42''] then Some ''info''
       else if hd c = ''./patch-pod-resources.sh'' then Some ''patched'' else Some []),
     json = demo_json cmds, kube_get = (\<lambda>ns n. if ns = ''default'' \<and> n = ''pod'' then Some demo_pod else None)\<rparr>"

definition demo_request :: "string list \<Rightarrow> jval" where
  "demo_request cmds = JObj [(''cname'', JStr ''web''), (''commands'', JArr (map JStr cmds)), (''resize'', JStr ''more'')]"

lemma dec_7: "dec 7 = ''7''" and dec_42: "dec 42 = ''42''"
  by code_simp+

lemma demo_key: "cgroup_key (demo_host cmds) ''cri://7a'' = Some 7"
  using cgroup_key_found [of "''cri:''" "''7a''" "demo_host cmds" "''/sys/7a''" 7 "''drwx''"]
  by (simp add: demo_host_def find_cmd_def dec_7 graphic_def nl_def)

lemma demo_requests:
  "pod_request (demo_host cmds) demo_pod =
     Some (demo_request cmds, ''web'', [\<lparr>cs_name = ''web'', cs_container_id = Some ''cri://7a''\<rparr>])"
  by (simp add: pod_request_def demo_host_def demo_pod_def demo_json_def other_node_def demo_request_def)

lemma demo_commands:
  "json_to_vec (json (demo_host cmds)) (json_index (json (demo_host cmds)) (demo_request cmds) ''commands'') =
     Some (map JStr cmds)"
  "map (json_as_str (json (demo_host cmds))) (map JStr cmds) = map Some cmds"
  by (simp_all add: demo_host_def demo_json_def demo_request_def comp_def)

section \<open>Properties\<close>

text \<open>C4: the commands of a pod end up in the map. When the annotation of a pod of this node names a
  container with a known cgroup and a list of commands that fit, handling the pod succeeds and the
  map holds the last command of the list for that cgroup: the earlier ones are overwritten, nothing
  else changes.\<close>

theorem pod_annotation_stores_last_command:
  assumes "bpf_hash_map mops n" and "pod_request h p = Some (rj, cname, pre @ cs # post)"
    and "list_all (\<lambda>c. cs_name c \<noteq> cname) (pre @ post)" and "cs_name cs = cname"
    and "cs_container_id cs = Some cid" and "cgroup_key h cid = Some k"
    and "json_to_vec (json h) (json_index (json h) rj ''commands'') = Some js"
    and "map (json_as_str (json h)) js = map Some cmds" and "cmds \<noteq> []"
    and "list_all (\<lambda>c. length c \<le> BUF_SIZE) cmds" and "has_room mops n m k"
  shows "snd (snd (handle_k8s_pod mops h p m)) = Ok () \<and>
    map_lookup mops (fst (snd (handle_k8s_pod mops h p m))) = (map_lookup mops m)(k \<mapsto> padded_command (last cmds))"
  by (rule handled_pod_stores_last [OF assms])

theorem pod_annotation_stores_last_command_witness:
  "map_lookup (hash_ops MAX_NUM_CONTAINERS) (fst (snd (handle_k8s_pod (hash_ops MAX_NUM_CONTAINERS)
     (demo_host [''ls'', ''ps'']) demo_pod []))) = [7 \<mapsto> padded_command ''ps'']"
  using pod_annotation_stores_last_command [OF hash.bpf_hash_map_axioms, of "demo_host [''ls'', ''ps'']" demo_pod
      "demo_request [''ls'', ''ps'']" "''web''" "[]" "\<lparr>cs_name = ''web'', cs_container_id = Some ''cri://7a''\<rparr>" "[]"
      "''cri://7a''" 7 "map JStr [''ls'', ''ps'']" "[''ls'', ''ps'']" MAX_NUM_CONTAINERS "[]"]
    demo_commands [of "[''ls'', ''ps'']"]
  by (simp add: demo_requests demo_key has_room_def hash_ops_def MAX_NUM_CONTAINERS_def BUF_SIZE_def)

text \<open>C5: one pod can stop the controller. For a pod of this node whose annotation lists commands, the
  watch goes on with the following pods exactly when the cgroup of the container is found and every
  command has at most 32 bytes; otherwise the thread panics, and no later pod is looked at. An
  empty list of commands does no harm.\<close>

theorem watch_stops_on_bad_command:
  assumes "pod_request h p = Some (rj, cname, pre @ cs # post)"
    and "list_all (\<lambda>c. cs_name c \<noteq> cname) (pre @ post)" and "cs_name cs = cname"
    and "cs_container_id cs = Some cid"
    and "json_to_vec (json h) (json_index (json h) rj ''commands'') = Some js"
    and "map (json_as_str (json h)) js = map Some cmds"
  shows "snd (watch_pods mops (Some (h, p) # items) m) =
    (if cmds \<noteq> [] \<and> (cgroup_key h cid = None \<or> \<not> list_all (\<lambda>c. length c \<le> BUF_SIZE) cmds)
     then (fst (snd (handle_k8s_pod mops h p m)), Panic)
     else snd (watch_pods mops items (fst (snd (handle_k8s_pod mops h p m)))))"
proof -
  have "snd (handle_statuses mops h rj cname (pre @ cs # post) m) =
      (case store_commands mops h cid js m of (l, m', r) \<Rightarrow> (m', if r = Panic then Panic else Ok ()))"
    using assms(2-5) by (intro handle_statuses_one) simp_all
  then have "snd (snd (handle_k8s_pod mops h p m)) =
      (if snd (snd (store_commands mops h cid js m)) = Panic then Panic else Ok ())"
    by (simp add: handle_k8s_pod_result [OF assms(1)] case_prod_beta)
  then show ?thesis
    by (simp add: store_commands_panics_iff [OF assms(6)] prod_eq_iff discard_result)
qed

theorem watch_stops_on_bad_command_witness:
  "snd (snd (watch_pods (hash_ops MAX_NUM_CONTAINERS) [Some (demo_host [replicate 33 CHR ''x''], demo_pod), None] [])) = Panic"
  using watch_stops_on_bad_command [of "demo_host [replicate 33 CHR ''x'']" demo_pod
      "demo_request [replicate 33 CHR ''x'']" "''web''" "[]" "\<lparr>cs_name = ''web'', cs_container_id = Some ''cri://7a''\<rparr>" "[]"
      "''cri://7a''" "map JStr [replicate 33 CHR ''x'']" "[replicate 33 CHR ''x'']" "hash_ops MAX_NUM_CONTAINERS" "[None]" "[]"]
    demo_commands [of "[replicate 33 CHR ''x'']"]
  by (simp add: demo_requests BUF_SIZE_def del: map_map)

text \<open>C6: over any sequence of pods, every entry of the map was there before or is an entry some pod of
  the sequence asked for: the pod runs on this node, the key is the cgroup of a container its
  annotation names, and the value is one of the annotation's commands, padded to 32 bytes.\<close>

theorem watch_entries_requested:
  assumes "bpf_map mops"
    and "map_lookup mops (fst (snd (watch_pods mops items m))) k = Some v"
  shows "map_lookup mops m k = Some v \<or> (\<exists>h p. Some (h, p) \<in> set items \<and> (k, v) \<in> set (requested_entries h p))"
  using watch_justified [OF assms(1), of m items] assms(2) by (auto simp: justified_def)

theorem watch_entries_requested_witness:
  "\<exists>h p. Some (h, p) \<in> set [Some (demo_host [''ls''], demo_pod)] \<and> (7, padded_command ''ls'') \<in> set (requested_entries h p)"
proof -
  let ?items = "[Some (demo_host [''ls''], demo_pod)]"
  have "map_lookup (hash_ops 4096) (fst (snd (watch_pods (hash_ops 4096) ?items []))) 7 = Some (padded_command ''ls'')"
    using demo_commands [of "[''ls'']"]
    by (simp add: discard_result handle_k8s_pod_map demo_requests create_map demo_key inst_defs al_size_def BUF_SIZE_def)
  from watch_entries_requested [OF hash.bpf_map_axioms this] show ?thesis by (simp add: hash_ops_def)
qed


text \<open>The exit status of the controller. It fails when the memory limit cannot be raised, and it
  panics when a pod stops the watch or when, after the end of the watch, the thread that receives the
  events turns out to have panicked; while that thread is polling it waits. In every other case, a
  failure to open, load or attach the BPF program included, it reports success.\<close>

lemma resize_main_status:
  "snd (snd (resize_main mops su items m)) =
     (if su_setrlimit su \<noteq> 0 then Some Err
      else if \<not> (su_client su \<and> su_open su \<and> su_load su \<and> su_attach su) then Some (Ok ())
      else case snd (snd (watch_pods mops items m)) of
        Ok u \<Rightarrow> map_option (\<lambda>r. if r = Panic then Panic else Ok ()) (su_thread su)
      | Err \<Rightarrow> Some (Ok ())
      | Panic \<Rightarrow> Some Panic)"
proof -
  obtain l m' r where w: "watch_pods mops items m = (l, m', r)" by (cases "watch_pods mops items m")
  show ?thesis
    by (cases r; cases "su_thread su"; cases "the (su_thread su)")
      (auto simp: resize_main_def bump_memlock_rlimit_def load_ebpf_tracer_and_watch_k8s_pods_def w)
qed

end
