(* ===== verification/Pod_Resize_Events.thy ===== *)
theory Pod_Resize_Events
  imports Pod_Resize
begin

text \<open>
  The way of an event from the BPF program through the perf buffer to the controller, and the pod resize
  tool as a whole: \<^verbatim>\<open>podsnoop.bpf.c\<close> and \<^verbatim>\<open>main.rs\<close> together.
\<close>

section \<open>The event on its way to user space\<close>

text \<open>
  The memory of the structure the BPF program sends, as \<^verbatim>\<open>podsnoop.h\<close> declares it on a little-endian
  machine: the members at the offsets 0, 8 and 12, then four bytes of padding, which the
  initialisation \<^verbatim>\<open>= {}\<close> clears.
\<close>

definition event_bytes :: "pod_exec_event \<Rightarrow> bytes" where
  "event_bytes e = map (\<lambda>i. byte_of i (cgroup_id e)) [0..<8] @ map (\<lambda>i. byte_of i (cgroup_pid e)) [0..<4] @
     cgroup_cmd e @ replicate 4 0"

text \<open>
  \<^verbatim>\<open>plain::copy_from_bytes\<close> refuses data that is shorter than the target and copies its beginning
  over the target otherwise.
\<close>

locale plain_copy =
  fixes copy_from_bytes :: "bytes \<Rightarrow> pod_exec_event option"
  assumes too_short: "length data < sizeof_pod_exec_event \<Longrightarrow> copy_from_bytes data = None"
  and copied: "length (cgroup_cmd e) = BUF_SIZE \<Longrightarrow> copy_from_bytes (event_bytes e @ rest) = Some e"
begin

lemma handled_short: "length data < sizeof_pod_exec_event \<Longrightarrow> handle_pod_snoop_event copy_from_bytes h cpu data = ([], Panic)"
  by (simp add: handle_pod_snoop_event_def too_short)

lemma handled_ascii:
  assumes "length (cgroup_cmd e) = BUF_SIZE" and "list_all (\<lambda>b. b < 128) (cgroup_cmd e)"
  shows "handle_pod_snoop_event copy_from_bytes h cpu (event_bytes e @ rest) = resize_by_ids h (cgroup_id e) (cgroup_pid e)"
proof -
  have "utf8 (map unat (cgroup_cmd e))"
    using assms(2) by (intro utf8_ascii) (auto simp: list_all_iff word_less_nat_alt)
  then show ?thesis by (simp add: handle_pod_snoop_event_def copied [OF assms(1)])
qed

end

definition copy_event :: "bytes \<Rightarrow> pod_exec_event option" where
  "copy_event data =
     (if length data < sizeof_pod_exec_event then None
      else Some \<lparr>cgroup_id = pid_tgid_join (le32 (data ! 4) (data ! 5) (data ! 6) (data ! 7))
                               (le32 (data ! 0) (data ! 1) (data ! 2) (data ! 3)),
                 cgroup_pid = le32 (data ! 8) (data ! 9) (data ! 10) (data ! 11),
                 cgroup_cmd = take BUF_SIZE (drop 12 data)\<rparr>)"

lemma byte_of_halves:
  "i < 4 \<Longrightarrow> byte_of i (w :: u64) = byte_of i (tid_of w)"
  "i < 4 \<Longrightarrow> byte_of (i + 4) (w :: u64) = byte_of i (tgid_of w)"
  by (auto intro!: bit_word_eqI simp: byte_of_def tid_of_def tgid_of_def bit_simps algebra_simps)

lemma upto8: "[0..<8] = [0, 1, 2, 3, 4, 5, 6, 7 :: nat]" "[0..<4] = [0, 1, 2, 3 :: nat]"
  by code_simp+

lemma sizeof_event: "sizeof_pod_exec_event = 48"
  by code_simp

interpretation plain_event: plain_copy copy_event
proof unfold_locales
  fix e :: pod_exec_event and rest assume len: "length (cgroup_cmd e) = BUF_SIZE"
  let ?w = "cgroup_id e" and ?p = "cgroup_pid e"
  have head: "event_bytes e @ rest =
    byte_of 0 (tid_of ?w) # byte_of 1 (tid_of ?w) # byte_of 2 (tid_of ?w) # byte_of 3 (tid_of ?w) #
    byte_of 0 (tgid_of ?w) # byte_of 1 (tgid_of ?w) # byte_of 2 (tgid_of ?w) # byte_of 3 (tgid_of ?w) #
    byte_of 0 ?p # byte_of 1 ?p # byte_of 2 ?p # byte_of 3 ?p # (cgroup_cmd e @ replicate 4 0 @ rest)"
    using byte_of_halves [of 0 ?w] byte_of_halves [of 1 ?w] byte_of_halves [of 2 ?w] byte_of_halves [of 3 ?w]
    by (simp add: event_bytes_def upto8)
  show "copy_event (event_bytes e @ rest) = Some e"
    unfolding head using len le32_bytes [of "tid_of ?w"] le32_bytes [of "tgid_of ?w"] le32_bytes [of ?p] join_split [of ?w]
    by (simp add: copy_event_def sizeof_event BUF_SIZE_def)
qed (simp add: copy_event_def)

lemma padded_ascii:
  assumes "comm_padded env n" and "list_all (\<lambda>x. x < 128) (c_str (fst (current_comm env n)))"
  shows "list_all (\<lambda>x. x < 128) (fst (current_comm env n))"
proof -
  let ?b = "fst (current_comm env n)"
  have "list_all (\<lambda>x. x < 128) (c_str ?b @ replicate (n - length (c_str ?b)) 0)"
    using assms(2) by (auto simp: list_all_iff)
  with assms(1) show ?thesis unfolding comm_padded_def Let_def by metis
qed

text \<open>The values of the map are 32-byte buffers; whatever the watch stores is.\<close>

definition commands_wf :: "('m, u64, pod_command) map_ops \<Rightarrow> 'm \<Rightarrow> bool" where
  "commands_wf mops m \<longleftrightarrow> (\<forall>k v. map_lookup mops m k = Some v \<longrightarrow> length (cmd v) = BUF_SIZE)"

lemma fitting_wf: "v \<in> set (fitting cs) \<Longrightarrow> length (cmd v) = BUF_SIZE"
  by (auto simp: fitting_def padded_command_def)

lemma justified_wf:
  assumes "justified mops m m' E" and "commands_wf mops m" and "\<And>k v. (k, v) \<in> E \<Longrightarrow> length (cmd v) = BUF_SIZE"
  shows "commands_wf mops m'"
  using assms unfolding justified_def commands_wf_def by blast

lemma requested_wf: "(k, v) \<in> set (requested_entries h p) \<Longrightarrow> length (cmd v) = BUF_SIZE"
  by (auto simp: requested_entries_def fitting_wf split: option.splits)

lemma handled_wf: "bpf_map mops \<Longrightarrow> commands_wf mops m \<Longrightarrow> commands_wf mops (fst (snd (handle_k8s_pod mops h p m)))"
  by (rule justified_wf [OF handle_k8s_pod_justified _ requested_wf])

lemma watch_wf: "bpf_map mops \<Longrightarrow> commands_wf mops m \<Longrightarrow> commands_wf mops (fst (snd (watch_pods mops items m)))"
  by (rule justified_wf [OF watch_justified]) (auto simp: requested_wf)

lemma matching_event_handled:
  assumes "plain_copy copy" and "comm_padded env BUF_SIZE" and "event_matches mops m (pod_event env)"
    and "commands_wf mops m"
  shows "handle_pod_snoop_event copy h cpu (event_bytes (pod_event env) @ rest) =
    resize_by_ids h (current_cgroup_id env) (tid_of (current_pid_tgid env))"
proof -
  obtain v where v: "map_lookup mops m (current_cgroup_id env) = Some v"
    "cmd_equal_from 0 (fst (current_comm env BUF_SIZE)) (cmd v)"
    using assms(3) by (auto simp: event_matches_def pod_event_def split: option.splits)
  have len: "length (fst (current_comm env BUF_SIZE)) = BUF_SIZE" using assms(2) by (simp add: comm_padded_def Let_def)
  have "list_all (\<lambda>x. x < 128) (c_str (fst (current_comm env BUF_SIZE)))"
    using v(2) v(1) assms(4) cmd_equal_from_iff [OF len, of "cmd v" 0] by (simp add: commands_wf_def)
  from padded_ascii [OF assms(2) this] show ?thesis
    using plain_copy.handled_ascii [OF assms(1), of "pod_event env"] len by (simp add: pod_event_def)
qed

text \<open>The scripts a call starts, and the one that patches the pod of an event, if there is such a pod.\<close>

fun spawned :: "'j rs_action list \<Rightarrow> string list list" where
  "spawned [] = []"
| "spawned (Spawn c # as) = c # spawned as"
| "spawned (Println f xs # as) = spawned as"
| "spawned (Eprintln f xs # as) = spawned as"

definition resize_order :: "'j host \<Rightarrow> u64 \<Rightarrow> u32 \<Rightarrow> string list option" where
  "resize_order h cgid pid =
     do {
       out \<leftarrow> stdout_of h [''./get-podns-podname-ctrname.sh'', dec (unat cgid), dec (unat pid)];
       info \<leftarrow> from_utf8 out;
       v \<leftarrow> if info = [] then None else json_from_str (json h) info;
       pod_ns \<leftarrow> json_as_str (json h) (json_index (json h) v ''pod_ns'');
       name \<leftarrow> json_as_str (json h) (json_index (json h) v ''pod_name'');
       container_name \<leftarrow> json_as_str (json h) (json_index (json h) v ''container_name'');
       v1_pod \<leftarrow> kube_get h pod_ns name;
       ann \<leftarrow> pod_annotations v1_pod ''ebpf-resize'';
       resize_json \<leftarrow> json_from_str (json h) ann;
       r \<leftarrow> json_as_str (json h) (json_index (json h) resize_json ''resize'');
       let c = [''./patch-pod-resources.sh'', name, container_name, r, pod_ns];
       map_option (\<lambda>_. c) (stdout_of h c)
     }"

lemma spawned_append: "spawned (as @ bs) = spawned as @ spawned bs"
  by (induction as rule: spawned.induct) auto

lemma spawned_resize: "spawned (fst (resize_by_ids h k pid)) = (case resize_order h k pid of None \<Rightarrow> [] | Some c \<Rightarrow> [c])"
  by (auto simp: resize_by_ids_def resize_order_def resize_k8s_pod_def Let_def case_prod_beta spawned_append
      split: option.split bind_split)

text \<open>
  The perf thread handles the samples in the order of their delivery; a panic in one of them ends it,
  and with it the handling of all later ones.
\<close>

definition callback_spawns :: "(bytes \<Rightarrow> pod_exec_event option) \<Rightarrow> 'j host \<times> perf_call \<Rightarrow> string list list" where
  "callback_spawns copy c = (case c of (h, Sample cpu data) \<Rightarrow> spawned (fst (handle_pod_snoop_event copy h cpu data)) | (h, Lost cpu n) \<Rightarrow> [])"

definition callback_panics :: "(bytes \<Rightarrow> pod_exec_event option) \<Rightarrow> 'j host \<times> perf_call \<Rightarrow> bool" where
  "callback_panics copy c = (case c of (h, Sample cpu data) \<Rightarrow> snd (handle_pod_snoop_event copy h cpu data) = Panic | (h, Lost cpu n) \<Rightarrow> False)"

lemma perf_callbacks_spawn:
  "\<not> list_ex (callback_panics copy) cs \<Longrightarrow>
   snd (perf_callbacks copy cs) \<noteq> Panic \<and> spawned (fst (perf_callbacks copy cs)) = concat (map (callback_spawns copy) cs)"
proof (induction copy cs rule: perf_callbacks.induct)
  case (3 copy h cpu data cs)
  then show ?case
    by (cases "handle_pod_snoop_event copy h cpu data"; cases "snd (handle_pod_snoop_event copy h cpu data)")
      (auto simp: callback_panics_def callback_spawns_def spawned_append split: prod.splits)
qed (auto simp: callback_panics_def callback_spawns_def handle_lost_events_def split: prod.splits)

lemma perf_callbacks_panic:
  "\<not> list_ex (callback_panics copy) pre \<Longrightarrow> callback_panics copy c \<Longrightarrow>
   perf_callbacks copy (pre @ c # post) = perf_callbacks copy (pre @ [c]) \<and> snd (perf_callbacks copy (pre @ [c])) = Panic"
proof (induction copy pre rule: perf_callbacks.induct)
  case (1 copy)
  obtain h p where c: "c = (h, p)" by (cases c)
  with "1.prems" show ?case
    by (cases p) (auto simp: callback_panics_def split: prod.splits rust_result.splits)
next
  case (3 copy h cpu data cs)
  then show ?case
    by (cases "handle_pod_snoop_event copy h cpu data"; cases "snd (handle_pod_snoop_event copy h cpu data)")
      (auto simp: callback_panics_def split: prod.splits)
qed (auto simp: callback_panics_def split: prod.splits)

section \<open>Properties\<close>

text \<open>C7: user space accepts every event the BPF program sends. When \<^verbatim>\<open>podsnoop\<close> sends a record, the
  callback decodes it, its command passes the UTF-8 check (only ASCII commands match), and the pod is
  looked up with the cgroup and the pid of the task that called \<^verbatim>\<open>execve\<close>; a record that is cut short
  is the one thing the decoding panics on.\<close>

theorem snooped_event_accepted:
  assumes "plain_copy copy" and "bpf_perf pops" and "comm_padded env BUF_SIZE"
    and "commands_wf mops (resize_containers_map st)"
    and "perf_records pops (pod_exec_events (fst (podsnoop mops pops env st))) = perf_records pops (pod_exec_events st) @ [e]"
  shows "handle_pod_snoop_event copy h cpu (event_bytes e @ rest) =
      resize_by_ids h (current_cgroup_id env) (tid_of (current_pid_tgid env)) \<and>
    (n < sizeof_pod_exec_event \<longrightarrow> handle_pod_snoop_event copy h cpu (take n (event_bytes e)) = ([], Panic))"
proof -
  have e: "e = pod_event env" "event_matches mops (resize_containers_map st) (pod_event env)"
    using assms(5) by (auto simp: podsnoop_cases [OF assms(2)] split: if_splits)
  show ?thesis
    using matching_event_handled [OF assms(1,3) e(2) assms(4), of h cpu rest]
      plain_copy.handled_short [OF assms(1), of "take n (event_bytes e)" h cpu]
    by (simp add: e(1))
qed

theorem snooped_event_accepted_witness:
  "handle_pod_snoop_event copy_event (demo_host []) 0 (event_bytes (pod_event (demo_env [108, 115])) @ [9]) =
     resize_by_ids (demo_host []) 7 42"
proof -
  let ?e = "demo_env [108, 115]"
  let ?st = "\<lparr>resize_containers_map = [(7 :: u64, \<lparr>cmd = [108, 115] @ replicate 30 0\<rparr>)], pod_exec_events = (5, []), ps_trace = []\<rparr>"
  have "event_matches (hash_ops 4096) (resize_containers_map ?st) (pod_event ?e)" by code_simp
  then have "perf_records perf_inst_ops (pod_exec_events (fst (podsnoop (hash_ops 4096) perf_inst_ops ?e ?st))) =
      perf_records perf_inst_ops (pod_exec_events ?st) @ [pod_event ?e]"
    using podsnoop_cases [OF perf.bpf_perf_axioms, of "hash_ops 4096" ?e ?st] by (simp add: perf_inst_ops_def perf_inst_output_def)
  moreover have "commands_wf (hash_ops 4096) (resize_containers_map ?st)"
    by (simp add: commands_wf_def hash_ops_def BUF_SIZE_def)
  moreover have "comm_padded ?e BUF_SIZE" by code_simp
  ultimately show ?thesis
    using snooped_event_accepted [OF plain_event.plain_copy_axioms perf.bpf_perf_axioms, of ?e "hash_ops 4096" ?st "pod_event ?e"
        "demo_host []" 0 "[9]" 0]
    by (simp add: demo_env_def)
qed

text \<open>C1: the tool as a whole. Take a pod of this node whose annotation names a container with a known
  cgroup and commands that fit, the last of them ASCII; let the controller handle the pod, then let some
  task enter \<^verbatim>\<open>execve\<close> and the perf buffer deliver what the BPF program sends. What counts is the name the
  task has when it enters \<^verbatim>\<open>execve\<close>, before the new program replaces it. In the cgroup of the container, the
  controller starts the patch script that the lookups for this task yield, once, or none if they yield none,
  when this name is the last command of the list, and starts nothing when it is another. For a task of any other cgroup the
  BPF program sends what it would have sent without the pod.\<close>

theorem pod_resized_end_to_end:
  assumes st': "st' = st\<lparr>resize_containers_map := fst (snd (handle_k8s_pod mops h p (resize_containers_map st)))\<rparr>"
    and "bpf_hash_map mops n" and "bpf_perf pops" and "plain_copy copy"
    and "pod_request h p = Some (rj, cname, pre @ cs # post)"
    and "list_all (\<lambda>c. cs_name c \<noteq> cname) (pre @ post)" and "cs_name cs = cname"
    and "cs_container_id cs = Some cid" and "cgroup_key h cid = Some k"
    and "json_to_vec (json h) (json_index (json h) rj ''commands'') = Some js"
    and "map (json_as_str (json h)) js = map Some cmds" and "cmds \<noteq> []"
    and "list_all (\<lambda>c. length c \<le> BUF_SIZE) cmds" and "has_room mops n (resize_containers_map st) k"
    and "commands_wf mops (resize_containers_map st)"
    and "0 \<notin> set (as_bytes (last cmds))" and "list_all (\<lambda>x. x < 128) (as_bytes (last cmds))"
    and "comm_padded env BUF_SIZE"
    and "snd (perf_output pops (pod_exec_events st) (pod_event env) sizeof_pod_exec_event) = 0"
  shows "(current_cgroup_id env = k \<longrightarrow>
      (\<exists>es. perf_records pops (pod_exec_events (fst (podsnoop mops pops env st'))) = perf_records pops (pod_exec_events st) @ es \<and>
        concat (map (\<lambda>e. spawned (fst (handle_pod_snoop_event copy h' cpu (event_bytes e @ rest)))) es) =
          (if c_str (fst (current_comm env BUF_SIZE)) = as_bytes (last cmds)
           then (case resize_order h' k (tid_of (current_pid_tgid env)) of Some order \<Rightarrow> [order] | None \<Rightarrow> []) else []))) \<and>
    (current_cgroup_id env \<noteq> k \<longrightarrow>
      perf_records pops (pod_exec_events (fst (podsnoop mops pops env st'))) = perf_records pops (pod_exec_events (fst (podsnoop mops pops env st))))"
proof -
  let ?m = "resize_containers_map st'"
  have m: "map_lookup mops ?m = (map_lookup mops (resize_containers_map st))(k \<mapsto> padded_command (last cmds))"
    using handled_pod_stores_last [OF assms(2,5-14)] by (simp add: st')
  have same: "pod_exec_events st' = pod_exec_events st" by (simp add: st')
  show ?thesis
  proof (intro conjI impI)
    assume k: "current_cgroup_id env = k"
    have fits: "length (last cmds) \<le> BUF_SIZE" using assms(12,13) by (simp add: list_all_iff)
    have wf: "commands_wf mops ?m"
      using handled_wf [OF bpf_hash_map.axioms(1) [OF assms(2)] assms(15), of h p] by (simp add: st')
    have match: "event_matches mops ?m (pod_event env) \<longleftrightarrow> c_str (fst (current_comm env BUF_SIZE)) = as_bytes (last cmds)"
      using stored_matches [of mops ?m env "as_bytes (last cmds)"] m fits k assms(16,17,18)
      by (auto simp: padded_command_def comm_padded_def Let_def)
    show "\<exists>es. perf_records pops (pod_exec_events (fst (podsnoop mops pops env st'))) = perf_records pops (pod_exec_events st) @ es \<and>
        concat (map (\<lambda>e. spawned (fst (handle_pod_snoop_event copy h' cpu (event_bytes e @ rest)))) es) =
          (if c_str (fst (current_comm env BUF_SIZE)) = as_bytes (last cmds)
           then (case resize_order h' k (tid_of (current_pid_tgid env)) of Some order \<Rightarrow> [order] | None \<Rightarrow> []) else [])"
      using podsnoop_cases [OF assms(3), of mops env st'] match assms(19) same k
        matching_event_handled [OF assms(4,18) _ wf, of h' cpu rest]
      by (intro exI [of _ "if event_matches mops ?m (pod_event env) then [pod_event env] else []"])
        (simp add: spawned_resize split: option.split)
  next
    assume "current_cgroup_id env \<noteq> k"
    then have "event_matches mops ?m (pod_event env) = event_matches mops (resize_containers_map st) (pod_event env)"
      by (simp add: event_matches_def m pod_event_def)
    then show "perf_records pops (pod_exec_events (fst (podsnoop mops pops env st'))) =
        perf_records pops (pod_exec_events (fst (podsnoop mops pops env st)))"
      using podsnoop_cases [OF assms(3), of mops env st'] podsnoop_cases [OF assms(3), of mops env st] same by simp
  qed
qed

theorem pod_resized_end_to_end_witness:
  "\<exists>es. perf_records perf_inst_ops (pod_exec_events (fst (podsnoop (hash_ops 4096) perf_inst_ops (demo_env [112, 115])
       \<lparr>resize_containers_map = fst (snd (handle_k8s_pod (hash_ops 4096) (demo_host [''ls'', ''ps'']) demo_pod [])),
         pod_exec_events = (5, []), ps_trace = []\<rparr>))) = [] @ es \<and>
     concat (map (\<lambda>e. spawned (fst (handle_pod_snoop_event copy_event (demo_host [''ls'', ''ps'']) 0 (event_bytes e @ [])))) es) =
       [[''./patch-pod-resources.sh'', ''pod'', ''web'', ''more'', ''default'']]"
proof -
  let ?h = "demo_host [''ls'', ''ps'']" and ?e = "demo_env [112, 115]"
  have e: "current_cgroup_id ?e = 7" "tid_of (current_pid_tgid ?e) = 42" by (simp_all add: demo_env_def)
  have order: "resize_order ?h 7 42 = Some [''./patch-pod-resources.sh'', ''pod'', ''web'', ''more'', ''default'']"
    by (simp add: resize_order_def demo_host_def demo_json_def demo_pod_def dec_7 dec_42 find_cmd_def from_utf8_def)
  have comm: "comm_padded ?e BUF_SIZE" "c_str (fst (current_comm ?e BUF_SIZE)) = [112, 115]" by code_simp+
  let ?st = "\<lparr>resize_containers_map = [], pod_exec_events = (5, []), ps_trace = []\<rparr>"
  have wf: "commands_wf (hash_ops 4096) []" "has_room (hash_ops 4096) 4096 [] (7 :: u64)"
    by (simp_all add: commands_wf_def has_room_def hash_ops_def)
  have out: "snd (perf_output perf_inst_ops (pod_exec_events ?st) (pod_event ?e) sizeof_pod_exec_event) = 0"
    by (simp add: inst_defs)
  show ?thesis
    using pod_resized_end_to_end [OF refl hash.bpf_hash_map_axioms perf.bpf_perf_axioms plain_event.plain_copy_axioms,
        where h = ?h and p = demo_pod and pre = "[]" and post = "[]" and k = 7 and env = ?e and st = ?st and h' = ?h
          and cmds = "[''ls'', ''ps'']" and js = "map JStr [''ls'', ''ps'']" and cpu = 0 and rest = "[]" and n = 4096
          and rj = "demo_request [''ls'', ''ps'']" and cname = "''web''"
          and cs = "\<lparr>cs_name = ''web'', cs_container_id = Some ''cri://7a''\<rparr>" and cid = "''cri://7a''"]
      demo_commands [of "[''ls'', ''ps'']"] comm order wf out
    by (simp add: e demo_key demo_requests as_bytes_def BUF_SIZE_def perf_inst_ops_def)
qed

end
