(* ===== verification/Packet.thy ===== *)
theory Packet
  imports Vmlinux_508
begin

text \<open>
  Direct packet access. A traffic control or XDP program gets the bounds of the packet as two
  32-bit fields of its context, converts them to pointers, and may only read between them. The
  model keeps memory as a function from addresses to bytes and makes every load partial: a load
  outside \<^verbatim>\<open>[data, data_end)\<close> is \<^term>\<open>None\<close>, which aborts the program. A program is memory safe
  when its result is never \<^term>\<open>None\<close>.

  The sizes of the headers and the offsets of their members come from the layouts of
  \<^verbatim>\<open>vmlinux_508.h\<close>.
\<close>

section \<open>Packets and loads\<close>

record packet =
  pkt_len :: u32
  pkt_type :: u32
  pkt_protocol :: u32
  pkt_ifindex :: u32
  pkt_ingress_ifindex :: u32
  pkt_data :: u32
  pkt_data_end :: u32
  pkt_mem :: "u64 \<Rightarrow> u8"

definition pkt_base :: "packet \<Rightarrow> u64" where
  "pkt_base p = ucast (pkt_data p)"

definition pkt_limit :: "packet \<Rightarrow> u64" where
  "pkt_limit p = ucast (pkt_data_end p)"

definition load8 :: "packet \<Rightarrow> u64 \<Rightarrow> u8 option" where
  "load8 p a = (if pkt_base p \<le> a \<and> a < pkt_limit p then Some (pkt_mem p a) else None)"

definition load16 :: "packet \<Rightarrow> u64 \<Rightarrow> u16 option" where
  "load16 p a = do { b0 \<leftarrow> load8 p a; b1 \<leftarrow> load8 p (a + 1); Some (le16 b0 b1) }"

definition load32 :: "packet \<Rightarrow> u64 \<Rightarrow> u32 option" where
  "load32 p a = do { b0 \<leftarrow> load8 p a; b1 \<leftarrow> load8 p (a + 1); b2 \<leftarrow> load8 p (a + 2); b3 \<leftarrow> load8 p (a + 3);
     Some (le32 b0 b1 b2 b3) }"

section \<open>Headers\<close>

definition sizeof_ethhdr :: u64 where "sizeof_ethhdr = of_nat (csizeof ethhdr_508)"
definition sizeof_iphdr :: u64 where "sizeof_iphdr = of_nat (csizeof iphdr_508)"
definition sizeof_ipv6hdr :: u64 where "sizeof_ipv6hdr = of_nat (csizeof ipv6hdr_508)"
definition sizeof_tcphdr :: u64 where "sizeof_tcphdr = of_nat (csizeof tcphdr_508)"
definition sizeof_udphdr :: u64 where "sizeof_udphdr = of_nat (csizeof udphdr_508)"

definition eth_h_proto :: u64 where "eth_h_proto = of_nat (offsetof ethhdr_508 ''h_proto'')"
definition ip_tot_len :: u64 where "ip_tot_len = of_nat (offsetof iphdr_508 ''tot_len'')"
definition ip_frag_off :: u64 where "ip_frag_off = of_nat (offsetof iphdr_508 ''frag_off'')"
definition ip_ttl :: u64 where "ip_ttl = of_nat (offsetof iphdr_508 ''ttl'')"
definition ip_protocol :: u64 where "ip_protocol = of_nat (offsetof iphdr_508 ''protocol'')"
definition ip_saddr :: u64 where "ip_saddr = of_nat (offsetof iphdr_508 ''saddr'')"
definition ip_daddr :: u64 where "ip_daddr = of_nat (offsetof iphdr_508 ''daddr'')"
definition ip6_nexthdr :: u64 where "ip6_nexthdr = of_nat (offsetof ipv6hdr_508 ''nexthdr'')"
definition tcp_source :: u64 where "tcp_source = of_nat (offsetof tcphdr_508 ''source'')"
definition tcp_dest :: u64 where "tcp_dest = of_nat (offsetof tcphdr_508 ''dest'')"
definition udp_source :: u64 where "udp_source = of_nat (offsetof udphdr_508 ''source'')"
definition udp_dest :: u64 where "udp_dest = of_nat (offsetof udphdr_508 ''dest'')"

text \<open>\<^verbatim>\<open>ihl\<close> is a 4-bit bit-field, the low half of the first byte of the header.\<close>

definition ihl :: "u8 \<Rightarrow> u8" where "ihl b = b AND 0xF"

definition ETH_P_IP :: u16 where "ETH_P_IP = 0x0800"
definition ETH_P_IPV6 :: u16 where "ETH_P_IPV6 = 0x86DD"
definition IPPROTO_TCP :: u8 where "IPPROTO_TCP = 6"
definition IPPROTO_UDP :: u8 where "IPPROTO_UDP = 17"
definition TC_ACT_UNSPEC :: int where "TC_ACT_UNSPEC = -1"
definition TC_ACT_OK :: int where "TC_ACT_OK = 0"
definition TC_ACT_SHOT :: int where "TC_ACT_SHOT = 2"
definition XDP_PASS :: int where "XDP_PASS = 2"

lemma header_offset_eqs:
  "moff ethhdr_508 ''h_proto'' = Some 96" "moff iphdr_508 ''tot_len'' = Some 16"
  "moff iphdr_508 ''frag_off'' = Some 48" "moff iphdr_508 ''ttl'' = Some 64"
  "moff iphdr_508 ''protocol'' = Some 72" "moff iphdr_508 ''saddr'' = Some 96"
  "moff iphdr_508 ''daddr'' = Some 128" "moff iphdr_508 ''ihl'' = Some 0"
  "moff ipv6hdr_508 ''nexthdr'' = Some 48"
  "moff tcphdr_508 ''source'' = Some 0" "moff tcphdr_508 ''dest'' = Some 16"
  "moff udphdr_508 ''source'' = Some 0" "moff udphdr_508 ''dest'' = Some 16"
  by (simp_all add: ethhdr_508_def iphdr_508_def ipv6hdr_508_def tcphdr_508_def udphdr_508_def layout_eval)

lemma header_sizes [simp]:
  "sizeof_ethhdr = 14" "sizeof_iphdr = 20" "sizeof_ipv6hdr = 40" "sizeof_tcphdr = 20" "sizeof_udphdr = 8"
  by (simp_all add: sizeof_ethhdr_def sizeof_iphdr_def sizeof_ipv6hdr_def sizeof_tcphdr_def
      sizeof_udphdr_def layout_eval)

lemma header_offsets [simp]:
  "eth_h_proto = 12" "ip_tot_len = 2" "ip_frag_off = 6" "ip_ttl = 8" "ip_protocol = 9" "ip_saddr = 12"
  "ip_daddr = 16" "ip6_nexthdr = 6" "tcp_source = 0" "tcp_dest = 2" "udp_source = 0" "udp_dest = 2"
  by (simp_all add: eth_h_proto_def ip_tot_len_def ip_frag_off_def ip_ttl_def ip_protocol_def
      ip_saddr_def ip_daddr_def ip6_nexthdr_def tcp_source_def tcp_dest_def udp_source_def
      udp_dest_def offsetof_def header_offset_eqs)

section \<open>Reading inside the packet\<close>

text \<open>The packet as a list of bytes: what lies between the bounds.\<close>

definition pkt_size :: "packet \<Rightarrow> nat" where
  "pkt_size p = unat (pkt_limit p) - unat (pkt_base p)"

definition pkt_byte :: "packet \<Rightarrow> nat \<Rightarrow> u8" where
  "pkt_byte p i = pkt_mem p (pkt_base p + of_nat i)"

definition pkt_bytes :: "packet \<Rightarrow> bytes" where
  "pkt_bytes p = map (pkt_byte p) [0..<pkt_size p]"

lemma unat_pkt_base: "unat (pkt_base p) < 2 ^ 32"
  using unsigned_less [of "pkt_data p", where ?'a = nat] by (simp add: pkt_base_def unat_ucast_up)

lemma unat_pkt_add: "unat n < 2 ^ 32 \<Longrightarrow> unat (pkt_base p + n) = unat (pkt_base p) + unat n"
  using unat_pkt_base [of p] by (subst unat_add_lem [THEN iffD1]) auto

lemma past_limit_iff:
  "unat n < 2 ^ 32 \<Longrightarrow> (pkt_limit p < pkt_base p + n) = (unat (pkt_limit p) < unat (pkt_base p) + unat n)"
  by (simp add: word_less_nat_alt unat_pkt_add)

lemma before_limit_iff:
  "unat n < 2 ^ 32 \<Longrightarrow> (pkt_base p + n < pkt_limit p) = (unat n < pkt_size p)"
  by (auto simp: word_less_nat_alt unat_pkt_add pkt_size_def)

lemma not_past_limit:
  "unat n < 2 ^ 32 \<Longrightarrow> \<not> pkt_limit p < pkt_base p + n \<Longrightarrow> unat n \<le> pkt_size p"
  by (simp add: past_limit_iff pkt_size_def)

lemma load8_in:
  "unat n < pkt_size p \<Longrightarrow> unat n < 2 ^ 32 \<Longrightarrow> load8 p (pkt_base p + n) = Some (pkt_byte p (unat n))"
  by (auto simp: load8_def pkt_byte_def word_le_nat_alt word_less_nat_alt unat_pkt_add pkt_size_def)

lemma unat_plus_small:
  "unat (n :: u64) < 2 ^ 32 \<Longrightarrow> unat k < 2 ^ 32 \<Longrightarrow> unat (n + k) = unat n + unat k"
  by (subst unat_add_lem [THEN iffD1]) auto

lemma load16_in:
  assumes "unat n + 1 < pkt_size p" and "unat n + 1 < 2 ^ 32"
  shows "load16 p (pkt_base p + n) = Some (le16 (pkt_byte p (unat n)) (pkt_byte p (unat n + 1)))"
proof -
  have "unat (n + 1) = unat n + 1" using assms(2) by (subst unat_plus_small) auto
  then show ?thesis
    using assms load8_in [of n p] load8_in [of "n + 1" p] by (simp add: load16_def add.assoc)
qed

lemma load32_in:
  assumes "unat n + 3 < pkt_size p" and "unat n + 3 < 2 ^ 32"
  shows "load32 p (pkt_base p + n) = Some (le32 (pkt_byte p (unat n)) (pkt_byte p (unat n + 1))
    (pkt_byte p (unat n + 2)) (pkt_byte p (unat n + 3)))"
proof -
  have "unat (n + 1) = unat n + 1" "unat (n + 2) = unat n + 2" "unat (n + 3) = unat n + 3"
    using assms(2) by (subst unat_plus_small; simp)+
  then show ?thesis
    using assms load8_in [of n p] load8_in [of "n + 1" p] load8_in [of "n + 2" p] load8_in [of "n + 3" p]
    by (simp add: load32_def add.assoc)
qed

lemma pkt_bytes_nth: "i < pkt_size p \<Longrightarrow> pkt_bytes p ! i = pkt_byte p i"
  by (simp add: pkt_bytes_def)

lemma length_pkt_bytes [simp]: "length (pkt_bytes p) = pkt_size p"
  by (simp add: pkt_bytes_def)

lemma ihl_bound: "unat (ihl b) \<le> 15"
  using word_and_le1 [of b 15] by (simp add: ihl_def word_le_nat_alt)

text \<open>A packet with given contents, at address 4096, for concrete runs.\<close>

definition mk_packet :: "u32 \<Rightarrow> bytes \<Rightarrow> packet" where
  "mk_packet proto bs = \<lparr>pkt_len = of_nat (length bs), pkt_type = 0, pkt_protocol = proto, pkt_ifindex = 1,
     pkt_ingress_ifindex = 1, pkt_data = 4096, pkt_data_end = 4096 + of_nat (length bs),
     pkt_mem = (\<lambda>a. let i = unat a - 4096 in if i < length bs then bs ! i else 0)\<rparr>"

lemma mk_packet_bytes:
  assumes "length bs < 65536"
  shows "pkt_bytes (mk_packet proto bs) = bs"
proof -
  let ?p = "mk_packet proto bs"
  have l: "unat (4096 + of_nat (length bs) :: u32) = 4096 + length bs"
    using assms by (subst unat_add_lem [THEN iffD1]) (simp_all add: unat_of_nat)
  have b: "pkt_base ?p = 4096" by (simp add: pkt_base_def mk_packet_def)
  have "unat (pkt_limit ?p) = 4096 + length bs"
    unfolding pkt_limit_def by (subst unat_ucast_up) (simp_all add: mk_packet_def l)
  then have size: "pkt_size ?p = length bs" by (simp add: pkt_size_def b)
  have "pkt_byte ?p i = bs ! i" if "i < length bs" for i
  proof -
    have "unat (4096 + of_nat i :: u64) = 4096 + i"
      using that assms by (subst unat_add_lem [THEN iffD1]) (simp_all add: unat_of_nat)
    with that show ?thesis by (simp add: pkt_byte_def b) (simp add: mk_packet_def)
  qed
  then show ?thesis by (intro nth_equalityI) (simp_all add: size pkt_bytes_def)
qed

end
