(* ===== verification/Netprogs.thy ===== *)
theory Netprogs
  imports Packet
begin

text \<open>
  The traffic control and XDP programs that inspect or pass packets:
  \<^verbatim>\<open>ebpf-netstats-program/bpf_network_stats.c\<close> (the same file is in \<^verbatim>\<open>systemd_version/\<close>),
  \<^verbatim>\<open>tc-vs-xdp-perf/tc_ingress.c\<close> and \<^verbatim>\<open>xdp_ingress.c\<close>, \<^verbatim>\<open>libbpf-bootstrap/examples/c/tc.bpf.c\<close>,
  \<^verbatim>\<open>examples/rust/xdp/src/bpf/xdppass.bpf.c\<close> and the test program \<^verbatim>\<open>tc-unit.bpf.c\<close>.
  A program takes the packet and the trace and returns the trace and its verdict, or \<^term>\<open>None\<close> when
  it reads outside the packet.
\<close>

section \<open>bpf_network_stats.c\<close>

record tx_net_stats_key_t =
  saddr :: u32

record tx_net_stats_t =
  tx_bytes :: u64
  tx_pkts :: u64

record bpf_elf_map =
  elf_type :: u32
  size_key :: u32
  size_value :: u32
  max_elem :: u32
  elf_flags :: u32
  elf_id :: u32
  pinning :: u32
  inner_id :: u32
  inner_idx :: u32

definition tc_pod_net_stats_tx :: "packet \<Rightarrow> printk list \<Rightarrow> (printk list \<times> int) option" where
  "tc_pod_net_stats_tx skb tr =
     (let data = pkt_base skb; data_end = pkt_limit skb;
          len = ucast (pkt_data_end skb - pkt_data skb) :: u64 in
      if data + sizeof_ethhdr + sizeof_iphdr < data_end then do {
        sa \<leftarrow> load32 skb (data + sizeof_ethhdr + ip_saddr);
        Some (tr @ [(''==>> SRC: %x BYTES=%u'' @ nl, [PInt (ntohl sa), PLong len])], TC_ACT_OK)
      } else Some (tr, TC_ACT_OK))"

section \<open>tc_ingress.c, xdp_ingress.c and tc-unit.bpf.c\<close>

definition tc_ingress_noop :: "packet \<Rightarrow> int" where
  "tc_ingress_noop skb = TC_ACT_OK"

definition xdp_ingress_noop :: "packet \<Rightarrow> int" where
  "xdp_ingress_noop ctx = XDP_PASS"

definition tc_unit_handle_tc :: "packet \<Rightarrow> int" where
  "tc_unit_handle_tc skb = TC_ACT_UNSPEC"

section \<open>xdppass.bpf.c\<close>

definition xdp_pass :: "packet \<Rightarrow> printk list \<Rightarrow> printk list \<times> int" where
  "xdp_pass ctx tr =
     (let pkt_sz = ucast (pkt_limit ctx - pkt_base ctx) :: s32 in
      (tr @ [(''packet size: %d'', [PInt pkt_sz])], XDP_PASS))"

section \<open>tc.bpf.c\<close>

definition tc_ingress :: "packet \<Rightarrow> printk list \<Rightarrow> (printk list \<times> int) option" where
  "tc_ingress ctx tr =
     (let data_end = pkt_limit ctx; data = pkt_base ctx in
      if pkt_protocol ctx \<noteq> ucast (htons ETH_P_IP) then Some (tr, TC_ACT_OK)
      else let l2 = data in
      if data_end < l2 + sizeof_ethhdr then Some (tr, TC_ACT_OK)
      else let l3 = l2 + sizeof_ethhdr in
      if data_end < l3 + sizeof_iphdr then Some (tr, TC_ACT_OK)
      else do {
        tot_len \<leftarrow> load16 ctx (l3 + ip_tot_len);
        ttl \<leftarrow> load8 ctx (l3 + ip_ttl);
        Some (tr @ [(''Got IP packet: tot_len: %d, ttl: %d'', [PInt (ucast (ntohs tot_len)), PInt (ucast ttl)])],
              TC_ACT_OK)
      })"

section \<open>Properties\<close>

lemma size_ge_iff:
  "unat n < 2 ^ 32 \<Longrightarrow> 0 < unat n \<Longrightarrow> (pkt_limit p < pkt_base p + n) = (pkt_size p < unat n)"
  by (auto simp: past_limit_iff pkt_size_def)

text \<open>The bytes of the packet, read big-endian as the network sends them.\<close>

definition net16 :: "packet \<Rightarrow> nat \<Rightarrow> u16" where
  "net16 p i = be16 (pkt_bytes p ! i) (pkt_bytes p ! (i + 1))"

definition net32 :: "packet \<Rightarrow> nat \<Rightarrow> u32" where
  "net32 p i = be32 (pkt_bytes p ! i) (pkt_bytes p ! (i + 1)) (pkt_bytes p ! (i + 2)) (pkt_bytes p ! (i + 3))"

text \<open>C25: \<^verbatim>\<open>tc_pod_net_stats_tx\<close> never reads outside the packet, whatever the packet and its bounds,
  and always accepts it. It reports the source address (in host order) and the length exactly when
  the packet is longer than the 34 bytes of the two headers: a packet that is exactly 34 bytes long
  carries a complete IP header and is not reported.\<close>

theorem tc_pod_net_stats_tx_safe_and_exact:
  "tc_pod_net_stats_tx skb tr =
     Some (tr @ (if 34 < pkt_size skb
                 then [(''==>> SRC: %x BYTES=%u'' @ nl,
                        [PInt (net32 skb 26), PLong (ucast (pkt_data_end skb - pkt_data skb))])]
                 else []), TC_ACT_OK)"
proof (cases "34 < pkt_size skb")
  case True
  then have "pkt_base skb + (14 + 20) < pkt_limit skb" by (subst before_limit_iff) simp_all
  moreover have "load32 skb (pkt_base skb + (14 + 12)) =
      Some (le32 (pkt_byte skb 26) (pkt_byte skb 27) (pkt_byte skb 28) (pkt_byte skb 29))"
    using True load32_in [of "14 + 12" skb] by simp
  ultimately show ?thesis
    using True by (simp add: tc_pod_net_stats_tx_def Let_def add.assoc net32_def pkt_bytes_nth)
next
  case False
  then have "\<not> pkt_base skb + (14 + 20) < pkt_limit skb" by (subst before_limit_iff) simp_all
  with False show ?thesis by (simp add: tc_pod_net_stats_tx_def Let_def add.assoc)
qed

text \<open>\<^verbatim>\<open>tc_ingress\<close> never reads outside the packet and always accepts it; it reports the total
  length and the time to live of the IP header exactly when the context says IPv4 and both headers
  are complete (34 bytes or more).\<close>

lemma tc_ingress_safe_and_exact:
  "tc_ingress ctx tr =
     Some (tr @ (if pkt_protocol ctx = 8 \<and> 34 \<le> pkt_size ctx
                 then [(''Got IP packet: tot_len: %d, ttl: %d'',
                        [PInt (ucast (net16 ctx 16)), PInt (ucast (pkt_bytes ctx ! 22))])]
                 else []), TC_ACT_OK)"
proof -
  have h: "ucast (htons ETH_P_IP) = (8 :: u32)" by code_simp
  have l2: "(pkt_limit ctx < pkt_base ctx + 14) = (pkt_size ctx < 14)" by (subst size_ge_iff) simp_all
  have l3: "(pkt_limit ctx < pkt_base ctx + (14 + 20)) = (pkt_size ctx < 34)" by (subst size_ge_iff) simp_all
  show ?thesis
  proof (cases "34 \<le> pkt_size ctx")
    case True
    then have "load16 ctx (pkt_base ctx + (14 + 2)) = Some (le16 (pkt_byte ctx 16) (pkt_byte ctx 17))"
      and "load8 ctx (pkt_base ctx + (14 + 8)) = Some (pkt_byte ctx 22)"
      using load16_in [of "14 + 2" ctx] load8_in [of "14 + 8" ctx] by simp_all
    with True l2 l3 show ?thesis
      by (simp add: tc_ingress_def Let_def add.assoc h net16_def pkt_bytes_nth)
  next
    case False
    with l2 l3 show ?thesis by (simp add: tc_ingress_def Let_def add.assoc h)
  qed
qed

end
