(* ===== verification/Port_Whitelist.thy ===== *)
theory Port_Whitelist
  imports Netprogs Bpf_Helpers
begin

text \<open>
  The port filter of \<^verbatim>\<open>libbpf-rs/examples/tc_port_whitelist/src/bpf/tc.bpf.c\<close>: a traffic control
  program that parses Ethernet, IPv4 or IPv6, TCP or UDP headers, and drops packets neither of
  whose ports is in the array map \<^verbatim>\<open>ports\<close>. The specification \<open>verdict\<close> reads the packet as a list
  of bytes; \<^verbatim>\<open>handle_tc\<close> follows the pointers of the code.
\<close>

section \<open>The program\<close>

record whitelist_globals =
  rc_allow :: u8
  rc_disallow :: u8

text \<open>The initial values: \<^verbatim>\<open>TC_ACT_UNSPEC\<close> (-1) and \<^verbatim>\<open>TC_ACT_SHOT\<close>, converted to \<^verbatim>\<open>u8\<close>.\<close>

definition whitelist_init :: whitelist_globals where
  "whitelist_init = \<lparr>rc_allow = word_of_int TC_ACT_UNSPEC, rc_disallow = word_of_int TC_ACT_SHOT\<rparr>"

definition MAX_PORTS :: nat where "MAX_PORTS = 10"

text \<open>The loop of \<^verbatim>\<open>allow_port\<close>, from index \<open>i\<close> on.\<close>

function allow_port_from :: "('m, u32, u16) map_ops \<Rightarrow> 'm \<Rightarrow> u16 \<Rightarrow> nat \<Rightarrow> bool" where
  "allow_port_from ops ports hport i =
     (if i < MAX_PORTS then
        case map_lookup ops ports (of_nat i) of
          Some p \<Rightarrow> if hport = p then True else allow_port_from ops ports hport (Suc i)
        | None \<Rightarrow> allow_port_from ops ports hport (Suc i)
      else False)"
  by pat_completeness auto
termination
  by (relation "measure (\<lambda>(ops, ports, hport, i). MAX_PORTS - i)") auto

declare allow_port_from.simps [simp del]

definition allow_port :: "('m, u32, u16) map_ops \<Rightarrow> 'm \<Rightarrow> u16 \<Rightarrow> bool" where
  "allow_port ops ports port = allow_port_from ops ports (ntohs port) 0"

text \<open>
  A stage of the handler ends it (\<open>Return\<close>) or hands values to the next one (\<open>Continue\<close>). When the
  packet is neither IPv4 nor IPv6 the code leaves \<^verbatim>\<open>trans_data\<close> unset and \<^verbatim>\<open>proto\<close> zero; the zero
  address stands for the unset pointer, which no later stage follows.
\<close>

datatype 'a flow = Return int | Continue 'a

definition parse_l3 :: "packet \<Rightarrow> (u8 \<times> u64) flow option" where
  "parse_l3 skb =
     (let data_end = pkt_limit skb; eth = pkt_base skb in
      if data_end < eth + sizeof_ethhdr then Some (Return TC_ACT_UNSPEC)
      else do {
        h_proto \<leftarrow> load16 skb (eth + eth_h_proto);
        if h_proto = htons ETH_P_IP then
          let iph = eth + sizeof_ethhdr in
          if data_end < iph + sizeof_iphdr then Some (Return TC_ACT_SHOT)
          else do {
            proto \<leftarrow> load8 skb (iph + ip_protocol);
            b0 \<leftarrow> load8 skb iph;
            Some (Continue (proto, iph + ucast (ihl b0) * 4))
          }
        else if h_proto = htons ETH_P_IPV6 then
          let ip6h = eth + sizeof_ethhdr in
          if data_end < ip6h + sizeof_ipv6hdr then Some (Return TC_ACT_SHOT)
          else do {
            proto \<leftarrow> load8 skb (ip6h + ip6_nexthdr);
            Some (Continue (proto, ip6h + sizeof_ipv6hdr))
          }
        else Some (Continue (0, 0))
      })"

definition parse_l4 :: "packet \<Rightarrow> u8 \<Rightarrow> u64 \<Rightarrow> (u16 \<times> u16) flow option" where
  "parse_l4 skb proto trans_data =
     (let data_end = pkt_limit skb in
      if proto = IPPROTO_TCP then
        if data_end < trans_data + sizeof_tcphdr then Some (Return TC_ACT_SHOT)
        else do {
          dst \<leftarrow> load16 skb (trans_data + tcp_dest);
          src \<leftarrow> load16 skb (trans_data + tcp_source);
          Some (Continue (src, dst))
        }
      else if proto = IPPROTO_UDP then
        if data_end < trans_data + sizeof_udphdr then Some (Return TC_ACT_SHOT)
        else do {
          dst \<leftarrow> load16 skb (trans_data + udp_dest);
          src \<leftarrow> load16 skb (trans_data + udp_source);
          Some (Continue (src, dst))
        }
      else Some (Return TC_ACT_UNSPEC))"

definition handle_tc ::
  "('m, u32, u16) map_ops \<Rightarrow> 'm \<Rightarrow> whitelist_globals \<Rightarrow> packet \<Rightarrow> printk list \<Rightarrow> (printk list \<times> int) option" where
  "handle_tc ops ports g skb tr = do {
     l3 \<leftarrow> parse_l3 skb;
     case l3 of
       Return rc \<Rightarrow> Some (tr, rc)
     | Continue (proto, trans_data) \<Rightarrow> do {
         l4 \<leftarrow> parse_l4 skb proto trans_data;
         case l4 of
           Return rc \<Rightarrow> Some (tr, rc)
         | Continue (src, dst) \<Rightarrow>
             let rc = (if allow_port ops ports src \<or> allow_port ops ports dst
                       then uint (rc_allow g) else uint (rc_disallow g));
                 args = [PInt (ucast (ntohs src)), PInt (ucast (ntohs dst))];
                 line = (if pkt_ingress_ifindex skb \<noteq> 0 then (''b ingress on -- src %d dst %d'', args)
                         else (''b  egress on -- src %d dst %d'', args))
             in Some (tr @ [line], rc)
       }
   }"

section \<open>The specification\<close>

text \<open>
  The verdict on a packet given as a list of bytes: which ports it carries, if its headers are
  complete. \<open>is_allowed\<close> is the set of allowed ports.
\<close>

datatype l4_info = Not_Tcp_Udp | Truncated | Ports u16 u16

definition at16 :: "bytes \<Rightarrow> nat \<Rightarrow> u16" where
  "at16 bs i = be16 (bs ! i) (bs ! (i + 1))"

definition l4_at :: "bytes \<Rightarrow> u8 \<Rightarrow> nat \<Rightarrow> l4_info" where
  "l4_at bs proto t =
     (if proto = 6 then if length bs < t + 20 then Truncated else Ports (at16 bs t) (at16 bs (t + 2))
      else if proto = 17 then if length bs < t + 8 then Truncated else Ports (at16 bs t) (at16 bs (t + 2))
      else Not_Tcp_Udp)"

definition classify :: "bytes \<Rightarrow> l4_info" where
  "classify bs =
     (if length bs < 14 then Not_Tcp_Udp
      else if at16 bs 12 = 0x0800 then
        if length bs < 34 then Truncated else l4_at bs (bs ! 23) (14 + 4 * unat (ihl (bs ! 14)))
      else if at16 bs 12 = 0x86DD then
        if length bs < 54 then Truncated else l4_at bs (bs ! 20) 54
      else Not_Tcp_Udp)"

definition verdict :: "(u16 \<Rightarrow> bool) \<Rightarrow> whitelist_globals \<Rightarrow> bytes \<Rightarrow> int" where
  "verdict is_allowed g bs =
     (case classify bs of
        Not_Tcp_Udp \<Rightarrow> -1
      | Truncated \<Rightarrow> 2
      | Ports src dst \<Rightarrow> if is_allowed src \<or> is_allowed dst then uint (rc_allow g) else uint (rc_disallow g))"

section \<open>Proofs\<close>

lemma allow_port_from_iff:
  "allow_port_from ops ports hport i =
     (\<exists>j. i \<le> j \<and> j < MAX_PORTS \<and> map_lookup ops ports (of_nat j) = Some hport)"
proof (induction ops ports hport i rule: allow_port_from.induct)
  case (1 ops ports hport i)
  have le: "(i \<le> j) = (i = j \<or> i < j)" for j by auto
  have step: "(\<exists>j. i \<le> j \<and> j < MAX_PORTS \<and> P j) = (i < MAX_PORTS \<and> (P i \<or> (\<exists>j. Suc i \<le> j \<and> j < MAX_PORTS \<and> P j)))"
    for P by (simp only: le Suc_le_eq) (auto intro: less_trans)
  show ?case
    unfolding step using "1.IH"
    by (subst allow_port_from.simps) (auto split: option.splits)
qed

definition port_set :: "('m, u32, u16) map_ops \<Rightarrow> 'm \<Rightarrow> u16 \<Rightarrow> bool" where
  "port_set ops ports p = list_ex (\<lambda>i. map_lookup ops ports (of_nat i) = Some p) [0..<MAX_PORTS]"

lemma allow_port_iff: "allow_port ops ports port = port_set ops ports (ntohs port)"
  by (auto simp: allow_port_def allow_port_from_iff port_set_def list_ex_iff)


lemma parse_l3_eq:
  "parse_l3 skb = Some (
     let bs = pkt_bytes skb in
     if length bs < 14 then Return TC_ACT_UNSPEC
     else if at16 bs 12 = ETH_P_IP then
       if length bs < 34 then Return TC_ACT_SHOT
       else Continue (bs ! 23, pkt_base skb + (14 + ucast (ihl (bs ! 14)) * 4))
     else if at16 bs 12 = ETH_P_IPV6 then
       if length bs < 54 then Return TC_ACT_SHOT
       else Continue (bs ! 20, pkt_base skb + 54)
     else Continue (0, 0))"
proof -
  have lim: "(pkt_limit skb < pkt_base skb + 14) = (pkt_size skb < 14)"
    "(pkt_limit skb < pkt_base skb + (14 + 20)) = (pkt_size skb < 34)"
    "(pkt_limit skb < pkt_base skb + (14 + 40)) = (pkt_size skb < 54)"
    by (subst size_ge_iff; simp)+
  show ?thesis
  proof (cases "pkt_size skb < 14")
    case True
    with lim show ?thesis by (simp add: parse_l3_def Let_def)
  next
    case False
    then have proto: "load16 skb (pkt_base skb + 12) = Some (le16 (pkt_byte skb 12) (pkt_byte skb 13))"
      using load16_in [of 12 skb] by simp
    have l8: "n < 2 ^ 32 \<Longrightarrow> unat (of_nat n :: u64) = n" for n by (simp add: unat_of_nat)
    have ld: "n < pkt_size skb \<Longrightarrow> n < 2 ^ 32 \<Longrightarrow> load8 skb (pkt_base skb + of_nat n) = Some (pkt_byte skb n)" for n
      using load8_in [of "of_nat n" skb] l8 [of n] by simp
    show ?thesis
      using False lim proto ld [of 14] ld [of 23] ld [of 20]
      by (simp add: parse_l3_def Let_def add.assoc htons_eq_iff at16_def pkt_bytes_nth)
  qed
qed


lemma parse_l4_eq:
  assumes t: "t < 2 ^ 31"
  shows "parse_l4 skb proto (pkt_base skb + of_nat t) = Some (
    case l4_at (pkt_bytes skb) proto t of
      Not_Tcp_Udp \<Rightarrow> Return TC_ACT_UNSPEC
    | Truncated \<Rightarrow> Return TC_ACT_SHOT
    | Ports src dst \<Rightarrow> Continue (ntohs src, ntohs dst))"
proof -
  have un: "unat (of_nat k :: u64) = k" if "k < 2 ^ 32" for k
    using that by (simp add: unat_of_nat)
  have lim: "(pkt_limit skb < pkt_base skb + of_nat (t + k)) = (pkt_size skb < t + k)" if "0 < k" "k < 2 ^ 31" for k
    using that t un [of "t + k"] by (subst size_ge_iff) simp_all
  have ld: "load16 skb (pkt_base skb + of_nat (t + k)) = Some (ntohs (at16 (pkt_bytes skb) (t + k)))"
    if "t + k + 1 < pkt_size skb" "k < 2 ^ 31" for k
    using that t un [of "t + k"] load16_in [of "of_nat (t + k)" skb]
    by (simp add: at16_def pkt_bytes_nth be16_def ntohs_def)
  have ld2: "load16 skb (pkt_base skb + (of_nat t + 2)) = Some (ntohs (at16 (pkt_bytes skb) (t + 2)))"
    if "t + 3 < pkt_size skb"
    using that ld [of 2] by (simp add: add.commute)
  show ?thesis
    using lim [of 20] lim [of 8] ld [of 0] ld2
    by (simp add: parse_l4_def l4_at_def Let_def IPPROTO_TCP_def IPPROTO_UDP_def add.assoc)
qed

lemma l4_at_other: "proto \<noteq> 6 \<Longrightarrow> proto \<noteq> 17 \<Longrightarrow> parse_l4 skb proto t = Some (Return TC_ACT_UNSPEC)"
  by (simp add: parse_l4_def IPPROTO_TCP_def IPPROTO_UDP_def)

text \<open>The trace line of a packet whose ports were read.\<close>

definition port_line :: "packet \<Rightarrow> printk list" where
  "port_line skb = (case classify (pkt_bytes skb) of
     Ports src dst \<Rightarrow> [(if pkt_ingress_ifindex skb \<noteq> 0 then ''b ingress on -- src %d dst %d''
                       else ''b  egress on -- src %d dst %d'', [PInt (ucast src), PInt (ucast dst)])]
   | _ \<Rightarrow> [])"

lemma handle_tc_l4:
  assumes "parse_l3 skb = Some (Continue (proto, pkt_base skb + of_nat t))" and "t < 2 ^ 31"
    and "classify (pkt_bytes skb) = l4_at (pkt_bytes skb) proto t"
  shows "handle_tc ops ports g skb tr =
    Some (tr @ port_line skb, verdict (port_set ops ports) g (pkt_bytes skb))"
  using assms(1,3) parse_l4_eq [OF assms(2), of skb proto]
  by (cases "l4_at (pkt_bytes skb) proto t")
    (auto simp: handle_tc_def verdict_def port_line_def allow_port_iff Let_def TC_ACT_UNSPEC_def TC_ACT_SHOT_def)

lemma handle_tc_eq:
  "handle_tc ops ports g skb tr =
     Some (tr @ port_line skb, verdict (port_set ops ports) g (pkt_bytes skb))"
proof -
  let ?bs = "pkt_bytes skb"
  consider (short) "length ?bs < 14"
    | (v4) "14 \<le> length ?bs" "at16 ?bs 12 = ETH_P_IP"
    | (v6) "14 \<le> length ?bs" "at16 ?bs 12 = ETH_P_IPV6"
    | (other) "14 \<le> length ?bs" "at16 ?bs 12 \<noteq> ETH_P_IP" "at16 ?bs 12 \<noteq> ETH_P_IPV6"
    by linarith
  then show ?thesis
  proof cases
    case short
    then show ?thesis
      by (simp add: handle_tc_def parse_l3_eq classify_def verdict_def port_line_def TC_ACT_UNSPEC_def)
  next
    case v4
    let ?t = "14 + 4 * unat (ihl (?bs ! 14))"
    show ?thesis
    proof (cases "length ?bs < 34")
      case True
      with v4 show ?thesis
        by (simp add: handle_tc_def parse_l3_eq classify_def verdict_def port_line_def TC_ACT_SHOT_def ETH_P_IP_def)
    next
      case False
      have "(of_nat ?t :: u64) = 14 + ucast (ihl (?bs ! 14)) * 4" by (simp add: mult.commute)
      then show ?thesis using v4 False ihl_bound [of "?bs ! 14"]
        by (intro handle_tc_l4 [where proto = "?bs ! 23" and t = ?t])
          (simp_all add: parse_l3_eq Let_def classify_def ETH_P_IP_def)
    qed
  next
    case v6
    show ?thesis
    proof (cases "length ?bs < 54")
      case True
      with v6 show ?thesis
        by (simp add: handle_tc_def parse_l3_eq Let_def classify_def verdict_def port_line_def TC_ACT_SHOT_def
            ETH_P_IP_def ETH_P_IPV6_def)
    next
      case False
      with v6 show ?thesis
        by (intro handle_tc_l4 [where proto = "?bs ! 20" and t = 54])
          (simp_all add: parse_l3_eq Let_def classify_def ETH_P_IP_def ETH_P_IPV6_def)
    qed
  next
    case other
    then show ?thesis
      by (simp add: handle_tc_def parse_l3_eq Let_def l4_at_other classify_def verdict_def port_line_def
          TC_ACT_UNSPEC_def ETH_P_IP_def ETH_P_IPV6_def)
  qed
qed

text \<open>C12: \<^verbatim>\<open>handle_tc\<close> implements the byte-level specification on every packet, whatever its length,
  its contents and the bounds in the context: it never reads outside the packet, and its verdict
  and trace are those of the specification, with the ports of the map as the allowed ones.\<close>

theorem handle_tc_refines_verdict:
  "handle_tc ops ports g skb tr =
     Some (tr @ port_line skb, verdict (port_set ops ports) g (pkt_bytes skb))"
  by (rule handle_tc_eq)

text \<open>With the array map the program declares, \<^verbatim>\<open>allow_port\<close> accepts a port (given in network
  byte order) exactly when one of the ten slots holds it. Slots that were never written hold zero,
  so port 0 is accepted as long as fewer than ten ports are configured.\<close>

lemma allow_port_exact:
  assumes "bpf_array_map ops MAX_PORTS"
  shows "allow_port ops ports port \<longleftrightarrow>
    (\<exists>i < MAX_PORTS. the (map_lookup ops ports (of_nat i)) = ntohs port)"
proof -
  have "\<exists>v. map_lookup ops ports (of_nat i) = Some v" if "i < MAX_PORTS" for i
    using that bpf_array_map.present [OF assms, of ports "of_nat i"]
    by (simp add: unat_of_nat MAX_PORTS_def)
  then show ?thesis
    by (fastforce simp: allow_port_iff port_set_def list_ex_iff)
qed

text \<open>The default verdict on an allowed packet is not the documented one. The globals are \<^verbatim>\<open>u8\<close>,
  so \<^verbatim>\<open>TC_ACT_UNSPEC\<close> (-1) is stored as 255 and every TCP or UDP packet with an allowed port gets the
  verdict 255; one without gets \<^verbatim>\<open>TC_ACT_SHOT\<close>.\<close>

lemma default_allow_verdict:
  assumes "classify (pkt_bytes skb) = Ports src dst"
  shows "map_option snd (handle_tc ops ports whitelist_init skb tr) =
    Some (if port_set ops ports src \<or> port_set ops ports dst then 255 else TC_ACT_SHOT)"
proof -
  have "uint (rc_allow whitelist_init) = 255" "uint (rc_disallow whitelist_init) = TC_ACT_SHOT"
    by code_simp+
  then show ?thesis using assms by (simp add: handle_tc_eq verdict_def)
qed

text \<open>A TCP packet from port 443 to port 1024.\<close>

definition tcp_bytes :: bytes where
  "tcp_bytes = replicate 12 0 @ [8, 0, 0x45] @ replicate 8 0 @ [6] @ replicate 10 0 @
     [1, 187, 4, 0] @ replicate 16 0"

definition tcp_packet :: packet where
  "tcp_packet = mk_packet 8 tcp_bytes"

end
