(* ===== verification/Runqslower.thy ===== *)
theory Runqslower
  imports Bpf_Helpers Layout
begin

text \<open>
  The run queue latency tracer \<^verbatim>\<open>libbpf-rs/examples/runqslower/src/bpf/runqslower.bpf.c\<close> with
  \<^verbatim>\<open>runqslower.h\<close> (the tests of \<^verbatim>\<open>libbpf-rs\<close> hold a copy). It stamps a task when it becomes
  runnable and reports, when the task is switched in, how long it waited.
\<close>

section \<open>Data\<close>

record runq_event =
  rq_task :: bytes
  rq_delta_us :: u64
  rq_pid :: s32

definition runq_event_layout :: ctype where
  "runq_event_layout = CStruct
     [Field ''task'' (CArray c_char TASK_COMM_LEN),
      Field ''delta_us'' c_long,
      Field ''pid'' c_int]"

record runq_config =
  min_us :: u64
  targ_pid :: s32
  targ_tgid :: s32

definition TASK_RUNNING :: u64 where "TASK_RUNNING = 0"
definition START_ENTRIES :: nat where "START_ENTRIES = 10240"

text \<open>
  The members of \<^verbatim>\<open>struct task_struct\<close> the program reads. A kernel has either \<^verbatim>\<open>state\<close> (a \<^verbatim>\<open>long\<close>)
  or \<^verbatim>\<open>__state\<close> (an \<^verbatim>\<open>unsigned int\<close>, since 5.14); which one is decided by its declaration of
  \<^verbatim>\<open>task_struct\<close>, a parameter of the program.
\<close>

record task =
  t_pid :: s32
  t_tgid :: s32
  t_state_old :: u64
  t_state_new :: u32
  t_comm :: bytes

record ('m, 'p) runq_state =
  rq_start :: 'm
  rq_events :: 'p

text \<open>
  One invocation: the tasks of the tracepoint, the time at each call of \<^verbatim>\<open>bpf_ktime_get_ns\<close>, and
  the effect of \<^verbatim>\<open>bpf_probe_read_kernel_str\<close> on a zeroed buffer.
\<close>

record runq_env =
  time_enqueue :: u64
  time_switch :: u64
  read_kernel_str :: "nat \<Rightarrow> bytes \<Rightarrow> bytes"

section \<open>The program\<close>

definition trace_enqueue ::
  "('m, u32, u64) map_ops \<Rightarrow> runq_config \<Rightarrow> runq_env \<Rightarrow> u32 \<Rightarrow> u32 \<Rightarrow> ('m, 'p) runq_state \<Rightarrow>
   ('m, 'p) runq_state \<times> int" where
  "trace_enqueue mops cfg env tgid pid st =
     (if pid = 0 then (st, 0)
      else if targ_tgid cfg \<noteq> 0 \<and> targ_tgid cfg \<noteq> tgid then (st, 0)
      else if targ_pid cfg \<noteq> 0 \<and> targ_pid cfg \<noteq> pid then (st, 0)
      else (st\<lparr>rq_start := fst (map_update mops (rq_start st) pid (time_enqueue env) 0)\<rparr>, 0))"

definition handle__sched_wakeup ::
  "('m, u32, u64) map_ops \<Rightarrow> runq_config \<Rightarrow> runq_env \<Rightarrow> task \<Rightarrow> ('m, 'p) runq_state \<Rightarrow>
   ('m, 'p) runq_state \<times> int" where
  "handle__sched_wakeup mops cfg env p st = trace_enqueue mops cfg env (t_tgid p) (t_pid p) st"

definition handle__sched_wakeup_new ::
  "('m, u32, u64) map_ops \<Rightarrow> runq_config \<Rightarrow> runq_env \<Rightarrow> task \<Rightarrow> ('m, 'p) runq_state \<Rightarrow>
   ('m, 'p) runq_state \<times> int" where
  "handle__sched_wakeup_new mops cfg env p st = trace_enqueue mops cfg env (t_tgid p) (t_pid p) st"

definition get_task_state :: "ctype \<Rightarrow> task \<Rightarrow> u64" where
  "get_task_state task_struct t =
     (if has_member task_struct ''__state'' then ucast (t_state_new t) else t_state_old t)"

definition handle__sched_switch ::
  "('m, u32, u64) map_ops \<Rightarrow> ('p, runq_event) perf_ops \<Rightarrow> ctype \<Rightarrow> runq_config \<Rightarrow> runq_env \<Rightarrow> task \<Rightarrow> task \<Rightarrow>
   ('m, 'p) runq_state \<Rightarrow> ('m, 'p) runq_state \<times> int" where
  "handle__sched_switch mops pops task_struct cfg env prev next_task st =
     (let state = get_task_state task_struct prev;
          st1 = (if state = TASK_RUNNING then fst (trace_enqueue mops cfg env (t_tgid prev) (t_pid prev) st) else st);
          pid = t_pid next_task
      in case map_lookup mops (rq_start st1) pid of
           None \<Rightarrow> (st1, 0)
         | Some ts \<Rightarrow>
             let delta_us = (time_switch env - ts) div 1000 in
             if min_us cfg \<noteq> 0 \<and> delta_us \<le> min_us cfg then (st1, 0)
             else
               let event = \<lparr>rq_task = read_kernel_str env TASK_COMM_LEN (t_comm next_task),
                            rq_delta_us = delta_us, rq_pid = pid\<rparr>;
                   p' = fst (perf_output pops (rq_events st1) event (csizeof runq_event_layout));
                   m' = fst (map_delete mops (rq_start st1) pid)
               in (st1\<lparr>rq_events := p', rq_start := m'\<rparr>, 0))"

datatype runq_hook =
    Wakeup runq_env task
  | WakeupNew runq_env task
  | Switch runq_env task task

fun runq_step ::
  "('m, u32, u64) map_ops \<Rightarrow> ('p, runq_event) perf_ops \<Rightarrow> ctype \<Rightarrow> runq_config \<Rightarrow> runq_hook \<Rightarrow>
   ('m, 'p) runq_state \<Rightarrow> ('m, 'p) runq_state \<times> int" where
  "runq_step mops pops ts cfg (Wakeup env p) st = handle__sched_wakeup mops cfg env p st"
| "runq_step mops pops ts cfg (WakeupNew env p) st = handle__sched_wakeup_new mops cfg env p st"
| "runq_step mops pops ts cfg (Switch env p n) st = handle__sched_switch mops pops ts cfg env p n st"

section \<open>Invariant\<close>

text \<open>A task that passes the filters of \<^verbatim>\<open>trace_enqueue\<close>.\<close>

definition wanted :: "runq_config \<Rightarrow> u32 \<Rightarrow> u32 \<Rightarrow> bool" where
  "wanted cfg tgid pid \<longleftrightarrow> pid \<noteq> 0 \<and> (targ_tgid cfg = 0 \<or> targ_tgid cfg = tgid) \<and> (targ_pid cfg = 0 \<or> targ_pid cfg = pid)"

text \<open>Only tasks the filters let through have an entry, so only they are reported.\<close>

definition start_ok :: "('m, u32, u64) map_ops \<Rightarrow> runq_config \<Rightarrow> ('m, 'p) runq_state \<Rightarrow> bool" where
  "start_ok mops cfg st \<longleftrightarrow>
     (\<forall>pid. map_lookup mops (rq_start st) pid \<noteq> None \<longrightarrow> pid \<noteq> 0 \<and> (targ_pid cfg = 0 \<or> targ_pid cfg = pid))"

lemma trace_enqueue_lookup:
  assumes "bpf_map mops"
  shows "map_lookup mops (rq_start (fst (trace_enqueue mops cfg env tgid pid st))) =
    (if wanted cfg tgid pid \<and> snd (map_update mops (rq_start st) pid (time_enqueue env) 0) = 0
     then (map_lookup mops (rq_start st))(pid \<mapsto> time_enqueue env) else map_lookup mops (rq_start st))"
  by (auto simp: trace_enqueue_def wanted_def bpf_map.lookup_update [OF assms])

lemma trace_enqueue_events [simp]: "rq_events (fst (trace_enqueue mops cfg env tgid pid st)) = rq_events st"
  by (simp add: trace_enqueue_def)

lemma trace_enqueue_ok:
  "bpf_map mops \<Longrightarrow> start_ok mops cfg st \<Longrightarrow> start_ok mops cfg (fst (trace_enqueue mops cfg env tgid pid st))"
  by (auto simp: start_ok_def trace_enqueue_lookup wanted_def)

definition after_prev ::
  "('m, u32, u64) map_ops \<Rightarrow> ctype \<Rightarrow> runq_config \<Rightarrow> runq_env \<Rightarrow> task \<Rightarrow> ('m, 'p) runq_state \<Rightarrow> ('m, 'p) runq_state" where
  "after_prev mops ts cfg env prev st =
     (if get_task_state ts prev = TASK_RUNNING
      then fst (trace_enqueue mops cfg env (t_tgid prev) (t_pid prev) st) else st)"

lemma after_prev_simps:
  "rq_events (after_prev mops ts cfg env prev st) = rq_events st"
  "bpf_map mops \<Longrightarrow> start_ok mops cfg st \<Longrightarrow> start_ok mops cfg (after_prev mops ts cfg env prev st)"
  by (simp_all add: after_prev_def trace_enqueue_ok)

lemma switch_unfold:
  "handle__sched_switch mops pops ts cfg env prev n st =
     (let st1 = after_prev mops ts cfg env prev st in
      case map_lookup mops (rq_start st1) (t_pid n) of
        None \<Rightarrow> (st1, 0)
      | Some t \<Rightarrow>
          let delta = (time_switch env - t) div 1000 in
          if min_us cfg \<noteq> 0 \<and> delta \<le> min_us cfg then (st1, 0)
          else (st1\<lparr>rq_events := fst (perf_output pops (rq_events st1)
                   \<lparr>rq_task = read_kernel_str env TASK_COMM_LEN (t_comm n), rq_delta_us = delta, rq_pid = t_pid n\<rparr>
                   (csizeof runq_event_layout)),
                 rq_start := fst (map_delete mops (rq_start st1) (t_pid n))\<rparr>, 0))"
  by (simp only: handle__sched_switch_def after_prev_def Let_def)

text \<open>What is reported: a task the filters let through, later than the threshold.\<close>

definition late_event :: "runq_config \<Rightarrow> runq_event \<Rightarrow> bool" where
  "late_event cfg e \<longleftrightarrow> rq_pid e \<noteq> 0 \<and> (targ_pid cfg = 0 \<or> targ_pid cfg = rq_pid e) \<and>
     (min_us cfg = 0 \<or> min_us cfg < rq_delta_us e)"

lemma switch_ok:
  assumes "bpf_hash_map mops n" and "start_ok mops cfg st"
  shows "start_ok mops cfg (fst (handle__sched_switch mops pops ts cfg env prev nx st))"
proof -
  note laws = bpf_hash_map.delete_gone [OF assms(1)] bpf_hash_map.axioms(1) [OF assms(1)]
  have "start_ok mops cfg (after_prev mops ts cfg env prev st)"
    by (rule after_prev_simps(2) [OF laws(2) assms(2)])
  then show ?thesis
    by (auto simp: switch_unfold Let_def start_ok_def laws(1) split: option.splits)
qed


lemma runq_event_source:
  assumes "bpf_hash_map mops n" and "bpf_perf pops"
  shows "event_source (runq_step mops pops ts cfg) (start_ok mops cfg)
    (\<lambda>st. perf_records pops (rq_events st)) (late_event cfg)"
proof unfold_locales
  note bm = bpf_hash_map.axioms(1) [OF assms(1)]
  fix st :: "('a, 'b) runq_state" and h
  assume inv: "start_ok mops cfg st"
  show "start_ok mops cfg (fst (runq_step mops pops ts cfg h st))"
    using inv by (cases h) (simp_all add: handle__sched_wakeup_def handle__sched_wakeup_new_def
        trace_enqueue_ok [OF bm] switch_ok [OF assms(1)])
  show "perf_records pops (rq_events (fst (runq_step mops pops ts cfg h st))) = perf_records pops (rq_events st) \<or>
    (\<exists>e. perf_records pops (rq_events (fst (runq_step mops pops ts cfg h st))) =
      perf_records pops (rq_events st) @ [e] \<and> late_event cfg e)"
  proof (cases h)
    case (Switch env prev nx)
    have "start_ok mops cfg (after_prev mops ts cfg env prev st)"
      by (rule after_prev_simps(2) [OF bm inv])
    then show ?thesis
      by (auto simp: Switch switch_unfold Let_def after_prev_simps(1) start_ok_def late_event_def
          bpf_perf.output_records [OF assms(2)] split: option.splits)
  qed (simp_all add: handle__sched_wakeup_def handle__sched_wakeup_new_def)
qed

interpretation runq: event_source "runq_step (hash_ops START_ENTRIES) perf_inst_ops ts cfg"
  "start_ok (hash_ops START_ENTRIES) cfg" "\<lambda>st. perf_records perf_inst_ops (rq_events st)" "late_event cfg"
  by (rule runq_event_source [OF hash.bpf_hash_map_axioms perf.bpf_perf_axioms])

text \<open>The hooks that touch the entry of a task: enqueueing it, or switching to it.\<close>

fun touches :: "u32 \<Rightarrow> runq_hook \<Rightarrow> bool" where
  "touches p (Wakeup env t) = (t_pid t = p)"
| "touches p (WakeupNew env t) = (t_pid t = p)"
| "touches p (Switch env prev nx) = (t_pid prev = p \<or> t_pid nx = p)"

lemma trace_enqueue_other:
  assumes "bpf_map mops" and "pid \<noteq> p"
  shows "map_lookup mops (rq_start (fst (trace_enqueue mops cfg env tgid pid st))) p = map_lookup mops (rq_start st) p"
  using assms(2) by (simp add: trace_enqueue_lookup [OF assms(1)])

lemma runq_step_other:
  assumes "bpf_hash_map mops n" and "\<not> touches p h"
  shows "map_lookup mops (rq_start (fst (runq_step mops pops ts cfg h st))) p = map_lookup mops (rq_start st) p"
proof -
  note bm = bpf_hash_map.axioms(1) [OF assms(1)]
  show ?thesis
    using assms(2)
    by (cases h) (auto simp: handle__sched_wakeup_def handle__sched_wakeup_new_def trace_enqueue_other [OF bm]
        switch_unfold Let_def after_prev_def bpf_hash_map.delete_gone [OF assms(1)] split: option.splits)
qed

lemma runq_run_other:
  assumes "bpf_hash_map mops n" and "\<forall>h \<in> set hs. \<not> touches p h"
  shows "map_lookup mops (rq_start (run_steps (runq_step mops pops ts cfg) hs st)) p = map_lookup mops (rq_start st) p"
  using assms(2) by (induction hs arbitrary: st) (auto simp: runq_step_other [OF assms(1)])

section \<open>Properties\<close>

definition rq_env :: "u64 \<Rightarrow> runq_env" where
  "rq_env t = \<lparr>time_enqueue = t, time_switch = t, read_kernel_str = (\<lambda>n s. take n (c_str s @ replicate n 0))\<rparr>"

definition rq_task_of :: "s32 \<Rightarrow> u32 \<Rightarrow> task" where
  "rq_task_of p state = \<lparr>t_pid = p, t_tgid = p, t_state_old = ucast state, t_state_new = state, t_comm = [108, 115, 0]\<rparr>"

text \<open>Over any sequence of scheduler tracepoints, starting from an empty table, every reported
  event is about a task the pid filter lets through and about a wait longer than the threshold; at
  most one event is sent per tracepoint.\<close>

lemma runqslower_run_sound:
  assumes "bpf_hash_map mops START_ENTRIES" and "bpf_perf pops"
    and "map_lookup mops (rq_start st) = Map.empty"
  shows "\<exists>es. perf_records pops (rq_events (run_steps (runq_step mops pops ts cfg) hs st)) =
      perf_records pops (rq_events st) @ es \<and> length es \<le> length hs \<and> list_all (late_event cfg) es"
  by (rule event_source.run_emits [OF runq_event_source [OF assms(1,2)]]) (simp add: start_ok_def assms(3))

text \<open>The reported latency is the time since the task became runnable. After a wakeup of a task
  the filters let through (recorded by the map), any tracepoints that concern other tasks, and a
  switch to the task from another one, one event with the pid of the task and the wait in
  microseconds is sent if the wait exceeds the threshold, and the entry is removed.\<close>

lemma runq_latency_measured:
  assumes "bpf_hash_map mops n" and "bpf_perf pops"
    and "wanted cfg (t_tgid t) (t_pid t)"
    and "snd (map_update mops (rq_start st) (t_pid t) (time_enqueue e1) 0) = 0"
    and "\<forall>h \<in> set mid. \<not> touches (t_pid t) h"
    and "t_pid prev \<noteq> t_pid t"
    and "delta = (time_switch e2 - time_enqueue e1) div 1000"
    and "min_us cfg = 0 \<or> min_us cfg < delta"
    and "st1 = run_steps (runq_step mops pops ts cfg) (Wakeup e1 t # mid) st"
    and "\<And>e. snd (perf_output pops (rq_events st1) e (csizeof runq_event_layout)) = 0"
  shows "\<exists>e. perf_records pops (rq_events (fst (runq_step mops pops ts cfg (Switch e2 prev t) st1))) =
      perf_records pops (rq_events st1) @ [e] \<and> rq_pid e = t_pid t \<and> rq_delta_us e = delta \<and>
      map_lookup mops (rq_start (fst (runq_step mops pops ts cfg (Switch e2 prev t) st1))) (t_pid t) = None"
proof -
  note bm = bpf_hash_map.axioms(1) [OF assms(1)]
  have "map_lookup mops (rq_start st1) (t_pid t) = Some (time_enqueue e1)"
    using assms(3,4,5,9) by (simp add: runq_run_other [OF assms(1)] handle__sched_wakeup_def trace_enqueue_lookup [OF bm])
  then have "map_lookup mops (rq_start (after_prev mops ts cfg e2 prev st1)) (t_pid t) = Some (time_enqueue e1)"
    using assms(6) by (simp add: after_prev_def trace_enqueue_other [OF bm])
  then show ?thesis
    using assms(7,8,10)
    by (auto simp: switch_unfold Let_def after_prev_simps(1) bpf_perf.output_records [OF assms(2)]
        bpf_hash_map.delete_gone [OF assms(1)])
qed

lemma runq_latency_measured_example:
  "\<exists>e. perf_records perf_inst_ops (rq_events (fst (runq_step (hash_ops START_ENTRIES) perf_inst_ops (CStruct [])
       \<lparr>min_us = 10, targ_pid = 0, targ_tgid = 0\<rparr> (Switch (rq_env 21000) (rq_task_of 9 1) (rq_task_of 5 0))
       (run_steps (runq_step (hash_ops START_ENTRIES) perf_inst_ops (CStruct []) \<lparr>min_us = 10, targ_pid = 0, targ_tgid = 0\<rparr>)
         [Wakeup (rq_env 1000) (rq_task_of 5 0)] \<lparr>rq_start = [], rq_events = (3, [])\<rparr>)))) =
     [] @ [e] \<and> rq_pid e = 5 \<and> rq_delta_us e = 20"
proof -
  let ?cfg = "\<lparr>min_us = 10, targ_pid = 0, targ_tgid = 0\<rparr>" and ?st = "\<lparr>rq_start = [] :: (u32 \<times> u64) list, rq_events = (3, [])\<rparr>"
  let ?st1 = "run_steps (runq_step (hash_ops START_ENTRIES) perf_inst_ops (CStruct []) ?cfg)
    [Wakeup (rq_env 1000) (rq_task_of 5 0)] ?st"
  have a: "wanted ?cfg (t_tgid (rq_task_of 5 0)) (t_pid (rq_task_of 5 0))" by code_simp
  have b: "snd (map_update (hash_ops START_ENTRIES) (rq_start ?st) (t_pid (rq_task_of 5 0)) (time_enqueue (rq_env 1000)) 0) = 0"
    by code_simp
  have c: "t_pid (rq_task_of 9 1) \<noteq> t_pid (rq_task_of 5 0)" by code_simp
  have d: "20 = (time_switch (rq_env 21000) - time_enqueue (rq_env 1000)) div 1000" by code_simp
  have f: "min_us ?cfg = 0 \<or> min_us ?cfg < 20" by simp
  have g: "snd (perf_output perf_inst_ops (rq_events ?st1) e k) = 0" for e k
    by (simp add: handle__sched_wakeup_def inst_defs)
  have h: "perf_records perf_inst_ops (rq_events ?st1) = []"
    by (simp add: handle__sched_wakeup_def inst_defs)
  show ?thesis
    using runq_latency_measured [OF hash.bpf_hash_map_axioms perf.bpf_perf_axioms a b _ c d f _ g, of "[]"]
    unfolding h by (auto simp: rq_task_of_def)
qed

end
