(* ===== verification/Capable.thy ===== *)
theory Capable
  imports Bpf_Helpers Layout
begin

text \<open>
  The capability check tracer \<^verbatim>\<open>libbpf-rs/examples/capable/src/bpf/capable.bpf.c\<close> with \<^verbatim>\<open>capable.h\<close>.
  Every call of \<^verbatim>\<open>cap_capable\<close> is filtered by process and by audit flag, optionally reported only
  once per process or per cgroup, and sent to user space.
\<close>

section \<open>Data\<close>

datatype uniqueness = UNQ_OFF | UNQ_PID | UNQ_CGROUP

text \<open>The enumeration is ordered by its values, as C compares them.\<close>

primrec uniqueness_val :: "uniqueness \<Rightarrow> nat" where
  "uniqueness_val UNQ_OFF = 0"
| "uniqueness_val UNQ_PID = 1"
| "uniqueness_val UNQ_CGROUP = 2"

lemma uniqueness_val_inj: "uniqueness_val x = uniqueness_val y \<Longrightarrow> x = y"
  by (cases x; cases y) simp_all

instantiation uniqueness :: linorder
begin

definition less_eq_uniqueness :: "uniqueness \<Rightarrow> uniqueness \<Rightarrow> bool" where
  "less_eq_uniqueness x y = (uniqueness_val x \<le> uniqueness_val y)"

definition less_uniqueness :: "uniqueness \<Rightarrow> uniqueness \<Rightarrow> bool" where
  "less_uniqueness x y = (uniqueness_val x < uniqueness_val y)"

instance
  by standard (auto simp: less_eq_uniqueness_def less_uniqueness_def intro: uniqueness_val_inj)

end

record cap_event =
  ce_tgid :: u32
  ce_pid :: s32
  ce_uid :: u32
  ce_cap :: s32
  ce_audit :: s32
  ce_insetid :: s32
  ce_comm :: bytes
  ce_kernel_stack_id :: s32
  ce_user_stack_id :: s32

definition cap_event_layout :: ctype where
  "cap_event_layout = CStruct
     [Field ''tgid'' c_int,
      Field ''pid'' c_int,
      Field ''uid'' c_int,
      Field ''cap'' c_int,
      Field ''audit'' c_int,
      Field ''insetid'' c_int,
      Field ''comm'' (CArray c_char TASK_COMM_LEN),
      Field ''kernel_stack_id'' c_int,
      Field ''user_stack_id'' c_int]"

record tool_config =
  cfg_tgid :: u32
  cfg_verbose :: bool
  cfg_unique_type :: uniqueness

record unique_key =
  uk_cap :: s32
  uk_tgid :: u32
  uk_cgroupid :: u64

definition SEEN_ENTRIES :: nat where "SEEN_ENTRIES = 10240"

record ('m, 'p) capable_state =
  cap_seen :: 'm
  cap_events :: 'p

section \<open>The program\<close>

definition KERNEL_VERSION :: "int \<Rightarrow> int \<Rightarrow> int \<Rightarrow> int" where
  "KERNEL_VERSION a b c = a * 65536 + b * 256 + c"

text \<open>The audit and insetid flags: two bits of the option argument since 5.1, the argument itself before.\<close>

definition cap_flags :: "int \<Rightarrow> s32 \<Rightarrow> s32 \<times> s32" where
  "cap_flags LINUX_KERNEL_VERSION cap_opt =
     (if KERNEL_VERSION 5 1 0 \<le> LINUX_KERNEL_VERSION
      then ((if cap_opt AND 0b10 = 0 then 1 else 0), (if cap_opt AND 0b100 \<noteq> 0 then 1 else 0))
      else (cap_opt, - 1))"

definition record_cap ::
  "('m, unique_key, u64) map_ops \<Rightarrow> ('p, cap_event) perf_ops \<Rightarrow> int \<Rightarrow> tool_config \<Rightarrow> task_env \<Rightarrow>
   s32 \<Rightarrow> s32 \<Rightarrow> ('m, 'p) capable_state \<Rightarrow> ('m, 'p) capable_state \<times> int" where
  "record_cap mops pops kver cfg env cap cap_opt st =
     (let tgid = tgid_of (current_pid_tgid env);
          pid = tid_of (current_pid_tgid env);
          (audit, insetid) = cap_flags kver cap_opt
      in if cfg_tgid cfg \<noteq> 0 \<and> tgid \<noteq> cfg_tgid cfg then (st, 0)
         else if \<not> cfg_verbose cfg \<and> audit = 0 then (st, 0)
         else
           let event = \<lparr>ce_tgid = tgid, ce_pid = pid, ce_uid = ucast (current_uid_gid env), ce_cap = cap,
                        ce_audit = audit, ce_insetid = insetid, ce_comm = replicate TASK_COMM_LEN 0,
                        ce_kernel_stack_id = 0, ce_user_stack_id = 0\<rparr>;
               key = (if cfg_unique_type cfg = UNQ_CGROUP
                      then \<lparr>uk_cap = cap, uk_tgid = 0, uk_cgroupid = current_cgroup_id env\<rparr>
                      else \<lparr>uk_cap = cap, uk_tgid = tgid, uk_cgroupid = 0\<rparr>)
           in if cfg_unique_type cfg \<noteq> UNQ_OFF \<and> map_lookup mops (cap_seen st) key \<noteq> None then (st, 0)
              else
                let st1 = (if cfg_unique_type cfg \<noteq> UNQ_OFF
                           then st\<lparr>cap_seen := fst (map_update mops (cap_seen st) key 0 0)\<rparr> else st);
                    event1 = event\<lparr>ce_comm := fst (current_comm env TASK_COMM_LEN)\<rparr>
                in (st1\<lparr>cap_events := fst (perf_output pops (cap_events st1) event1 (csizeof cap_event_layout))\<rparr>, 0))"

text \<open>One hit of the probe: the current task and the arguments \<^verbatim>\<open>cap\<close> and \<^verbatim>\<open>cap_opt\<close>.\<close>

type_synonym cap_hit = "task_env \<times> s32 \<times> s32"

definition kprobe__cap_capable ::
  "('m, unique_key, u64) map_ops \<Rightarrow> ('p, cap_event) perf_ops \<Rightarrow> int \<Rightarrow> tool_config \<Rightarrow> cap_hit \<Rightarrow>
   ('m, 'p) capable_state \<Rightarrow> ('m, 'p) capable_state \<times> int" where
  "kprobe__cap_capable mops pops kver cfg hit st =
     (case hit of (env, cap, cap_opt) \<Rightarrow> record_cap mops pops kver cfg env cap cap_opt st)"

section \<open>Lemmas\<close>

definition hit_key :: "tool_config \<Rightarrow> cap_hit \<Rightarrow> unique_key" where
  "hit_key cfg hit = (case hit of (env, cap, cap_opt) \<Rightarrow>
     if cfg_unique_type cfg = UNQ_CGROUP then \<lparr>uk_cap = cap, uk_tgid = 0, uk_cgroupid = current_cgroup_id env\<rparr>
     else \<lparr>uk_cap = cap, uk_tgid = tgid_of (current_pid_tgid env), uk_cgroupid = 0\<rparr>)"

text \<open>
  The event a hit should give. From Linux 5.1 (version code \<^verbatim>\<open>0x50100\<close>) on the last argument of \<^verbatim>\<open>cap_capable\<close> is a set of
  options, of which bit 1 is \<^verbatim>\<open>CAP_OPT_NOAUDIT\<close> and bit 2 \<^verbatim>\<open>CAP_OPT_INSETID\<close>; before, it is the audit flag.
\<close>

definition hit_event :: "int \<Rightarrow> cap_hit \<Rightarrow> cap_event" where
  "hit_event kver hit = (case hit of (env, cap, cap_opt) \<Rightarrow>
     \<lparr>ce_tgid = tgid_of (current_pid_tgid env), ce_pid = tid_of (current_pid_tgid env),
      ce_uid = ucast (current_uid_gid env), ce_cap = cap,
      ce_audit = (if kver < 0x50100 then cap_opt else of_bool (\<not> bit cap_opt 1)),
      ce_insetid = (if kver < 0x50100 then -1 else of_bool (bit cap_opt 2)),
      ce_comm = fst (current_comm env TASK_COMM_LEN), ce_kernel_stack_id = 0, ce_user_stack_id = 0\<rparr>)"

lemma mask_bit: "(w :: 'a :: len word) AND 2 ^ n = 0 \<longleftrightarrow> \<not> bit w n" if "n < LENGTH('a)"
proof -
  have "w AND 2 ^ n = (if bit w n then 2 ^ n else 0)"
    by (rule bit_word_eqI) (auto simp: bit_simps)
  moreover have "(2 ^ n :: 'a word) \<noteq> 0" using that by simp
  ultimately show ?thesis by simp
qed

lemma cap_flags_eq:
  "cap_flags kver opt =
     (if kver < 0x50100 then (opt, -1) else (of_bool (\<not> bit opt 1), of_bool (bit opt 2)))"
  using mask_bit [of 1 opt] mask_bit [of 2 opt] by (auto simp: cap_flags_def KERNEL_VERSION_def)

definition event_wanted :: "tool_config \<Rightarrow> cap_event \<Rightarrow> bool" where
  "event_wanted cfg e \<longleftrightarrow> (cfg_tgid cfg = 0 \<or> ce_tgid e = cfg_tgid cfg) \<and> (cfg_verbose cfg \<or> ce_audit e \<noteq> 0)"

definition is_fresh ::
  "('m, unique_key, u64) map_ops \<Rightarrow> tool_config \<Rightarrow> ('m, 'p) capable_state \<Rightarrow> cap_hit \<Rightarrow> bool" where
  "is_fresh mops cfg st hit \<longleftrightarrow> cfg_unique_type cfg = UNQ_OFF \<or> map_lookup mops (cap_seen st) (hit_key cfg hit) = None"

lemma capable_unfold:
  "kprobe__cap_capable mops pops kver cfg hit st =
     (if event_wanted cfg (hit_event kver hit) \<and> is_fresh mops cfg st hit then
        (st\<lparr>cap_seen := (if cfg_unique_type cfg = UNQ_OFF then cap_seen st
                         else fst (map_update mops (cap_seen st) (hit_key cfg hit) 0 0)),
            cap_events := fst (perf_output pops (cap_events st) (hit_event kver hit) (csizeof cap_event_layout))\<rparr>, 0)
      else (st, 0))"
  by (cases hit) (simp add: kprobe__cap_capable_def record_cap_def hit_key_def hit_event_def event_wanted_def
      is_fresh_def Let_def case_prod_beta cap_flags_eq)

lemma capable_event_source:
  assumes "bpf_perf pops"
  shows "event_source (kprobe__cap_capable mops pops kver cfg) (\<lambda>st. True)
    (\<lambda>st. perf_records pops (cap_events st)) (event_wanted cfg)"
  by unfold_locales (auto simp: capable_unfold bpf_perf.output_records [OF assms])

interpretation capable: event_source "kprobe__cap_capable mops perf_inst_ops kver cfg" "\<lambda>st. True"
  "\<lambda>st. perf_records perf_inst_ops (cap_events st)" "event_wanted cfg"
  by (rule capable_event_source [OF perf.bpf_perf_axioms])

text \<open>The part of the key an event shows in the mode \<^const>\<open>UNQ_PID\<close>.\<close>

definition pid_key :: "cap_event \<Rightarrow> unique_key" where
  "pid_key e = \<lparr>uk_cap = ce_cap e, uk_tgid = ce_tgid e, uk_cgroupid = 0\<rparr>"

lemma pid_key_hit: "cfg_unique_type cfg = UNQ_PID \<Longrightarrow> hit_key cfg hit = pid_key (hit_event kver hit)"
  by (cases hit) (simp add: hit_key_def pid_key_def hit_event_def)

text \<open>
  The invariant behind uniqueness: the keys of the records sent so far are distinct, and all of
  them are in the table.
\<close>

definition unique_inv ::
  "('m, unique_key, u64) map_ops \<Rightarrow> ('p, cap_event) perf_ops \<Rightarrow> ('m, 'p) capable_state \<Rightarrow> bool" where
  "unique_inv mops pops st \<longleftrightarrow>
     distinct (map pid_key (perf_records pops (cap_events st))) \<and>
     pid_key ` set (perf_records pops (cap_events st)) \<subseteq> dom (map_lookup mops (cap_seen st)) \<and>
     finite (dom (map_lookup mops (cap_seen st)))"

lemma unique_step:
  assumes "bpf_hash_map mops n" and "bpf_perf pops" and "cfg_unique_type cfg = UNQ_PID"
    and "unique_inv mops pops st" and "card (dom (map_lookup mops (cap_seen st))) < n"
  shows "unique_inv mops pops (fst (kprobe__cap_capable mops pops kver cfg hit st)) \<and>
    card (dom (map_lookup mops (cap_seen (fst (kprobe__cap_capable mops pops kver cfg hit st)))))
      \<le> Suc (card (dom (map_lookup mops (cap_seen st))))"
proof (cases "event_wanted cfg (hit_event kver hit) \<and> is_fresh mops cfg st hit")
  case False
  then show ?thesis using assms(4) by (auto simp: capable_unfold)
next
  case True
  let ?k = "pid_key (hit_event kver hit)"
  have fin: "finite (dom (map_lookup mops (cap_seen st)))" using assms(4) by (simp add: unique_inv_def)
  have upd: "map_lookup mops (fst (map_update mops (cap_seen st) ?k 0 0)) = (map_lookup mops (cap_seen st))(?k \<mapsto> 0)"
    using bpf_hash_map.update_any [OF assms(1) assms(5) fin, of ?k 0] by (simp add: BPF_ANY_def)
  have new: "?k \<notin> dom (map_lookup mops (cap_seen st))"
    using True assms(3) by (auto simp: is_fresh_def pid_key_hit [OF assms(3), of _ kver])
  with True assms(3,4) show ?thesis
    by (auto simp: capable_unfold pid_key_hit [OF assms(3), of _ kver] upd unique_inv_def
        bpf_perf.output_records [OF assms(2)] card_insert_if)
qed

lemma unique_run:
  assumes "bpf_hash_map mops n" and "bpf_perf pops" and "cfg_unique_type cfg = UNQ_PID"
    and "unique_inv mops pops st" and "card (dom (map_lookup mops (cap_seen st))) + length hits \<le> n"
  shows "unique_inv mops pops (run_steps (kprobe__cap_capable mops pops kver cfg) hits st)"
  using assms(4,5)
proof (induction hits arbitrary: st)
  case Nil
  then show ?case by simp
next
  case (Cons h hits)
  have "card (dom (map_lookup mops (cap_seen st))) < n" using Cons.prems(2) by simp
  note step = unique_step [OF assms(1-3) Cons.prems(1) this, of kver h]
  with Cons.prems(2) show ?case by (simp add: Cons.IH)
qed

section \<open>Properties\<close>

definition cap_hit_of :: "u32 \<Rightarrow> s32 \<Rightarrow> cap_hit" where
  "cap_hit_of p cap = (\<lparr>current_pid_tgid = pid_tgid_join p p, current_uid_gid = 0, current_cgroup_id = 1,
     current_comm = comm_of [108, 115], ktime_ns = 0, smp_processor_id = 0\<rparr>, cap, 0)"

definition cap_cfg :: tool_config where
  "cap_cfg = \<lparr>cfg_tgid = 0, cfg_verbose = False, cfg_unique_type = UNQ_PID\<rparr>"

text \<open>C19: one hit of the probe, on every branch. It returns 0; it sends the event of the hit exactly
  when the process and audit filters let it through, the key was not seen before (if uniqueness is
  on) and the perf buffer takes it; the event holds the audit and insetid flags as the running kernel
  encodes them in the last argument (two of its bits from 5.1 on, the argument itself before); the table gains the key of the hit exactly when the event was
  let through, uniqueness is on and the map takes the key.\<close>

theorem capable_exact:
  assumes "bpf_map mops" and "bpf_perf pops"
  shows "snd (kprobe__cap_capable mops pops kver cfg hit st) = 0 \<and>
    perf_records pops (cap_events (fst (kprobe__cap_capable mops pops kver cfg hit st))) =
      perf_records pops (cap_events st) @
        (if event_wanted cfg (hit_event kver hit) \<and> is_fresh mops cfg st hit \<and>
            snd (perf_output pops (cap_events st) (hit_event kver hit) (csizeof cap_event_layout)) = 0
         then [hit_event kver hit] else []) \<and>
    map_lookup mops (cap_seen (fst (kprobe__cap_capable mops pops kver cfg hit st))) =
      (if event_wanted cfg (hit_event kver hit) \<and> is_fresh mops cfg st hit \<and> cfg_unique_type cfg \<noteq> UNQ_OFF \<and>
          snd (map_update mops (cap_seen st) (hit_key cfg hit) 0 0) = 0
       then (map_lookup mops (cap_seen st))(hit_key cfg hit \<mapsto> 0) else map_lookup mops (cap_seen st))"
  by (auto simp: capable_unfold bpf_perf.output_records [OF assms(2)] bpf_map.lookup_update [OF assms(1)])

theorem capable_exact_witness:
  "perf_records perf_inst_ops (cap_events (fst (kprobe__cap_capable (hash_ops SEEN_ENTRIES) perf_inst_ops
     (KERNEL_VERSION 5 15 0) cap_cfg (cap_hit_of 7 21) \<lparr>cap_seen = [], cap_events = (4, [])\<rparr>))) =
   [\<lparr>ce_tgid = 7, ce_pid = 7, ce_uid = 0, ce_cap = 21, ce_audit = 1, ce_insetid = 0, ce_comm = [108, 115] @ replicate 14 0,
     ce_kernel_stack_id = 0, ce_user_stack_id = 0\<rparr>]"
proof -
  let ?st = "\<lparr>cap_seen = [] :: (unique_key \<times> u64) list, cap_events = (4, [])\<rparr>"
  have "event_wanted cap_cfg (hit_event (KERNEL_VERSION 5 15 0) (cap_hit_of 7 21))" by code_simp
  moreover have "is_fresh (hash_ops SEEN_ENTRIES) cap_cfg ?st (cap_hit_of 7 21)" by (simp add: is_fresh_def hash_ops_def)
  moreover have "hit_event (KERNEL_VERSION 5 15 0) (cap_hit_of 7 21) =
    \<lparr>ce_tgid = 7, ce_pid = 7, ce_uid = 0, ce_cap = 21, ce_audit = 1, ce_insetid = 0, ce_comm = [108, 115] @ replicate 14 0,
     ce_kernel_stack_id = 0, ce_user_stack_id = 0\<rparr>" by code_simp
  ultimately show ?thesis
    using capable_exact [OF hash.bpf_map_axioms perf.bpf_perf_axioms, of SEEN_ENTRIES "KERNEL_VERSION 5 15 0" cap_cfg
      "cap_hit_of 7 21" ?st]
    by (simp add: inst_defs)
qed

text \<open>Over any sequence of hits, every event sent passes the configured process filter and, unless
  the tool is verbose, carries the audit flag; at most one event is sent per hit.\<close>

lemma capable_run_sound:
  assumes "bpf_perf pops"
  shows "\<exists>es. perf_records pops (cap_events (run_steps (kprobe__cap_capable mops pops kver cfg) hits st)) =
      perf_records pops (cap_events st) @ es \<and> length es \<le> length hits \<and> list_all (event_wanted cfg) es"
  by (rule event_source.run_emits [OF capable_event_source [OF assms]]) simp

text \<open>In the mode \<^verbatim>\<open>UNQ_PID\<close> no capability is reported twice for the same process, over any
  sequence of hits no longer than the table is large (10240 entries). Past that the table is full,
  keys are no longer remembered and repeats are possible.\<close>

lemma unique_pid_reports_once:
  assumes "bpf_hash_map mops SEEN_ENTRIES" and "bpf_perf pops" and "cfg_unique_type cfg = UNQ_PID"
    and "map_lookup mops (cap_seen st) = Map.empty" and "perf_records pops (cap_events st) = []"
    and "length hits \<le> SEEN_ENTRIES"
  shows "distinct (map (\<lambda>e. (ce_cap e, ce_tgid e))
    (perf_records pops (cap_events (run_steps (kprobe__cap_capable mops pops kver cfg) hits st))))"
proof -
  have "unique_inv mops pops (run_steps (kprobe__cap_capable mops pops kver cfg) hits st)"
    using assms by (intro unique_run [OF assms(1-3)]) (simp_all add: unique_inv_def)
  then have "distinct (map pid_key (perf_records pops (cap_events (run_steps (kprobe__cap_capable mops pops kver cfg) hits st))))"
    by (simp add: unique_inv_def)
  then show ?thesis
    by (auto simp: distinct_map inj_on_def pid_key_def)
qed

end
