(* ===== verification/Front_Ends.thy ===== *)
theory Front_Ends
  imports Rust_Std Port_Whitelist Runqslower Capable
begin

text \<open>
  The Rust front ends of three of the examples of \<^verbatim>\<open>libbpf-rs\<close>: \<^verbatim>\<open>runqslower/src/main.rs\<close>,
  \<^verbatim>\<open>capable/src/main.rs\<close> and \<^verbatim>\<open>tc_port_whitelist/src/main.rs\<close>. They turn the options into the constants or the
  map of the BPF program, load and attach it, and print its events. Option parsing (\<^verbatim>\<open>clap\<close>), the \<^verbatim>\<open>plain\<close>
  crate and libbpf are parameters: a front end takes the parsed options, the results of its calls and
  the rounds of the polling loop.
\<close>

section \<open>Shared parts\<close>

datatype cell = Txt string | Num int

text \<open>A line of output: the format string and its arguments.\<close>

type_synonym fe_line = "string \<times> cell list"

text \<open>The steps all front ends take before they trace; each error ends \<^verbatim>\<open>main\<close>.\<close>

record fe_startup =
  fe_setrlimit :: int
  fe_open :: bool
  fe_load :: bool
  fe_attach :: bool
  fe_perf :: bool

definition fe_started :: "fe_startup \<Rightarrow> bool" where
  "fe_started su \<longleftrightarrow> fe_setrlimit su = 0 \<and> fe_open su \<and> fe_load su \<and> fe_attach su"

text \<open>
  The callbacks of one poll, and the endless loop of polls: a poll that fails (\<^term>\<open>None\<close>) ends it with an
  error, a panic of a callback ends it at once. The result \<^term>\<open>None\<close>: still polling.
\<close>

datatype fe_call = FeSample bytes | FeLost int u64

definition lost_line :: "int \<Rightarrow> u64 \<Rightarrow> fe_line" where
  "lost_line cpu count = (''Lost {} events on CPU {}'', [Num (uint count), Num cpu])"

fun fe_callbacks :: "(bytes \<Rightarrow> fe_line rust_result) \<Rightarrow> fe_call list \<Rightarrow> fe_line list \<times> bool" where
  "fe_callbacks cb [] = ([], True)"
| "fe_callbacks cb (FeLost cpu n # cs) = (case fe_callbacks cb cs of (l, ok) \<Rightarrow> (lost_line cpu n # l, ok))"
| "fe_callbacks cb (FeSample data # cs) =
     (case cb data of
        Ok line \<Rightarrow> (case fe_callbacks cb cs of (l, ok) \<Rightarrow> (line # l, ok))
      | _ \<Rightarrow> ([], False))"

fun fe_poll :: "(bytes \<Rightarrow> fe_line rust_result) \<Rightarrow> fe_call list option list \<Rightarrow> fe_line list \<times> unit rust_result option" where
  "fe_poll cb [] = ([], None)"
| "fe_poll cb (None # rounds) = ([], Some Err)"
| "fe_poll cb (Some cs # rounds) =
     (case fe_callbacks cb cs of
        (l, False) \<Rightarrow> (l, Some Panic)
      | (l, True) \<Rightarrow> (case fe_poll cb rounds of (l', r) \<Rightarrow> (l @ l', r)))"

text \<open>\<^verbatim>\<open>trim_end_matches(char::from(0))\<close>\<close>

definition trim_end_nul :: "bytes \<Rightarrow> bytes" where
  "trim_end_nul bs = rev (dropWhile (\<lambda>b. b = 0) (rev bs))"

section \<open>runqslower\<close>

record runq_opts =
  ro_latency :: u64
  ro_pid :: s32
  ro_tid :: s32

definition runq_rodata :: "runq_opts \<Rightarrow> runq_config" where
  "runq_rodata opts = \<lparr>min_us = ro_latency opts, targ_pid = ro_pid opts, targ_tgid = ro_tid opts\<rparr>"

definition runq_handle_event :: "(bytes \<Rightarrow> runq_event option) \<Rightarrow> string \<Rightarrow> bytes \<Rightarrow> fe_line rust_result" where
  "runq_handle_event copy_from_bytes now data =
     (case copy_from_bytes data of
        None \<Rightarrow> Panic
      | Some event \<Rightarrow>
          if utf8 (map unat (rq_task event))
          then Ok (''{:8} {:16} {:<7} {:<14}'',
            [Txt now, Txt (str_of (trim_end_nul (rq_task event))), Num (sint (rq_pid event)), Num (uint (rq_delta_us event))])
          else Panic)"

definition runq_main ::
  "(bytes \<Rightarrow> runq_event option) \<Rightarrow> string \<Rightarrow> fe_startup \<Rightarrow> runq_opts \<Rightarrow> fe_call list option list \<Rightarrow>
   fe_line list \<times> unit rust_result option" where
  "runq_main copy now su opts rounds =
     (if \<not> fe_started su then ([], Some Err)
      else let banner = [(''Tracing run queue latency higher than {} us'', [Num (uint (ro_latency opts))]),
                         (''{:8} {:16} {:7} {:14}'', map Txt [''TIME'', ''COMM'', ''TID'', ''LAT(us)''])]
           in if \<not> fe_perf su then (banner, Some Err)
              else case fe_poll (runq_handle_event copy now) rounds of (l, r) \<Rightarrow> (banner @ l, r))"

section \<open>capable\<close>

record cap_opts =
  co_verbose :: bool
  co_pid :: u32
  co_extra_fields :: bool
  co_unique_type :: uniqueness

definition CAPS :: "string list" where
  "CAPS = [''CAP_CHOWN'', ''CAP_DAC_OVERRIDE'', ''CAP_DAC_READ_SEARCH'', ''CAP_FOWNER'', ''CAP_FSETID'', ''CAP_KILL'',
     ''CAP_SETGID'', ''CAP_SETUID'', ''CAP_SETPCAP'', ''CAP_LINUX_IMMUTABLE'', ''CAP_NET_BIND_SERVICE'', ''CAP_NET_BROADCAST'',
     ''CAP_NET_ADMIN'', ''CAP_NET_RAW'', ''CAP_IPC_LOCK'', ''CAP_IPC_OWNER'', ''CAP_SYS_MODULE'', ''CAP_SYS_RAWIO'',
     ''CAP_SYS_CHROOT'', ''CAP_SYS_PTRACE'', ''CAP_SYS_PACCT'', ''CAP_SYS_ADMIN'', ''CAP_SYS_BOOT'', ''CAP_SYS_NICE'',
     ''CAP_SYS_RESOURCE'', ''CAP_SYS_TIME'', ''CAP_SYS_TTY_CONFIG'', ''CAP_MKNOD'', ''CAP_LEASE'', ''CAP_AUDIT_WRITE'',
     ''CAP_AUDIT_CONTROL'', ''CAP_SETFCAP'', ''CAP_MAC_OVERRIDE'', ''CAP_MAC_ADMIN'', ''CAP_SYSLOG'', ''CAP_WAKE_ALARM'',
     ''CAP_BLOCK_SUSPEND'', ''CAP_AUDIT_READ'', ''CAP_PERFMON'', ''CAP_BPF'', ''CAP_CHECKPOINT_RESTORE'']"

text \<open>\<^verbatim>\<open>CAPS.get\<close>, a table from the numbers 0 to 40, with \<^verbatim>\<open>"?"\<close> for any other.\<close>

definition cap_name :: "s32 \<Rightarrow> string" where
  "cap_name cap = (if 0 \<le> sint cap \<and> sint cap < int (length CAPS) then CAPS ! nat (sint cap) else ''?'')"

text \<open>\<^verbatim>\<open>FromStr for uniqueness\<close>: the option \<^verbatim>\<open>--unique\<close>, in any case; only ASCII letters have one of
  these letters as their lower case.\<close>

definition ascii_lower :: "char \<Rightarrow> char" where
  "ascii_lower c = (let n = of_char c :: nat in if 65 \<le> n \<and> n \<le> 90 then char_of (n + 32) else c)"

definition uniqueness_from_str :: "string \<Rightarrow> uniqueness option" where
  "uniqueness_from_str s =
     (let l = map ascii_lower s in
      if l = ''off'' then Some UNQ_OFF else if l = ''pid'' then Some UNQ_PID else if l = ''cgroup'' then Some UNQ_CGROUP else None)"

definition cap_rodata :: "cap_opts \<Rightarrow> tool_config" where
  "cap_rodata opts = \<lparr>cfg_tgid = co_pid opts, cfg_verbose = co_verbose opts, cfg_unique_type = co_unique_type opts\<rparr>"

definition cap_handle_event ::
  "(bytes \<Rightarrow> cap_event option) \<Rightarrow> string \<Rightarrow> cap_opts \<Rightarrow> bytes \<Rightarrow> fe_line rust_result" where
  "cap_handle_event copy_from_bytes now opts data =
     (case copy_from_bytes data of
        None \<Rightarrow> Panic
      | Some event \<Rightarrow>
          if \<not> utf8 (map unat (ce_comm event)) then Panic
          else
            let comm_str = str_of (trim_end_nul (ce_comm event)); name = cap_name (ce_cap event) in
            Ok (if co_extra_fields opts
                then (''{:9} {:6} {:<6} {:<6} {:<16} {:<4} {:<20} {:<6} {}'',
                  [Txt now, Num (uint (ce_uid event)), Num (uint (ce_tgid event)), Num (sint (ce_pid event)), Txt comm_str,
                   Num (sint (ce_cap event)), Txt name, Num (sint (ce_audit event)), Num (sint (ce_insetid event))])
                else (''{:9} {:6} {:<6} {:<16} {:<4} {:<20} {:<6}'',
                  [Txt now, Num (uint (ce_uid event)), Num (uint (ce_tgid event)), Txt comm_str,
                   Num (sint (ce_cap event)), Txt name, Num (sint (ce_audit event))])))"

definition print_banner :: "bool \<Rightarrow> fe_line" where
  "print_banner extra_fields =
     (if extra_fields
      then (''{:9} {:6} {:6} {:6} {:16} {:4} {:20} {:6} {}'',
        map Txt [''TIME'', ''UID'', ''PID'', ''TID'', ''COMM'', ''CAP'', ''NAME'', ''AUDIT'', ''INSETID''])
      else (''{:9} {:6} {:6} {:16} {:4} {:20} {:6}'', map Txt [''TIME'', ''UID'', ''PID'', ''COMM'', ''CAP'', ''NAME'', ''AUDIT'']))"

definition cap_main ::
  "(bytes \<Rightarrow> cap_event option) \<Rightarrow> string \<Rightarrow> fe_startup \<Rightarrow> cap_opts \<Rightarrow> fe_call list option list \<Rightarrow>
   fe_line list \<times> unit rust_result option" where
  "cap_main copy now su opts rounds =
     (if \<not> fe_started su then ([], Some Err)
      else let banner = print_banner (co_extra_fields opts) in
        if \<not> fe_perf su then ([banner], Some Err)
        else case fe_poll (cap_handle_event copy now opts) rounds of (l, r) \<Rightarrow> (banner # l, r))"

section \<open>tc_port_whitelist\<close>

datatype tc_hook = Egress | Ingress | Custom

record wl_opts =
  wo_ports :: "u16 list"
  wo_attach :: bool
  wo_detach :: bool
  wo_destroy :: bool
  wo_query :: bool

text \<open>The results of the calls; \<open>wl_query\<close> is the program id of a hook, if it is found.\<close>

record wl_env =
  wl_setrlimit :: int
  wl_open :: bool
  wl_load :: bool
  wl_ifindex :: "int option"
  wl_query :: "tc_hook \<Rightarrow> int option"
  wl_detach_ok :: "tc_hook \<Rightarrow> bool"
  wl_create_ok :: bool
  wl_attach_ok :: "tc_hook \<Rightarrow> bool"
  wl_destroy_ok :: bool

datatype wl_action = HookQuery tc_hook | HookDetach tc_hook | HookCreate tc_hook | HookAttach tc_hook | HookDestroyAll | Say fe_line

definition say_if :: "bool \<Rightarrow> string \<Rightarrow> wl_action list" where
  "say_if c s = (if c then [Say (s, [])] else [])"

text \<open>The loop over the ports, from index \<open>i\<close> on; a refused update ends the program.\<close>

fun set_ports :: "('m, u32, u16) map_ops \<Rightarrow> nat \<Rightarrow> u16 list \<Rightarrow> 'm \<Rightarrow> 'm \<times> bool" where
  "set_ports ops i [] m = (m, True)"
| "set_ports ops i (port # ports) m =
     (let (m', rc) = map_update ops m (of_nat i) port BPF_ANY
      in if rc \<noteq> 0 then (m', False) else set_ports ops (Suc i) ports m')"

definition query_hook :: "wl_env \<Rightarrow> tc_hook \<Rightarrow> wl_action list" where
  "query_hook env h = [HookQuery h, Say (case wl_query env h of
     None \<Rightarrow> (''failed to find custom hook: {}'', []) | Some prog_id \<Rightarrow> (''found custom hook prog_id: {}'', [Num prog_id]))]"

definition wl_main :: "('m, u32, u16) map_ops \<Rightarrow> wl_env \<Rightarrow> wl_opts \<Rightarrow> 'm \<Rightarrow> wl_action list \<times> 'm \<times> unit rust_result" where
  "wl_main ops env opts m =
     (if wl_setrlimit env \<noteq> 0 \<or> \<not> wl_open env \<or> \<not> wl_load env \<or> wl_ifindex env = None then ([], m, Err)
      else
        let qs = (if wo_query opts then query_hook env Custom @ query_hook env Egress @ query_hook env Ingress else []);
            ds = (if wo_detach opts
                  then HookDetach Ingress # say_if (\<not> wl_detach_ok env Ingress) ''failed to detach ingress hook {}'' @
                       HookDetach Egress # say_if (\<not> wl_detach_ok env Egress) ''failed to detach egress hook {}'' @
                       HookDetach Custom # say_if (\<not> wl_detach_ok env Custom) ''failed to detach custom hook {}''
                  else []);
            as = HookCreate Ingress #
                 (if wl_create_ok env
                  then HookAttach Egress # say_if (\<not> wl_attach_ok env Egress) ''failed to attach egress hook {}'' @
                       HookAttach Ingress # say_if (\<not> wl_attach_ok env Ingress) ''failed to attach ingress hook {}'' @
                       HookAttach Custom # say_if (\<not> wl_attach_ok env Custom) ''failed to attach custom hook {}''
                  else []);
            xs = (if wo_destroy opts then HookDestroyAll # say_if (\<not> wl_destroy_ok env) ''failed to destroy all {}'' else [])
        in if \<not> wo_attach opts then (qs @ ds @ xs, m, Ok ())
           else case set_ports ops 0 (wo_ports opts) m of
             (m', False) \<Rightarrow> (qs @ ds, m', Err)
           | (m', True) \<Rightarrow> if wl_create_ok env then (qs @ ds @ as @ xs, m', Ok ()) else (qs @ ds @ as, m', Err))"

section \<open>Lemmas\<close>

lemma utf8_zeroes: "utf8 (xs @ replicate k 0) = utf8 xs"
proof (induction xs rule: utf8.induct)
  case 1
  show ?case by (induction k) auto
next
  case (2 a r)
  have z: "utf8 (replicate k 0)" by (induction k) auto
  have c: "\<not> cont 0" by (simp add: cont_def)
  show ?case
  proof (cases r)
    case Nil
    then show ?thesis using 2 z by (cases k) (auto simp: c split: list.splits)
  next
    case (Cons b s)
    then show ?thesis
    proof (cases s)
      case Nil
      with Cons show ?thesis using 2 z by (cases k) (auto simp: c split: list.splits)
    next
      case (Cons b' t)
      with \<open>r = b # s\<close> show ?thesis using 2 z by (cases t; cases k) (auto simp: c split: list.splits)
    qed
  qed
qed

lemma trim_end_padded: "0 \<notin> set n \<Longrightarrow> trim_end_nul (n @ replicate k 0) = n"
proof -
  assume "0 \<notin> set n"
  then have "dropWhile (\<lambda>b. b = 0) (rev n) = rev n"
    by (cases n rule: rev_cases) simp_all
  then have "dropWhile (\<lambda>b. b = 0) (replicate k 0 @ rev n) = rev n"
    by (induction k) simp_all
  then show ?thesis by (simp add: trim_end_nul_def)
qed

lemma set_ports_in_range:
  assumes "bpf_array_map ops n" and "n \<le> 2 ^ 32" and "i + length ports \<le> n"
  shows "snd (set_ports ops i ports m) \<and>
    (\<forall>j < n. map_lookup ops (fst (set_ports ops i ports m)) (of_nat j) =
      (if i \<le> j \<and> j < i + length ports then Some (ports ! (j - i)) else map_lookup ops m (of_nat j)))"
  using assms(3)
proof (induction ports arbitrary: i m)
  case (Cons p ports)
  let ?m = "fst (map_update ops m (of_nat i) p BPF_ANY)"
  have i: "unat (of_nat i :: u32) = i" using Cons.prems assms(2) by (simp add: unat_of_nat)
  have ok: "snd (map_update ops m (of_nat i) p BPF_ANY) = 0"
    using Cons.prems i by (intro bpf_array_map.array_update [OF assms(1)]) simp
  have up: "map_lookup ops ?m = (map_lookup ops m)(of_nat i \<mapsto> p)"
    using ok by (simp add: bpf_map.lookup_update [OF bpf_array_map.axioms(1) [OF assms(1)]])
  have eq: "(of_nat j :: u32) = of_nat i \<longleftrightarrow> j = i" if "j < n" for j
  proof -
    have "unat (of_nat j :: u32) = j" using that assms(2) by (simp add: unat_of_nat)
    with i show ?thesis by metis
  qed
  show ?case
    using Cons.IH [of "Suc i" ?m] Cons.prems ok eq
    by (auto simp: case_prod_beta up nth_Cons' Suc_le_eq)
qed auto

lemma set_ports_too_many:
  assumes "bpf_array_map ops n" and "n < 2 ^ 32" and "i \<le> n" and "n < i + length ports"
  shows "\<not> snd (set_ports ops i ports m)"
  using assms(3,4)
proof (induction ports arbitrary: i m)
  case (Cons p ports)
  show ?case
  proof (cases "i = n")
    case True
    have "unat (of_nat i :: u32) = n" using True assms(2) by (simp add: unat_of_nat)
    then have none: "map_lookup ops m' (of_nat i) = None" for m'
      using bpf_array_map.present [OF assms(1), of m' "of_nat i"] by simp
    have "snd (map_update ops m (of_nat i) p BPF_ANY) \<noteq> 0"
      using bpf_map.lookup_update_same [OF bpf_array_map.axioms(1) [OF assms(1)], of m "of_nat i" p BPF_ANY] none by auto
    then show ?thesis by (simp add: case_prod_beta)
  next
    case False
    then show ?thesis using Cons.IH [of "Suc i"] Cons.prems by (auto simp: case_prod_beta)
  qed
qed simp

text \<open>The ports of a map that was zero before.\<close>

lemma port_set_of:
  assumes "bpf_array_map ops MAX_PORTS" and "length ports \<le> MAX_PORTS"
    and "\<And>i. i < MAX_PORTS \<Longrightarrow> map_lookup ops m (of_nat i) = Some 0"
  shows "port_set ops (fst (set_ports ops 0 ports m)) p \<longleftrightarrow> p \<in> set ports \<or> p = 0 \<and> length ports < MAX_PORTS"
proof -
  have l: "map_lookup ops (fst (set_ports ops 0 ports m)) (of_nat j) = Some (if j < length ports then ports ! j else 0)"
    if "j < MAX_PORTS" for j
    using set_ports_in_range [OF assms(1), of 0 ports m] assms(2,3) that by (simp add: MAX_PORTS_def)
  have "port_set ops (fst (set_ports ops 0 ports m)) p \<longleftrightarrow>
      (\<exists>j < MAX_PORTS. (if j < length ports then ports ! j else 0) = p)"
    using l by (auto simp: port_set_def list_ex_iff)
  also have "\<dots> \<longleftrightarrow> p \<in> set ports \<or> p = 0 \<and> length ports < MAX_PORTS"
    using assms(2) by (auto simp: in_set_conv_nth split: if_splits intro: less_le_trans)
  finally show ?thesis .
qed

section \<open>Properties\<close>

text \<open>The hook actions of a run.\<close>

fun installs :: "wl_action \<Rightarrow> bool" where
  "installs (HookCreate h) = True"
| "installs (HookAttach h) = True"
| "installs a = False"

lemma no_installs [simp]:
  "filter installs (say_if c t) = []" "filter installs (query_hook env h) = []"
  by (simp_all add: say_if_def query_hook_def)

text \<open>C13: the port filter from the command line to the packet. With at most ten ports, a fresh map and the
  option \<^verbatim>\<open>--attach\<close>, the program creates the ingress hook and attaches to all three hooks, and then a
  TCP or UDP packet passes exactly when one of its ports is on the list given, or is 0 and the list has
  fewer than ten ports. With more than ten ports it ends with an error before it installs anything.\<close>

theorem whitelist_ports_effective:
  assumes "bpf_array_map ops MAX_PORTS" and "\<And>i. i < MAX_PORTS \<Longrightarrow> map_lookup ops m (of_nat i) = Some 0"
    and "wl_setrlimit env = 0" and "wl_open env" and "wl_load env" and "wl_ifindex env \<noteq> None" and "wl_create_ok env"
    and "wo_attach opts" and "classify (pkt_bytes skb) = Ports src dst"
  shows "(length (wo_ports opts) \<le> MAX_PORTS \<longrightarrow>
      snd (snd (wl_main ops env opts m)) = Ok () \<and>
      filter installs (fst (wl_main ops env opts m)) = [HookCreate Ingress, HookAttach Egress, HookAttach Ingress, HookAttach Custom] \<and>
      map_option snd (handle_tc ops (fst (snd (wl_main ops env opts m))) g skb tr) =
        Some (if (\<exists>p \<in> {src, dst}. p \<in> set (wo_ports opts) \<or> p = 0 \<and> length (wo_ports opts) < MAX_PORTS)
              then uint (rc_allow g) else uint (rc_disallow g))) \<and>
    (MAX_PORTS < length (wo_ports opts) \<longrightarrow>
      snd (snd (wl_main ops env opts m)) = Err \<and> filter installs (fst (wl_main ops env opts m)) = [])"
proof (intro conjI impI)
  assume few: "length (wo_ports opts) \<le> MAX_PORTS"
  then have ok: "snd (set_ports ops 0 (wo_ports opts) m)"
    using set_ports_in_range [OF assms(1), of 0 "wo_ports opts" m] by (simp add: MAX_PORTS_def)
  note main = wl_main_def Let_def case_prod_beta assms(3-8)
  have m: "fst (snd (wl_main ops env opts m)) = fst (set_ports ops 0 (wo_ports opts) m)"
    using ok by (cases "set_ports ops 0 (wo_ports opts) m") (auto simp: main)
  show "snd (snd (wl_main ops env opts m)) = Ok ()"
    "filter installs (fst (wl_main ops env opts m)) = [HookCreate Ingress, HookAttach Egress, HookAttach Ingress, HookAttach Custom]"
    using ok assms(3-8) by (cases "set_ports ops 0 (wo_ports opts) m"; auto simp: wl_main_def Let_def)+
  show "map_option snd (handle_tc ops (fst (snd (wl_main ops env opts m))) g skb tr) =
      Some (if (\<exists>p \<in> {src, dst}. p \<in> set (wo_ports opts) \<or> p = 0 \<and> length (wo_ports opts) < MAX_PORTS)
            then uint (rc_allow g) else uint (rc_disallow g))"
    unfolding m handle_tc_eq using port_set_of [OF assms(1) few assms(2)] by (simp add: verdict_def assms(9))
next
  assume many: "MAX_PORTS < length (wo_ports opts)"
  then have bad: "\<not> snd (set_ports ops 0 (wo_ports opts) m)"
    using set_ports_too_many [OF assms(1), of 0 "wo_ports opts" m] by (simp add: MAX_PORTS_def)
  show "snd (snd (wl_main ops env opts m)) = Err" "filter installs (fst (wl_main ops env opts m)) = []"
    using bad assms(3-8) by (cases "set_ports ops 0 (wo_ports opts) m"; auto simp: wl_main_def Let_def)+
qed

definition wl_env_ok :: wl_env where
  "wl_env_ok = \<lparr>wl_setrlimit = 0, wl_open = True, wl_load = True, wl_ifindex = Some 1, wl_query = (\<lambda>_. None),
     wl_detach_ok = (\<lambda>_. True), wl_create_ok = True, wl_attach_ok = (\<lambda>_. True), wl_destroy_ok = True\<rparr>"

definition wl_attach_443 :: wl_opts where
  "wl_attach_443 = \<lparr>wo_ports = [443], wo_attach = True, wo_detach = False, wo_destroy = False, wo_query = False\<rparr>"

theorem whitelist_ports_effective_witness:
  "map_option snd (handle_tc (array_ops MAX_PORTS 0) (fst (snd (wl_main (array_ops MAX_PORTS 0) wl_env_ok wl_attach_443 [])))
     whitelist_init tcp_packet []) = Some 255"
proof -
  have "classify tcp_bytes = Ports 443 1024" by code_simp
  then have "classify (pkt_bytes tcp_packet) = Ports 443 1024"
    by (simp add: tcp_packet_def mk_packet_bytes tcp_bytes_def)
  moreover have "map_lookup (array_ops MAX_PORTS 0) [] (of_nat i :: u32) = Some (0 :: u16)" if "i < MAX_PORTS" for i
    using that by (simp add: inst_defs unat_of_nat MAX_PORTS_def)
  moreover have "uint (rc_allow whitelist_init) = 255" by code_simp
  ultimately show ?thesis
    using whitelist_ports_effective [OF array.bpf_array_map_axioms, of 0 "[]" wl_env_ok wl_attach_443 tcp_packet 443 1024 whitelist_init "[]"]
    by (simp add: wl_env_ok_def wl_attach_443_def MAX_PORTS_def)
qed

text \<open>C18: the process option of \<^verbatim>\<open>runqslower\<close> filters threads. The front end stores the option documented as the
  process to trace in the constant the BPF program compares with thread ids, and the thread option in
  the one it compares with process ids. Over any run from an empty table, every reported event is
  later than the latency given and, with a process option, belongs to the thread of that number:
  the other threads of the process are never reported.\<close>

theorem runqslower_process_option_filters_threads:
  assumes "bpf_hash_map mops START_ENTRIES" and "bpf_perf pops" and "map_lookup mops (rq_start st) = Map.empty"
  shows "\<exists>es. perf_records pops (rq_events (run_steps (runq_step mops pops ts (runq_rodata opts)) hs st)) =
      perf_records pops (rq_events st) @ es \<and> length es \<le> length hs \<and>
      list_all (\<lambda>e. (ro_latency opts = 0 \<or> ro_latency opts < rq_delta_us e) \<and> (ro_pid opts \<noteq> 0 \<longrightarrow> rq_pid e = ro_pid opts)) es \<and>
      (ro_tid opts \<noteq> 0 \<longrightarrow> (\<forall>env t s. t_tgid t \<noteq> ro_tid opts \<longrightarrow>
        fst (handle__sched_wakeup mops (runq_rodata opts) env t s) = (s :: ('a, 'b) runq_state)))"
proof -
  have "start_ok mops (runq_rodata opts) st" by (simp add: start_ok_def assms(3))
  from event_source.run_emits [OF runq_event_source [OF assms(1,2)] this] obtain es where
    "perf_records pops (rq_events (run_steps (runq_step mops pops ts (runq_rodata opts)) hs st)) = perf_records pops (rq_events st) @ es"
    "length es \<le> length hs" "list_all (late_event (runq_rodata opts)) es" by blast
  moreover have "late_event (runq_rodata opts) e \<Longrightarrow>
      (ro_latency opts = 0 \<or> ro_latency opts < rq_delta_us e) \<and> (ro_pid opts \<noteq> 0 \<longrightarrow> rq_pid e = ro_pid opts)" for e
    by (auto simp: late_event_def runq_rodata_def)
  ultimately show ?thesis
    by (intro exI [of _ es]) (auto simp: list_all_iff handle__sched_wakeup_def trace_enqueue_def runq_rodata_def)
qed

theorem runqslower_process_option_filters_threads_witness:
  "\<exists>es. perf_records perf_inst_ops (rq_events (run_steps (runq_step (hash_ops START_ENTRIES) perf_inst_ops
       (CStruct []) (runq_rodata \<lparr>ro_latency = 10, ro_pid = 5, ro_tid = 0\<rparr>))
       [Wakeup (rq_env 1000) (rq_task_of 5 0), Switch (rq_env 21000) (rq_task_of 0 0) (rq_task_of 5 0)]
       \<lparr>rq_start = [], rq_events = (3, [])\<rparr>)) = [] @ es \<and> list_all (\<lambda>e. 10 < rq_delta_us e \<and> rq_pid e = 5) es"
proof -
  let ?st = "\<lparr>rq_start = [] :: (u32 \<times> u64) list, rq_events = (3 :: nat, [] :: runq_event list)\<rparr>"
  have "map_lookup (hash_ops START_ENTRIES) (rq_start ?st) = Map.empty" by (simp add: hash_ops_def)
  from runqslower_process_option_filters_threads [OF hash.bpf_hash_map_axioms perf.bpf_perf_axioms this,
    of "CStruct []" "\<lparr>ro_latency = 10, ro_pid = 5, ro_tid = 0\<rparr>"
      "[Wakeup (rq_env 1000) (rq_task_of 5 0), Switch (rq_env 21000) (rq_task_of 0 0) (rq_task_of 5 0)]"]
  show ?thesis unfolding runq_opts.simps by (auto simp: perf_inst_ops_def)
qed

text \<open>C23: a capability check from the kernel to the terminal. When the BPF program, loaded with the options of
  the front end, reports a check and the record is delivered, the front end prints one line with the
  user, the process, the name of the task without its padding, the number and the name of the capability
  and the audit flag; but a task whose name is not UTF-8 makes the callback panic, which ends the
  tracer, whatever else is waiting.\<close>

theorem capability_check_printed:
  assumes "bpf_map mops" and "bpf_perf pops" and "hit = (env, cap, cap_opt)" and "comm_padded env TASK_COMM_LEN"
    and "event_wanted (cap_rodata opts) (hit_event kver hit)" and "is_fresh mops (cap_rodata opts) st hit"
    and "snd (perf_output pops (cap_events st) (hit_event kver hit) (csizeof cap_event_layout)) = 0"
    and "\<not> co_extra_fields opts" and "copy_from_bytes data = Some (hit_event kver hit)"
    and "name = c_str (fst (current_comm env TASK_COMM_LEN))"
  shows "perf_records pops (cap_events (fst (kprobe__cap_capable mops pops kver (cap_rodata opts) hit st))) =
      perf_records pops (cap_events st) @ [hit_event kver hit] \<and>
    fe_poll (cap_handle_event copy_from_bytes now opts) (Some [FeSample data] # rounds) =
      (if utf8 (map unat name)
       then ((''{:9} {:6} {:<6} {:<16} {:<4} {:<20} {:<6}'',
               [Txt now, Num (uint (ucast (current_uid_gid env) :: u32)), Num (uint (tgid_of (current_pid_tgid env))), Txt (str_of name),
                Num (sint cap), Txt (cap_name cap), Num (sint (ce_audit (hit_event kver hit)))])
             # fst (fe_poll (cap_handle_event copy_from_bytes now opts) rounds),
             snd (fe_poll (cap_handle_event copy_from_bytes now opts) rounds))
       else ([], Some Panic))"
proof -
  have comm: "ce_comm (hit_event kver hit) = name @ replicate (TASK_COMM_LEN - length name) 0"
    using assms(3,4,10) by (simp add: hit_event_def comm_padded_def Let_def)
  have "0 \<notin> set name" by (simp add: assms(10) c_str_no_nul)
  then have t: "trim_end_nul (ce_comm (hit_event kver hit)) = name" unfolding comm by (rule trim_end_padded)
  have u: "utf8 (map unat (ce_comm (hit_event kver hit))) = utf8 (map unat name)"
    unfolding comm by (simp add: utf8_zeroes)
  have e: "ce_uid (hit_event kver hit) = ucast (current_uid_gid env)" "ce_tgid (hit_event kver hit) = tgid_of (current_pid_tgid env)"
    "ce_cap (hit_event kver hit) = cap"
    by (simp_all add: hit_event_def assms(3))
  have cb: "cap_handle_event copy_from_bytes now opts data =
      (if utf8 (map unat name)
       then Ok (''{:9} {:6} {:<6} {:<16} {:<4} {:<20} {:<6}'',
         [Txt now, Num (uint (ucast (current_uid_gid env) :: u32)), Num (uint (tgid_of (current_pid_tgid env))), Txt (str_of name),
          Num (sint cap), Txt (cap_name cap), Num (sint (ce_audit (hit_event kver hit)))])
       else Panic)"
    by (simp add: cap_handle_event_def assms(8,9) Let_def t u e)
  show ?thesis
    using assms(5-7) by (simp add: capable_unfold bpf_perf.output_records [OF assms(2)] cb case_prod_beta)
qed

theorem capability_check_printed_witness:
  "fe_poll (cap_handle_event (\<lambda>_. Some (hit_event (KERNEL_VERSION 5 15 0) (cap_hit_of 7 21))) ''12:00:00''
      \<lparr>co_verbose = False, co_pid = 0, co_extra_fields = False, co_unique_type = UNQ_PID\<rparr>) [Some [FeSample []]] =
   ([(''{:9} {:6} {:<6} {:<16} {:<4} {:<20} {:<6}'',
      [Txt ''12:00:00'', Num 0, Num 7, Txt ''ls'', Num 21, Txt ''CAP_SYS_ADMIN'', Num 1])], None)"
proof -
  let ?kv = "KERNEL_VERSION 5 15 0" and ?hit = "cap_hit_of 7 21"
  let ?o = "\<lparr>co_verbose = False, co_pid = 0, co_extra_fields = False, co_unique_type = UNQ_PID\<rparr>"
  let ?st = "\<lparr>cap_seen = [] :: (unique_key \<times> u64) list, cap_events = (4 :: nat, [] :: cap_event list)\<rparr>"
  have hit: "?hit = (fst ?hit, 21, 0)" by (simp add: cap_hit_of_def)
  have n: "[108, 115] = c_str (fst (current_comm (fst ?hit) TASK_COMM_LEN))" "comm_padded (fst ?hit) TASK_COMM_LEN"
    and w: "event_wanted (cap_rodata ?o) (hit_event ?kv ?hit)" and f: "sint (ce_audit (hit_event ?kv ?hit)) = 1"
    and v: "current_uid_gid (fst ?hit) = 0" "tgid_of (current_pid_tgid (fst ?hit)) = 7" "cap_name 21 = ''CAP_SYS_ADMIN''"
    and s: "str_of [108, 115] = ''ls''" by code_simp+
  have fr: "is_fresh (hash_ops 10) (cap_rodata ?o) ?st ?hit" by (simp add: is_fresh_def hash_ops_def)
  have out: "snd (perf_output perf_inst_ops (cap_events ?st) (hit_event ?kv ?hit) (csizeof cap_event_layout)) = 0"
    by (simp add: inst_defs)
  have x: "\<not> co_extra_fields ?o" by simp
  have "fe_poll (cap_handle_event (\<lambda>_. Some (hit_event ?kv ?hit)) ''12:00:00'' ?o) (Some [FeSample []] # []) =
     ([(''{:9} {:6} {:<6} {:<16} {:<4} {:<20} {:<6}'',
       [Txt ''12:00:00'', Num (uint (ucast (current_uid_gid (fst ?hit)) :: u32)), Num (uint (tgid_of (current_pid_tgid (fst ?hit)))),
        Txt (str_of [108, 115]), Num (sint (21 :: s32)), Txt (cap_name 21), Num (sint (ce_audit (hit_event ?kv ?hit)))])], None)"
    using capability_check_printed [OF hash.bpf_map_axioms perf.bpf_perf_axioms hit n(2) w fr out x refl n(1), of "''12:00:00''" "[]" "[]"]
    by (simp del: fe_poll.simps(3) fe_callbacks.simps)
  then show ?thesis by (simp only: v s f) simp
qed

end
