(* ===== verification/Tracecon.thy ===== *)
theory Tracecon
  imports Bpf_Helpers Vmlinux_508
begin

text \<open>
  The connection tracer \<^verbatim>\<open>libbpf-bootstrap/examples/rust/tracecon/src/bpf/tracecon.bpf.c\<close>. Probes on
  \<^verbatim>\<open>getaddrinfo\<close> remember which host name resolved to which address; probes on \<^verbatim>\<open>tcp_v4_connect\<close>
  report each connection by host name when it is known and by address otherwise. Entry and return
  probes are tied together by the thread id, through the maps \<^verbatim>\<open>lookups\<close> and \<^verbatim>\<open>sockets\<close>.
\<close>

section \<open>Data\<close>

definition HOSTNAME_LEN :: nat where "HOSTNAME_LEN = 84"
definition TRACECON_ENTRIES :: nat where "TRACECON_ENTRIES = 10240"

definition addrinfo_layout :: ctype where
  "addrinfo_layout = CStruct
     [Field ''ai_flags'' c_int,
      Field ''ai_family'' c_int,
      Field ''ai_socktype'' c_int,
      Field ''ai_protocol'' c_int,
      Field ''ai_addrlen'' c_int,
      Field ''ai_addr'' c_ptr,
      Field ''ai_canonname'' c_ptr,
      Field ''ai_next'' c_ptr]"

record lookup_t =
  lk_c :: bytes
  lk_results :: u64

datatype tag = IP | HOSTNAME

record con_event =
  ev_tag :: tag
  ev_ip :: bytes
  ev_hostname :: bytes

definition con_event_layout :: ctype where
  "con_event_layout = CStruct
     [Field ''tag'' c_char,
      Field ''ip'' (CArray c_char 4),
      Field ''hostname'' (CArray c_char HOSTNAME_LEN)]"

record ('l, 'h, 's, 'p) tracecon_state =
  lookups :: 'l
  hostnames :: 'h
  sockets :: 's
  con_events :: 'p

record ('l, 'h, 's, 'p) tracecon_ops =
  lookups_ops :: "('l, u32, lookup_t) map_ops"
  hostnames_ops :: "('h, u32, lookup_t) map_ops"
  sockets_ops :: "('s, u32, u64) map_ops"
  events_ops :: "('p, con_event) perf_ops"

text \<open>
  User memory as the probe helpers read it (\<open>user_str n a\<close> is a zeroed \<open>n\<close>-byte buffer after
  \<^verbatim>\<open>bpf_probe_read_user_str\<close>), and the peer address of a socket, read through \<^verbatim>\<open>BPF_CORE_READ\<close>.
\<close>

record tracecon_env = task_env +
  user_str :: "nat \<Rightarrow> u64 \<Rightarrow> bytes"
  user_u64 :: "u64 \<Rightarrow> u64"
  user_u32 :: "u64 \<Rightarrow> u32"
  skc_daddr :: "u64 \<Rightarrow> u32"

section \<open>The program\<close>

definition get_tid :: "s32 \<Rightarrow> tracecon_env \<Rightarrow> u32" where
  "get_tid target_pid env =
     (let tgid = current_pid_tgid env; pid = tgid_of tgid in
      if target_pid \<noteq> 0 \<and> target_pid \<noteq> pid then 0 else tid_of tgid)"

definition getaddrinfo_enter ::
  "('l, 'h, 's, 'p) tracecon_ops \<Rightarrow> s32 \<Rightarrow> tracecon_env \<Rightarrow> u64 \<Rightarrow> u64 \<Rightarrow> ('l, 'h, 's, 'p) tracecon_state \<Rightarrow>
   ('l, 'h, 's, 'p) tracecon_state \<times> int" where
  "getaddrinfo_enter ops target_pid env hostname res st =
     (let tid = get_tid target_pid env in
      if tid = 0 then (st, 0)
      else
        let lookup = \<lparr>lk_c = user_str env HOSTNAME_LEN hostname, lk_results = res\<rparr> in
        (st\<lparr>lookups := fst (map_update (lookups_ops ops) (lookups st) tid lookup BPF_ANY)\<rparr>, 0))"

text \<open>The address \<^verbatim>\<open>getaddrinfo\<close> returned: through the result list, \<^verbatim>\<open>ai_addr\<close> and \<^verbatim>\<open>sin_addr\<close>.\<close>

definition resolved_addr :: "tracecon_env \<Rightarrow> lookup_t \<Rightarrow> u32" where
  "resolved_addr env lookup =
     (let result = user_u64 env (lk_results lookup);
          addr = user_u64 env (result + of_nat (offsetof addrinfo_layout ''ai_addr''))
      in user_u32 env (addr + of_nat (offsetof sockaddr_in_508 ''sin_addr'')))"

definition getaddrinfo_exit ::
  "('l, 'h, 's, 'p) tracecon_ops \<Rightarrow> s32 \<Rightarrow> tracecon_env \<Rightarrow> s32 \<Rightarrow> ('l, 'h, 's, 'p) tracecon_state \<Rightarrow>
   ('l, 'h, 's, 'p) tracecon_state \<times> int" where
  "getaddrinfo_exit ops target_pid env ret st =
     (let tid = get_tid target_pid env;
          cleanup = (\<lambda>s. (s\<lparr>lookups := fst (map_delete (lookups_ops ops) (lookups s) tid)\<rparr>, 0))
      in if tid = 0 then (st, 0)
         else if ret \<noteq> 0 then cleanup st
         else case map_lookup (lookups_ops ops) (lookups st) tid of
                None \<Rightarrow> (st, 0)
              | Some lookup \<Rightarrow>
                  cleanup (st\<lparr>hostnames := fst (map_update (hostnames_ops ops) (hostnames st)
                    (resolved_addr env lookup) lookup BPF_ANY)\<rparr>))"

definition tcp_v4_connect_enter ::
  "('l, 'h, 's, 'p) tracecon_ops \<Rightarrow> s32 \<Rightarrow> tracecon_env \<Rightarrow> u64 \<Rightarrow> ('l, 'h, 's, 'p) tracecon_state \<Rightarrow>
   ('l, 'h, 's, 'p) tracecon_state \<times> int" where
  "tcp_v4_connect_enter ops target_pid env sk st =
     (let tid = get_tid target_pid env in
      if tid = 0 then (st, 0)
      else (st\<lparr>sockets := fst (map_update (sockets_ops ops) (sockets st) tid sk 0)\<rparr>, 0))"

definition ip_bytes :: "u32 \<Rightarrow> bytes" where
  "ip_bytes ip = [byte_of 0 ip, byte_of 1 ip, byte_of 2 ip, byte_of 3 ip]"

definition tcp_v4_connect_exit ::
  "('l, 'h, 's, 'p) tracecon_ops \<Rightarrow> s32 \<Rightarrow> tracecon_env \<Rightarrow> s32 \<Rightarrow> ('l, 'h, 's, 'p) tracecon_state \<Rightarrow>
   ('l, 'h, 's, 'p) tracecon_state \<times> int" where
  "tcp_v4_connect_exit ops target_pid env ret st =
     (let tid = get_tid target_pid env;
          cleanup = (\<lambda>s. (s\<lparr>sockets := fst (map_delete (sockets_ops ops) (sockets s) tid)\<rparr>, 0))
      in if tid = 0 then (st, 0)
         else if ret \<noteq> 0 then cleanup st
         else case map_lookup (sockets_ops ops) (sockets st) tid of
                None \<Rightarrow> (st, 0)
              | Some sk \<Rightarrow>
                  let ip = skc_daddr env sk;
                      (event, st1) =
                        (case map_lookup (hostnames_ops ops) (hostnames st) ip of
                           None \<Rightarrow> (\<lparr>ev_tag = IP, ev_ip = ip_bytes ip, ev_hostname = replicate HOSTNAME_LEN 0\<rparr>, st)
                         | Some lookup \<Rightarrow>
                             (\<lparr>ev_tag = HOSTNAME, ev_ip = replicate 4 0, ev_hostname = lk_c lookup\<rparr>,
                              st\<lparr>hostnames := fst (map_delete (hostnames_ops ops) (hostnames st) ip)\<rparr>))
                  in cleanup (st1\<lparr>con_events :=
                       fst (perf_output (events_ops ops) (con_events st1) event (csizeof con_event_layout))\<rparr>))"

datatype con_hook =
    GaiEnter tracecon_env u64 u64
  | GaiExit tracecon_env s32
  | ConnEnter tracecon_env u64
  | ConnExit tracecon_env s32

fun tracecon_step ::
  "('l, 'h, 's, 'p) tracecon_ops \<Rightarrow> s32 \<Rightarrow> con_hook \<Rightarrow> ('l, 'h, 's, 'p) tracecon_state \<Rightarrow>
   ('l, 'h, 's, 'p) tracecon_state \<times> int" where
  "tracecon_step ops tp (GaiEnter env h r) st = getaddrinfo_enter ops tp env h r st"
| "tracecon_step ops tp (GaiExit env ret) st = getaddrinfo_exit ops tp env ret st"
| "tracecon_step ops tp (ConnEnter env sk) st = tcp_v4_connect_enter ops tp env sk st"
| "tracecon_step ops tp (ConnExit env ret) st = tcp_v4_connect_exit ops tp env ret st"

section \<open>Lemmas\<close>

text \<open>The thread a hook runs in, and whether every map has room for one more element.\<close>

fun hook_tid :: "s32 \<Rightarrow> con_hook \<Rightarrow> u32" where
  "hook_tid tp (GaiEnter env h r) = get_tid tp env"
| "hook_tid tp (GaiExit env ret) = get_tid tp env"
| "hook_tid tp (ConnEnter env sk) = get_tid tp env"
| "hook_tid tp (ConnExit env ret) = get_tid tp env"

definition tracecon_room :: "('l, 'h, 's, 'p) tracecon_ops \<Rightarrow> ('l, 'h, 's, 'p) tracecon_state \<Rightarrow> bool" where
  "tracecon_room ops st \<longleftrightarrow>
     finite (dom (map_lookup (lookups_ops ops) (lookups st))) \<and>
     card (dom (map_lookup (lookups_ops ops) (lookups st))) < TRACECON_ENTRIES \<and>
     finite (dom (map_lookup (hostnames_ops ops) (hostnames st))) \<and>
     card (dom (map_lookup (hostnames_ops ops) (hostnames st))) < TRACECON_ENTRIES \<and>
     finite (dom (map_lookup (sockets_ops ops) (sockets st))) \<and>
     card (dom (map_lookup (sockets_ops ops) (sockets st))) < TRACECON_ENTRIES"

text \<open>An event reports a host name or an address, never both: the unused part is zero.\<close>

definition con_event_ok :: "con_event \<Rightarrow> bool" where
  "con_event_ok e \<longleftrightarrow> length (ev_ip e) = 4 \<and>
     (case ev_tag e of IP \<Rightarrow> ev_hostname e = replicate HOSTNAME_LEN 0 | HOSTNAME \<Rightarrow> ev_ip e = replicate 4 0)"

text \<open>The laws of the four maps and buffers together.\<close>

locale tracecon_kernel =
  fixes ops :: "('l, 'h, 's, 'p) tracecon_ops"
  assumes lookups_law: "bpf_hash_map (lookups_ops ops) TRACECON_ENTRIES"
  and hostnames_law: "bpf_hash_map (hostnames_ops ops) TRACECON_ENTRIES"
  and sockets_law: "bpf_hash_map (sockets_ops ops) TRACECON_ENTRIES"
  and events_law: "bpf_perf (events_ops ops)"
begin

lemmas deletes = bpf_hash_map.delete_gone [OF lookups_law] bpf_hash_map.delete_gone [OF hostnames_law]
  bpf_hash_map.delete_gone [OF sockets_law]

lemmas updates = bpf_map.lookup_update [OF bpf_hash_map.axioms(1) [OF lookups_law]]
  bpf_map.lookup_update [OF bpf_hash_map.axioms(1) [OF hostnames_law]]
  bpf_map.lookup_update [OF bpf_hash_map.axioms(1) [OF sockets_law]]

lemmas outputs = bpf_perf.output_records [OF events_law]

lemma gai_exit_cleans:
  "get_tid tp env \<noteq> 0 \<Longrightarrow>
   map_lookup (lookups_ops ops) (lookups (fst (getaddrinfo_exit ops tp env ret st))) (get_tid tp env) = None"
  by (auto simp: getaddrinfo_exit_def Let_def deletes split: option.splits)

lemma conn_exit_cleans:
  "get_tid tp env \<noteq> 0 \<Longrightarrow>
   map_lookup (sockets_ops ops) (sockets (fst (tcp_v4_connect_exit ops tp env ret st))) (get_tid tp env) = None"
  by (auto simp: tcp_v4_connect_exit_def Let_def deletes split: option.splits prod.splits)

lemma conn_exit_event:
  assumes "get_tid tp env \<noteq> 0" and "map_lookup (sockets_ops ops) (sockets st) (get_tid tp env) = Some sk"
    and "\<And>e. snd (perf_output (events_ops ops) (con_events st) e (csizeof con_event_layout)) = 0"
  shows "perf_records (events_ops ops) (con_events (fst (tcp_v4_connect_exit ops tp env 0 st))) =
    perf_records (events_ops ops) (con_events st) @
      [case map_lookup (hostnames_ops ops) (hostnames st) (skc_daddr env sk) of
         None \<Rightarrow> \<lparr>ev_tag = IP, ev_ip = ip_bytes (skc_daddr env sk), ev_hostname = replicate HOSTNAME_LEN 0\<rparr>
       | Some lookup \<Rightarrow> \<lparr>ev_tag = HOSTNAME, ev_ip = replicate 4 0, ev_hostname = lk_c lookup\<rparr>]"
  using assms by (auto simp: tcp_v4_connect_exit_def Let_def outputs split: option.splits)

lemma conn_exit_hostnames:
  assumes "get_tid tp env \<noteq> 0" and "map_lookup (sockets_ops ops) (sockets st) (get_tid tp env) = Some sk"
  shows "map_lookup (hostnames_ops ops) (hostnames (fst (tcp_v4_connect_exit ops tp env 0 st))) (skc_daddr env sk) = None"
  using assms by (auto simp: tcp_v4_connect_exit_def Let_def deletes split: option.splits)

text \<open>One lookup followed by one connection, in the terms of the maps.\<close>

lemma gai_pair:
  assumes "get_tid tp e1 = t" and "get_tid tp e2 = t" and "t \<noteq> 0" and "tracecon_room ops st"
    and "lk = \<lparr>lk_c = user_str e1 HOSTNAME_LEN h, lk_results = r\<rparr>"
  shows "run_steps (tracecon_step ops tp) [GaiEnter e1 h r, GaiExit e2 0] st =
    st\<lparr>lookups := fst (map_delete (lookups_ops ops) (fst (map_update (lookups_ops ops) (lookups st) t lk BPF_ANY)) t),
       hostnames := fst (map_update (hostnames_ops ops) (hostnames st) (resolved_addr e2 lk) lk BPF_ANY)\<rparr>"
  using assms by (simp add: getaddrinfo_enter_def getaddrinfo_exit_def tracecon_room_def updates
      bpf_hash_map.room [OF lookups_law] bpf_hash_map.room [OF hostnames_law])

lemma conn_enter_socket:
  assumes "get_tid tp e3 = t" and "t \<noteq> 0"
    and "finite (dom (map_lookup (sockets_ops ops) (sockets st)))"
    and "card (dom (map_lookup (sockets_ops ops) (sockets st))) < TRACECON_ENTRIES"
  shows "map_lookup (sockets_ops ops) (sockets (fst (tcp_v4_connect_enter ops tp e3 sk st))) t = Some sk"
  using assms bpf_hash_map.room [OF sockets_law, of "sockets st" t sk]
  by (simp add: tcp_v4_connect_enter_def updates BPF_ANY_def)

lemma conn_enter_frame:
  "hostnames (fst (tcp_v4_connect_enter ops tp e3 sk st)) = hostnames st"
  "lookups (fst (tcp_v4_connect_enter ops tp e3 sk st)) = lookups st"
  "con_events (fst (tcp_v4_connect_enter ops tp e3 sk st)) = con_events st"
  by (simp_all add: tcp_v4_connect_enter_def Let_def)

lemma conn_exit_lookups: "lookups (fst (tcp_v4_connect_exit ops tp env ret st)) = lookups st"
  by (simp add: tcp_v4_connect_exit_def Let_def split: option.splits)

text \<open>A hook of one thread leaves the entries of every other thread alone.\<close>

lemma step_isolated:
  assumes "hook_tid tp hk \<noteq> t"
  shows "map_lookup (lookups_ops ops) (lookups (fst (tracecon_step ops tp hk st))) t =
      map_lookup (lookups_ops ops) (lookups st) t"
    and "map_lookup (sockets_ops ops) (sockets (fst (tracecon_step ops tp hk st))) t =
      map_lookup (sockets_ops ops) (sockets st) t"
  using assms by (cases hk; auto simp: getaddrinfo_enter_def getaddrinfo_exit_def tcp_v4_connect_enter_def
      tcp_v4_connect_exit_def Let_def updates deletes split: option.splits)+

lemma run_isolated:
  "list_all (\<lambda>hk. hook_tid tp hk \<noteq> t) hks \<Longrightarrow>
    map_lookup (lookups_ops ops) (lookups (run_steps (tracecon_step ops tp) hks st)) t =
      map_lookup (lookups_ops ops) (lookups st) t \<and>
    map_lookup (sockets_ops ops) (sockets (run_steps (tracecon_step ops tp) hks st)) t =
      map_lookup (sockets_ops ops) (sockets st) t"
  by (induction hks arbitrary: st) (simp_all add: step_isolated)

text \<open>What one hook adds to the output, in every state.\<close>

lemma step_emits:
  "perf_records (events_ops ops) (con_events (fst (tracecon_step ops tp hk st))) =
     perf_records (events_ops ops) (con_events st) \<or>
   (\<exists>e. perf_records (events_ops ops) (con_events (fst (tracecon_step ops tp hk st))) =
     perf_records (events_ops ops) (con_events st) @ [e] \<and> con_event_ok e)"
  by (cases hk; auto simp: getaddrinfo_enter_def getaddrinfo_exit_def tcp_v4_connect_enter_def
      tcp_v4_connect_exit_def Let_def outputs con_event_ok_def ip_bytes_def split: option.splits)

lemma filtered_frame:
  assumes "get_tid tp env = 0"
  shows "getaddrinfo_enter ops tp env h r st = (st, 0)" "getaddrinfo_exit ops tp env ret st = (st, 0)"
    "tcp_v4_connect_enter ops tp env sk st = (st, 0)" "tcp_v4_connect_exit ops tp env ret st = (st, 0)"
  using assms by (simp_all add: getaddrinfo_enter_def getaddrinfo_exit_def tcp_v4_connect_enter_def
      tcp_v4_connect_exit_def)

end

definition tracecon_inst ::
  "((u32 \<times> lookup_t) list, (u32 \<times> lookup_t) list, (u32 \<times> u64) list, nat \<times> con_event list) tracecon_ops" where
  "tracecon_inst = \<lparr>lookups_ops = hash_ops TRACECON_ENTRIES, hostnames_ops = hash_ops TRACECON_ENTRIES,
     sockets_ops = hash_ops TRACECON_ENTRIES, events_ops = perf_inst_ops\<rparr>"

text \<open>
  A thread 5 of process 4 that looks up a host and connects to it: the result list is at address 64,
  its first element at 128, the socket address at 256 and the IPv4 address in it at 260.
\<close>

definition tc_env :: tracecon_env where
  "tc_env = \<lparr>current_pid_tgid = pid_tgid_join 4 5, current_uid_gid = 0, current_cgroup_id = 0,
     current_comm = comm_of [], ktime_ns = 0, smp_processor_id = 0,
     user_str = (\<lambda>n a. take n ([104, 111, 115, 116] @ replicate n 0)),
     user_u64 = (\<lambda>a. if a = 64 then 128 else if a = 152 then 256 else 0),
     user_u32 = (\<lambda>a. if a = 260 then 0x0100007F else 0), skc_daddr = (\<lambda>sk. 0x0100007F)\<rparr>"

interpretation tc: tracecon_kernel tracecon_inst
  by unfold_locales (simp_all add: tracecon_inst_def hash.delete_gone hash.room hash.update_ok hash.update_err
      perf.output_ok perf.output_err)

text \<open>The tracer is an event source, for every kernel that keeps the laws.\<close>

lemma tracecon_source:
  assumes "tracecon_kernel ops"
  shows "event_source (tracecon_step ops tp) (\<lambda>_. True)
    (\<lambda>st. perf_records (events_ops ops) (con_events st)) con_event_ok"
  by unfold_locales (use tracecon_kernel.step_emits [OF assms] in auto)

section \<open>Properties\<close>

text \<open>C21: a lookup and a connection of the same thread meet. When \<^verbatim>\<open>getaddrinfo\<close> succeeds and the
  thread then connects to the address it returned, the connection is reported by the host name that
  was looked up; afterwards nothing is left behind in the maps for the thread or the address, so the
  next connection to it is reported by address.\<close>

theorem hostname_reported:
  assumes "tracecon_kernel ops"
    and "get_tid tp e1 = t" and "get_tid tp e2 = t" and "get_tid tp e3 = t" and "get_tid tp e4 = t" and "t \<noteq> 0"
    and "tracecon_room ops st"
    and "skc_daddr e4 sk = resolved_addr e2 \<lparr>lk_c = user_str e1 HOSTNAME_LEN h, lk_results = r\<rparr>"
    and "\<And>e. snd (perf_output (events_ops ops) (con_events st) e (csizeof con_event_layout)) = 0"
  shows "let st' = run_steps (tracecon_step ops tp) [GaiEnter e1 h r, GaiExit e2 0, ConnEnter e3 sk, ConnExit e4 0] st in
    perf_records (events_ops ops) (con_events st') = perf_records (events_ops ops) (con_events st) @
      [\<lparr>ev_tag = HOSTNAME, ev_ip = replicate 4 0, ev_hostname = user_str e1 HOSTNAME_LEN h\<rparr>] \<and>
    map_lookup (lookups_ops ops) (lookups st') t = None \<and>
    map_lookup (sockets_ops ops) (sockets st') t = None \<and>
    map_lookup (hostnames_ops ops) (hostnames st') (skc_daddr e4 sk) = None"
proof -
  let ?lk = "\<lparr>lk_c = user_str e1 HOSTNAME_LEN h, lk_results = r\<rparr>"
  define s2 where "s2 = run_steps (tracecon_step ops tp) [GaiEnter e1 h r, GaiExit e2 0] st"
  define s3 where "s3 = fst (tcp_v4_connect_enter ops tp e3 sk s2)"
  note K = assms(1)
  have s2: "s2 = st\<lparr>lookups := fst (map_delete (lookups_ops ops) (fst (map_update (lookups_ops ops) (lookups st) t ?lk BPF_ANY)) t),
       hostnames := fst (map_update (hostnames_ops ops) (hostnames st) (resolved_addr e2 ?lk) ?lk BPF_ANY)\<rparr>"
    unfolding s2_def by (rule tracecon_kernel.gai_pair [OF K assms(2,3,6,7) refl])
  have sk: "map_lookup (sockets_ops ops) (sockets s3) (get_tid tp e4) = Some sk"
    using tracecon_kernel.conn_enter_socket [OF K assms(4,6), of s2 sk] assms(5,7)
    by (simp add: s3_def s2 tracecon_room_def)
  have hn: "map_lookup (hostnames_ops ops) (hostnames s3) (skc_daddr e4 sk) = Some ?lk"
    using assms(7,8) by (simp add: s3_def tracecon_kernel.conn_enter_frame [OF K] s2 tracecon_room_def
        tracecon_kernel.updates [OF K] bpf_hash_map.room [OF tracecon_kernel.hostnames_law [OF K]])
  have ev: "con_events s3 = con_events st" and lk: "map_lookup (lookups_ops ops) (lookups s3) t = None"
    by (simp_all add: s3_def tracecon_kernel.conn_enter_frame [OF K] s2 tracecon_kernel.deletes [OF K])
  have "perf_records (events_ops ops) (con_events (fst (tcp_v4_connect_exit ops tp e4 0 s3))) =
    perf_records (events_ops ops) (con_events st) @
      [\<lparr>ev_tag = HOSTNAME, ev_ip = replicate 4 0, ev_hostname = user_str e1 HOSTNAME_LEN h\<rparr>]"
    using tracecon_kernel.conn_exit_event [OF K _ sk] assms(5,6,9) hn ev by simp
  moreover have "map_lookup (sockets_ops ops) (sockets (fst (tcp_v4_connect_exit ops tp e4 0 s3))) t = None"
    using tracecon_kernel.conn_exit_cleans [OF K, of tp e4 0 s3] assms(5,6) by simp
  moreover have "map_lookup (hostnames_ops ops) (hostnames (fst (tcp_v4_connect_exit ops tp e4 0 s3))) (skc_daddr e4 sk) = None"
    using tracecon_kernel.conn_exit_hostnames [OF K _ sk] assms(5,6) by simp
  moreover have "run_steps (tracecon_step ops tp) [GaiEnter e1 h r, GaiExit e2 0, ConnEnter e3 sk, ConnExit e4 0] st =
      fst (tcp_v4_connect_exit ops tp e4 0 s3)"
    by (simp add: s3_def s2_def)
  ultimately show ?thesis
    using lk by (simp add: Let_def tracecon_kernel.conn_exit_lookups [OF K])
qed

theorem hostname_reported_witness:
  "let st' = run_steps (tracecon_step tracecon_inst 4)
      [GaiEnter tc_env 32 64, GaiExit tc_env 0, ConnEnter tc_env 512, ConnExit tc_env 0]
      \<lparr>lookups = [], hostnames = [], sockets = [], con_events = (2, [])\<rparr> in
    perf_records (events_ops tracecon_inst) (con_events st') = [] @
      [\<lparr>ev_tag = HOSTNAME, ev_ip = replicate 4 0, ev_hostname = user_str tc_env HOSTNAME_LEN 32\<rparr>] \<and>
    map_lookup (lookups_ops tracecon_inst) (lookups st') 5 = None \<and>
    map_lookup (sockets_ops tracecon_inst) (sockets st') 5 = None \<and>
    map_lookup (hostnames_ops tracecon_inst) (hostnames st') (skc_daddr tc_env 512) = None"
proof -
  let ?st = "\<lparr>lookups = [], hostnames = [], sockets = [], con_events = (2, [])\<rparr>
    :: ((u32 \<times> lookup_t) list, (u32 \<times> lookup_t) list, (u32 \<times> u64) list, nat \<times> con_event list) tracecon_state"
  have t: "get_tid 4 tc_env = 5" by code_simp
  have room: "tracecon_room tracecon_inst ?st"
    by (simp add: tracecon_room_def tracecon_inst_def hash_ops_def TRACECON_ENTRIES_def)
  have ip: "skc_daddr tc_env 512 = resolved_addr tc_env \<lparr>lk_c = user_str tc_env HOSTNAME_LEN 32, lk_results = 64\<rparr>"
    by code_simp
  have out: "snd (perf_output (events_ops tracecon_inst) (con_events ?st) e (csizeof con_event_layout)) = 0" for e
    by (simp add: tracecon_inst_def inst_defs)
  have none: "perf_records (events_ops tracecon_inst) (con_events ?st) = []"
    by (simp add: tracecon_inst_def perf_inst_ops_def)
  show ?thesis
    using hostname_reported [OF tc.tracecon_kernel_axioms t t t t _ room ip out] unfolding none by simp
qed

text \<open>Threads do not disturb each other. Whatever the probes do in other threads, over any
  sequence of invocations, the pending lookup and the pending socket of a thread stay as they are;
  and a return probe always clears the pending entry of its own thread.\<close>

lemma tracecon_threads_isolated:
  assumes "tracecon_kernel ops"
  shows "(list_all (\<lambda>hk. hook_tid tp hk \<noteq> t) hks \<longrightarrow>
      map_lookup (lookups_ops ops) (lookups (run_steps (tracecon_step ops tp) hks st)) t =
        map_lookup (lookups_ops ops) (lookups st) t \<and>
      map_lookup (sockets_ops ops) (sockets (run_steps (tracecon_step ops tp) hks st)) t =
        map_lookup (sockets_ops ops) (sockets st) t) \<and>
    (get_tid tp env = t \<and> t \<noteq> 0 \<longrightarrow>
      map_lookup (lookups_ops ops) (lookups (fst (getaddrinfo_exit ops tp env ret st))) t = None \<and>
      map_lookup (sockets_ops ops) (sockets (fst (tcp_v4_connect_exit ops tp env ret st))) t = None) \<and>
    (get_tid tp env = 0 \<longrightarrow>
      getaddrinfo_enter ops tp env h r st = (st, 0) \<and> getaddrinfo_exit ops tp env ret st = (st, 0) \<and>
      tcp_v4_connect_enter ops tp env sk st = (st, 0) \<and> tcp_v4_connect_exit ops tp env ret st = (st, 0))"
proof (intro conjI impI)
  assume "get_tid tp env = t \<and> t \<noteq> 0"
  then show "map_lookup (lookups_ops ops) (lookups (fst (getaddrinfo_exit ops tp env ret st))) t = None"
    and "map_lookup (sockets_ops ops) (sockets (fst (tcp_v4_connect_exit ops tp env ret st))) t = None"
    using tracecon_kernel.gai_exit_cleans [OF assms] tracecon_kernel.conn_exit_cleans [OF assms] by auto
qed (simp_all add: tracecon_kernel.run_isolated [OF assms] tracecon_kernel.filtered_frame [OF assms])

lemma tracecon_threads_isolated_example:
  "map_lookup (sockets_ops tracecon_inst) (sockets (run_steps (tracecon_step tracecon_inst 4)
      [GaiEnter tc_env 32 64, ConnEnter tc_env 512, ConnExit tc_env 0]
      \<lparr>lookups = [], hostnames = [], sockets = [(6, 7)], con_events = (2, [])\<rparr>)) 6 = Some 7"
proof -
  have t: "get_tid 4 tc_env = 5" by code_simp
  show ?thesis
    using tracecon_threads_isolated [OF tc.tracecon_kernel_axioms, of 4 6
      "[GaiEnter tc_env 32 64, ConnEnter tc_env 512, ConnExit tc_env 0]"
      "\<lparr>lookups = [], hostnames = [], sockets = [(6, 7)], con_events = (2, [])\<rparr>"]
    by (simp add: t tracecon_inst_def hash_ops_def)
qed

text \<open>Over any sequence of probe hits the tracer adds at most one event per hit, keeps the
  earlier ones, and every event is either an address with an empty host name or a host name with an
  empty address.\<close>

lemma tracecon_run_sound:
  assumes "tracecon_kernel ops"
  shows "\<exists>es. perf_records (events_ops ops) (con_events (run_steps (tracecon_step ops tp) hks st)) =
      perf_records (events_ops ops) (con_events st) @ es \<and> length es \<le> length hks \<and> list_all con_event_ok es"
  by (rule event_source.run_emits [OF tracecon_source [OF assms]]) simp

end
