(* ===== verification/Libbpf_Map.thy ===== *)
theory Libbpf_Map
  imports Rust_Std Bpf_Helpers
begin

text \<open>
  The maps of \<^verbatim>\<open>libbpf-rs\<close> (\<^verbatim>\<open>src/map.rs\<close>, \<^verbatim>\<open>src/util.rs\<close>), through which the front ends read and write the maps of a
  BPF program: size checks, the packing of per-CPU values, iteration over the keys, errors. libbpf and the
  system call behind it are parameters: a record of operations on a map of byte strings, with the behaviour bpf(2)
  documents as the assumptions of the locale \<open>sys_map\<close>, which is interpreted on a map of byte strings.
  The theory shows that the interface keeps the contract \<open>bpf_map\<close> that the programs of the development
  rely on.
\<close>

section \<open>util.rs\<close>

datatype lib_error = InvalidInput | Internal | System int

type_synonym 'a lib_result = "lib_error + 'a"

definition parse_ret :: "int \<Rightarrow> unit lib_result" where
  "parse_ret r = (if r < 0 then Inl (System (- r)) else Inr ())"

definition parse_ret_i32 :: "int \<Rightarrow> int lib_result" where
  "parse_ret_i32 r = (if r < 0 then Inl (System (- r)) else Inr r)"

definition parse_ret_usize :: "int \<Rightarrow> nat lib_result" where
  "parse_ret_usize r = (if r < 0 then Inl (System (- r)) else Inr (nat r))"

definition roundup :: "nat \<Rightarrow> nat \<Rightarrow> nat" where
  "roundup num r = ((num + (r - 1)) div r) * r"

definition str_to_cstring :: "string \<Rightarrow> string lib_result" where
  "str_to_cstring s = (if CHR 0x00 \<in> set s then Inl InvalidInput else Inr s)"

text \<open>A path, which may not be Unicode.\<close>

definition path_to_cstring :: "string option \<Rightarrow> string lib_result" where
  "path_to_cstring p = (case p of None \<Rightarrow> Inl InvalidInput | Some s \<Rightarrow> str_to_cstring s)"

definition c_ptr_to_string :: "bytes option \<Rightarrow> string lib_result" where
  "c_ptr_to_string p =
     (case p of
        None \<Rightarrow> Inl Internal
      | Some bs \<Rightarrow> if utf8 (map unat (c_str bs)) then Inr (str_of (c_str bs)) else Inl Internal)"

section \<open>Map types\<close>

datatype map_type =
    MtUnspec | MtHash | MtArray | MtProgArray | MtPerfEventArray | MtPercpuHash | MtPercpuArray | MtStackTrace
  | MtCgroupArray | MtLruHash | MtLruPercpuHash | MtLpmTrie | MtArrayOfMaps | MtHashOfMaps | MtDevmap | MtSockmap
  | MtCpumap | MtXskmap | MtSockhash | MtCgroupStorage | MtReuseportSockarray | MtPercpuCgroupStorage | MtQueue
  | MtStack | MtSkStorage | MtDevmapHash | MtStructOps | MtRingBuf | MtInodeStorage | MtTaskStorage | MtBloomFilter
  | MtUnknown

definition MAP_TYPES :: "map_type list" where
  "MAP_TYPES = [MtUnspec, MtHash, MtArray, MtProgArray, MtPerfEventArray, MtPercpuHash, MtPercpuArray, MtStackTrace,
     MtCgroupArray, MtLruHash, MtLruPercpuHash, MtLpmTrie, MtArrayOfMaps, MtHashOfMaps, MtDevmap, MtSockmap,
     MtCpumap, MtXskmap, MtSockhash, MtCgroupStorage, MtReuseportSockarray, MtPercpuCgroupStorage, MtQueue,
     MtStack, MtSkStorage, MtDevmapHash, MtStructOps, MtRingBuf, MtInodeStorage, MtTaskStorage, MtBloomFilter]"

definition is_percpu :: "map_type \<Rightarrow> bool" where
  "is_percpu t \<longleftrightarrow> t \<in> {MtPercpuArray, MtPercpuHash, MtLruPercpuHash, MtPercpuCgroupStorage}"

text \<open>\<^verbatim>\<open>struct Map\<close>; \<open>lm_ptr\<close>: whether the map comes from a BPF object, that is, whether its pointer is not null.\<close>

record lib_map =
  lm_fd :: int
  lm_name :: string
  lm_ty :: u32
  lm_key_size :: u32
  lm_value_size :: u32
  lm_ptr :: bool

definition map_type_of :: "lib_map \<Rightarrow> map_type" where
  "map_type_of mp = (if unat (lm_ty mp) < length MAP_TYPES then MAP_TYPES ! unat (lm_ty mp) else MtUnknown)"

section \<open>Operations\<close>

text \<open>
  The system calls on a map. A lookup yields the bytes the kernel writes to the buffer, or the error
  number; an update or deletion returns 0 or a negative error number. \<open>sys_next_key\<close> is the key after the given
  one, in the order of the kernel, or \<^term>\<open>None\<close> when the call fails.
\<close>

record 'm sys_ops =
  sys_lookup :: "'m \<Rightarrow> bytes \<Rightarrow> u64 \<Rightarrow> int + bytes"
  sys_update :: "'m \<Rightarrow> bytes \<Rightarrow> bytes \<Rightarrow> u64 \<Rightarrow> 'm \<times> int"
  sys_delete :: "'m \<Rightarrow> bytes \<Rightarrow> 'm \<times> int"
  sys_lookup_delete :: "'m \<Rightarrow> bytes \<Rightarrow> 'm \<times> (int + bytes)"
  sys_next_key :: "'m \<Rightarrow> bytes option \<Rightarrow> bytes option"

definition percpu_aligned_value_size :: "lib_map \<Rightarrow> nat" where
  "percpu_aligned_value_size mp = roundup (unat (lm_value_size mp)) 8"

definition percpu_buffer_size :: "int \<Rightarrow> lib_map \<Rightarrow> nat lib_result" where
  "percpu_buffer_size cpus mp =
     (case parse_ret_usize cpus of Inl e \<Rightarrow> Inl e | Inr ncpu \<Rightarrow> Inr (ncpu * percpu_aligned_value_size mp))"

text \<open>
  A lookup into a buffer of \<open>out_size\<close> bytes, of which the kernel fills as many as it has: with any other
  number the call writes outside the buffer, or returns memory that was never written (\<^term>\<open>None\<close>).
\<close>

definition lookup_raw :: "'m sys_ops \<Rightarrow> lib_map \<Rightarrow> 'm \<Rightarrow> bytes \<Rightarrow> u64 \<Rightarrow> nat \<Rightarrow> bytes option lib_result option" where
  "lookup_raw ops mp m key flags out_size =
     (if length key \<noteq> unat (lm_key_size mp) then Some (Inl InvalidInput)
      else case sys_lookup ops m key flags of
          Inr out \<Rightarrow> if length out = out_size then Some (Inr (Some out)) else None
        | Inl errno \<Rightarrow> if errno = ENOENT then Some (Inr None) else Some (Inl (System errno)))"

definition lookup_elem :: "'m sys_ops \<Rightarrow> lib_map \<Rightarrow> 'm \<Rightarrow> bytes \<Rightarrow> u64 \<Rightarrow> bytes option lib_result option" where
  "lookup_elem ops mp m key flags =
     (if is_percpu (map_type_of mp) then Some (Inl InvalidInput)
      else lookup_raw ops mp m key flags (unat (lm_value_size mp)))"

text \<open>\<^verbatim>\<open>chunks_exact\<close>: chunks of \<open>n\<close> elements; what is left at the end is dropped. It panics on 0.\<close>

function chunks_exact :: "nat \<Rightarrow> 'a list \<Rightarrow> 'a list list" where
  "chunks_exact n xs = (if 0 < n \<and> n \<le> length xs then take n xs # chunks_exact n (drop n xs) else [])"
  by pat_completeness auto
termination by (relation "measure (\<lambda>(n, xs). length xs)") auto

declare chunks_exact.simps [simp del]

definition lookup_percpu :: "'m sys_ops \<Rightarrow> int \<Rightarrow> lib_map \<Rightarrow> 'm \<Rightarrow> bytes \<Rightarrow> u64 \<Rightarrow> bytes list option lib_result option" where
  "lookup_percpu ops cpus mp m key flags =
     (if \<not> is_percpu (map_type_of mp) \<and> map_type_of mp \<noteq> MtUnknown then Some (Inl InvalidInput)
      else
        let val_size = unat (lm_value_size mp); aligned_val_size = percpu_aligned_value_size mp in
        case percpu_buffer_size cpus mp of
          Inl e \<Rightarrow> Some (Inl e)
        | Inr out_size \<Rightarrow>
            (case lookup_raw ops mp m key flags out_size of
               None \<Rightarrow> None
             | Some (Inl e) \<Rightarrow> Some (Inl e)
             | Some (Inr None) \<Rightarrow> Some (Inr None)
             | Some (Inr (Some raw_vals)) \<Rightarrow>
                 if aligned_val_size = 0 then None
                 else Some (Inr (Some (map (take val_size) (chunks_exact aligned_val_size raw_vals))))))"

definition update_raw :: "'m sys_ops \<Rightarrow> lib_map \<Rightarrow> bytes \<Rightarrow> bytes \<Rightarrow> u64 \<Rightarrow> 'm \<Rightarrow> 'm \<times> unit lib_result" where
  "update_raw ops mp key v flags m =
     (if length key \<noteq> unat (lm_key_size mp) then (m, Inl InvalidInput)
      else case sys_update ops m key v flags of (m', r) \<Rightarrow> (m', parse_ret r))"

definition update_elem :: "'m sys_ops \<Rightarrow> lib_map \<Rightarrow> bytes \<Rightarrow> bytes \<Rightarrow> u64 \<Rightarrow> 'm \<Rightarrow> 'm \<times> unit lib_result" where
  "update_elem ops mp key v flags m =
     (if is_percpu (map_type_of mp) then (m, Inl InvalidInput)
      else if length v \<noteq> unat (lm_value_size mp) then (m, Inl InvalidInput)
      else update_raw ops mp key v flags m)"

text \<open>The loop that copies the values of the CPUs, from the \<open>i\<close>-th on, to their places in the buffer.\<close>

definition copy_slice :: "'a list \<Rightarrow> nat \<Rightarrow> 'a list \<Rightarrow> 'a list" where
  "copy_slice buf at v = take at buf @ v @ drop (at + length v) buf"

fun fill_percpu :: "nat \<Rightarrow> nat \<Rightarrow> nat \<Rightarrow> bytes list \<Rightarrow> bytes \<Rightarrow> bytes lib_result" where
  "fill_percpu val_size aligned i [] buf = Inr buf"
| "fill_percpu val_size aligned i (v # vs) buf =
     (if length v \<noteq> val_size then Inl InvalidInput
      else fill_percpu val_size aligned (Suc i) vs (copy_slice buf (i * aligned) v))"

definition update_percpu :: "'m sys_ops \<Rightarrow> int \<Rightarrow> lib_map \<Rightarrow> bytes \<Rightarrow> bytes list \<Rightarrow> u64 \<Rightarrow> 'm \<Rightarrow> 'm \<times> unit lib_result" where
  "update_percpu ops cpus mp key vs flags m =
     (if \<not> is_percpu (map_type_of mp) \<and> map_type_of mp \<noteq> MtUnknown then (m, Inl InvalidInput)
      else case parse_ret_usize cpus of
          Inl e \<Rightarrow> (m, Inl e)
        | Inr ncpu \<Rightarrow>
            if length vs \<noteq> ncpu then (m, Inl InvalidInput)
            else case percpu_buffer_size cpus mp of
                Inl e \<Rightarrow> (m, Inl e)
              | Inr buf_size \<Rightarrow>
                  (case fill_percpu (unat (lm_value_size mp)) (percpu_aligned_value_size mp) 0 vs (replicate buf_size 0) of
                     Inl e \<Rightarrow> (m, Inl e)
                   | Inr value_buf \<Rightarrow> update_raw ops mp key value_buf flags m))"

definition delete_elem :: "'m sys_ops \<Rightarrow> lib_map \<Rightarrow> bytes \<Rightarrow> 'm \<Rightarrow> 'm \<times> unit lib_result" where
  "delete_elem ops mp key m =
     (if length key \<noteq> unat (lm_key_size mp) then (m, Inl InvalidInput)
      else case sys_delete ops m key of (m', r) \<Rightarrow> (m', parse_ret r))"

definition lookup_and_delete :: "'m sys_ops \<Rightarrow> lib_map \<Rightarrow> bytes \<Rightarrow> 'm \<Rightarrow> 'm \<times> bytes option lib_result option" where
  "lookup_and_delete ops mp key m =
     (if length key \<noteq> unat (lm_key_size mp) then (m, Some (Inl InvalidInput))
      else case sys_lookup_delete ops m key of
          (m', Inr out) \<Rightarrow> (m', if length out = unat (lm_value_size mp) then Some (Inr (Some out)) else None)
        | (m', Inl errno) \<Rightarrow> (m', Some (if errno = ENOENT then Inr None else Inl (System errno))))"

text \<open>\<^verbatim>\<open>MapKeyIter\<close>: the calls of \<^verbatim>\<open>next\<close> until it is exhausted, each with the key of the one before.\<close>

partial_function (option) map_keys_from :: "'m sys_ops \<Rightarrow> 'm \<Rightarrow> bytes option \<Rightarrow> bytes list option" where
  "map_keys_from ops m prev =
     (case sys_next_key ops m prev of
        None \<Rightarrow> Some []
      | Some k \<Rightarrow> Option.bind (map_keys_from ops m (Some k)) (\<lambda>ks. Some (k # ks)))"

definition map_keys :: "'m sys_ops \<Rightarrow> 'm \<Rightarrow> bytes list option" where
  "map_keys ops m = map_keys_from ops m None"

section \<open>Creating, pinning and reusing maps\<close>

text \<open>\<^verbatim>\<open>Map::create\<close>: the file descriptor \<^verbatim>\<open>bpf_map_create\<close> returns, or its negative error number, is passed on as it is.\<close>

definition map_create :: "u32 \<Rightarrow> string option \<Rightarrow> u32 \<Rightarrow> u32 \<Rightarrow> int \<Rightarrow> lib_map lib_result" where
  "map_create ty name key_size value_size fd =
     (case str_to_cstring (case name of Some n \<Rightarrow> n | None \<Rightarrow> []) of
        Inl e \<Rightarrow> Inl e
      | Inr n \<Rightarrow>
          if fd < 0 then Inl (System fd)
          else Inr \<lparr>lm_fd = fd, lm_name = n, lm_ty = ty, lm_key_size = key_size, lm_value_size = value_size, lm_ptr = False\<rparr>)"

definition map_pin :: "lib_map \<Rightarrow> string option \<Rightarrow> int \<Rightarrow> int \<Rightarrow> unit lib_result" where
  "map_pin mp path obj_pin_ret map_pin_ret =
     (case path_to_cstring path of Inl e \<Rightarrow> Inl e | Inr p \<Rightarrow> parse_ret (if lm_ptr mp then map_pin_ret else obj_pin_ret))"

definition map_unpin :: "lib_map \<Rightarrow> string option \<Rightarrow> bool \<Rightarrow> int \<Rightarrow> unit lib_result" where
  "map_unpin mp path removed map_unpin_ret =
     (if \<not> lm_ptr mp then (if removed then Inr () else Inl Internal)
      else case path_to_cstring path of Inl e \<Rightarrow> Inl e | Inr p \<Rightarrow> parse_ret map_unpin_ret)"

definition map_freeze :: "int \<Rightarrow> unit lib_result" where
  "map_freeze r = parse_ret r"

definition attach_struct_ops :: "lib_map \<Rightarrow> int \<Rightarrow> unit lib_result" where
  "attach_struct_ops mp rc =
     (if map_type_of mp \<noteq> MtStructOps then Inl InvalidInput
      else if \<not> lm_ptr mp then Inl InvalidInput
      else if rc \<noteq> 0 then Inl (System rc) else Inr ())"

text \<open>\<^verbatim>\<open>OpenMap\<close>: the setters pass their value to libbpf and its result back; a pinned map is reused through a
  descriptor that is closed in any case. The list: the descriptors opened and still open.\<close>

definition open_map_set :: "int \<Rightarrow> unit lib_result" where
  "open_map_set r = parse_ret r"

definition reuse_pinned_map :: "string option \<Rightarrow> int \<Rightarrow> int \<Rightarrow> int \<Rightarrow> int list \<Rightarrow> int list \<times> unit lib_result" where
  "reuse_pinned_map path fd errno reuse_ret fds =
     (case path_to_cstring path of
        Inl e \<Rightarrow> (fds, Inl e)
      | Inr p \<Rightarrow>
          if fd < 0 then (fds, Inl (System errno))
          else let opened = fd # fds; reuse_result = parse_ret reuse_ret in (remove1 fd opened, reuse_result))"

section \<open>The kernel side\<close>

text \<open>A map with keys of \<open>klen\<close> bytes that reads and writes values of \<open>ksize\<close> bytes.\<close>

locale sys_map =
  fixes ops :: "'m sys_ops" and klen ksize :: nat
  assumes lookup_size: "length k = klen \<Longrightarrow> sys_lookup ops m k f = Inr v \<Longrightarrow> length v = ksize"
  and update_ret: "snd (sys_update ops m k v f) \<le> 0"
  and update_ok: "length k = klen \<Longrightarrow> length v = ksize \<Longrightarrow> sys_update ops m k v f = (m', 0) \<Longrightarrow> length k' = klen \<Longrightarrow>
    sys_lookup ops m' k' 0 = (if k' = k then Inr v else sys_lookup ops m k' 0)"
  and update_err: "sys_update ops m k v f = (m', rc) \<Longrightarrow> rc \<noteq> 0 \<Longrightarrow> sys_lookup ops m' k' 0 = sys_lookup ops m k' 0"
begin

lemma update_raw_lookup:
  assumes "unat (lm_key_size mp) = klen" and "length key = klen" and "length v = ksize" and "length k' = klen"
  shows "sys_lookup ops (fst (update_raw ops mp key v f m)) k' 0 =
    (if k' = key \<and> snd (update_raw ops mp key v f m) = Inr () then Inr v else sys_lookup ops m k' 0)"
proof -
  obtain m' rc where u: "sys_update ops m key v f = (m', rc)" by fastforce
  moreover have "rc \<le> 0" using update_ret [of m key v f] u by simp
  ultimately show ?thesis
    using assms update_ok [of key v m f m' k'] update_err [of m key v f m' rc k'] by (auto simp: update_raw_def parse_ret_def)
qed

end

text \<open>
  A map whose keys and values are encoded as bytes by the client: what a front end does with
  \<^verbatim>\<open>to_ne_bytes\<close> before it calls \<^verbatim>\<open>update\<close>, and the result as seen by a program of the development.
\<close>

definition lib_ops :: "'m sys_ops \<Rightarrow> lib_map \<Rightarrow> ('k \<Rightarrow> bytes) \<Rightarrow> ('v \<Rightarrow> bytes) \<Rightarrow> (bytes \<Rightarrow> 'v) \<Rightarrow> ('m, 'k, 'v) map_ops" where
  "lib_ops ops mp ek ev dv =
     \<lparr>map_lookup = (\<lambda>m k. case lookup_elem ops mp m (ek k) 0 of Some (Inr (Some b)) \<Rightarrow> Some (dv b) | _ \<Rightarrow> None),
      map_update = (\<lambda>m k v f. case update_elem ops mp (ek k) (ev v) f m of
         (m', Inr _) \<Rightarrow> (m', 0) | (m', Inl (System e)) \<Rightarrow> (m', - e) | (m', Inl _) \<Rightarrow> (m', - EINVAL)),
      map_delete = (\<lambda>m k. case delete_elem ops mp (ek k) m of
         (m', Inr _) \<Rightarrow> (m', 0) | (m', Inl (System e)) \<Rightarrow> (m', - e) | (m', Inl _) \<Rightarrow> (m', - EINVAL))\<rparr>"

locale typed_map = sys_map ops "unat (lm_key_size mp)" "unat (lm_value_size mp)" for ops :: "'m sys_ops" and mp :: lib_map +
  fixes ek :: "'k \<Rightarrow> bytes" and ev :: "'v \<Rightarrow> bytes" and dv :: "bytes \<Rightarrow> 'v"
  assumes key_length: "length (ek k) = unat (lm_key_size mp)" and key_inj: "ek k = ek k' \<Longrightarrow> k = k'"
  and value_length: "length (ev v) = unat (lm_value_size mp)" and decode: "dv (ev v) = v"
  and plain_type: "\<not> is_percpu (map_type_of mp)"
begin

lemma lib_lookup:
  "map_lookup (lib_ops ops mp ek ev dv) m k = (case sys_lookup ops m (ek k) 0 of Inr b \<Rightarrow> Some (dv b) | Inl _ \<Rightarrow> None)"
  using lookup_size [OF key_length] plain_type
  by (auto simp: lib_ops_def lookup_elem_def lookup_raw_def key_length split: sum.splits)

lemma lib_update:
  "fst (map_update (lib_ops ops mp ek ev dv) m k v f) = fst (update_raw ops mp (ek k) (ev v) f m)"
  "snd (map_update (lib_ops ops mp ek ev dv) m k v f) = 0 \<longleftrightarrow> snd (update_raw ops mp (ek k) (ev v) f m) = Inr ()"
proof -
  obtain m' rc where u: "sys_update ops m (ek k) (ev v) f = (m', rc)" by fastforce
  then have "rc \<le> 0" using update_ret [of m "ek k" "ev v" f] by simp
  with u show "fst (map_update (lib_ops ops mp ek ev dv) m k v f) = fst (update_raw ops mp (ek k) (ev v) f m)"
    "snd (map_update (lib_ops ops mp ek ev dv) m k v f) = 0 \<longleftrightarrow> snd (update_raw ops mp (ek k) (ev v) f m) = Inr ()"
    using plain_type by (auto simp: lib_ops_def update_elem_def update_raw_def value_length key_length parse_ret_def)
qed

lemma lib_lookup_update:
  "map_lookup (lib_ops ops mp ek ev dv) (fst (map_update (lib_ops ops mp ek ev dv) m k v f)) =
    (if snd (map_update (lib_ops ops mp ek ev dv) m k v f) = 0 then (map_lookup (lib_ops ops mp ek ev dv) m)(k \<mapsto> v)
     else map_lookup (lib_ops ops mp ek ev dv) m)"
  by (auto simp: fun_eq_iff lib_lookup lib_update decode update_raw_lookup [OF refl key_length value_length key_length] dest: key_inj)

end

sublocale typed_map \<subseteq> lib: bpf_map "lib_ops ops mp ek ev dv"
proof
  fix m k v f m'
  assume "map_update (lib_ops ops mp ek ev dv) m k v f = (m', 0)"
  then show "map_lookup (lib_ops ops mp ek ev dv) m' = (map_lookup (lib_ops ops mp ek ev dv) m)(k \<mapsto> v)"
    using lib_lookup_update [of m k v f] by simp
next
  fix m k v f m' and rc :: int
  assume "map_update (lib_ops ops mp ek ev dv) m k v f = (m', rc)" "rc \<noteq> 0"
  then show "map_lookup (lib_ops ops mp ek ev dv) m' = map_lookup (lib_ops ops mp ek ev dv) m"
    using lib_lookup_update [of m k v f] by simp
qed

text \<open>An array of the kernel: the elements below \<open>n\<close> exist, and can be written.\<close>

locale typed_array = typed_map ops mp ek ev dv for ops :: "'m sys_ops" and mp :: lib_map and ek :: "u32 \<Rightarrow> bytes"
    and ev :: "'v \<Rightarrow> bytes" and dv :: "bytes \<Rightarrow> 'v" +
  fixes n :: nat
  assumes element: "(\<exists>b. sys_lookup ops m (ek k) 0 = Inr b) \<longleftrightarrow> unat k < n"
  and element_update: "unat k < n \<Longrightarrow> length v = unat (lm_value_size mp) \<Longrightarrow> snd (sys_update ops m (ek k) v 0) = 0"

sublocale typed_array \<subseteq> lib_array: bpf_array_map "lib_ops ops mp ek ev dv" n
proof
  fix m k
  show "(map_lookup (lib_ops ops mp ek ev dv) m k \<noteq> None) = (unat k < n)"
    using element [of m k] by (auto simp: lib_lookup split: sum.splits)
next
  fix k :: u32 and m v
  assume "unat k < n"
  then show "snd (map_update (lib_ops ops mp ek ev dv) m k v BPF_ANY) = 0"
    using element_update [of k "ev v" m]
    by (cases "sys_update ops m (ek k) (ev v) 0") (simp add: lib_update update_raw_def key_length value_length BPF_ANY_def parse_ret_def)
qed

context typed_array
begin

lemma array_contract: "bpf_array_map (lib_ops ops mp ek ev dv) n"
  by unfold_locales

end

section \<open>Executable instances\<close>

text \<open>A hash map and an array of the kernel, on association lists.\<close>

fun key_after :: "'a list \<Rightarrow> 'a \<Rightarrow> 'a option" where
  "key_after [] k = None"
| "key_after (x # xs) k = (if x = k then (case xs of [] \<Rightarrow> None | y # _ \<Rightarrow> Some y) else key_after xs k)"

definition bmap_ops :: "nat \<Rightarrow> nat \<Rightarrow> (bytes \<times> bytes) list sys_ops" where
  "bmap_ops klen ksize =
     \<lparr>sys_lookup = (\<lambda>m k f. case map_of m k of Some v \<Rightarrow> if length v = ksize then Inr v else Inl ENOENT | None \<Rightarrow> Inl ENOENT),
      sys_update = (\<lambda>m k v f. (AList.update k v m, 0)),
      sys_delete = (\<lambda>m k. if map_of m k = None then (m, - ENOENT) else (AList.delete k m, 0)),
      sys_lookup_delete = (\<lambda>m k. case map_of m k of Some v \<Rightarrow> (AList.delete k m, Inr v) | None \<Rightarrow> (m, Inl ENOENT)),
      sys_next_key = (\<lambda>m prev. case prev of
         None \<Rightarrow> (case m of [] \<Rightarrow> None | e # _ \<Rightarrow> Some (fst e))
       | Some k \<Rightarrow> if k \<in> set (map fst m) then key_after (map fst m) k else (case m of [] \<Rightarrow> None | e # _ \<Rightarrow> Some (fst e)))\<rparr>"

interpretation bmap: sys_map "bmap_ops klen ksize" klen ksize
proof
  show "length v = ksize" if "sys_lookup (bmap_ops klen ksize) m k f = Inr v" for m k f v
    using that by (auto simp: bmap_ops_def split: option.splits if_splits)
qed (auto simp: bmap_ops_def update_conv')

definition key_index :: "bytes \<Rightarrow> nat" where
  "key_index k = unat (le32 (k ! 0) (k ! 1) (k ! 2) (k ! 3))"

definition barray_ops :: "nat \<Rightarrow> nat \<Rightarrow> (nat \<times> bytes) list sys_ops" where
  "barray_ops n vsize =
     \<lparr>sys_lookup = (\<lambda>m k f. if key_index k < n
        then Inr (case map_of m (key_index k) of Some v \<Rightarrow> if length v = vsize then v else replicate vsize 0 | None \<Rightarrow> replicate vsize 0)
        else Inl ENOENT),
      sys_update = (\<lambda>m k v f. if f = BPF_NOEXIST then (m, - EEXIST)
        else if key_index k < n then (AList.update (key_index k) v m, 0) else (m, - E2BIG)),
      sys_delete = (\<lambda>m k. (m, - EINVAL)),
      sys_lookup_delete = (\<lambda>m k. (m, Inl EINVAL)),
      sys_next_key = (\<lambda>m prev. case prev of
         None \<Rightarrow> if 0 < n then Some (bytes_of_u32 0) else None
       | Some k \<Rightarrow> if Suc (key_index k) < n then Some (bytes_of_u32 (of_nat (Suc (key_index k)))) else None)\<rparr>"

definition ports_map :: lib_map where
  "ports_map = \<lparr>lm_fd = 3, lm_name = ''ports'', lm_ty = 2, lm_key_size = 4, lm_value_size = 2, lm_ptr = True\<rparr>"

definition u16_of_bytes :: "bytes \<Rightarrow> u16" where
  "u16_of_bytes bs = le16 (bs ! 0) (bs ! 1)"

lemma key_index_bytes [simp]: "key_index (bytes_of_u32 k) = unat k"
  using le32_bytes [of k] by (simp add: key_index_def bytes_of_u32_def)

lemma key_index_inj: "length k = 4 \<Longrightarrow> length k' = 4 \<Longrightarrow> key_index k = key_index k' \<Longrightarrow> k = k'"
proof -
  assume l: "length k = 4" "length k' = 4" and i: "key_index k = key_index k'"
  obtain a b c d where k: "k = [a, b, c, d]" using l(1) by (auto simp: numeral_eq_Suc length_Suc_conv)
  obtain a' b' c' d' where k': "k' = [a', b', c', d']" using l(2) by (auto simp: numeral_eq_Suc length_Suc_conv)
  from i have "le32 a b c d = le32 a' b' c' d'" by (simp add: key_index_def k k' word_unat_eq_iff)
  from arg_cong [OF this, of "byte_of 0"] arg_cong [OF this, of "byte_of 1"] arg_cong [OF this, of "byte_of 2"]
    arg_cong [OF this, of "byte_of 3"] show ?thesis by (simp add: k k')
qed

interpretation barray: typed_array "barray_ops n 2" ports_map bytes_of_u32 bytes_of_u16 u16_of_bytes n
proof unfold_locales
  show "u16_of_bytes (bytes_of_u16 v) = v" for v
    using le16_bytes [of v] by (simp add: u16_of_bytes_def bytes_of_u16_def)
  show "\<not> is_percpu (map_type_of ports_map)" by code_simp
qed (auto simp: barray_ops_def ports_map_def update_conv errno_defs bytes_of_u32_inj BPF_NOEXIST_def dest: key_index_inj split: option.splits if_splits)

section \<open>Lemmas on per-CPU values\<close>

lemma copy_slice_next:
  "length done = i * a \<Longrightarrow> length v \<le> a \<Longrightarrow>
   copy_slice (done @ replicate (Suc n * a) 0) (i * a) v = (done @ v @ replicate (a - length v) 0) @ replicate (n * a) (0 :: u8)"
  by (simp add: copy_slice_def replicate_add [symmetric])

lemma fill_percpu_concat:
  assumes "list_all (\<lambda>v. length v = val_size) vs" and "val_size \<le> a" and "length done = i * a"
  shows "fill_percpu val_size a i vs (done @ replicate (length vs * a) 0) =
    Inr (done @ concat (map (\<lambda>v. v @ replicate (a - val_size) 0) vs))"
  using assms
proof (induction vs arbitrary: i "done")
  case (Cons v vs)
  have "fill_percpu val_size a (Suc i) vs ((done @ v @ replicate (a - length v) 0) @ replicate (length vs * a) 0) =
      Inr ((done @ v @ replicate (a - length v) 0) @ concat (map (\<lambda>v. v @ replicate (a - val_size) 0) vs))"
    using Cons.prems by (intro Cons.IH) auto
  with Cons.prems copy_slice_next [of "done" i a v "length vs"] show ?case by simp
qed simp

lemma chunks_exact_concat:
  "list_all (\<lambda>c. length c = a) cs \<Longrightarrow> 0 < a \<Longrightarrow> chunks_exact a (concat cs) = cs"
  by (induction cs) (simp_all add: chunks_exact.simps [of a "[]"] chunks_exact.simps [of a "_ @ _"])

lemma roundup_ge: "n \<le> roundup n 8" and roundup_dvd: "8 dvd roundup n 8" and roundup_lt: "roundup n 8 < n + 8"
  unfolding roundup_def by presburger+

section \<open>Properties\<close>

text \<open>C28: per-CPU values round trip. On a per-CPU map of the kernel, which holds for each key the values of all CPUs, each
  padded to a multiple of eight bytes, a successful \<^verbatim>\<open>update_percpu\<close> with one value of the right size per CPU is what
  \<^verbatim>\<open>lookup_percpu\<close> returns afterwards, CPU by CPU, and other keys are not touched; with a wrong number of values,
  or a value or key of the wrong size, it is refused and the map is left alone.\<close>

theorem percpu_roundtrip:
  assumes "sys_map ops klen (ncpu * roundup (unat (lm_value_size mp)) 8)" and "unat (lm_key_size mp) = klen"
    and "is_percpu (map_type_of mp)" and "0 < lm_value_size mp"
  shows "(list_all (\<lambda>v. length v = unat (lm_value_size mp)) vs \<and> length vs = ncpu \<and> length key = klen \<and>
      snd (update_percpu ops (int ncpu) mp key vs f m) = Inr () \<longrightarrow>
      lookup_percpu ops (int ncpu) mp (fst (update_percpu ops (int ncpu) mp key vs f m)) key 0 = Some (Inr (Some vs)) \<and>
      (\<forall>k'. k' \<noteq> key \<longrightarrow> lookup_percpu ops (int ncpu) mp (fst (update_percpu ops (int ncpu) mp key vs f m)) k' 0 =
         lookup_percpu ops (int ncpu) mp m k' 0)) \<and>
    (\<not> (list_all (\<lambda>v. length v = unat (lm_value_size mp)) vs \<and> length vs = ncpu \<and> length key = klen) \<longrightarrow>
      update_percpu ops (int ncpu) mp key vs f m = (m, Inl InvalidInput))"
proof -
  let ?n = "unat (lm_value_size mp)" and ?a = "roundup (unat (lm_value_size mp)) 8"
  let ?u = "update_percpu ops (int ncpu) mp key vs f m"
  have n: "0 < ?n" using assms(4) by (simp add: unat_gt_0 word_neq_0_conv)
  then have a: "?n \<le> ?a" "0 < ?a" using roundup_ge [of ?n] by auto
  have cpus: "parse_ret_usize (int ncpu) = Inr ncpu" "percpu_buffer_size (int ncpu) mp = Inr (ncpu * ?a)"
    by (simp_all add: parse_ret_usize_def percpu_buffer_size_def percpu_aligned_value_size_def)
  show ?thesis
  proof (cases "list_all (\<lambda>v. length v = ?n) vs \<and> length vs = ncpu")
    case True
    let ?cs = "map (\<lambda>v. v @ replicate (?a - ?n) 0) vs"
    have "fill_percpu ?n ?a 0 vs (replicate (ncpu * ?a) 0) = Inr (concat ?cs)"
      using fill_percpu_concat [of ?n vs ?a "[]" 0] True a by simp
    then have u: "?u = update_raw ops mp key (concat ?cs) f m"
      using True assms(3) by (simp add: update_percpu_def cpus percpu_aligned_value_size_def)
    have cs: "list_all (\<lambda>c. length c = ?a) ?cs" using True a by (auto simp: list_all_iff)
    then have len: "length (concat ?cs) = ncpu * ?a" using True a
      by (simp add: length_concat comp_def list_all_iff sum_list_triv cong: map_cong)
    have vals: "map (take ?n) (chunks_exact ?a (concat ?cs)) = vs"
      using True by (simp add: chunks_exact_concat [OF cs a(2)] comp_def list_all_iff map_idI)
    have look: "lookup_percpu ops (int ncpu) mp m' k 0 =
        (if length k \<noteq> klen then Some (Inl InvalidInput)
         else case sys_lookup ops m' k 0 of Inr out \<Rightarrow> Some (Inr (Some (map (take ?n) (chunks_exact ?a out))))
           | Inl errno \<Rightarrow> if errno = ENOENT then Some (Inr None) else Some (Inl (System errno)))" for m' k
      using sys_map.lookup_size [OF assms(1), of k m' 0] a assms(2,3)
      by (auto simp: lookup_percpu_def Let_def cpus lookup_raw_def percpu_aligned_value_size_def split: sum.splits)
    have "length key \<noteq> klen \<Longrightarrow> ?u = (m, Inl InvalidInput)" by (simp add: u update_raw_def assms(2))
    moreover have "lookup_percpu ops (int ncpu) mp (fst ?u) key 0 = Some (Inr (Some vs)) \<and>
        (\<forall>k'. k' \<noteq> key \<longrightarrow> lookup_percpu ops (int ncpu) mp (fst ?u) k' 0 = lookup_percpu ops (int ncpu) mp m k' 0)"
      if k: "length key = klen" and ok: "snd ?u = Inr ()"
      using ok vals k by (auto simp: look u sys_map.update_raw_lookup [OF assms(1,2) k len])
    ultimately show ?thesis using True by blast
  next
    case False
    have "fill_percpu ?n ?a i vs buf = Inl InvalidInput" if "\<not> list_all (\<lambda>v. length v = ?n) vs" for i buf
      using that by (induction vs arbitrary: i buf) auto
    with False show ?thesis using assms(3) by (auto simp: update_percpu_def cpus percpu_aligned_value_size_def)
  qed
qed

text \<open>Two CPUs and values of three bytes.\<close>

definition percpu_map :: lib_map where
  "percpu_map = \<lparr>lm_fd = 3, lm_name = ''counts'', lm_ty = 5, lm_key_size = 1, lm_value_size = 3, lm_ptr = True\<rparr>"

theorem percpu_roundtrip_witness:
  "lookup_percpu (bmap_ops 1 16) 2 percpu_map
     (fst (update_percpu (bmap_ops 1 16) 2 percpu_map [7] [[1, 2, 3], [4, 5, 6]] 0 [])) [7] 0 = Some (Inr (Some [[1, 2, 3], [4, 5, 6]]))"
proof -
  have p: "is_percpu (map_type_of percpu_map)" by code_simp
  have r: "2 * roundup (unat (lm_value_size percpu_map)) 8 = 16" "unat (lm_key_size percpu_map) = 1" "0 < lm_value_size percpu_map"
    by (simp_all add: percpu_map_def roundup_def)
  have c: "sys_map (bmap_ops 1 16) 1 (2 * roundup (unat (lm_value_size percpu_map)) 8)"
    unfolding r(1) by (rule bmap.sys_map_axioms)
  have s: "snd (update_percpu (bmap_ops 1 16) (int 2) percpu_map [7] [[1, 2, 3], [4, 5, 6]] 0 []) = Inr ()"
    by code_simp
  have v: "list_all (\<lambda>v. length v = unat (lm_value_size percpu_map)) [[1, 2, 3 :: u8], [4, 5, 6]]" by (simp add: percpu_map_def)
  show ?thesis using percpu_roundtrip [OF c r(2) p r(3), of "[[1, 2, 3], [4, 5, 6]]" "[7]" 0 "[]"] s v by simp
qed

text \<open>The order in which the kernel hands out the keys of a map that does not change.\<close>

definition key_order :: "'m sys_ops \<Rightarrow> 'm \<Rightarrow> bytes list \<Rightarrow> bool" where
  "key_order ops m ks \<longleftrightarrow>
     sys_next_key ops m None = (case ks of [] \<Rightarrow> None | k # _ \<Rightarrow> Some k) \<and>
     list_all (\<lambda>i. sys_next_key ops m (Some (ks ! i)) = (if Suc i < length ks then Some (ks ! Suc i) else None)) [0..<length ks]"

lemma keys_after:
  assumes "key_order ops m ks" and "i < length ks"
  shows "map_keys_from ops m (Some (ks ! i)) = Some (drop (Suc i) ks)"
  using assms(2)
proof (induction "length ks - i" arbitrary: i)
  case (Suc d)
  have nxt: "sys_next_key ops m (Some (ks ! i)) = (if Suc i < length ks then Some (ks ! Suc i) else None)"
    using assms(1) Suc.prems by (simp add: key_order_def list_all_iff)
  show ?case
  proof (cases "Suc i < length ks")
    case True
    then have "map_keys_from ops m (Some (ks ! Suc i)) = Some (drop (Suc (Suc i)) ks)" using Suc by (intro Suc.hyps) auto
    with True nxt show ?thesis by (subst map_keys_from.simps) (simp add: Cons_nth_drop_Suc)
  next
    case False
    with nxt show ?thesis by (subst map_keys_from.simps) simp
  qed
qed simp

text \<open>C29: iteration over the keys ends. While the map does not change, the iterator of \<^verbatim>\<open>Map::keys\<close> returns every key of the
  kernel's order once, in that order, and then stops; if instead the kernel's next key leads back to one that was handed
  out before, as it does when a key was deleted meanwhile, it never does.\<close>

theorem keys_enumerated:
  "(key_order ops m ks \<longrightarrow> map_keys ops m = Some ks) \<and>
   ((\<exists>C. sys_next_key ops m None \<in> Some ` C \<and> (\<forall>k \<in> C. sys_next_key ops m (Some k) \<in> Some ` C)) \<longrightarrow> map_keys ops m = None)"
proof (intro conjI impI)
  assume o: "key_order ops m ks"
  show "map_keys ops m = Some ks"
  proof (cases ks)
    case Nil
    with o show ?thesis by (subst map_keys_def, subst map_keys_from.simps) (simp add: key_order_def)
  next
    case (Cons k ks')
    then have "map_keys_from ops m (Some k) = Some ks'" using keys_after [OF o, of 0] by simp
    with o Cons show ?thesis by (subst map_keys_def, subst map_keys_from.simps) (simp add: key_order_def)
  qed
next
  assume "\<exists>C. sys_next_key ops m None \<in> Some ` C \<and> (\<forall>k \<in> C. sys_next_key ops m (Some k) \<in> Some ` C)"
  then obtain C where C: "sys_next_key ops m None \<in> Some ` C" "\<And>k. k \<in> C \<Longrightarrow> sys_next_key ops m (Some k) \<in> Some ` C" by blast
  have "map_keys_from ops m prev = None" if "prev \<in> insert None (Some ` C)" for prev
  proof (rule ccontr)
    assume "map_keys_from ops m prev \<noteq> None"
    then obtain r where "map_keys_from ops m prev = Some r" by auto
    then have "prev \<notin> insert None (Some ` C) \<or> ops \<noteq> ops \<or> m \<noteq> m"
    proof (rule map_keys_from.raw_induct [where P = "\<lambda>ops' m' p r. p \<notin> insert None (Some ` C) \<or> ops' \<noteq> ops \<or> m' \<noteq> m", rotated])
      fix g ops' m' p r
      assume hyp: "\<And>ops' m' p r. g ops' m' p = Some r \<Longrightarrow> p \<notin> insert None (Some ` C) \<or> ops' \<noteq> ops \<or> m' \<noteq> m"
        and eq: "(case sys_next_key ops' m' p of None \<Rightarrow> Some [] | Some k \<Rightarrow> g ops' m' (Some k) \<bind> (\<lambda>ks. Some (k # ks))) = Some r"
      show "p \<notin> insert None (Some ` C) \<or> ops' \<noteq> ops \<or> m' \<noteq> m"
      proof (rule ccontr)
        assume "\<not> (p \<notin> insert None (Some ` C) \<or> ops' \<noteq> ops \<or> m' \<noteq> m)"
        then have p: "p \<in> insert None (Some ` C)" "ops' = ops" "m' = m" by auto
        then obtain k where k: "sys_next_key ops m p = Some k" "k \<in> C" using C by blast
        with eq p obtain r' where "g ops m (Some k) = Some r'" by (auto simp: bind_eq_Some_conv)
        with hyp k show False by blast
      qed
    qed
    with that show False by blast
  qed
  then show "map_keys ops m = None" by (simp add: map_keys_def)
qed

theorem keys_enumerated_witness: "map_keys (bmap_ops 1 1) [([1], [10]), ([2], [20])] = Some [[1], [2]]"
proof -
  have "key_order (bmap_ops 1 1) [([1], [10]), ([2], [20])] [[1], [2]]" by code_simp
  then show ?thesis using keys_enumerated [of "bmap_ops 1 1"] by blast
qed

end
