(* ===== verification/Libbpf_Attach.thy ===== *)
theory Libbpf_Attach
  imports Libbpf_Map
begin

text \<open>
  Buffers, programs, links and traffic control hooks of \<^verbatim>\<open>libbpf-rs\<close> (\<^verbatim>\<open>src/ringbuf.rs\<close>, \<^verbatim>\<open>src/perf_buffer.rs\<close>, \<^verbatim>\<open>src/program.rs\<close>,
  \<^verbatim>\<open>src/link.rs\<close>, \<^verbatim>\<open>src/tc.rs\<close>). The calls into libbpf are parameters: their results. What the builders allocate is
  followed as a trace of actions, with the memory and the manager that are still live at the end.
\<close>

section \<open>Ring buffers\<close>

text \<open>Callbacks are boxes, numbered in the order they were added; \<open>RbNew\<close> creates the manager of libbpf.\<close>

datatype rb_action = IntoRaw nat | FromRaw nat | DropBox nat | RbNew | RbAdd nat | RbFree

definition rb_add :: "lib_map \<Rightarrow> int list \<Rightarrow> int list lib_result" where
  "rb_add mp fds = (if map_type_of mp \<noteq> MtRingBuf then Inl InvalidInput else Inr (fds @ [lm_fd mp]))"

text \<open>
  \<^verbatim>\<open>build\<close>: the loop over the maps added, from the \<open>i\<close>-th on, with the boxes taken back so far. \<open>err\<close> is the error of
  \<^verbatim>\<open>ring_buffer__new\<close> for the first map and of \<^verbatim>\<open>ring_buffer__add\<close> for the others. On an error the function returns and drops
  the boxes it has taken back; the result is the number of boxes the buffer owns.
\<close>

fun rb_build_from :: "(nat \<Rightarrow> int) \<Rightarrow> nat \<Rightarrow> int list \<Rightarrow> rb_action list \<times> nat lib_result" where
  "rb_build_from err i [] = ([], if i = 0 then Inl InvalidInput else Inr i)"
| "rb_build_from err i (fd # fds) =
     (if err i \<noteq> 0 then (IntoRaw i # (if i = 0 then [] else [RbAdd i]) @ map DropBox [0..<i], Inl (System (err i)))
      else case rb_build_from err (Suc i) fds of
        (acts, r) \<Rightarrow> (IntoRaw i # (if i = 0 then RbNew else RbAdd i) # FromRaw i # acts, r))"

definition rb_build :: "(nat \<Rightarrow> int) \<Rightarrow> int list \<Rightarrow> rb_action list \<times> nat lib_result" where
  "rb_build err fds = rb_build_from err 0 fds"

text \<open>\<^verbatim>\<open>Drop\<close>: the manager is freed, then the boxes.\<close>

definition rb_drop :: "nat \<Rightarrow> rb_action list" where
  "rb_drop n = RbFree # map DropBox [0..<n]"

text \<open>What is live: raw boxes that nobody frees any more, owned boxes, and the manager.\<close>

record rb_live =
  live_raw :: "nat list"
  live_owned :: "nat list"
  live_manager :: bool

fun rb_act :: "rb_action \<Rightarrow> rb_live \<Rightarrow> rb_live" where
  "rb_act (IntoRaw i) s = s\<lparr>live_raw := live_raw s @ [i]\<rparr>"
| "rb_act (FromRaw i) s = s\<lparr>live_raw := removeAll i (live_raw s), live_owned := live_owned s @ [i]\<rparr>"
| "rb_act (DropBox i) s = s\<lparr>live_owned := removeAll i (live_owned s)\<rparr>"
| "rb_act RbNew s = s\<lparr>live_manager := True\<rparr>"
| "rb_act (RbAdd i) s = s"
| "rb_act RbFree s = s\<lparr>live_manager := False\<rparr>"

definition rb_start :: rb_live where
  "rb_start = \<lparr>live_raw = [], live_owned = [], live_manager = False\<rparr>"

section \<open>Perf buffers\<close>

definition is_power_of_two :: "u64 \<Rightarrow> bool" where
  "is_power_of_two n \<longleftrightarrow> n \<noteq> 0 \<and> n AND (n - 1) = 0"

definition pb_build :: "lib_map \<Rightarrow> u64 \<Rightarrow> int \<Rightarrow> rb_action list \<times> unit lib_result" where
  "pb_build mp pages err =
     (if map_type_of mp \<noteq> MtPerfEventArray then ([], Inl InvalidInput)
      else if \<not> is_power_of_two pages then ([], Inl InvalidInput)
      else if err \<noteq> 0 then ([IntoRaw 0], Inl (System err))
      else ([IntoRaw 0, RbNew, FromRaw 0], Inr ()))"

section \<open>Timeouts\<close>

text \<open>A \<^verbatim>\<open>Duration\<close> as seconds and nanoseconds; \<^verbatim>\<open>timeout.as_millis() as i32\<close> keeps the low 32 bits.\<close>

definition as_millis :: "u64 \<times> u32 \<Rightarrow> nat" where
  "as_millis d = unat (fst d) * 1000 + unat (snd d) div 1000000"

definition poll_timeout :: "u64 \<times> u32 \<Rightarrow> int" where
  "poll_timeout d = sint (of_nat (as_millis d) :: s32)"

definition DURATION_MAX :: "u64 \<times> u32" where
  "DURATION_MAX = (0xFFFFFFFFFFFFFFFF, 999999999)"

definition buffer_poll :: "int \<Rightarrow> unit lib_result" where
  "buffer_poll r = parse_ret r"

section \<open>Programs and links\<close>

text \<open>The attach methods: names and paths become C strings first; the error of libbpf is passed on as it is.\<close>

definition attach_with :: "string list \<Rightarrow> int \<Rightarrow> unit lib_result" where
  "attach_with names err =
     (if list_ex (\<lambda>n. CHR 0x00 \<in> set n) names then Inl InvalidInput else if err \<noteq> 0 then Inl (System err) else Inr ())"

definition link_pin :: "string option \<Rightarrow> int \<Rightarrow> unit lib_result" where
  "link_pin path r = (case path_to_cstring path of Inl e \<Rightarrow> Inl e | Inr p \<Rightarrow> parse_ret r)"

definition link_pin_path :: "bytes option \<Rightarrow> string option" where
  "link_pin_path p =
     (case p of None \<Rightarrow> None | Some bs \<Rightarrow> (case c_ptr_to_string (Some bs) of Inr s \<Rightarrow> Some s | Inl _ \<Rightarrow> None))"

section \<open>Traffic control hooks\<close>

definition TC_INGRESS :: u32 where "TC_INGRESS = 1"
definition TC_EGRESS :: u32 where "TC_EGRESS = 2"
definition TC_CUSTOM :: u32 where "TC_CUSTOM = 4"
definition BPF_TC_F_REPLACE :: u32 where "BPF_TC_F_REPLACE = 1"
definition TC_H_CLSACT :: u32 where "TC_H_CLSACT = 0xFFFFFFF1"
definition TC_H_MIN_INGRESS :: u32 where "TC_H_MIN_INGRESS = 0xFFF2"
definition TC_H_MAJ_MASK :: u32 where "TC_H_MAJ_MASK = 0xFFFF0000"
definition TC_H_MIN_MASK :: u32 where "TC_H_MIN_MASK = 0x0000FFFF"

record tc_hook_t =
  th_ifindex :: int
  th_attach_point :: u32
  th_parent :: u32
  to_prog_fd :: int
  to_flags :: u32
  to_prog_id :: u32
  to_handle :: u32
  to_priority :: u32

definition tc_hook_new :: "int \<Rightarrow> tc_hook_t" where
  "tc_hook_new fd = \<lparr>th_ifindex = 0, th_attach_point = 0, th_parent = 0, to_prog_fd = fd, to_flags = 0, to_prog_id = 0, to_handle = 0,
     to_priority = 0\<rparr>"

definition tc_parent :: "u32 \<Rightarrow> u32 \<Rightarrow> tc_hook_t \<Rightarrow> tc_hook_t" where
  "tc_parent maj mnr h = h\<lparr>th_parent := (maj AND TC_H_MAJ_MASK) OR (mnr AND TC_H_MIN_MASK)\<rparr>"

definition tc_replace :: "bool \<Rightarrow> tc_hook_t \<Rightarrow> tc_hook_t" where
  "tc_replace r h = h\<lparr>to_flags := (if r then BPF_TC_F_REPLACE else 0)\<rparr>"

text \<open>\<^verbatim>\<open>TcHookBuilder\<close>\<close>

record tc_builder =
  tb_fd :: int
  tb_ifindex :: int
  tb_parent_maj :: u32
  tb_parent_min :: u32
  tb_replace :: bool
  tb_handle :: u32
  tb_priority :: u32

definition tc_builder_hook :: "tc_builder \<Rightarrow> u32 \<Rightarrow> tc_hook_t" where
  "tc_builder_hook b point =
     (tc_replace (tb_replace b) (tc_parent (tb_parent_maj b) (tb_parent_min b)
       ((tc_hook_new (tb_fd b))\<lparr>th_ifindex := tb_ifindex b, to_handle := tb_handle b, to_priority := tb_priority b\<rparr>)))
       \<lparr>th_attach_point := point\<rparr>"

text \<open>\<^verbatim>\<open>create\<close> succeeds on a hook that exists; \<^verbatim>\<open>attach\<close>, \<^verbatim>\<open>query\<close> and \<^verbatim>\<open>detach\<close>: the options that libbpf is given, the result, and
  the hook afterwards. libbpf fills in program id, handle and priority (\<open>fill\<close>).\<close>

definition tc_create :: "int \<Rightarrow> tc_hook_t \<Rightarrow> tc_hook_t lib_result" where
  "tc_create err h = (if err \<noteq> 0 \<and> err \<noteq> - EEXIST then Inl (System err) else Inr h)"

definition tc_plain :: "tc_hook_t \<Rightarrow> tc_hook_t" where
  "tc_plain h = h\<lparr>to_prog_id := 0, to_prog_fd := 0, to_flags := 0\<rparr>"

definition tc_attach :: "(tc_hook_t \<Rightarrow> tc_hook_t) \<Rightarrow> int \<Rightarrow> int \<Rightarrow> tc_hook_t \<Rightarrow> tc_hook_t \<times> tc_hook_t lib_result" where
  "tc_attach fill err errno h =
     (let h' = fill (h\<lparr>to_prog_id := 0\<rparr>) in (h', if err \<noteq> 0 then Inl (System errno) else Inr h'))"

definition tc_query :: "(tc_hook_t \<Rightarrow> tc_hook_t) \<Rightarrow> int \<Rightarrow> int \<Rightarrow> tc_hook_t \<Rightarrow> tc_hook_t \<times> u32 lib_result" where
  "tc_query fill err errno h = (tc_plain h, if err \<noteq> 0 then Inl (System errno) else Inr (to_prog_id (fill (tc_plain h))))"

definition tc_detach :: "int \<Rightarrow> tc_hook_t \<Rightarrow> tc_hook_t \<times> tc_hook_t \<times> unit lib_result" where
  "tc_detach err h = (tc_plain h, if err \<noteq> 0 then (h, Inl (System err)) else (h\<lparr>to_prog_id := 0\<rparr>, Inr ()))"

definition tc_destroy :: "int \<Rightarrow> unit lib_result" where
  "tc_destroy err = (if err \<noteq> 0 then Inl (System err) else Inr ())"

section \<open>Lemmas\<close>

lemma drop_all: "fold rb_act (map DropBox js) \<lparr>live_raw = r, live_owned = xs, live_manager = g\<rparr> =
    \<lparr>live_raw = r, live_owned = filter (\<lambda>x. x \<notin> set js) xs, live_manager = g\<rparr>"
proof (induction js arbitrary: xs)
  case (Cons j js)
  have "filter (\<lambda>x. x \<notin> set js) (removeAll j xs) = filter (\<lambda>x. x \<notin> set (j # js)) xs"
    by (induction xs) auto
  with Cons show ?case by simp
qed simp

lemma drop_upto: "fold rb_act (map DropBox [0..<n]) \<lparr>live_raw = r, live_owned = [0..<n], live_manager = g\<rparr> =
    \<lparr>live_raw = r, live_owned = [], live_manager = g\<rparr>"
  unfolding drop_all by (simp add: filter_empty_conv)

definition rb_after :: "(nat \<Rightarrow> int) \<Rightarrow> nat \<Rightarrow> int list \<Rightarrow> rb_live" where
  "rb_after err i fds =
     fold rb_act (fst (rb_build_from err i fds)) \<lparr>live_raw = [], live_owned = [0..<i], live_manager = (0 < i)\<rparr>"

lemma rb_build_ok:
  "\<forall>j < length fds. err (i + j) = 0 \<Longrightarrow> fds \<noteq> [] \<or> 0 < i \<Longrightarrow>
   snd (rb_build_from err i fds) = Inr (i + length fds) \<and>
   rb_after err i fds = \<lparr>live_raw = [], live_owned = [0..<i + length fds], live_manager = True\<rparr>"
proof (induction fds arbitrary: i)
  case (Cons fd fds)
  have e: "err i = 0" using Cons.prems(1) by (metis add_0_right length_greater_0_conv list.distinct(1))
  have "\<forall>j < length fds. err (Suc i + j) = 0" using Cons.prems(1) by (metis Suc_less_eq add_Suc_shift length_Cons)
  with e Cons.IH [of "Suc i"] show ?case by (auto simp: rb_after_def case_prod_beta)
qed (simp add: rb_after_def)

lemma rb_build_err:
  "j < length fds \<Longrightarrow> err (i + j) \<noteq> 0 \<Longrightarrow> \<forall>k < j. err (i + k) = 0 \<Longrightarrow>
   snd (rb_build_from err i fds) = Inl (System (err (i + j))) \<and>
   rb_after err i fds = \<lparr>live_raw = [i + j], live_owned = [], live_manager = (0 < i + j)\<rparr>"
proof (induction fds arbitrary: i j)
  case (Cons fd fds)
  show ?case
  proof (cases j)
    case 0
    with Cons.prems show ?thesis by (auto simp: rb_after_def drop_upto [simplified])
  next
    case (Suc j')
    then have e: "err i = 0" using Cons.prems(3) by (metis add_0_right zero_less_Suc)
    have "\<forall>k < j'. err (Suc i + k) = 0" using Cons.prems(3) Suc by (metis Suc_less_eq add_Suc_shift)
    with e Suc Cons.prems Cons.IH [of j' "Suc i"] show ?thesis by (auto simp: rb_after_def case_prod_beta)
  qed
qed simp

lemma tc_parent_clsact: "th_parent (tc_parent TC_H_CLSACT TC_H_MIN_INGRESS h) = 0xFFFFFFF2"
  by (simp add: tc_parent_def TC_H_CLSACT_def TC_H_MIN_INGRESS_def TC_H_MAJ_MASK_def TC_H_MIN_MASK_def)

section \<open>Properties\<close>

text \<open>C31: the resources of a ring buffer. If every map can be added, the buffer owns the manager of libbpf and one callback per map, and
  dropping it releases all of them. If the map with number \<open>j\<close> is the first that cannot be added, \<^verbatim>\<open>build\<close> returns
  that error, frees the callbacks of the maps before it, but leaks the callback of this one and, unless it is the
  first, the manager.\<close>

theorem ring_buffer_build_resources:
  "(fds \<noteq> [] \<and> (\<forall>j < length fds. err j = 0) \<longrightarrow>
     snd (rb_build err fds) = Inr (length fds) \<and>
     fold rb_act (fst (rb_build err fds)) rb_start = \<lparr>live_raw = [], live_owned = [0..<length fds], live_manager = True\<rparr> \<and>
     fold rb_act (fst (rb_build err fds) @ rb_drop (length fds)) rb_start = rb_start) \<and>
   (j < length fds \<and> err j \<noteq> 0 \<and> (\<forall>k < j. err k = 0) \<longrightarrow>
     snd (rb_build err fds) = Inl (System (err j)) \<and>
     fold rb_act (fst (rb_build err fds)) rb_start = \<lparr>live_raw = [j], live_owned = [], live_manager = (0 < j)\<rparr>)"
proof -
  have after: "fold rb_act (fst (rb_build err fds)) rb_start = rb_after err 0 fds"
    by (simp add: rb_after_def rb_build_def rb_start_def)
  have dropped: "fold rb_act (rb_drop n) \<lparr>live_raw = [], live_owned = [0..<n], live_manager = True\<rparr> = rb_start" for n
    using drop_upto [of n "[]" False] by (simp add: rb_drop_def rb_start_def)
  have "fds \<noteq> [] \<and> (\<forall>j < length fds. err j = 0) \<Longrightarrow> snd (rb_build err fds) = Inr (length fds) \<and>
      rb_after err 0 fds = \<lparr>live_raw = [], live_owned = [0..<length fds], live_manager = True\<rparr>"
    using rb_build_ok [of fds err 0] by (simp add: rb_build_def)
  moreover have "j < length fds \<and> err j \<noteq> 0 \<and> (\<forall>k < j. err k = 0) \<Longrightarrow> snd (rb_build err fds) = Inl (System (err j)) \<and>
      rb_after err 0 fds = \<lparr>live_raw = [j], live_owned = [], live_manager = (0 < j)\<rparr>"
    using rb_build_err [of j fds err 0] by (simp add: rb_build_def)
  ultimately show ?thesis by (auto simp: after dropped)
qed

theorem ring_buffer_build_resources_witness:
  "fold rb_act (fst (rb_build (\<lambda>i. if i = 1 then - 22 else 0) [3, 4])) rb_start = \<lparr>live_raw = [1], live_owned = [], live_manager = True\<rparr> \<and>
   fold rb_act (fst (rb_build (\<lambda>i. 0) [3, 4]) @ rb_drop 2) rb_start = rb_start"
proof -
  have "fold rb_act (fst (rb_build (\<lambda>i. 0) [3, 4]) @ rb_drop (length [3::int, 4])) rb_start = rb_start"
    using ring_buffer_build_resources [of "[3, 4]" "\<lambda>i. 0" 0] by blast
  then show ?thesis
    using ring_buffer_build_resources [of "[3, 4]" "\<lambda>i. if i = 1 then - 22 else 0" 1] by (simp add: numeral_2_eq_2)
qed

text \<open>The timeout of a poll. A duration below \<open>2 ^ 31\<close> milliseconds is passed on in full, and the longest duration
  becomes -1, which waits for ever; in between the conversion to 32 bits wraps around: a duration of
  \<open>2 ^ 32\<close> milliseconds, about 50 days, does not wait at all.\<close>

lemma poll_timeout_exact:
  "(as_millis d < 2 ^ 31 \<longrightarrow> poll_timeout d = int (as_millis d)) \<and> poll_timeout DURATION_MAX = - 1 \<and>
   as_millis (4294967, 296000000) = 2 ^ 32 \<and> poll_timeout (4294967, 296000000) = 0"
proof (intro conjI impI)
  assume "as_millis d < 2 ^ 31"
  then show "poll_timeout d = int (as_millis d)"
    by (simp add: poll_timeout_def sint_uint uint_nat unat_of_nat signed_take_bit_int_eq_self)
next
  have m: "as_millis DURATION_MAX = 18446744073709551615999" by (simp add: as_millis_def DURATION_MAX_def)
  show "poll_timeout DURATION_MAX = - 1" unfolding poll_timeout_def m by simp
qed (simp_all add: poll_timeout_def as_millis_def)

lemma poll_timeout_exact_example: "poll_timeout (0, 100000000) = 100"
proof -
  have "as_millis (0, 100000000) = 100" by (simp add: as_millis_def)
  then show ?thesis using poll_timeout_exact [of "(0, 100000000)"] by simp
qed

end
