(* ===== verification/Tracecon_Main.thy ===== *)
theory Tracecon_Main
  imports Front_Ends Tracecon Libbpf_Attach
begin

text \<open>
  The Rust front ends of the connection tracer, \<^verbatim>\<open>libbpf-bootstrap/examples/rust/tracecon/src/main.rs\<close>, and of the
  packet program \<^verbatim>\<open>xdp/src/main.rs\<close> beside it. Both run until Ctrl-C clears a flag. The results of the
  calls into the kernel, libbpf, the ELF parser and \<^verbatim>\<open>plain\<close> are parameters.
\<close>

section \<open>tracecon\<close>

record tcon_opts =
  tco_verbose :: bool
  tco_glibc :: string
  tco_pid :: "s32 option"

text \<open>\<^verbatim>\<open>Command::default\<close> of the path, and the constant \<^verbatim>\<open>target_pid\<close> of the BPF program, 0 unless it is set.\<close>

definition DEFAULT_GLIBC :: string where "DEFAULT_GLIBC = ''/lib/x86_64-linux-gnu/libc.so.6''"

definition tcon_rodata :: "tcon_opts \<Rightarrow> s32" where
  "tcon_rodata opts = (case tco_pid opts of None \<Rightarrow> 0 | Some pid \<Rightarrow> pid)"

text \<open>The event as the generated Rust type has it.\<close>

record tcon_event =
  te_tag :: u8
  te_ip :: bytes
  te_hostname :: bytes

text \<open>\<^verbatim>\<open>Display for Ipv4Addr\<close>\<close>

fun ipv4_text :: "bytes \<Rightarrow> string" where
  "ipv4_text [] = []"
| "ipv4_text [b] = dec (unat b)"
| "ipv4_text (b # bs) = dec (unat b) @ ''.'' @ ipv4_text bs"

definition tcon_handle_event :: "(bytes \<Rightarrow> tcon_event option) \<Rightarrow> bytes \<Rightarrow> fe_line list rust_result" where
  "tcon_handle_event copy_from_bytes data =
     (case copy_from_bytes data of
        None \<Rightarrow> Panic
      | Some event \<Rightarrow>
          Ok (if te_tag event = 0 then [(''ip event: {}'', [Txt (ipv4_text (te_ip event))])]
              else if te_tag event = 1 then [(''host event: {}'', [Txt (from_utf8_lossy (te_hostname event))])]
              else []))"

text \<open>
  \<^verbatim>\<open>get_symbol_address\<close>: \<open>read_file\<close> the bytes of a file, \<open>dynamic_symbols\<close> the symbols of an object file with
  their names, where those are valid, and addresses.
\<close>

definition get_symbol_address ::
  "(string \<Rightarrow> bytes option) \<Rightarrow> (bytes \<Rightarrow> (string option \<times> u64) list option) \<Rightarrow> string \<Rightarrow> string \<Rightarrow> u64 rust_result" where
  "get_symbol_address read_file dynamic_symbols so_path fn_name =
     (case read_file so_path of
        None \<Rightarrow> Err
      | Some buffer \<Rightarrow>
          (case dynamic_symbols buffer of
             None \<Rightarrow> Err
           | Some symbols \<Rightarrow>
               (case find (\<lambda>s. fst s = Some fn_name) symbols of None \<Rightarrow> Err | Some s \<Rightarrow> Ok (snd s))))"

datatype probe = Uprobe bool int string u64 | Kprobe bool string

record tcon_host =
  tch_setrlimit :: int
  tch_open :: bool
  tch_load :: bool
  tch_read :: "string \<Rightarrow> bytes option"
  tch_symbols :: "bytes \<Rightarrow> (string option \<times> u64) list option"
  tch_attach :: "probe \<Rightarrow> bool"
  tch_perf :: bool
  tch_ctrlc :: bool

text \<open>The four probes \<^verbatim>\<open>main\<close> attaches, in order, and how far it comes.\<close>

definition tcon_probes :: "string \<Rightarrow> u64 \<Rightarrow> probe list" where
  "tcon_probes glibc address =
     [Uprobe False (- 1) glibc address, Uprobe True (- 1) glibc address, Kprobe False ''tcp_v4_connect'', Kprobe True ''tcp_v4_connect'']"

fun attach_all :: "(probe \<Rightarrow> bool) \<Rightarrow> probe list \<Rightarrow> probe list \<times> bool" where
  "attach_all ok [] = ([], True)"
| "attach_all ok (p # ps) = (if ok p then (case attach_all ok ps of (qs, b) \<Rightarrow> (p # qs, b)) else ([], False))"

text \<open>
  The callbacks of one poll; lost samples are not reported. The loop sees, each round, the flag that Ctrl-C
  clears and what the poll delivers (\<^term>\<open>None\<close> when it fails).
\<close>

fun tcon_callbacks :: "(bytes \<Rightarrow> fe_line list rust_result) \<Rightarrow> fe_call list \<Rightarrow> fe_line list \<times> bool" where
  "tcon_callbacks cb [] = ([], True)"
| "tcon_callbacks cb (FeLost cpu n # cs) = tcon_callbacks cb cs"
| "tcon_callbacks cb (FeSample data # cs) =
     (case cb data of
        Ok ls \<Rightarrow> (case tcon_callbacks cb cs of (l, ok) \<Rightarrow> (ls @ l, ok))
      | _ \<Rightarrow> ([], False))"

fun tcon_loop ::
  "(bytes \<Rightarrow> fe_line list rust_result) \<Rightarrow> (bool \<times> fe_call list option) list \<Rightarrow> fe_line list \<times> unit rust_result option" where
  "tcon_loop cb [] = ([], None)"
| "tcon_loop cb ((running, poll) # rounds) =
     (if \<not> running then ([], Some (Ok ()))
      else case poll of
        None \<Rightarrow> ([], Some Err)
      | Some cs \<Rightarrow>
          (case tcon_callbacks cb cs of
             (l, False) \<Rightarrow> (l, Some Panic)
           | (l, True) \<Rightarrow> (case tcon_loop cb rounds of (l', r) \<Rightarrow> (l @ l', r))))"

definition tcon_main ::
  "(bytes \<Rightarrow> tcon_event option) \<Rightarrow> tcon_host \<Rightarrow> tcon_opts \<Rightarrow> (bool \<times> fe_call list option) list \<Rightarrow>
   probe list \<times> fe_line list \<times> unit rust_result option" where
  "tcon_main copy h opts rounds =
     (if tch_setrlimit h \<noteq> 0 \<or> \<not> tch_open h \<or> \<not> tch_load h then ([], [], Some Err)
      else case get_symbol_address (tch_read h) (tch_symbols h) (tco_glibc opts) ''getaddrinfo'' of
        Ok address \<Rightarrow>
          (case attach_all (tch_attach h) (tcon_probes (tco_glibc opts) address) of
             (ps, ok) \<Rightarrow>
               if \<not> ok \<or> \<not> tch_perf h \<or> \<not> tch_ctrlc h then (ps, [], Some Err)
               else (ps, tcon_loop (tcon_handle_event copy) rounds))
      | _ \<Rightarrow> ([], [], Some Err))"

section \<open>xdp\<close>

record xdp_host =
  xh_setrlimit :: int
  xh_open :: bool
  xh_load :: bool
  xh_attach_xdp :: "s32 \<Rightarrow> bool"
  xh_ctrlc :: bool

text \<open>The loop prints a dot and sleeps for a second, as long as the flag is set.\<close>

fun xdp_loop :: "bool list \<Rightarrow> string \<times> unit rust_result option" where
  "xdp_loop [] = ([], None)"
| "xdp_loop (running # rounds) =
     (if running then (case xdp_loop rounds of (out, r) \<Rightarrow> (''.'' @ out, r)) else ([], Some (Ok ())))"

definition xdp_main :: "xdp_host \<Rightarrow> s32 \<Rightarrow> bool list \<Rightarrow> string \<times> unit rust_result option" where
  "xdp_main h ifindex rounds =
     (if xh_setrlimit h \<noteq> 0 \<or> \<not> xh_open h \<or> \<not> xh_load h \<or> \<not> xh_attach_xdp h ifindex \<or> \<not> xh_ctrlc h then ([], Some Err)
      else xdp_loop rounds)"

section \<open>Lemmas\<close>

lemma ipv4_text_split: "bs \<noteq> [] \<Longrightarrow> str_split ''.'' (ipv4_text bs) = map (\<lambda>b. dec (unat b)) bs"
proof (induction bs rule: ipv4_text.induct)
  case (2 b)
  then show ?case using str_split_none [of "''.''" "dec (unat b)"] dec_no_dot [of "unat b"] by simp
next
  case (3 b c bs)
  then show ?case using str_split_first [of "''.''" "dec (unat b)" "ipv4_text (c # bs)"] dec_no_dot [of "unat b"] by simp
qed simp

lemma ipv4_text_inj: "bs \<noteq> [] \<Longrightarrow> cs \<noteq> [] \<Longrightarrow> ipv4_text bs = ipv4_text cs \<Longrightarrow> bs = cs"
proof -
  assume "bs \<noteq> []" "cs \<noteq> []" "ipv4_text bs = ipv4_text cs"
  then have "map (\<lambda>b. dec (unat b)) bs = map (\<lambda>b. dec (unat b)) cs"
    using ipv4_text_split [of bs] ipv4_text_split [of cs] by simp
  moreover have "inj (\<lambda>b :: u8. dec (unat b))"
    by (auto simp: inj_def word_unat_eq_iff dest: dec_inj)
  ultimately show ?thesis by (rule map_injective)
qed

text \<open>The flag ends the loop: nothing after the first round in which it is cleared is looked at.\<close>

lemma tcon_loop_stops:
  assumes "list_all (\<lambda>r. fst r) before"
  shows "tcon_loop cb (before @ (False, poll) # after) = tcon_loop cb (before @ [(False, None)])"
  using assms by (induction before) (auto split: option.splits prod.splits bool.splits)

lemma xdp_loop_dots: "list_all (\<lambda>r. r) before \<Longrightarrow> xdp_loop (before @ False # after) = (replicate (length before) CHR ''.'', Some (Ok ()))"
  by (induction before) auto

lemma attach_all_prefix: "attach_all ok ps = (qs, b) \<Longrightarrow> (\<exists>rs. ps = qs @ rs \<and> (b \<longleftrightarrow> rs = [])) \<and> list_all ok qs"
  by (induction ps arbitrary: qs b) (force split: if_splits prod.splits)+

text \<open>
  The memory of the structure the BPF program sends: a tag, the address, the name, without padding. A perf
  buffer may deliver more bytes than were sent. \<^verbatim>\<open>plain::copy_from_bytes\<close> copies the beginning.
\<close>

definition tag_byte :: "tag \<Rightarrow> u8" where
  "tag_byte t = (case t of IP \<Rightarrow> 0 | HOSTNAME \<Rightarrow> 1)"

definition con_event_bytes :: "con_event \<Rightarrow> bytes" where
  "con_event_bytes e = tag_byte (ev_tag e) # ev_ip e @ ev_hostname e"

locale con_copy =
  fixes copy :: "bytes \<Rightarrow> tcon_event option"
  assumes copied: "length ip = 4 \<Longrightarrow> length name = HOSTNAME_LEN \<Longrightarrow>
    copy (t # ip @ name @ rest) = Some \<lparr>te_tag = t, te_ip = ip, te_hostname = name\<rparr>"
begin

lemma handled:
  assumes "length (ev_ip e) = 4" and "length (ev_hostname e) = HOSTNAME_LEN"
  shows "tcon_handle_event copy (con_event_bytes e @ rest) =
    Ok [case ev_tag e of IP \<Rightarrow> (''ip event: {}'', [Txt (ipv4_text (ev_ip e))])
        | HOSTNAME \<Rightarrow> (''host event: {}'', [Txt (from_utf8_lossy (ev_hostname e))])]"
  using assms by (cases "ev_tag e") (simp_all add: tcon_handle_event_def con_event_bytes_def tag_byte_def copied)

end

definition copy_con_event :: "bytes \<Rightarrow> tcon_event option" where
  "copy_con_event data =
     (if length data < 89 then None
      else Some \<lparr>te_tag = data ! 0, te_ip = take 4 (drop 1 data), te_hostname = take HOSTNAME_LEN (drop 5 data)\<rparr>)"

interpretation ccopy: con_copy copy_con_event
  by unfold_locales (simp add: copy_con_event_def HOSTNAME_LEN_def numeral_eq_Suc)

lemma lossy_padded:
  assumes "list_all (\<lambda>b. b < 0x80) n"
  shows "from_utf8_lossy (n @ replicate k 0) = str_of n @ replicate k (CHR 0x00)"
proof -
  have "list_all (\<lambda>b. b < 0x80) (map unat (n @ replicate k 0))"
    using assms by (auto simp: list_all_iff word_less_nat_alt)
  moreover have "char_of (0 :: nat) = CHR 0x00" by code_simp
  ultimately show ?thesis by (simp add: from_utf8_lossy_def lossy_ascii str_of_def)
qed

section \<open>Properties\<close>

text \<open>C22: a connection, from the probe to the printed line. When a thread with a pending socket returns from a
  successful connect, the tracer emits one event, and the front end prints one line for it, whatever
  follows it in the buffer: the host name if the address was looked up before, and otherwise the address in
  dotted notation, in which different addresses look different. The name is printed as the whole
  buffer, so an ASCII name is followed by the zero bytes that pad it.\<close>

theorem connection_printed:
  assumes "tracecon_kernel ops" and "con_copy copy" and "get_tid tp env \<noteq> 0"
    and "map_lookup (sockets_ops ops) (sockets st) (get_tid tp env) = Some sk"
    and "\<And>e. snd (perf_output (events_ops ops) (con_events st) e (csizeof con_event_layout)) = 0"
    and "\<And>lk. map_lookup (hostnames_ops ops) (hostnames st) (skc_daddr env sk) = Some lk \<Longrightarrow> length (lk_c lk) = HOSTNAME_LEN"
  shows "\<exists>e. perf_records (events_ops ops) (con_events (fst (tcp_v4_connect_exit ops tp env 0 st))) =
      perf_records (events_ops ops) (con_events st) @ [e] \<and>
    tcon_loop (tcon_handle_event copy) [(True, Some [FeSample (con_event_bytes e @ rest)]), (False, p)] =
      ([case map_lookup (hostnames_ops ops) (hostnames st) (skc_daddr env sk) of
          None \<Rightarrow> (''ip event: {}'', [Txt (ipv4_text (ip_bytes (skc_daddr env sk)))])
        | Some lk \<Rightarrow> (''host event: {}'', [Txt (from_utf8_lossy (lk_c lk))])], Some (Ok ())) \<and>
    (ipv4_text (ip_bytes (skc_daddr env sk)) = ipv4_text (ip_bytes a) \<longrightarrow> a = skc_daddr env sk) \<and>
    (list_all (\<lambda>b. b < 0x80) n \<longrightarrow> from_utf8_lossy (n @ replicate k 0) = str_of n @ replicate k (CHR 0x00))"
proof -
  let ?e = "case map_lookup (hostnames_ops ops) (hostnames st) (skc_daddr env sk) of
         None \<Rightarrow> \<lparr>ev_tag = IP, ev_ip = ip_bytes (skc_daddr env sk), ev_hostname = replicate HOSTNAME_LEN 0\<rparr>
       | Some lookup \<Rightarrow> \<lparr>ev_tag = HOSTNAME, ev_ip = replicate 4 0, ev_hostname = lk_c lookup\<rparr>"
  have l: "length (ev_ip ?e) = 4" "length (ev_hostname ?e) = HOSTNAME_LEN"
    using assms(6) by (auto simp: ip_bytes_def split: option.splits)
  have ip: "a = b" if "ip_bytes a = ip_bytes b" for a b
    using that le32_bytes [of a] le32_bytes [of b] by (simp add: ip_bytes_def)
  have "tcon_loop (tcon_handle_event copy) [(True, Some [FeSample (con_event_bytes ?e @ rest)]), (False, p)] =
      ([case map_lookup (hostnames_ops ops) (hostnames st) (skc_daddr env sk) of
          None \<Rightarrow> (''ip event: {}'', [Txt (ipv4_text (ip_bytes (skc_daddr env sk)))])
        | Some lk \<Rightarrow> (''host event: {}'', [Txt (from_utf8_lossy (lk_c lk))])], Some (Ok ()))"
    using con_copy.handled [OF assms(2) l] by (simp split: option.splits)
  moreover have "ipv4_text (ip_bytes (skc_daddr env sk)) = ipv4_text (ip_bytes a) \<longrightarrow> a = skc_daddr env sk"
    using ipv4_text_inj [of "ip_bytes (skc_daddr env sk)" "ip_bytes a"] ip by (auto simp: ip_bytes_def)
  ultimately show ?thesis
    using tracecon_kernel.conn_exit_event [OF assms(1,3,4,5)] by (blast intro: lossy_padded)
qed

theorem connection_printed_witness:
  "tcon_loop (tcon_handle_event copy_con_event)
      [(True, Some [FeSample (con_event_bytes \<lparr>ev_tag = IP, ev_ip = [127, 0, 0, 1], ev_hostname = replicate HOSTNAME_LEN 0\<rparr> @ [0, 0, 0])]), (False, None)] =
    ([(''ip event: {}'', [Txt ''127.0.0.1''])], Some (Ok ()))"
proof -
  let ?st = "\<lparr>lookups = [], hostnames = [], sockets = [(5, 512)], con_events = (2, [])\<rparr>
    :: ((u32 \<times> lookup_t) list, (u32 \<times> lookup_t) list, (u32 \<times> u64) list, nat \<times> con_event list) tracecon_state"
  have t: "get_tid 4 tc_env \<noteq> 0" by code_simp
  have t5: "get_tid 4 tc_env = 5" by code_simp
  have sk: "map_lookup (sockets_ops tracecon_inst) (sockets ?st) (get_tid 4 tc_env) = Some 512"
    by (simp add: t5 tracecon_inst_def hash_ops_def)
  have out: "snd (perf_output (events_ops tracecon_inst) (con_events ?st) e (csizeof con_event_layout)) = 0" for e
    by (simp add: tracecon_inst_def inst_defs)
  have none: "map_lookup (hostnames_ops tracecon_inst) (hostnames ?st) a = None" for a
    by (simp add: tracecon_inst_def hash_ops_def)
  have ip: "ip_bytes (skc_daddr tc_env 512) = [127, 0, 0, 1]" by code_simp
  have recs: "perf_records (events_ops tracecon_inst) (con_events (fst (tcp_v4_connect_exit tracecon_inst 4 tc_env 0 ?st))) =
      perf_records (events_ops tracecon_inst) (con_events ?st) @ [\<lparr>ev_tag = IP, ev_ip = [127, 0, 0, 1], ev_hostname = replicate HOSTNAME_LEN 0\<rparr>]"
    using tc.conn_exit_event [OF t sk out] unfolding none ip by simp
  have dotted: "ipv4_text (ip_bytes (skc_daddr tc_env 512)) = ''127.0.0.1''" by code_simp
  from connection_printed [OF tc.tracecon_kernel_axioms ccopy.con_copy_axioms t sk out, of "[0, 0, 0]" None]
  show ?thesis unfolding recs none dotted by (auto simp del: tcon_loop.simps)
qed

end
