(* ===== verification/Profile.thy ===== *)
theory Profile
  imports Userspace Vmlinux_508
begin

text \<open>
  The sampling profiler of \<^verbatim>\<open>libbpf-bootstrap/examples/c\<close>: \<^verbatim>\<open>profile.bpf.c\<close>, \<^verbatim>\<open>profile.h\<close> and \<^verbatim>\<open>profile.c\<close>.
  The BPF program records the kernel and user stacks of the interrupted task; user space prints them
  with the names a symbolizer finds. The C code indexes the stacks with sizes that come out of the
  sample; a read outside the array is the value \<^term>\<open>None\<close> of the printing functions.
\<close>

section \<open>Data\<close>

definition MAX_STACK_DEPTH :: nat where "MAX_STACK_DEPTH = 128"

record stacktrace_event =
  st_pid :: u32
  st_cpu_id :: u32
  st_comm :: bytes
  st_kstack_sz :: s32
  st_ustack_sz :: s32
  st_kstack :: "u64 list"
  st_ustack :: "u64 list"

definition stacktrace_event_layout :: ctype where
  "stacktrace_event_layout = CStruct
     [Field ''pid'' c_int,
      Field ''cpu_id'' c_int,
      Field ''comm'' (CArray c_char TASK_COMM_LEN),
      Field ''kstack_sz'' c_int,
      Field ''ustack_sz'' c_int,
      Field ''kstack'' (CArray c_long MAX_STACK_DEPTH),
      Field ''ustack'' (CArray c_long MAX_STACK_DEPTH)]"

text \<open>
  \<open>get_stack size user\<close> is \<^verbatim>\<open>bpf_get_stack\<close> into a buffer of \<open>size\<close> bytes: the buffer, as 64-bit
  words, and the number of bytes written or a negative error.
\<close>

record prof_env = task_env +
  get_stack :: "nat \<Rightarrow> bool \<Rightarrow> u64 list \<times> s32"

section \<open>profile.bpf.c\<close>

definition profile :: "('r, stacktrace_event) ringbuf_ops \<Rightarrow> prof_env \<Rightarrow> 'r \<Rightarrow> 'r \<times> int" where
  "profile rops env rb =
     (let pid = tgid_of (current_pid_tgid env);
          cpu_id = smp_processor_id env
      in case rb_reserve rops rb (csizeof stacktrace_event_layout) of
           None \<Rightarrow> (rb, 1)
         | Some (event, rb') \<Rightarrow>
             let (comm, rc) = current_comm env TASK_COMM_LEN;
                 (kstack, ksz) = get_stack env (8 * MAX_STACK_DEPTH) False;
                 (ustack, usz) = get_stack env (8 * MAX_STACK_DEPTH) True;
                 event' = event\<lparr>st_pid := pid, st_cpu_id := cpu_id,
                                st_comm := (if rc \<noteq> 0 then comm[0 := 0] else comm),
                                st_kstack_sz := ksz, st_kstack := kstack,
                                st_ustack_sz := usz, st_ustack := ustack\<rparr>
             in (rb_submit rops rb' event', 0))"

section \<open>profile.c: printing a sample\<close>

record blazesym_csym =
  sym_symbol :: bytes
  sym_start_address :: u64
  sym_path :: "bytes option"
  sym_line_no :: u64

datatype sym_src = SRC_T_PROCESS s32 | SRC_T_KERNEL

text \<open>
  \<open>symbolize\<close> is \<^verbatim>\<open>blazesym_symbolize\<close>, a library outside the repository: a list of symbols for each
  address (as many entries as it chooses), or NULL.
\<close>

type_synonym symbolizer = "sym_src \<Rightarrow> u64 list \<Rightarrow> blazesym_csym list list option"

definition has_path :: "blazesym_csym \<Rightarrow> bool" where
  "has_path s = (case sym_path s of None \<Rightarrow> False | Some p \<Rightarrow> c_str p \<noteq> [])"

definition path_text :: "blazesym_csym \<Rightarrow> bytes" where
  "path_text s = (case sym_path s of None \<Rightarrow> [] | Some p \<Rightarrow> c_str p)"

definition single_line :: "nat \<Rightarrow> u64 \<Rightarrow> blazesym_csym \<Rightarrow> printk" where
  "single_line i a s =
     (if has_path s
      then (''  %d [<%016llx>] %s+0x%llx %s:%ld'' @ nl,
            [PInt (of_nat i), PLong a, PStr (sym_symbol s), PLong (a - sym_start_address s), PStr (path_text s),
             PLong (sym_line_no s)])
      else (''  %d [<%016llx>] %s+0x%llx'' @ nl,
            [PInt (of_nat i), PLong a, PStr (sym_symbol s), PLong (a - sym_start_address s)]))"

definition inlined_line :: "u64 \<Rightarrow> blazesym_csym \<Rightarrow> printk" where
  "inlined_line a s =
     (if has_path s
      then (''        %s+0x%llx %s:%ld'' @ nl,
            [PStr (sym_symbol s), PLong (a - sym_start_address s), PStr (path_text s), PLong (sym_line_no s)])
      else (''        %s+0x%llx'' @ nl, [PStr (sym_symbol s), PLong (a - sym_start_address s)]))"

definition bare_line :: "nat \<Rightarrow> u64 \<Rightarrow> printk" where
  "bare_line i a = (''  %d [<%016llx>]'' @ nl, [PInt (of_nat i), PLong a])"

text \<open>
  The body of the loop for entry \<open>i\<close>: no symbol, one symbol, or several (inlined functions). Reading \<^verbatim>\<open>result->entries\<close> or the
  symbols of an entry past their ends is \<^term>\<open>None\<close>.
\<close>

definition array_at :: "'a list \<Rightarrow> nat \<Rightarrow> 'a option" where
  "array_at xs i = (if i < length xs then Some (xs ! i) else None)"

fun inlined_lines :: "u64 \<Rightarrow> blazesym_csym list \<Rightarrow> nat \<Rightarrow> nat \<Rightarrow> printk list option" where
  "inlined_lines a syms j 0 = Some []"
| "inlined_lines a syms j (Suc k) =
     do { s \<leftarrow> array_at syms j; ls \<leftarrow> inlined_lines a syms (Suc j) k; Some (inlined_line a s # ls) }"

definition frame_lines :: "blazesym_csym list list option \<Rightarrow> nat \<Rightarrow> u64 \<Rightarrow> printk list option" where
  "frame_lines result i a =
     (case result of
        None \<Rightarrow> Some [bare_line i a]
      | Some entries \<Rightarrow>
          if length entries \<le> i then Some [bare_line i a]
          else do {
            entry \<leftarrow> array_at entries i;
            if length entry = 0 then Some [bare_line i a]
            else if length entry = 1 then do { s \<leftarrow> array_at entry 0; Some [single_line i a s] }
            else do { ls \<leftarrow> inlined_lines a entry 0 (length entry); Some (bare_line i a # ls) }
          })"

text \<open>The loop over the addresses from \<open>i\<close> on; reading past the end of the stack is \<^term>\<open>None\<close>.\<close>

fun stack_lines :: "blazesym_csym list list option \<Rightarrow> u64 list \<Rightarrow> nat \<Rightarrow> nat \<Rightarrow> printk list option" where
  "stack_lines result stack i 0 = Some []"
| "stack_lines result stack i (Suc k) =
     do { a \<leftarrow> array_at stack i; ls \<leftarrow> frame_lines result i a; rest \<leftarrow> stack_lines result stack (Suc i) k; Some (ls @ rest) }"

definition show_stack_trace :: "symbolizer \<Rightarrow> u64 list \<Rightarrow> nat \<Rightarrow> s32 \<Rightarrow> printk list option" where
  "show_stack_trace symbolize stack stack_sz pid =
     (let src = (if pid \<noteq> 0 then SRC_T_PROCESS pid else SRC_T_KERNEL);
          result = symbolize src (take stack_sz stack)
      in stack_lines result stack 0 stack_sz)"

definition event_handler :: "symbolizer \<Rightarrow> stacktrace_event \<Rightarrow> (printk list \<times> int) option" where
  "event_handler symbolize e =
     (if sint (st_kstack_sz e) \<le> 0 \<and> sint (st_ustack_sz e) \<le> 0 then Some ([], 1)
      else do {
        let head = (''COMM: %s (pid=%d) @ CPU %d'' @ nl,
                    [PStr (c_str (st_comm e)), PInt (st_pid e), PInt (st_cpu_id e)]);
        ks \<leftarrow> (if 0 < sint (st_kstack_sz e)
               then map_option (\<lambda>ls. (''Kernel:'' @ nl, []) # ls)
                      (show_stack_trace symbolize (st_kstack e) (unat (st_kstack_sz e) div 8) 0)
               else Some [(''No Kernel Stack'' @ nl, [])]);
        us \<leftarrow> (if 0 < sint (st_ustack_sz e)
               then map_option (\<lambda>ls. (''Userspace:'' @ nl, []) # ls)
                      (show_stack_trace symbolize (st_ustack e) (unat (st_ustack_sz e) div 8) (st_pid e))
               else Some [(''No Userspace Stack'' @ nl, [])]);
        Some (head # ks @ us @ [(nl, [])], 0)
      })"

definition show_help :: "string \<Rightarrow> action" where
  "show_help progname = Print (''Usage: %s [-f <frequency>] [-h]'' @ nl, [PStr (map of_char progname)])"

section \<open>profile.c: main\<close>

record perf_attr =
  pa_type :: int
  pa_size :: nat
  pa_config :: int
  pa_sample_freq :: u64
  pa_freq :: bool

text \<open>
  The results of the calls \<^verbatim>\<open>main\<close> makes: \<open>perf_event_open attr cpu\<close> a descriptor or a negative value,
  \<open>attach_ok cpu\<close> whether attaching to the event of a CPU gives a link.
\<close>

record profile_env =
  num_possible_cpus :: int
  prof_skel_open :: bool
  symbolizer_ok :: bool
  prof_ringbuf_ok :: bool
  malloc_ok :: bool
  calloc_ok :: bool
  perf_event_open :: "perf_attr \<Rightarrow> nat \<Rightarrow> int"
  attach_ok :: "nat \<Rightarrow> bool"

datatype prof_opt = OptFreq string | OptHelp

text \<open>The option loop: the frequency, or nothing when the help text ends the program. \<^verbatim>\<open>atoi\<close> truncates.\<close>

fun parse_freq :: "prof_opt list \<Rightarrow> int \<Rightarrow> int option" where
  "parse_freq [] freq = Some freq"
| "parse_freq (OptFreq arg # os) freq =
     (let f = sint (of_int (fst (strtol10 arg)) :: s32) in parse_freq os (if f < 1 then 1 else f))"
| "parse_freq (OptHelp # os) freq = None"

definition PERF_TYPE_HARDWARE :: int where "PERF_TYPE_HARDWARE = 0"
definition PERF_COUNT_HW_CPU_CYCLES :: int where "PERF_COUNT_HW_CPU_CYCLES = 0"

definition profile_attr :: "int \<Rightarrow> perf_attr" where
  "profile_attr freq = \<lparr>pa_type = PERF_TYPE_HARDWARE, pa_size = csizeof perf_event_attr_508,
     pa_config = PERF_COUNT_HW_CPU_CYCLES, pa_sample_freq = of_int freq, pa_freq = True\<rparr>"

text \<open>
  The loop over the CPUs: the actions, \<^verbatim>\<open>err\<close> when it is left by \<^verbatim>\<open>goto cleanup\<close>, and the arrays
  \<^verbatim>\<open>pefds\<close> and \<^verbatim>\<open>links\<close> (a link is there or NULL). A failing \<^verbatim>\<open>perf_event_open\<close> leaves \<^verbatim>\<open>err\<close> at 0.
\<close>

fun attach_cpus :: "profile_env \<Rightarrow> perf_attr \<Rightarrow> nat list \<Rightarrow> int list \<Rightarrow> bool list \<Rightarrow>
    action list \<times> int option \<times> int list \<times> bool list" where
  "attach_cpus env attr [] pefds links = ([], None, pefds, links)"
| "attach_cpus env attr (cpu # cpus) pefds links =
     (let pefd = perf_event_open env attr cpu in
      if pefd < 0
      then ([complain ''Fail to set up performance monitor on a CPU/Core''], Some 0, pefds, links)
      else if \<not> attach_ok env cpu then ([Acquire (PerfFd cpu)], Some (-1), pefds[cpu := pefd], links)
      else
        let (as, err, pefds', links') = attach_cpus env attr cpus (pefds[cpu := pefd]) (links[cpu := True])
        in ([Acquire (PerfFd cpu), Acquire (CpuLink cpu)] @ as, err, pefds', links'))"

text \<open>\<^verbatim>\<open>while (ring_buffer__poll(ring_buf, -1) >= 0) { }\<close>\<close>

fun profile_poll :: "int list \<Rightarrow> action list \<times> bool" where
  "profile_poll [] = ([], False)"
| "profile_poll (r # rs) =
     (if r < 0 then ([Use RingBuf], True)
      else let (as, fin) = profile_poll rs in (Use RingBuf # as, fin))"

definition release_links :: "bool list \<Rightarrow> action list" where
  "release_links links = map (\<lambda>cpu. Release (CpuLink cpu)) (filter (\<lambda>cpu. links ! cpu) [0..<length links])"

definition close_pefds :: "int list \<Rightarrow> action list" where
  "close_pefds pefds = map (\<lambda>i. Release (PerfFd i)) (filter (\<lambda>i. 0 \<le> pefds ! i) [0..<length pefds])"

definition profile_cleanup :: "(int list \<times> bool list) option \<Rightarrow> resource list \<Rightarrow> int \<Rightarrow> trace" where
  "profile_cleanup arrays held err =
     ((case arrays of
         None \<Rightarrow> []
       | Some (pefds, links) \<Rightarrow> release_links links @ [Release (Heap ''links'')] @
           close_pefds pefds @ [Release (Heap ''pefds'')]) @
      map Release held, Exited (- err))"

definition profile_main :: "prof_opt list \<Rightarrow> profile_env \<Rightarrow> int list \<Rightarrow> trace" where
  "profile_main opts env polls =
     (case parse_freq opts 1 of
        None \<Rightarrow> ([show_help ''profile''], Exited 1)
      | Some freq \<Rightarrow>
          if num_possible_cpus env \<le> 0 then ([complain ''Fail to get the number of processors''], Exited 1)
          else if \<not> prof_skel_open env then ([complain ''Fail to open and load BPF skeleton''], Exited 1)
          else emit [Acquire Skel]
            (if \<not> symbolizer_ok env
             then emit [complain ''Fail to create a symbolizer''] (profile_cleanup None [Skel] (-1))
             else emit [Acquire Symbolizer, Use Skel]
               (if \<not> prof_ringbuf_ok env then profile_cleanup None [Skel, Symbolizer] (-1)
                else emit [Acquire RingBuf]
                  (if \<not> malloc_ok env then ([], Crashed)
                   else emit [Acquire (Heap ''pefds'')]
                     (let cpus = nat (num_possible_cpus env) in
                      if \<not> calloc_ok env \<and> 0 \<le> perf_event_open env (profile_attr freq) 0 then ([], Crashed)
                      else if \<not> calloc_ok env
                      then emit [complain ''Fail to set up performance monitor on a CPU/Core'']
                        (emit [Release (Heap ''pefds'')] (profile_cleanup None [RingBuf, Skel, Symbolizer] 0))
                      else emit [Acquire (Heap ''links'')]
                        (let (as, err, pefds, links) =
                               attach_cpus env (profile_attr freq) [0..<cpus] (replicate cpus (-1)) (replicate cpus False)
                         in emit as
                           (case err of
                              Some e \<Rightarrow> profile_cleanup (Some (pefds, links)) [RingBuf, Skel, Symbolizer] e
                            | None \<Rightarrow>
                                let (bs, fin) = profile_poll polls in
                                if fin then emit bs (profile_cleanup (Some (pefds, links)) [RingBuf, Skel, Symbolizer] 0)
                                else (bs, Running))))))))"

section \<open>Lemmas\<close>

lemma stacktrace_event_size: "csizeof stacktrace_event_layout = 2080"
  by (simp add: stacktrace_event_layout_def MAX_STACK_DEPTH_def TASK_COMM_LEN_def layout_eval del: One_nat_def)

text \<open>The arrays say which descriptors and links are held.\<close>

definition arrays_track :: "resource list \<Rightarrow> int list \<Rightarrow> bool list \<Rightarrow> bool" where
  "arrays_track held pefds links \<longleftrightarrow>
     (\<forall>i. PerfFd i \<in> set held \<longleftrightarrow> i < length pefds \<and> 0 \<le> pefds ! i) \<and>
     (\<forall>i. CpuLink i \<in> set held \<longleftrightarrow> i < length links \<and> links ! i)"

definition per_cpu :: "resource \<Rightarrow> bool" where
  "per_cpu r \<longleftrightarrow> r \<in> range PerfFd \<or> r \<in> range CpuLink"

lemma per_cpu_simps [simp]:
  "per_cpu (PerfFd i)" "per_cpu (CpuLink i)" "\<not> per_cpu Skel" "\<not> per_cpu RingBuf" "\<not> per_cpu Symbolizer"
  "\<not> per_cpu (Heap s)"
  by (auto simp: per_cpu_def)

lemma arrays_track_acquire:
  assumes "arrays_track held pefds links" and "cpu < length pefds" and "cpu < length links" and "0 \<le> fd"
  shows "arrays_track (PerfFd cpu # held) (pefds[cpu := fd]) links"
    and "arrays_track (CpuLink cpu # PerfFd cpu # held) (pefds[cpu := fd]) (links[cpu := True])"
  using assms by (auto simp: arrays_track_def nth_list_update)

lemma attach_cpus_tracked:
  assumes "attach_cpus env attr cpus pefds links = (as, err, pefds', links')"
    and "arrays_track held pefds links" and "distinct cpus"
    and "\<forall>c \<in> set cpus. c < length pefds \<and> c < length links \<and> pefds ! c < 0 \<and> \<not> links ! c"
  shows "\<exists>held'. monitor held as = Some held' \<and> arrays_track held' pefds' links' \<and>
    filter (\<lambda>r. \<not> per_cpu r) held' = filter (\<lambda>r. \<not> per_cpu r) held"
  using assms
proof (induction env attr cpus pefds links arbitrary: as err pefds' links' held rule: attach_cpus.induct)
  case (1 env attr pefds links)
  then show ?case by simp
next
  case (2 env attr cpu cpus pefds links)
  let ?fd = "perf_event_open env attr cpu"
  have c: "cpu < length pefds" "cpu < length links" "PerfFd cpu \<notin> set held" "CpuLink cpu \<notin> set held"
    using "2.prems"(2,4) by (auto simp: arrays_track_def)
  consider "?fd < 0" | "0 \<le> ?fd" "\<not> attach_ok env cpu" | "0 \<le> ?fd" "attach_ok env cpu" by linarith
  then show ?case
  proof cases
    case 1
    with "2.prems"(1,2) show ?thesis by auto
  next
    case 2
    with "2.prems"(1,2) c arrays_track_acquire(1) [OF "2.prems"(2) c(1,2), of ?fd] show ?thesis by auto
  next
    case 3
    obtain bs where rec: "attach_cpus env attr cpus (pefds[cpu := ?fd]) (links[cpu := True]) = (bs, err, pefds', links')"
      and as: "as = [Acquire (PerfFd cpu), Acquire (CpuLink cpu)] @ bs"
      using "2.prems"(1) 3 by (auto simp: Let_def split: prod.splits)
    have "\<forall>c \<in> set cpus. c < length (pefds[cpu := ?fd]) \<and> c < length (links[cpu := True]) \<and>
        pefds[cpu := ?fd] ! c < 0 \<and> \<not> links[cpu := True] ! c"
      using "2.prems"(3,4) by (auto simp: nth_list_update)
    from "2.IH" [OF refl _ _ rec arrays_track_acquire(2) [OF "2.prems"(2) c(1,2)] _ this] 3 "2.prems"(3)
    show ?thesis by (simp add: as c)
  qed
qed

lemma release_arrays:
  assumes "arrays_track held pefds links" and "Heap ''links'' \<in> set held" and "Heap ''pefds'' \<in> set held"
  shows "monitor held (release_links links @ Release (Heap ''links'') # close_pefds pefds @ Release (Heap ''pefds'') # as) =
    monitor (filter (\<lambda>r. \<not> per_cpu r \<and> r \<noteq> Heap ''links'' \<and> r \<noteq> Heap ''pefds'') held) as"
proof -
  let ?ls = "map CpuLink (filter (\<lambda>c. links ! c) [0..<length links])"
  let ?fs = "map PerfFd (filter (\<lambda>i. 0 \<le> pefds ! i) [0..<length pefds])"
  let ?rs = "?ls @ [Heap ''links''] @ ?fs @ [Heap ''pefds'']"
  have "distinct ?rs" by (auto simp: distinct_map inj_on_def)
  moreover have "set ?rs \<subseteq> set held" using assms by (auto simp: arrays_track_def)
  moreover have "r \<in> set held \<Longrightarrow> r \<notin> set ?rs \<longleftrightarrow> \<not> per_cpu r \<and> r \<noteq> Heap ''links'' \<and> r \<noteq> Heap ''pefds''" for r
    using assms(1) by (auto simp: arrays_track_def per_cpu_def)
  then have "filter (\<lambda>r. r \<notin> set ?rs) held = filter (\<lambda>r. \<not> per_cpu r \<and> r \<noteq> Heap ''links'' \<and> r \<noteq> Heap ''pefds'') held"
    by (intro filter_cong) auto
  ultimately show ?thesis
    using monitor_release_map [of ?rs held as] by (simp add: release_links_def close_pefds_def o_def)
qed

lemma monitor_profile_poll [simp]:
  "RingBuf \<in> set held \<Longrightarrow> monitor held (fst (profile_poll rs) @ as) = monitor held as"
  "RingBuf \<in> set held \<Longrightarrow> monitor held (fst (profile_poll rs)) = Some held"
  by (induction rs) (auto simp: Let_def case_prod_beta)

text \<open>The part of \<^verbatim>\<open>main\<close> after the arrays are there, from a state that holds the five resources.\<close>

lemma attached_then:
  fixes cpus :: nat
  assumes "attach_cpus env attr [0..<cpus] (replicate cpus (-1)) (replicate cpus False) = (as, err, pefds, links)"
    and "held = [Heap ''links'', Heap ''pefds'', RingBuf, Symbolizer, Skel]"
  obtains held' where "monitor held as = Some held'" and "RingBuf \<in> set held'"
    and "monitor held' (fst (profile_cleanup (Some (pefds, links)) [RingBuf, Skel, Symbolizer] e)) = Some []"
proof -
  have "arrays_track held (replicate cpus (-1)) (replicate cpus False)"
    using assms(2) by (auto simp: arrays_track_def)
  from attach_cpus_tracked [OF assms(1) this] obtain held' where h: "monitor held as = Some held'"
    and t: "arrays_track held' pefds links" and o: "filter (\<lambda>r. \<not> per_cpu r) held' = filter (\<lambda>r. \<not> per_cpu r) held"
    by auto
  have o': "filter (\<lambda>r. \<not> per_cpu r) held' = [Heap ''links'', Heap ''pefds'', RingBuf, Symbolizer, Skel]"
    using o by (simp add: assms(2))
  have m: "r \<in> set held'" if "r \<in> {Heap ''links'', Heap ''pefds'', RingBuf}" for r
  proof -
    from that have "r \<in> set (filter (\<lambda>r. \<not> per_cpu r) held')" unfolding o' by auto
    then show ?thesis by simp
  qed
  have "filter (\<lambda>r. \<not> per_cpu r \<and> r \<noteq> Heap ''links'' \<and> r \<noteq> Heap ''pefds'') held' =
      filter (\<lambda>r. r \<noteq> Heap ''links'' \<and> r \<noteq> Heap ''pefds'') (filter (\<lambda>r. \<not> per_cpu r) held')"
    by (simp add: conj_commute conj_left_commute)
  then have "monitor held' (fst (profile_cleanup (Some (pefds, links)) [RingBuf, Skel, Symbolizer] e)) = Some []"
    using m by (simp add: profile_cleanup_def release_arrays [OF t] o')
  with h m that show thesis by blast
qed

lemma profile_main_accepted:
  "case snd (profile_main opts env polls) of
     Exited c \<Rightarrow> monitor [] (fst (profile_main opts env polls)) = Some []
   | _ \<Rightarrow> monitor [] (fst (profile_main opts env polls)) \<noteq> None"
proof (cases "parse_freq opts 1")
  case None
  then show ?thesis by (simp add: profile_main_def show_help_def)
next
  case (Some freq)
  let ?n = "nat (num_possible_cpus env)"
  obtain as err pefds links where a:
    "attach_cpus env (profile_attr freq) [0..<?n] (replicate ?n (-1)) (replicate ?n False) = (as, err, pefds, links)"
    by (cases "attach_cpus env (profile_attr freq) [0..<?n] (replicate ?n (-1)) (replicate ?n False)") auto
  have cleanup: "snd (profile_cleanup ar hs e) = Exited (- e)" for ar hs e by (simp add: profile_cleanup_def)
  have early: "fst (profile_cleanup None hs e) = map Release hs" for hs e by (simp add: profile_cleanup_def)
  obtain held' where h: "monitor [Heap ''links'', Heap ''pefds'', RingBuf, Symbolizer, Skel] as = Some held'"
    "RingBuf \<in> set held'"
    "monitor held' (fst (profile_cleanup (Some (pefds, links)) [RingBuf, Skel, Symbolizer] (case err of None \<Rightarrow> 0 | Some e \<Rightarrow> e))) = Some []"
    using attached_then [OF a refl] by blast
  show ?thesis
    using h by (auto simp: profile_main_def Some a Let_def case_prod_beta cleanup early monitor_append split: option.splits)
qed

interpretation profile_main: disciplined "\<lambda>(opts, env, polls). profile_main opts env polls" "\<lambda>_. []"
proof unfold_locales
  fix i :: "prof_opt list \<times> profile_env \<times> int list" and c
  obtain opts env polls where i: "i = (opts, env, polls)" by (cases i) auto
  note acc = profile_main_accepted [of opts env polls]
  show "monitor [] (fst (case i of (opts, env, polls) \<Rightarrow> profile_main opts env polls)) \<noteq> None"
    using acc by (cases "snd (profile_main opts env polls)") (auto simp: i)
  assume "snd (case i of (opts, env, polls) \<Rightarrow> profile_main opts env polls) = Exited c"
  then show "monitor [] (fst (case i of (opts, env, polls) \<Rightarrow> profile_main opts env polls)) = Some []"
    using acc by (simp add: i)
qed

section \<open>What should be printed\<close>

text \<open>
  The symbols of an entry, none when the symbolizer has no answer for it. Then the text: the place a symbol stands for is its
  name with the offset from its start, and file and line if there is a file. A frame is a line with its number and
  address, and with the place if there is exactly one; several places follow on lines of their own.
\<close>

definition symbols_of :: "blazesym_csym list list option \<Rightarrow> nat \<Rightarrow> blazesym_csym list" where
  "symbols_of result i = (case result of None \<Rightarrow> [] | Some entries \<Rightarrow> if i < length entries then entries ! i else [])"

definition place :: "u64 \<Rightarrow> blazesym_csym \<Rightarrow> printk" where
  "place a s =
     (let file = (case sym_path s of None \<Rightarrow> [] | Some p \<Rightarrow> c_str p) in
      (''%s+0x%llx'' @ (if file = [] then [] else '' %s:%ld''),
       [PStr (sym_symbol s), PLong (a - sym_start_address s)] @ (if file = [] then [] else [PStr file, PLong (sym_line_no s)])))"

fun expected_frame :: "nat \<Rightarrow> u64 \<Rightarrow> blazesym_csym list \<Rightarrow> printk list" where
  "expected_frame i a [s] = [(''  %d [<%016llx>] '' @ fst (place a s) @ nl, [PInt (of_nat i), PLong a] @ snd (place a s))]"
| "expected_frame i a ss =
     (''  %d [<%016llx>]'' @ nl, [PInt (of_nat i), PLong a]) # map (\<lambda>s. (''        '' @ fst (place a s) @ nl, snd (place a s))) ss"

definition expected_stack :: "blazesym_csym list list option \<Rightarrow> u64 list \<Rightarrow> printk list" where
  "expected_stack result stack = concat (map (\<lambda>j. expected_frame j (stack ! j) (symbols_of result j)) [0..<length stack])"

definition expected_part :: "symbolizer \<Rightarrow> string \<Rightarrow> string \<Rightarrow> sym_src \<Rightarrow> u64 list \<Rightarrow> s32 \<Rightarrow> printk list" where
  "expected_part symbolize title missing src stack sz =
     (if 0 < sint sz
      then let frames = take (nat (sint sz) div 8) stack in (title @ nl, []) # expected_stack (symbolize src frames) frames
      else [(missing @ nl, [])])"

lemma expected_stack_take:
  assumes "n \<le> length stack"
  shows "expected_stack result (take n stack) = concat (map (\<lambda>j. expected_frame j (stack ! j) (symbols_of result j)) [0..<n])"
proof -
  have "map (\<lambda>j. expected_frame j (take n stack ! j) (symbols_of result j)) [0..<n] =
      map (\<lambda>j. expected_frame j (stack ! j) (symbols_of result j)) [0..<n]" by simp
  with assms show ?thesis by (simp only: expected_stack_def length_take min.absorb2)
qed

lemma expected_Nil: "expected_frame i a [] = [bare_line i a]"
  by (simp add: bare_line_def)

lemma expected_one: "expected_frame i a [s] = [single_line i a s]"
  by (simp add: single_line_def place_def Let_def has_path_def path_text_def split: option.split)

lemma expected_more: "length ss \<noteq> 1 \<Longrightarrow> expected_frame i a ss = bare_line i a # map (inlined_line a) ss"
  by (cases "(i, a, ss)" rule: expected_frame.cases)
    (auto simp: bare_line_def inlined_line_def place_def Let_def has_path_def path_text_def split: option.splits)

lemma inlined_lines_eq: "j + k \<le> length ss \<Longrightarrow> inlined_lines a ss j k = Some (map (inlined_line a) (take k (drop j ss)))"
proof (induction k arbitrary: j)
  case (Suc k)
  then have "drop j ss = ss ! j # drop (Suc j) ss" by (intro Cons_nth_drop_Suc [symmetric]) simp
  with Suc show ?case by (simp add: array_at_def)
qed simp

text \<open>A frame never reads outside the result of the symbolizer, and prints what it should.\<close>

lemma frame_lines_eq: "frame_lines result i a = Some (expected_frame i a (symbols_of result i))"
proof (cases result)
  case (Some entries)
  consider "length entries \<le> i" | "i < length entries" "entries ! i = []" | s where "i < length entries" "entries ! i = [s]"
    | "i < length entries" "entries ! i \<noteq> []" "length (entries ! i) \<noteq> 1"
    by (cases "i < length entries"; cases "entries ! i"; cases "tl (entries ! i)") (auto simp: not_less)
  then show ?thesis
    by cases (auto simp: frame_lines_def symbols_of_def Some array_at_def inlined_lines_eq expected_more expected_Nil expected_one
        simp del: expected_frame.simps)
qed (simp add: frame_lines_def symbols_of_def expected_Nil del: expected_frame.simps)

text \<open>Inside the array the printing loop always has a result, the lines for each address.\<close>

lemma stack_lines_in:
  "i + k \<le> length stack \<Longrightarrow>
   stack_lines result stack i k = Some (concat (map (\<lambda>j. expected_frame j (stack ! j) (symbols_of result j)) [i..<i + k]))"
proof (induction k arbitrary: i)
  case (Suc k)
  then show ?case using Suc.IH [of "Suc i"] by (simp add: array_at_def frame_lines_eq upt_conv_Cons del: upt_Suc)
qed simp

text \<open>
  The documented result of \<^verbatim>\<open>bpf_get_stack\<close>: the buffer keeps its size and at most that many bytes are
  written to it.
\<close>

definition stacks_fit :: "prof_env \<Rightarrow> bool" where
  "stacks_fit env \<longleftrightarrow> (\<forall>user. length (fst (get_stack env (8 * MAX_STACK_DEPTH) user)) = MAX_STACK_DEPTH \<and>
     sint (snd (get_stack env (8 * MAX_STACK_DEPTH) user)) \<le> int (8 * MAX_STACK_DEPTH))"

lemma positive_size: "0 < sint (w :: s32) \<Longrightarrow> int (unat w) = sint w"
  using sint_lt [of w] by (simp add: uint_sint take_bit_int_eq_self)

lemma show_stack_fits:
  fixes sz pid :: s32
  assumes "0 < sint sz" and "nat (sint sz) div 8 \<le> length stack"
  shows "show_stack_trace symbolize stack (unat sz div 8) pid =
    Some (let frames = take (nat (sint sz) div 8) stack
      in expected_stack (symbolize (if pid \<noteq> 0 then SRC_T_PROCESS pid else SRC_T_KERNEL) frames) frames)"
proof -
  have n: "unat sz = nat (sint sz)" using positive_size [OF assms(1)] by linarith
  then show ?thesis
    using assms(2)
    by (simp add: show_stack_trace_def stack_lines_in [of 0, simplified] expected_stack_take Let_def)
qed

lemma c_str_cleared: "c_str (xs[0 := 0]) = []"
  by (cases xs) (simp_all add: c_str_def)

section \<open>Properties\<close>

text \<open>C37: a sample goes from the interrupted task to the terminal without a read outside its arrays. When
  the ring buffer has room the BPF program commits one sample of the current process and CPU; for
  that sample, and any answer of the symbolizer, \<^verbatim>\<open>event_handler\<close> returns 1 and prints nothing if both
  stacks are empty or failed, and otherwise prints the header with the name of the task (empty if it could not be
  read), process and CPU, the frames of each stack in order, all of them and no others, or a note that the stack is
  missing. A frame is printed with its number and address; with its one symbol, the offset in it and its place in the source, on
  the same line; with several symbols on lines of their own; and without a symbol when the symbolizer has no answer.\<close>

theorem profile_sample_printed:
  assumes "bpf_ringbuf rops" and "stacks_fit env"
    and "rb_reserve rops rb (csizeof stacktrace_event_layout) = Some (junk, rb')"
    and "get_stack env (8 * MAX_STACK_DEPTH) False = (ks, ksz)" and "get_stack env (8 * MAX_STACK_DEPTH) True = (us, usz)"
  shows "\<exists>e. rb_committed rops (fst (profile rops env rb)) = rb_committed rops rb @ [e] \<and>
      st_pid e = tgid_of (current_pid_tgid env) \<and> st_cpu_id e = smp_processor_id env \<and>
      event_handler symbolize e =
        Some (if sint ksz \<le> 0 \<and> sint usz \<le> 0 then ([], 1)
          else ((''COMM: %s (pid=%d) @ CPU %d'' @ nl, [PStr (case current_comm env TASK_COMM_LEN of (comm, rc) \<Rightarrow> if rc = 0 then c_str comm else []), PInt (st_pid e), PInt (st_cpu_id e)]) #
            expected_part symbolize ''Kernel:'' ''No Kernel Stack'' SRC_T_KERNEL ks ksz @
            expected_part symbolize ''Userspace:'' ''No Userspace Stack''
              (if st_pid e \<noteq> 0 then SRC_T_PROCESS (st_pid e) else SRC_T_KERNEL) us usz @ [(nl, [])], 0))"
proof -
  define e where "e = (case current_comm env TASK_COMM_LEN of (comm, rc) \<Rightarrow>
    junk\<lparr>st_pid := tgid_of (current_pid_tgid env), st_cpu_id := smp_processor_id env,
      st_comm := (if rc \<noteq> 0 then comm[0 := 0] else comm), st_kstack_sz := ksz, st_kstack := ks,
      st_ustack_sz := usz, st_ustack := us\<rparr>)"
  have fields: "st_pid e = tgid_of (current_pid_tgid env)" "st_cpu_id e = smp_processor_id env" "st_kstack_sz e = ksz"
    "st_kstack e = ks" "st_ustack_sz e = usz" "st_ustack e = us"
    "c_str (st_comm e) = (case current_comm env TASK_COMM_LEN of (comm, rc) \<Rightarrow> if rc = 0 then c_str comm else [])"
    by (simp_all add: e_def case_prod_beta c_str_cleared)
  have "sint ksz \<le> 8 * int (length ks)" "sint usz \<le> 8 * int (length us)"
    using assms(2) assms(4,5) [symmetric] unfolding stacks_fit_def
    by (metis fst_conv snd_conv of_nat_mult of_nat_numeral)+
  then have fit: "nat (sint ksz) div 8 \<le> length ks" "nat (sint usz) div 8 \<le> length us" by linarith+
  have "fst (profile rops env rb) = rb_submit rops rb' e"
    by (simp add: profile_def assms(3-5) Let_def case_prod_beta e_def)
  then have "rb_committed rops (fst (profile rops env rb)) = rb_committed rops rb @ [e]"
    by (simp add: bpf_ringbuf.reserve_submit [OF assms(1,3)])
  then show ?thesis
    using fit by (intro exI [of _ e]) (auto simp: event_handler_def fields expected_part_def show_stack_fits Let_def)
qed

definition prof_env_of :: prof_env where
  "prof_env_of = \<lparr>current_pid_tgid = pid_tgid_join 7 7, current_uid_gid = 0, current_cgroup_id = 0,
     current_comm = comm_of [108, 115], ktime_ns = 0, smp_processor_id = 2,
     get_stack = (\<lambda>size user. (take (size div 8) ([1, 2] @ replicate (size div 8) 0), if user then -14 else 16))\<rparr>"

definition prof_junk :: stacktrace_event where
  "prof_junk = \<lparr>st_pid = 0xdead, st_cpu_id = 0, st_comm = replicate 16 0xff, st_kstack_sz = 0, st_ustack_sz = 0,
     st_kstack = replicate 128 0, st_ustack = replicate 128 0\<rparr>"

definition prof_sym :: blazesym_csym where
  "prof_sym = \<lparr>sym_symbol = [102], sym_start_address = 1, sym_path = Some [97], sym_line_no = 3\<rparr>"

theorem profile_sample_printed_witness:
  "\<exists>e. rb_committed (ringbuf_inst_ops prof_junk) (fst (profile (ringbuf_inst_ops prof_junk) prof_env_of
        \<lparr>rbi_free = 4096, rbi_done = []\<rparr>)) = [] @ [e] \<and> st_pid e = 7 \<and>
      event_handler (\<lambda>src addrs. Some [[prof_sym]]) e = Some ((''COMM: %s (pid=%d) @ CPU %d'' @ nl,
          [PStr [108, 115], PInt 7, PInt 2]) #
        [(''Kernel:'' @ nl, []),
         (''  %d [<%016llx>] %s+0x%llx %s:%ld'' @ nl, [PInt 0, PLong 1, PStr [102], PLong 0, PStr [97], PLong 3]),
         (''  %d [<%016llx>]'' @ nl, [PInt 1, PLong 2])] @ [(''No Userspace Stack'' @ nl, [])] @ [(nl, [])], 0)"
proof -
  let ?k = "fst (get_stack prof_env_of (8 * MAX_STACK_DEPTH) False)" and ?u = "fst (get_stack prof_env_of (8 * MAX_STACK_DEPTH) True)"
  have a: "stacks_fit prof_env_of" by (simp add: stacks_fit_def prof_env_of_def MAX_STACK_DEPTH_def)
  have b: "get_stack prof_env_of (8 * MAX_STACK_DEPTH) False = (?k, 16)" "get_stack prof_env_of (8 * MAX_STACK_DEPTH) True = (?u, -14)"
    by (simp_all add: prof_env_of_def MAX_STACK_DEPTH_def)
  have r: "rb_reserve (ringbuf_inst_ops prof_junk) \<lparr>rbi_free = 4096, rbi_done = []\<rparr> (csizeof stacktrace_event_layout) =
    Some (prof_junk, \<lparr>rbi_free = 4096 - 2088, rbi_done = []\<rparr>)"
    by (simp add: stacktrace_event_size inst_defs)
  have k: "take 2 ?k = [1, 2]" by (simp add: prof_env_of_def MAX_STACK_DEPTH_def)
  have p: "tgid_of (current_pid_tgid prof_env_of) = 7" "smp_processor_id prof_env_of = 2"
    by (simp_all add: prof_env_of_def)
  have c: "(case current_comm prof_env_of TASK_COMM_LEN of (comm, rc) \<Rightarrow> if rc = 0 then c_str comm else []) = [108, 115]" by code_simp
  have n: "sint (16 :: s32) = 16" "sint (-14 :: s32) = -14" "[0..<2 :: nat] = [0, Suc 0]" by code_simp+
  have x: "expected_stack (Some [[prof_sym]]) [1, 2] =
    [(''  %d [<%016llx>] %s+0x%llx %s:%ld'' @ nl, [PInt 0, PLong 1, PStr [102], PLong 0, PStr [97], PLong 3]),
     (''  %d [<%016llx>]'' @ nl, [PInt 1, PLong 2])]" by code_simp
  have y: "rb_committed (ringbuf_inst_ops prof_junk) \<lparr>rbi_free = 4096, rbi_done = []\<rparr> = []" by (simp add: ringbuf_inst_ops_def)
  show ?thesis
    using profile_sample_printed [OF ringbuf.bpf_ringbuf_axioms a r b, of "\<lambda>src addrs. Some [[prof_sym]]"]
    by (auto simp: n k p x y c expected_part_def Let_def)
qed

text \<open>\<^verbatim>\<open>profile\<close> releases everything it acquired, on every path: for any number of CPUs and any pattern
  of failures, each descriptor it opened and each link it attached is released exactly once, with the
  arrays, the ring buffer, the skeleton and the symbolizer, before it exits. But when
  \<^verbatim>\<open>perf_event_open\<close> fails on the first CPU the exit status is 0, as after a successful run.\<close>

lemma profile_releases_all:
  "well_ended (profile_main opts env polls) [] \<and>
   (\<forall>c r. snd (profile_main opts env polls) = Exited c \<longrightarrow>
      released r (fst (profile_main opts env polls)) = acquired r (fst (profile_main opts env polls))) \<and>
   (parse_freq opts 1 = Some freq \<and> 0 < num_possible_cpus env \<and> prof_skel_open env \<and> symbolizer_ok env \<and>
      prof_ringbuf_ok env \<and> malloc_ok env \<and> perf_event_open env (profile_attr freq) 0 < 0 \<longrightarrow>
      snd (profile_main opts env polls) = Exited 0)"
proof (intro conjI allI impI)
  show "well_ended (profile_main opts env polls) []"
    using profile_main.ends_well [of "(opts, env, polls)"] by simp
  fix c r assume "snd (profile_main opts env polls) = Exited c"
  then show "released r (fst (profile_main opts env polls)) = acquired r (fst (profile_main opts env polls))"
    using profile_main.released_once [of "(opts, env, polls)" c r] by simp
next
  assume h: "parse_freq opts 1 = Some freq \<and> 0 < num_possible_cpus env \<and> prof_skel_open env \<and> symbolizer_ok env \<and>
      prof_ringbuf_ok env \<and> malloc_ok env \<and> perf_event_open env (profile_attr freq) 0 < 0"
  then have "[0..<nat (num_possible_cpus env)] = 0 # [1..<nat (num_possible_cpus env)]"
    by (simp add: upt_conv_Cons)
  with h show "snd (profile_main opts env polls) = Exited 0"
    by (auto simp: profile_main_def profile_cleanup_def Let_def)
qed

definition prof_main_env :: "int \<Rightarrow> profile_env" where
  "prof_main_env fd = \<lparr>num_possible_cpus = 2, prof_skel_open = True, symbolizer_ok = True, prof_ringbuf_ok = True,
     malloc_ok = True, calloc_ok = True, perf_event_open = (\<lambda>attr cpu. if cpu = 0 then fd else -1), attach_ok = (\<lambda>cpu. True)\<rparr>"

lemma profile_releases_all_example:
  "snd (profile_main [OptFreq ''99''] (prof_main_env (-1)) []) = Exited 0 \<and>
   released (PerfFd 0) (fst (profile_main [OptFreq ''99''] (prof_main_env 4) [])) =
     acquired (PerfFd 0) (fst (profile_main [OptFreq ''99''] (prof_main_env 4) []))"
proof -
  have f: "parse_freq [OptFreq ''99''] 1 = Some 99" by code_simp
  have e: "snd (profile_main [OptFreq ''99''] (prof_main_env 4) []) = Exited 0" by code_simp
  show ?thesis
    using profile_releases_all [of "[OptFreq ''99'']" "prof_main_env (-1)" "[]" 99] f e
      profile_releases_all [of "[OptFreq ''99'']" "prof_main_env 4" "[]" 99]
    by (simp add: prof_main_env_def)
qed

end
