(* ===== verification/Profile_Main.thy ===== *)
theory Profile_Main
  imports Front_Ends Profile Libbpf_Attach
begin

text \<open>
  The Rust front end of the sampling profiler, \<^verbatim>\<open>libbpf-bootstrap/examples/rust/profile/src/main.rs\<close> and
  \<^verbatim>\<open>syscall.rs\<close>. It loads the same BPF program as \<^verbatim>\<open>profile.c\<close> and prints its samples. Indexing and slicing
  outside an array panic; a subtraction below zero panics when the overflow checks are compiled in (\<open>chk\<close>).
\<close>

section \<open>Printing a sample\<close>




text \<open>What has been printed, and whether the program is still going.\<close>

type_synonym fe_output = "fe_line list \<times> bool"

definition out_seq :: "fe_output \<Rightarrow> fe_output \<Rightarrow> fe_output" where
  "out_seq a b = (if snd a then (fst a @ fst b, snd b) else a)"

















section \<open>Setting up\<close>

text \<open>\<^verbatim>\<open>perf_event_attr\<close> of \<^verbatim>\<open>syscall.rs\<close>; the flags are one 64-bit member.\<close>

definition rs_perf_event_attr :: ctype where
  "rs_perf_event_attr = CStruct
     [Field ''_type'' c_int,
      Field ''size'' c_int,
      Field ''config'' c_long,
      Field ''sample'' (CUnion [Field ''sample_period'' c_long, Field ''sample_freq'' c_long]),
      Field ''sample_type'' c_long,
      Field ''read_format'' c_long,
      Field ''flags'' c_long,
      Field ''wakeup'' (CUnion [Field ''wakeup_events'' c_int, Field ''wakeup_atermark'' c_int]),
      Field ''bp_type'' c_int,
      Field ''bp_1'' (CUnion [Field ''bp_addr'' c_long, Field ''kprobe_func'' c_long, Field ''uprobe_path'' c_long, Field ''config1'' c_long]),
      Field ''bp_2'' (CUnion [Field ''bp_len'' c_long, Field ''kprobe_addr'' c_long, Field ''probe_offset'' c_long, Field ''config2'' c_long]),
      Field ''branch_sample_type'' c_long,
      Field ''sample_regs_user'' c_long,
      Field ''sample_stack_user'' c_int,
      Field ''clockid'' c_int,
      Field ''sample_regs_intr'' c_long,
      Field ''aux_watermark'' c_int,
      Field ''sample_max_stack'' c_short,
      Field ''__reserved_2'' c_short,
      Field ''aux_sample_size'' c_int,
      Field ''__reserved_3'' c_int]"

record rs_attr =
  ra_type :: u32
  ra_size :: u32
  ra_config :: u64
  ra_sample_freq :: u64
  ra_flags :: u64

definition rs_profile_attr :: "u64 \<Rightarrow> rs_attr" where
  "rs_profile_attr freq = \<lparr>ra_type = 0, ra_size = of_nat (csizeof rs_perf_event_attr), ra_config = 0,
     ra_sample_freq = freq, ra_flags = push_bit 10 1\<rparr>"

text \<open>The results of the calls of \<^verbatim>\<open>main\<close>, and the actions that acquire or use a resource.\<close>

record rs_prof_host =
  rph_symbolizer :: bool
  rph_open :: bool
  rph_load :: bool
  rph_cpus :: "nat option"
  rph_perf_open :: "rs_attr \<Rightarrow> nat \<Rightarrow> int"
  rph_ring :: bool
  rph_close :: "int \<Rightarrow> bool"

datatype rs_prof_action = PerfOpen rs_attr nat int | PerfAttach int | PollFor int | PerfClose int

definition init_perf_monitor :: "rs_prof_host \<Rightarrow> u64 \<Rightarrow> nat \<Rightarrow> rs_prof_action list \<times> int list" where
  "init_perf_monitor h freq nprocs =
     (let attr = rs_profile_attr freq; fds = map (rph_perf_open h attr) [0..<nprocs]
      in (map (\<lambda>cpu. PerfOpen attr cpu (rph_perf_open h attr cpu)) [0..<nprocs], fds))"

definition attach_perf_event :: "int list \<Rightarrow> rs_prof_action list" where
  "attach_perf_event pefds = map PerfAttach pefds"

text \<open>\<^verbatim>\<open>while ringbuf.poll(Duration::MAX).is_ok() {}\<close>, and the loop that closes the descriptors.\<close>

fun rs_poll_loop :: "bool list \<Rightarrow> rs_prof_action list \<times> bool" where
  "rs_poll_loop [] = ([], False)"
| "rs_poll_loop (ok # polls) =
     (if ok then (case rs_poll_loop polls of (as, fin) \<Rightarrow> (PollFor (poll_timeout DURATION_MAX) # as, fin))
      else ([PollFor (poll_timeout DURATION_MAX)], True))"

fun close_all :: "(int \<Rightarrow> bool) \<Rightarrow> int list \<Rightarrow> rs_prof_action list \<times> unit rust_result" where
  "close_all close [] = ([], Ok ())"
| "close_all close (fd # fds) =
     (if close fd then (case close_all close fds of (as, r) \<Rightarrow> (PerfClose fd # as, r)) else ([PerfClose fd], Err))"

definition rs_profile_main :: "rs_prof_host \<Rightarrow> u64 \<Rightarrow> bool list \<Rightarrow> rs_prof_action list \<times> unit rust_result option" where
  "rs_profile_main h freq_arg polls =
     (let freq = (if freq_arg < 1 then 1 else freq_arg) in
      if \<not> rph_symbolizer h then ([], Some Err)
      else if \<not> rph_open h \<or> \<not> rph_load h then ([], Some Panic)
      else case rph_cpus h of
        None \<Rightarrow> ([], Some Panic)
      | Some nprocs \<Rightarrow>
          let (as, pefds) = init_perf_monitor h freq nprocs; bs = attach_perf_event pefds in
          if \<not> rph_ring h then (as @ bs, Some Panic)
          else let (cs, fin) = rs_poll_loop polls in
            if \<not> fin then (as @ bs @ cs, None)
            else let (ds, r) = close_all (rph_close h) pefds in (as @ bs @ cs @ ds, Some r))"

section \<open>Lemmas\<close>




lemma out_seq_simps [simp]: "out_seq (l, True) b = (l @ fst b, snd b)" "out_seq (l, False) b = (l, False)"
  by (simp_all add: out_seq_def)







lemma unat_of_char: "unat (of_char c :: u8) = of_char c"
proof -
  have "of_char c mod 256 < (256 :: nat)" by simp
  then have "of_char c < (256 :: nat)" by (simp only: of_char_mod_256)
  moreover have "(of_char c :: u8) = of_nat (of_char c)" by (simp add: of_nat_of_char)
  ultimately show ?thesis by (simp add: unat_of_nat)
qed

lemma str_of_as_bytes [simp]: "str_of (as_bytes s) = s"
  by (simp add: str_of_def as_bytes_def unat_of_char comp_def map_idI)




























section \<open>Properties\<close>







end
