(* ===== verification/Libbpf_Query.thy ===== *)
theory Libbpf_Query
  imports Libbpf_Map
begin

text \<open>
  The queries of \<^verbatim>\<open>libbpf-rs\<close> (\<^verbatim>\<open>src/query.rs\<close>): iterators over the programs, maps, BTF objects and links of the kernel.
  An iterator asks for the next id, opens the object, reads its description and closes it again. The
  kernel is a record of the three calls. The loops have no bound of their own; they end because ids only
  grow.
\<close>

section \<open>Definitions\<close>

text \<open>The calls: the next id after one, a descriptor for an id or the error number, the description behind a descriptor.\<close>

record 's query_ops =
  q_next_id :: "u32 \<Rightarrow> u32 option"
  q_fd_by_id :: "u32 \<Rightarrow> int + int"
  q_info :: "int \<Rightarrow> 's option"

datatype fd_action = FdOpen int | FdClose int

partial_function (option) next_valid_fd :: "'s query_ops \<Rightarrow> u32 \<Rightarrow> (u32 \<times> int option) option" where
  "next_valid_fd ops cur_id =
     (case q_next_id ops cur_id of
        None \<Rightarrow> Some (cur_id, None)
      | Some i \<Rightarrow>
          (case q_fd_by_id ops i of
             Inl errno \<Rightarrow> if errno = ENOENT then next_valid_fd ops i else Some (i, None)
           | Inr fd \<Rightarrow> Some (i, Some fd)))"

text \<open>\<^verbatim>\<open>next\<close> of the iterators: the new position, what was opened and closed, and the item.\<close>

definition info_next :: "'s query_ops \<Rightarrow> (int \<Rightarrow> 's \<Rightarrow> 'i option) \<Rightarrow> u32 \<Rightarrow> (u32 \<times> fd_action list \<times> 'i option) option" where
  "info_next ops from_uapi cur_id =
     Option.bind (next_valid_fd ops cur_id) (\<lambda>(cur, fd).
       case fd of
         None \<Rightarrow> Some (cur, [], None)
       | Some fd \<Rightarrow> Some (cur, [FdOpen fd, FdClose fd], Option.bind (q_info ops fd) (from_uapi fd)))"

text \<open>A \<^verbatim>\<open>for\<close> loop over an iterator.\<close>

partial_function (option) info_all :: "'s query_ops \<Rightarrow> (int \<Rightarrow> 's \<Rightarrow> 'i option) \<Rightarrow> u32 \<Rightarrow> (fd_action list \<times> 'i list) option" where
  "info_all ops from_uapi cur_id =
     Option.bind (info_next ops from_uapi cur_id) (\<lambda>(cur, acts, item).
       case item of
         None \<Rightarrow> Some (acts, [])
       | Some x \<Rightarrow> Option.bind (info_all ops from_uapi cur) (\<lambda>(acts', xs). Some (acts @ acts', x # xs)))"

text \<open>A name from the kernel: up to the first NUL, with a default for an empty or invalid one.\<close>

definition name_arr_to_string :: "bytes \<Rightarrow> string \<Rightarrow> string" where
  "name_arr_to_string a dflt =
     (let converted = takeWhile (\<lambda>x. x \<noteq> 0) a in
      if converted \<noteq> [] then (if utf8 (map unat converted) then str_of converted else dflt) else dflt)"

text \<open>The enumerations \<^verbatim>\<open>ProgramType\<close> and \<^verbatim>\<open>ProgramAttachType\<close>, by the names that \<^verbatim>\<open>Display\<close> prints; a number the library does not
  know is \<^verbatim>\<open>Unknown\<close>.\<close>

definition PROGRAM_TYPES :: "string list" where
  "PROGRAM_TYPES = [
     ''Unspec'', ''SocketFilter'', ''Kprobe'', ''SchedCls'', ''SchedAct'', ''Tracepoint'', ''Xdp'', ''PerfEvent'',
     ''CgroupSkb'', ''CgroupSock'', ''LwtIn'', ''LwtOut'', ''LwtXmit'', ''SockOps'', ''SkSkb'', ''CgroupDevice'',
     ''SkMsg'', ''RawTracepoint'', ''CgroupSockAddr'', ''LwtSeg6local'', ''LircMode2'', ''SkReuseport'',
     ''FlowDissector'', ''CgroupSysctl'', ''RawTracepointWritable'', ''CgroupSockopt'', ''Tracing'', ''StructOps'',
     ''Ext'', ''Lsm'', ''SkLookup'', ''Syscall'']"

definition ATTACH_TYPES :: "string list" where
  "ATTACH_TYPES = [
     ''CgroupInetIngress'', ''CgroupInetEgress'', ''CgroupInetSockCreate'', ''CgroupSockOps'', ''SkSkbStreamParser'',
     ''SkSkbStreamVerdict'', ''CgroupDevice'', ''SkMsgVerdict'', ''CgroupInet4Bind'', ''CgroupInet6Bind'',
     ''CgroupInet4Connect'', ''CgroupInet6Connect'', ''CgroupInet4PostBind'', ''CgroupInet6PostBind'',
     ''CgroupUdp4Sendmsg'', ''CgroupUdp6Sendmsg'', ''LircMode2'', ''FlowDissector'', ''CgroupSysctl'',
     ''CgroupUdp4Recvmsg'', ''CgroupUdp6Recvmsg'', ''CgroupGetsockopt'', ''CgroupSetsockopt'', ''TraceRawTp'',
     ''TraceFentry'', ''TraceFexit'', ''ModifyReturn'', ''LsmMac'', ''TraceIter'', ''CgroupInet4Getpeername'',
     ''CgroupInet6Getpeername'', ''CgroupInet4Getsockname'', ''CgroupInet6Getsockname'', ''XdpDevmap'',
     ''CgroupInetSockRelease'', ''XdpCpumap'', ''SkLookup'', ''Xdp'', ''SkSkbVerdict'', ''SkReuseportSelect'',
     ''SkReuseportSelectOrMigrate'', ''PerfEvent'']"

definition MAP_TYPE_NAMES :: "string list" where
  "MAP_TYPE_NAMES = [
     ''Unspec'', ''Hash'', ''Array'', ''ProgArray'', ''PerfEventArray'', ''PercpuHash'', ''PercpuArray'',
     ''StackTrace'', ''CgroupArray'', ''LruHash'', ''LruPercpuHash'', ''LpmTrie'', ''ArrayOfMaps'', ''HashOfMaps'',
     ''Devmap'', ''Sockmap'', ''Cpumap'', ''Xskmap'', ''Sockhash'', ''CgroupStorage'', ''ReuseportSockarray'',
     ''PercpuCgroupStorage'', ''Queue'', ''Stack'', ''SkStorage'', ''DevmapHash'', ''StructOps'', ''RingBuf'',
     ''InodeStorage'', ''TaskStorage'', ''BloomFilter'']"

definition enum_name_of :: "string list \<Rightarrow> u32 \<Rightarrow> string" where
  "enum_name_of names n = (if unat n < length names then names ! unat n else ''Unknown'')"

text \<open>The description of a program (\<^verbatim>\<open>bpf_prog_info\<close>): name, type, and the other members, which are copied.\<close>

record 'r prog_uapi =
  pu_name :: bytes
  pu_type :: u32
  pu_run_time_ns :: u64
  pu_run_cnt :: u64
  pu_rest :: 'r

record 'r prog_info =
  pi_name :: string
  pi_ty :: string
  pi_run_time_ns :: u64
  pi_run_cnt :: u64
  pi_rest :: 'r

definition prog_info_from_uapi :: "int \<Rightarrow> 'r prog_uapi \<Rightarrow> 'r prog_info option" where
  "prog_info_from_uapi fd s =
     Some \<lparr>pi_name = name_arr_to_string (pu_name s) ''(?)'', pi_ty = enum_name_of PROGRAM_TYPES (pu_type s),
       pi_run_time_ns = pu_run_time_ns s, pi_run_cnt = pu_run_cnt s, pi_rest = pu_rest s\<rparr>"

text \<open>The description of a map, from the kernel's (\<^verbatim>\<open>bpf_map_info\<close>): name and type are converted, the rest is copied.\<close>

record map_uapi =
  mu_type :: u32
  mu_name :: bytes
  mu_id :: u32
  mu_key_size :: u32
  mu_value_size :: u32
  mu_max_entries :: u32
  mu_map_flags :: u32
  mu_ifindex :: u32
  mu_btf_vmlinux_value_type_id :: u32
  mu_netns_dev :: u64
  mu_netns_ino :: u64
  mu_btf_id :: u32
  mu_btf_key_type_id :: u32
  mu_btf_value_type_id :: u32

record map_info =
  mi_name :: string
  mi_ty :: map_type
  mi_id :: u32
  mi_key_size :: u32
  mi_value_size :: u32
  mi_max_entries :: u32
  mi_map_flags :: u32
  mi_ifindex :: u32
  mi_btf_vmlinux_value_type_id :: u32
  mi_netns_dev :: u64
  mi_netns_ino :: u64
  mi_btf_id :: u32
  mi_btf_key_type_id :: u32
  mi_btf_value_type_id :: u32

definition map_info_from_uapi :: "int \<Rightarrow> map_uapi \<Rightarrow> map_info option" where
  "map_info_from_uapi fd s =
     Some \<lparr>mi_name = name_arr_to_string (mu_name s) ''(?)'',
       mi_ty = (if unat (mu_type s) < length MAP_TYPES then MAP_TYPES ! unat (mu_type s) else MtUnknown),
       mi_id = mu_id s, mi_key_size = mu_key_size s, mi_value_size = mu_value_size s, mi_max_entries = mu_max_entries s,
       mi_map_flags = mu_map_flags s, mi_ifindex = mu_ifindex s, mi_btf_vmlinux_value_type_id = mu_btf_vmlinux_value_type_id s, mi_netns_dev = mu_netns_dev s,
       mi_netns_ino = mu_netns_ino s, mi_btf_id = mu_btf_id s, mi_btf_key_type_id = mu_btf_key_type_id s, mi_btf_value_type_id = mu_btf_value_type_id s\<rparr>"

record btf_info =
  bi_btf :: u64
  bi_btf_size :: u32
  bi_id :: u32

definition btf_info_from_uapi :: "int \<Rightarrow> btf_info \<Rightarrow> btf_info option" where
  "btf_info_from_uapi fd s = Some \<lparr>bi_btf = bi_btf s, bi_btf_size = bi_btf_size s, bi_id = bi_id s\<rparr>"

text \<open>Links: the part that depends on the type. The name of a raw tracepoint needs a second call with a buffer.\<close>

datatype link_type_info =
    RawTracepoint string
  | Tracing string
  | Cgroup u64 string
  | IterLink
  | NetNs u32 string
  | UnknownLink

record link_uapi =
  lu_type :: u32
  lu_id :: u32
  lu_prog_id :: u32
  lu_attach_type :: u32
  lu_cgroup_id :: u64
  lu_netns_ino :: u32

record link_info =
  li_info :: link_type_info
  li_id :: u32
  li_prog_id :: u32

definition BPF_LINK_TYPE_RAW_TRACEPOINT :: u32 where "BPF_LINK_TYPE_RAW_TRACEPOINT = 1"
definition BPF_LINK_TYPE_TRACING :: u32 where "BPF_LINK_TYPE_TRACING = 2"
definition BPF_LINK_TYPE_CGROUP :: u32 where "BPF_LINK_TYPE_CGROUP = 3"
definition BPF_LINK_TYPE_ITER :: u32 where "BPF_LINK_TYPE_ITER = 4"
definition BPF_LINK_TYPE_NETNS :: u32 where "BPF_LINK_TYPE_NETNS = 5"

text \<open>\<open>tp_name\<close>: the buffer after the second call, \<^term>\<open>None\<close> if it fails.\<close>

definition link_info_from_uapi :: "(int \<Rightarrow> bytes option) \<Rightarrow> int \<Rightarrow> link_uapi \<Rightarrow> link_info option" where
  "link_info_from_uapi tp_name fd s =
     map_option (\<lambda>t. \<lparr>li_info = t, li_id = lu_id s, li_prog_id = lu_prog_id s\<rparr>)
       (if lu_type s = BPF_LINK_TYPE_RAW_TRACEPOINT
        then map_option (\<lambda>buf. RawTracepoint (case c_ptr_to_string (Some buf) of Inr n \<Rightarrow> n | Inl _ \<Rightarrow> ''?'')) (tp_name fd)
        else if lu_type s = BPF_LINK_TYPE_TRACING then Some (Tracing (enum_name_of ATTACH_TYPES (lu_attach_type s)))
        else if lu_type s = BPF_LINK_TYPE_CGROUP then Some (Cgroup (lu_cgroup_id s) (enum_name_of ATTACH_TYPES (lu_attach_type s)))
        else if lu_type s = BPF_LINK_TYPE_ITER then Some IterLink
        else if lu_type s = BPF_LINK_TYPE_NETNS then Some (NetNs (lu_netns_ino s) (enum_name_of ATTACH_TYPES (lu_attach_type s)))
        else Some UnknownLink)"

section \<open>What a query lists\<close>

text \<open>
  The ids of the kernel, in order; an object that is gone when it is opened is passed over, any
  other failure ends the list.
\<close>

fun listed :: "'s query_ops \<Rightarrow> (int \<Rightarrow> 's \<Rightarrow> 'i option) \<Rightarrow> u32 list \<Rightarrow> fd_action list \<times> 'i list" where
  "listed ops from_uapi [] = ([], [])"
| "listed ops from_uapi (i # is) =
     (case q_fd_by_id ops i of
        Inl errno \<Rightarrow> if errno = ENOENT then listed ops from_uapi is else ([], [])
      | Inr fd \<Rightarrow>
          (case Option.bind (q_info ops fd) (from_uapi fd) of
             None \<Rightarrow> ([FdOpen fd, FdClose fd], [])
           | Some x \<Rightarrow> (case listed ops from_uapi is of (acts, xs) \<Rightarrow> (FdOpen fd # FdClose fd # acts, x # xs))))"

definition ids_in_order :: "'s query_ops \<Rightarrow> u32 list \<Rightarrow> bool" where
  "ids_in_order ops is \<longleftrightarrow> sorted_wrt (<) is \<and> (\<forall>c. q_next_id ops c = find (\<lambda>i. c < i) is)"

lemma find_after: "sorted_wrt (<) (pre @ i # post) \<Longrightarrow> find (\<lambda>j. i < j) (pre @ i # post) = (case post of [] \<Rightarrow> None | j # _ \<Rightarrow> Some (j :: u32))"
  by (induction pre) (auto split: list.splits)

lemma info_all_listed:
  assumes "sorted_wrt (<) (pre @ is)" and "\<And>c. q_next_id ops c = find (\<lambda>i. c < i) (pre @ is)"
    and "find (\<lambda>i. cur < i) (pre @ is) = (case is of [] \<Rightarrow> None | i # _ \<Rightarrow> Some i)"
  shows "info_all ops from_uapi cur = Some (listed ops from_uapi is)"
  using assms
proof (induction "is" arbitrary: pre cur)
  case Nil
  then show ?case by (subst info_all.simps) (simp add: info_next_def next_valid_fd.simps [of ops cur])
next
  case (Cons i "is")
  have nxt: "q_next_id ops cur = Some i" using Cons.prems(2,3) by simp
  have IH: "info_all ops from_uapi i = Some (listed ops from_uapi is)"
    using Cons.prems find_after [of pre i "is"] by (intro Cons.IH [of "pre @ [i]"]) simp_all
  show ?case
  proof (cases "q_fd_by_id ops i")
    case (Inl errno)
    show ?thesis
    proof (cases "errno = ENOENT")
      case True
      then have "next_valid_fd ops cur = next_valid_fd ops i" using nxt Inl by (subst next_valid_fd.simps) simp
      then have "info_all ops from_uapi cur = info_all ops from_uapi i"
        by (subst (1 2) info_all.simps) (simp add: info_next_def)
      with True Inl IH show ?thesis by simp
    next
      case False
      with nxt Inl show ?thesis by (subst info_all.simps) (simp add: info_next_def next_valid_fd.simps [of ops cur])
    qed
  next
    case (Inr fd)
    then have "next_valid_fd ops cur = Some (i, Some fd)" using nxt by (subst next_valid_fd.simps) simp
    with Inr IH show ?thesis
      by (subst info_all.simps) (auto simp: info_next_def split: option.splits prod.splits)
  qed
qed

lemma info_all_from_start:
  assumes "ids_in_order ops is" and "0 \<notin> set is"
  shows "info_all ops from_uapi 0 = Some (listed ops from_uapi is)"
proof -
  have "find (\<lambda>i. 0 < i) is = (case is of [] \<Rightarrow> None | i # _ \<Rightarrow> Some i)"
    using assms(2) by (cases "is") (auto simp: word_neq_0_conv)
  then show ?thesis
    using assms(1) by (intro info_all_listed [of "[]"]) (auto simp: ids_in_order_def)
qed

lemma listed_balanced: "\<exists>fds. fst (listed ops from_uapi is) = concat (map (\<lambda>fd. [FdOpen fd, FdClose fd]) fds)"
proof (induction "is")
  case Nil
  show ?case by (intro exI [of _ "[]"]) simp
next
  case (Cons i "is")
  then obtain fds where fds: "fst (listed ops from_uapi is) = concat (map (\<lambda>fd. [FdOpen fd, FdClose fd]) fds)" by blast
  have one: "\<exists>fds'. [FdOpen fd, FdClose fd] = concat (map (\<lambda>fd. [FdOpen fd, FdClose fd]) fds')" for fd
    by (intro exI [of _ "[fd]"]) simp
  have more: "\<exists>fds'. FdOpen fd # FdClose fd # fst (listed ops from_uapi is) = concat (map (\<lambda>fd. [FdOpen fd, FdClose fd]) fds')" for fd
    by (intro exI [of _ "fd # fds"]) (simp add: fds)
  have none: "\<exists>fds'. [] = concat (map (\<lambda>fd. [FdOpen fd, FdClose fd]) fds')" by (intro exI [of _ "[]"]) simp
  show ?case using Cons.IH one more none by (auto split: sum.splits option.splits prod.splits)
qed

section \<open>Properties\<close>

text \<open>C30: a query ends and leaks nothing. When the kernel hands out ids in increasing order, a loop over one of the four
  iterators terminates; it lists the objects in the order of their ids, passing over those that
  disappear before they are opened, up to the first one that cannot be opened or described; and every descriptor it
  opens is closed, once, before the next one is opened.\<close>

theorem query_lists_objects:
  assumes "ids_in_order ops is" and "0 \<notin> set is"
  shows "info_all ops from_uapi 0 = Some (listed ops from_uapi is) \<and>
    (\<exists>fds. fst (listed ops from_uapi is) = concat (map (\<lambda>fd. [FdOpen fd, FdClose fd]) fds))"
  using info_all_from_start [OF assms] listed_balanced by blast

text \<open>Three maps, of which the second one is gone.\<close>

definition three_maps :: "u32 query_ops" where
  "three_maps = \<lparr>q_next_id = (\<lambda>c. find (\<lambda>i. c < i) [2, 5, 9]), q_fd_by_id = (\<lambda>i. if i = 5 then Inl ENOENT else Inr (uint i + 10)),
     q_info = (\<lambda>fd. Some (word_of_int fd))\<rparr>"

theorem query_lists_objects_witness:
  "info_all three_maps (\<lambda>fd s. Some s) 0 = Some ([FdOpen 12, FdClose 12, FdOpen 19, FdClose 19], [12, 19])"
proof -
  have "ids_in_order three_maps [2, 5, 9]" by (simp add: ids_in_order_def three_maps_def)
  moreover have "listed three_maps (\<lambda>fd s. Some s) [2, 5, 9] = ([FdOpen 12, FdClose 12, FdOpen 19, FdClose 19], [12, 19])"
    by code_simp
  ultimately show ?thesis using query_lists_objects [of three_maps "[2, 5, 9]" "\<lambda>fd s. Some s"] by simp
qed

end
