(* ===== verification/Vmlinux_516.thy ===== *)
theory Vmlinux_516
  imports Layout
begin

text \<open>
  Declarations of \<^verbatim>\<open>libbpf-bootstrap/vmlinux/arm64/vmlinux_516.h\<close>, the Linux 5.16 arm64 header of libbpf-bootstrap:
  the packet headers, program contexts and kernel structures the programs read, with every
  structure they embed, and the enumerations of the BPF interface. Each declaration is transcribed
  member by member; the lemma after it gives its size and alignment.
\<close>

section \<open>Structures\<close>

definition ethhdr_516 :: ctype where
  "ethhdr_516 = CStruct
    [Field ''h_dest'' (CArray c_char 6),
     Field ''h_source'' (CArray c_char 6),
     Field ''h_proto'' c_short]"

lemma ethhdr_516_sa [layout_eval]: "csizeof ethhdr_516 = 14" "calign ethhdr_516 = 2"
  by (simp_all add: ethhdr_516_def layout_eval del: One_nat_def)

definition iphdr_516 :: ctype where
  "iphdr_516 = CStruct
    [Bits ''ihl'' 1 4,
     Bits ''version'' 1 4,
     Field ''tos'' c_char,
     Field ''tot_len'' c_short,
     Field ''id'' c_short,
     Field ''frag_off'' c_short,
     Field ''ttl'' c_char,
     Field ''protocol'' c_char,
     Field ''check'' c_short,
     Field ''saddr'' c_int,
     Field ''daddr'' c_int]"

lemma iphdr_516_sa [layout_eval]: "csizeof iphdr_516 = 20" "calign iphdr_516 = 4"
  by (simp_all add: iphdr_516_def layout_eval del: One_nat_def)

definition in6_addr_516 :: ctype where
  "in6_addr_516 = CStruct
    [Field ''in6_u'' (CUnion [Field ''u6_addr8'' (CArray c_char 16),
       Field ''u6_addr16'' (CArray c_short 8),
       Field ''u6_addr32'' (CArray c_int 4)])]"

lemma in6_addr_516_sa [layout_eval]: "csizeof in6_addr_516 = 16" "calign in6_addr_516 = 4"
  by (simp_all add: in6_addr_516_def layout_eval del: One_nat_def)

definition ipv6hdr_516 :: ctype where
  "ipv6hdr_516 = CStruct
    [Bits ''priority'' 1 4,
     Bits ''version'' 1 4,
     Field ''flow_lbl'' (CArray c_char 3),
     Field ''payload_len'' c_short,
     Field ''nexthdr'' c_char,
     Field ''hop_limit'' c_char,
     Field ''saddr'' in6_addr_516,
     Field ''daddr'' in6_addr_516]"

lemma ipv6hdr_516_sa [layout_eval]: "csizeof ipv6hdr_516 = 40" "calign ipv6hdr_516 = 4"
  by (simp_all add: ipv6hdr_516_def layout_eval del: One_nat_def)

definition tcphdr_516 :: ctype where
  "tcphdr_516 = CStruct
    [Field ''source'' c_short,
     Field ''dest'' c_short,
     Field ''seq'' c_int,
     Field ''ack_seq'' c_int,
     Bits ''res1'' 2 4,
     Bits ''doff'' 2 4,
     Bits ''fin'' 2 1,
     Bits ''syn'' 2 1,
     Bits ''rst'' 2 1,
     Bits ''psh'' 2 1,
     Bits ''ack'' 2 1,
     Bits ''urg'' 2 1,
     Bits ''ece'' 2 1,
     Bits ''cwr'' 2 1,
     Field ''window'' c_short,
     Field ''check'' c_short,
     Field ''urg_ptr'' c_short]"

lemma tcphdr_516_sa [layout_eval]: "csizeof tcphdr_516 = 20" "calign tcphdr_516 = 4"
  by (simp_all add: tcphdr_516_def layout_eval del: One_nat_def)

definition udphdr_516 :: ctype where
  "udphdr_516 = CStruct
    [Field ''source'' c_short,
     Field ''dest'' c_short,
     Field ''len'' c_short,
     Field ''check'' c_short]"

lemma udphdr_516_sa [layout_eval]: "csizeof udphdr_516 = 8" "calign udphdr_516 = 2"
  by (simp_all add: udphdr_516_def layout_eval del: One_nat_def)

definition sk_buff_ctx_516 :: ctype where
  "sk_buff_ctx_516 = CStruct
    [Field ''len'' c_int,
     Field ''pkt_type'' c_int,
     Field ''mark'' c_int,
     Field ''queue_mapping'' c_int,
     Field ''protocol'' c_int,
     Field ''vlan_present'' c_int,
     Field ''vlan_tci'' c_int,
     Field ''vlan_proto'' c_int,
     Field ''priority'' c_int,
     Field ''ingress_ifindex'' c_int,
     Field ''ifindex'' c_int,
     Field ''tc_index'' c_int,
     Field ''cb'' (CArray c_int 5),
     Field ''hash'' c_int,
     Field ''tc_classid'' c_int,
     Field ''data'' c_int,
     Field ''data_end'' c_int,
     Field ''napi_id'' c_int,
     Field ''family'' c_int,
     Field ''remote_ip4'' c_int,
     Field ''local_ip4'' c_int,
     Field ''remote_ip6'' (CArray c_int 4),
     Field ''local_ip6'' (CArray c_int 4),
     Field ''remote_port'' c_int,
     Field ''local_port'' c_int,
     Field ''data_meta'' c_int,
     Field '''' (CUnion [Field ''flow_keys'' c_ptr]),
     Field ''tstamp'' c_long,
     Field ''wire_len'' c_int,
     Field ''gso_segs'' c_int,
     Field '''' (CUnion [Field ''sk'' c_ptr]),
     Field ''gso_size'' c_int,
     Field ''hwtstamp'' c_long]"

lemma sk_buff_ctx_516_sa [layout_eval]: "csizeof sk_buff_ctx_516 = 192" "calign sk_buff_ctx_516 = 8"
  by (simp_all add: sk_buff_ctx_516_def layout_eval del: One_nat_def)

definition xdp_md_516 :: ctype where
  "xdp_md_516 = CStruct
    [Field ''data'' c_int,
     Field ''data_end'' c_int,
     Field ''data_meta'' c_int,
     Field ''ingress_ifindex'' c_int,
     Field ''rx_queue_index'' c_int,
     Field ''egress_ifindex'' c_int]"

lemma xdp_md_516_sa [layout_eval]: "csizeof xdp_md_516 = 24" "calign xdp_md_516 = 4"
  by (simp_all add: xdp_md_516_def layout_eval del: One_nat_def)

definition in_addr_516 :: ctype where
  "in_addr_516 = CStruct
    [Field ''s_addr'' c_int]"

lemma in_addr_516_sa [layout_eval]: "csizeof in_addr_516 = 4" "calign in_addr_516 = 4"
  by (simp_all add: in_addr_516_def layout_eval del: One_nat_def)

definition sockaddr_in_516 :: ctype where
  "sockaddr_in_516 = CStruct
    [Field ''sin_family'' c_short,
     Field ''sin_port'' c_short,
     Field ''sin_addr'' in_addr_516,
     Field ''__pad'' (CArray c_char 8)]"

lemma sockaddr_in_516_sa [layout_eval]: "csizeof sockaddr_in_516 = 16" "calign sockaddr_in_516 = 4"
  by (simp_all add: sockaddr_in_516_def layout_eval del: One_nat_def)

definition filename_516 :: ctype where
  "filename_516 = CStruct
    [Field ''name'' c_ptr,
     Field ''uptr'' c_ptr,
     Field ''refcnt'' c_int,
     Field ''aname'' c_ptr,
     Field ''iname'' (CArray c_char 0)]"

lemma filename_516_sa [layout_eval]: "csizeof filename_516 = 32" "calign filename_516 = 8"
  by (simp_all add: filename_516_def layout_eval del: One_nat_def)

definition trace_entry_516 :: ctype where
  "trace_entry_516 = CStruct
    [Field ''type'' c_short,
     Field ''flags'' c_char,
     Field ''preempt_count'' c_char,
     Field ''pid'' c_int]"

lemma trace_entry_516_sa [layout_eval]: "csizeof trace_entry_516 = 8" "calign trace_entry_516 = 4"
  by (simp_all add: trace_entry_516_def layout_eval del: One_nat_def)

definition trace_event_raw_sched_process_exec_516 :: ctype where
  "trace_event_raw_sched_process_exec_516 = CStruct
    [Field ''ent'' trace_entry_516,
     Field ''__data_loc_filename'' c_int,
     Field ''pid'' c_int,
     Field ''old_pid'' c_int,
     Field ''__data'' (CArray c_char 0)]"

lemma trace_event_raw_sched_process_exec_516_sa [layout_eval]: "csizeof trace_event_raw_sched_process_exec_516 = 20" "calign trace_event_raw_sched_process_exec_516 = 4"
  by (simp_all add: trace_event_raw_sched_process_exec_516_def layout_eval del: One_nat_def)

definition trace_event_raw_sched_process_template_516 :: ctype where
  "trace_event_raw_sched_process_template_516 = CStruct
    [Field ''ent'' trace_entry_516,
     Field ''comm'' (CArray c_char 16),
     Field ''pid'' c_int,
     Field ''prio'' c_int,
     Field ''__data'' (CArray c_char 0)]"

lemma trace_event_raw_sched_process_template_516_sa [layout_eval]: "csizeof trace_event_raw_sched_process_template_516 = 32" "calign trace_event_raw_sched_process_template_516 = 4"
  by (simp_all add: trace_event_raw_sched_process_template_516_def layout_eval del: One_nat_def)

definition bpf_iter__task_516 :: ctype where
  "bpf_iter__task_516 = CStruct
    [Field '''' (CUnion [Field ''meta'' c_ptr]),
     Field '''' (CUnion [Field ''task'' c_ptr])]"

lemma bpf_iter__task_516_sa [layout_eval]: "csizeof bpf_iter__task_516 = 16" "calign bpf_iter__task_516 = 8"
  by (simp_all add: bpf_iter__task_516_def layout_eval del: One_nat_def)

definition perf_event_attr_516 :: ctype where
  "perf_event_attr_516 = CStruct
    [Field ''type'' c_int,
     Field ''size'' c_int,
     Field ''config'' c_long,
     Field '''' (CUnion [Field ''sample_period'' c_long,
       Field ''sample_freq'' c_long]),
     Field ''sample_type'' c_long,
     Field ''read_format'' c_long,
     Bits ''disabled'' 8 1,
     Bits ''inherit'' 8 1,
     Bits ''pinned'' 8 1,
     Bits ''exclusive'' 8 1,
     Bits ''exclude_user'' 8 1,
     Bits ''exclude_kernel'' 8 1,
     Bits ''exclude_hv'' 8 1,
     Bits ''exclude_idle'' 8 1,
     Bits ''mmap'' 8 1,
     Bits ''comm'' 8 1,
     Bits ''freq'' 8 1,
     Bits ''inherit_stat'' 8 1,
     Bits ''enable_on_exec'' 8 1,
     Bits ''task'' 8 1,
     Bits ''watermark'' 8 1,
     Bits ''precise_ip'' 8 2,
     Bits ''mmap_data'' 8 1,
     Bits ''sample_id_all'' 8 1,
     Bits ''exclude_host'' 8 1,
     Bits ''exclude_guest'' 8 1,
     Bits ''exclude_callchain_kernel'' 8 1,
     Bits ''exclude_callchain_user'' 8 1,
     Bits ''mmap2'' 8 1,
     Bits ''comm_exec'' 8 1,
     Bits ''use_clockid'' 8 1,
     Bits ''context_switch'' 8 1,
     Bits ''write_backward'' 8 1,
     Bits ''namespaces'' 8 1,
     Bits ''ksymbol'' 8 1,
     Bits ''bpf_event'' 8 1,
     Bits ''aux_output'' 8 1,
     Bits ''cgroup'' 8 1,
     Bits ''text_poke'' 8 1,
     Bits ''build_id'' 8 1,
     Bits ''inherit_thread'' 8 1,
     Bits ''remove_on_exec'' 8 1,
     Bits ''sigtrap'' 8 1,
     Bits ''__reserved_1'' 8 26,
     Field '''' (CUnion [Field ''wakeup_events'' c_int,
       Field ''wakeup_watermark'' c_int]),
     Field ''bp_type'' c_int,
     Field '''' (CUnion [Field ''bp_addr'' c_long,
       Field ''kprobe_func'' c_long,
       Field ''uprobe_path'' c_long,
       Field ''config1'' c_long]),
     Field '''' (CUnion [Field ''bp_len'' c_long,
       Field ''kprobe_addr'' c_long,
       Field ''probe_offset'' c_long,
       Field ''config2'' c_long]),
     Field ''branch_sample_type'' c_long,
     Field ''sample_regs_user'' c_long,
     Field ''sample_stack_user'' c_int,
     Field ''clockid'' c_int,
     Field ''sample_regs_intr'' c_long,
     Field ''aux_watermark'' c_int,
     Field ''sample_max_stack'' c_short,
     Field ''__reserved_2'' c_short,
     Field ''aux_sample_size'' c_int,
     Field ''__reserved_3'' c_int,
     Field ''sig_data'' c_long]"

lemma perf_event_attr_516_sa [layout_eval]: "csizeof perf_event_attr_516 = 128" "calign perf_event_attr_516 = 8"
  by (simp_all add: perf_event_attr_516_def layout_eval del: One_nat_def)

definition hlist_node_516 :: ctype where
  "hlist_node_516 = CStruct
    [Field ''next'' c_ptr,
     Field ''pprev'' c_ptr]"

lemma hlist_node_516_sa [layout_eval]: "csizeof hlist_node_516 = 16" "calign hlist_node_516 = 8"
  by (simp_all add: hlist_node_516_def layout_eval del: One_nat_def)

definition possible_net_t_516 :: ctype where
  "possible_net_t_516 = CStruct
    [Field ''net'' c_ptr]"

lemma possible_net_t_516_sa [layout_eval]: "csizeof possible_net_t_516 = 8" "calign possible_net_t_516 = 8"
  by (simp_all add: possible_net_t_516_def layout_eval del: One_nat_def)

definition atomic64_t_516 :: ctype where
  "atomic64_t_516 = CStruct
    [Field ''counter'' c_long]"

lemma atomic64_t_516_sa [layout_eval]: "csizeof atomic64_t_516 = 8" "calign atomic64_t_516 = 8"
  by (simp_all add: atomic64_t_516_def layout_eval del: One_nat_def)

definition hlist_nulls_node_516 :: ctype where
  "hlist_nulls_node_516 = CStruct
    [Field ''next'' c_ptr,
     Field ''pprev'' c_ptr]"

lemma hlist_nulls_node_516_sa [layout_eval]: "csizeof hlist_nulls_node_516 = 16" "calign hlist_nulls_node_516 = 8"
  by (simp_all add: hlist_nulls_node_516_def layout_eval del: One_nat_def)

definition atomic_t_516 :: ctype where
  "atomic_t_516 = CStruct
    [Field ''counter'' c_int]"

lemma atomic_t_516_sa [layout_eval]: "csizeof atomic_t_516 = 4" "calign atomic_t_516 = 4"
  by (simp_all add: atomic_t_516_def layout_eval del: One_nat_def)

definition refcount_struct_516 :: ctype where
  "refcount_struct_516 = CStruct
    [Field ''refs'' atomic_t_516]"

lemma refcount_struct_516_sa [layout_eval]: "csizeof refcount_struct_516 = 4" "calign refcount_struct_516 = 4"
  by (simp_all add: refcount_struct_516_def layout_eval del: One_nat_def)

definition sock_common_516 :: ctype where
  "sock_common_516 = CStruct
    [Field '''' (CUnion [Field ''skc_addrpair'' c_long,
       Field '''' (CStruct [Field ''skc_daddr'' c_int,
         Field ''skc_rcv_saddr'' c_int])]),
     Field '''' (CUnion [Field ''skc_hash'' c_int,
       Field ''skc_u16hashes'' (CArray c_short 2)]),
     Field '''' (CUnion [Field ''skc_portpair'' c_int,
       Field '''' (CStruct [Field ''skc_dport'' c_short,
         Field ''skc_num'' c_short])]),
     Field ''skc_family'' c_short,
     Field ''skc_state'' c_char,
     Bits ''skc_reuse'' 1 4,
     Bits ''skc_reuseport'' 1 1,
     Bits ''skc_ipv6only'' 1 1,
     Bits ''skc_net_refcnt'' 1 1,
     Field ''skc_bound_dev_if'' c_int,
     Field '''' (CUnion [Field ''skc_bind_node'' hlist_node_516,
       Field ''skc_portaddr_node'' hlist_node_516]),
     Field ''skc_prot'' c_ptr,
     Field ''skc_net'' possible_net_t_516,
     Field ''skc_v6_daddr'' in6_addr_516,
     Field ''skc_v6_rcv_saddr'' in6_addr_516,
     Field ''skc_cookie'' atomic64_t_516,
     Field '''' (CUnion [Field ''skc_flags'' c_long,
       Field ''skc_listener'' c_ptr,
       Field ''skc_tw_dr'' c_ptr]),
     Field ''skc_dontcopy_begin'' (CArray c_int 0),
     Field '''' (CUnion [Field ''skc_node'' hlist_node_516,
       Field ''skc_nulls_node'' hlist_nulls_node_516]),
     Field ''skc_tx_queue_mapping'' c_short,
     Field ''skc_rx_queue_mapping'' c_short,
     Field '''' (CUnion [Field ''skc_incoming_cpu'' c_int,
       Field ''skc_rcv_wnd'' c_int,
       Field ''skc_tw_rcv_nxt'' c_int]),
     Field ''skc_refcnt'' refcount_struct_516,
     Field ''skc_dontcopy_end'' (CArray c_int 0),
     Field '''' (CUnion [Field ''skc_rxhash'' c_int,
       Field ''skc_window_clamp'' c_int,
       Field ''skc_tw_snd_nxt'' c_int])]"

lemma sock_common_516_sa [layout_eval]: "csizeof sock_common_516 = 136" "calign sock_common_516 = 8"
  by (simp_all add: sock_common_516_def layout_eval del: One_nat_def)

definition qspinlock_516 :: ctype where
  "qspinlock_516 = CStruct
    [Field '''' (CUnion [Field ''val'' atomic_t_516,
       Field '''' (CStruct [Field ''locked'' c_char,
         Field ''pending'' c_char]),
       Field '''' (CStruct [Field ''locked_pending'' c_short,
         Field ''tail'' c_short])])]"

lemma qspinlock_516_sa [layout_eval]: "csizeof qspinlock_516 = 4" "calign qspinlock_516 = 4"
  by (simp_all add: qspinlock_516_def layout_eval del: One_nat_def)

definition raw_spinlock_516 :: ctype where
  "raw_spinlock_516 = CStruct
    [Field ''raw_lock'' qspinlock_516]"

lemma raw_spinlock_516_sa [layout_eval]: "csizeof raw_spinlock_516 = 4" "calign raw_spinlock_516 = 4"
  by (simp_all add: raw_spinlock_516_def layout_eval del: One_nat_def)

definition spinlock_516 :: ctype where
  "spinlock_516 = CStruct
    [Field '''' (CUnion [Field ''rlock'' raw_spinlock_516])]"

lemma spinlock_516_sa [layout_eval]: "csizeof spinlock_516 = 4" "calign spinlock_516 = 4"
  by (simp_all add: spinlock_516_def layout_eval del: One_nat_def)

definition list_head_516 :: ctype where
  "list_head_516 = CStruct
    [Field ''next'' c_ptr,
     Field ''prev'' c_ptr]"

lemma list_head_516_sa [layout_eval]: "csizeof list_head_516 = 16" "calign list_head_516 = 8"
  by (simp_all add: list_head_516_def layout_eval del: One_nat_def)

definition wait_queue_head_516 :: ctype where
  "wait_queue_head_516 = CStruct
    [Field ''lock'' spinlock_516,
     Field ''head'' list_head_516]"

lemma wait_queue_head_516_sa [layout_eval]: "csizeof wait_queue_head_516 = 24" "calign wait_queue_head_516 = 8"
  by (simp_all add: wait_queue_head_516_def layout_eval del: One_nat_def)

definition socket_lock_t_516 :: ctype where
  "socket_lock_t_516 = CStruct
    [Field ''slock'' spinlock_516,
     Field ''owned'' c_int,
     Field ''wq'' wait_queue_head_516]"

lemma socket_lock_t_516_sa [layout_eval]: "csizeof socket_lock_t_516 = 32" "calign socket_lock_t_516 = 8"
  by (simp_all add: socket_lock_t_516_def layout_eval del: One_nat_def)

definition sk_buff_head_516 :: ctype where
  "sk_buff_head_516 = CStruct
    [Field ''next'' c_ptr,
     Field ''prev'' c_ptr,
     Field ''qlen'' c_int,
     Field ''lock'' spinlock_516]"

lemma sk_buff_head_516_sa [layout_eval]: "csizeof sk_buff_head_516 = 24" "calign sk_buff_head_516 = 8"
  by (simp_all add: sk_buff_head_516_def layout_eval del: One_nat_def)

definition rb_root_516 :: ctype where
  "rb_root_516 = CStruct
    [Field ''rb_node'' c_ptr]"

lemma rb_root_516_sa [layout_eval]: "csizeof rb_root_516 = 8" "calign rb_root_516 = 8"
  by (simp_all add: rb_root_516_def layout_eval del: One_nat_def)

definition timer_list_516 :: ctype where
  "timer_list_516 = CStruct
    [Field ''entry'' hlist_node_516,
     Field ''expires'' c_long,
     Field ''function'' c_ptr,
     Field ''flags'' c_int]"

lemma timer_list_516_sa [layout_eval]: "csizeof timer_list_516 = 40" "calign timer_list_516 = 8"
  by (simp_all add: timer_list_516_def layout_eval del: One_nat_def)

definition page_frag_516 :: ctype where
  "page_frag_516 = CStruct
    [Field ''page'' c_ptr,
     Field ''offset'' c_int,
     Field ''size'' c_int]"

lemma page_frag_516_sa [layout_eval]: "csizeof page_frag_516 = 16" "calign page_frag_516 = 8"
  by (simp_all add: page_frag_516_def layout_eval del: One_nat_def)

definition qrwlock_516 :: ctype where
  "qrwlock_516 = CStruct
    [Field '''' (CUnion [Field ''cnts'' atomic_t_516,
       Field '''' (CStruct [Field ''wlocked'' c_char,
         Field ''__lstate'' (CArray c_char 3)])]),
     Field ''wait_lock'' qspinlock_516]"

lemma qrwlock_516_sa [layout_eval]: "csizeof qrwlock_516 = 8" "calign qrwlock_516 = 4"
  by (simp_all add: qrwlock_516_def layout_eval del: One_nat_def)

definition rwlock_t_516 :: ctype where
  "rwlock_t_516 = CStruct
    [Field ''raw_lock'' qrwlock_516]"

lemma rwlock_t_516_sa [layout_eval]: "csizeof rwlock_t_516 = 8" "calign rwlock_t_516 = 4"
  by (simp_all add: rwlock_t_516_def layout_eval del: One_nat_def)

definition kuid_t_516 :: ctype where
  "kuid_t_516 = CStruct
    [Field ''val'' c_int]"

lemma kuid_t_516_sa [layout_eval]: "csizeof kuid_t_516 = 4" "calign kuid_t_516 = 4"
  by (simp_all add: kuid_t_516_def layout_eval del: One_nat_def)

definition sock_cgroup_data_516 :: ctype where
  "sock_cgroup_data_516 = CStruct
    [Field ''cgroup'' c_ptr,
     Field ''classid'' c_int,
     Field ''prioidx'' c_short]"

lemma sock_cgroup_data_516_sa [layout_eval]: "csizeof sock_cgroup_data_516 = 16" "calign sock_cgroup_data_516 = 8"
  by (simp_all add: sock_cgroup_data_516_def layout_eval del: One_nat_def)

definition callback_head_516 :: ctype where
  "callback_head_516 = CStruct
    [Field ''next'' c_ptr,
     Field ''func'' c_ptr]"

lemma callback_head_516_sa [layout_eval]: "csizeof callback_head_516 = 16" "calign callback_head_516 = 8"
  by (simp_all add: callback_head_516_def layout_eval del: One_nat_def)

definition sock_516 :: ctype where
  "sock_516 = CStruct
    [Field ''__sk_common'' sock_common_516,
     Field ''sk_lock'' socket_lock_t_516,
     Field ''sk_drops'' atomic_t_516,
     Field ''sk_rcvlowat'' c_int,
     Field ''sk_error_queue'' sk_buff_head_516,
     Field ''sk_receive_queue'' sk_buff_head_516,
     Field ''sk_backlog'' (CStruct [Field ''rmem_alloc'' atomic_t_516,
       Field ''len'' c_int,
       Field ''head'' c_ptr,
       Field ''tail'' c_ptr]),
     Field ''sk_forward_alloc'' c_int,
     Field ''sk_reserved_mem'' c_int,
     Field ''sk_ll_usec'' c_int,
     Field ''sk_napi_id'' c_int,
     Field ''sk_rcvbuf'' c_int,
     Field ''sk_filter'' c_ptr,
     Field '''' (CUnion [Field ''sk_wq'' c_ptr,
       Field ''sk_wq_raw'' c_ptr]),
     Field ''sk_policy'' (CArray c_ptr 2),
     Field ''sk_rx_dst'' c_ptr,
     Field ''sk_rx_dst_ifindex'' c_int,
     Field ''sk_rx_dst_cookie'' c_int,
     Field ''sk_dst_cache'' c_ptr,
     Field ''sk_omem_alloc'' atomic_t_516,
     Field ''sk_sndbuf'' c_int,
     Field ''sk_wmem_queued'' c_int,
     Field ''sk_wmem_alloc'' refcount_struct_516,
     Field ''sk_tsq_flags'' c_long,
     Field '''' (CUnion [Field ''sk_send_head'' c_ptr,
       Field ''tcp_rtx_queue'' rb_root_516]),
     Field ''sk_write_queue'' sk_buff_head_516,
     Field ''sk_peek_off'' c_int,
     Field ''sk_write_pending'' c_int,
     Field ''sk_dst_pending_confirm'' c_int,
     Field ''sk_pacing_status'' c_int,
     Field ''sk_sndtimeo'' c_long,
     Field ''sk_timer'' timer_list_516,
     Field ''sk_priority'' c_int,
     Field ''sk_mark'' c_int,
     Field ''sk_pacing_rate'' c_long,
     Field ''sk_max_pacing_rate'' c_long,
     Field ''sk_frag'' page_frag_516,
     Field ''sk_route_caps'' c_long,
     Field ''sk_route_nocaps'' c_long,
     Field ''sk_route_forced_caps'' c_long,
     Field ''sk_gso_type'' c_int,
     Field ''sk_gso_max_size'' c_int,
     Field ''sk_allocation'' c_int,
     Field ''sk_txhash'' c_int,
     Bits ''sk_padding'' 1 1,
     Bits ''sk_kern_sock'' 1 1,
     Bits ''sk_no_check_tx'' 1 1,
     Bits ''sk_no_check_rx'' 1 1,
     Bits ''sk_userlocks'' 1 4,
     Field ''sk_pacing_shift'' c_char,
     Field ''sk_type'' c_short,
     Field ''sk_protocol'' c_short,
     Field ''sk_gso_max_segs'' c_short,
     Field ''sk_lingertime'' c_long,
     Field ''sk_prot_creator'' c_ptr,
     Field ''sk_callback_lock'' rwlock_t_516,
     Field ''sk_err'' c_int,
     Field ''sk_err_soft'' c_int,
     Field ''sk_ack_backlog'' c_int,
     Field ''sk_max_ack_backlog'' c_int,
     Field ''sk_uid'' kuid_t_516,
     Field ''sk_prefer_busy_poll'' c_char,
     Field ''sk_busy_poll_budget'' c_short,
     Field ''sk_peer_lock'' spinlock_516,
     Field ''sk_peer_pid'' c_ptr,
     Field ''sk_peer_cred'' c_ptr,
     Field ''sk_rcvtimeo'' c_long,
     Field ''sk_stamp'' c_long,
     Field ''sk_tsflags'' c_short,
     Field ''sk_bind_phc'' c_int,
     Field ''sk_shutdown'' c_char,
     Field ''sk_tskey'' c_int,
     Field ''sk_zckey'' atomic_t_516,
     Field ''sk_clockid'' c_char,
     Bits ''sk_txtime_deadline_mode'' 1 1,
     Bits ''sk_txtime_report_errors'' 1 1,
     Bits ''sk_txtime_unused'' 1 6,
     Field ''sk_socket'' c_ptr,
     Field ''sk_user_data'' c_ptr,
     Field ''sk_security'' c_ptr,
     Field ''sk_cgrp_data'' sock_cgroup_data_516,
     Field ''sk_memcg'' c_ptr,
     Field ''sk_state_change'' c_ptr,
     Field ''sk_data_ready'' c_ptr,
     Field ''sk_write_space'' c_ptr,
     Field ''sk_error_report'' c_ptr,
     Field ''sk_backlog_rcv'' c_ptr,
     Field ''sk_validate_xmit_skb'' c_ptr,
     Field ''sk_destruct'' c_ptr,
     Field ''sk_reuseport_cb'' c_ptr,
     Field ''sk_bpf_storage'' c_ptr,
     Field ''sk_rcu'' callback_head_516]"

lemma sock_516_sa [layout_eval]: "csizeof sock_516 = 784" "calign sock_516 = 8"
  by (simp_all add: sock_516_def layout_eval del: One_nat_def)

definition thread_info_516 :: ctype where
  "thread_info_516 = CStruct
    [Field ''flags'' c_long,
     Field ''ttbr0'' c_long,
     Field '''' (CUnion [Field ''preempt_count'' c_long,
       Field ''preempt'' (CStruct [Field ''count'' c_int,
         Field ''need_resched'' c_int])]),
     Field ''cpu'' c_int]"

lemma thread_info_516_sa [layout_eval]: "csizeof thread_info_516 = 32" "calign thread_info_516 = 8"
  by (simp_all add: thread_info_516_def layout_eval del: One_nat_def)

definition llist_node_516 :: ctype where
  "llist_node_516 = CStruct
    [Field ''next'' c_ptr]"

lemma llist_node_516_sa [layout_eval]: "csizeof llist_node_516 = 8" "calign llist_node_516 = 8"
  by (simp_all add: llist_node_516_def layout_eval del: One_nat_def)

definition call_single_node_516 :: ctype where
  "call_single_node_516 = CStruct
    [Field ''llist'' llist_node_516,
     Field '''' (CUnion [Field ''u_flags'' c_int,
       Field ''a_flags'' atomic_t_516]),
     Field ''src'' c_short,
     Field ''dst'' c_short]"

lemma call_single_node_516_sa [layout_eval]: "csizeof call_single_node_516 = 16" "calign call_single_node_516 = 8"
  by (simp_all add: call_single_node_516_def layout_eval del: One_nat_def)

definition load_weight_516 :: ctype where
  "load_weight_516 = CStruct
    [Field ''weight'' c_long,
     Field ''inv_weight'' c_int]"

lemma load_weight_516_sa [layout_eval]: "csizeof load_weight_516 = 16" "calign load_weight_516 = 8"
  by (simp_all add: load_weight_516_def layout_eval del: One_nat_def)

definition rb_node_516 :: ctype where
  "rb_node_516 = CStruct
    [Field ''__rb_parent_color'' c_long,
     Field ''rb_right'' c_ptr,
     Field ''rb_left'' c_ptr]"

lemma rb_node_516_sa [layout_eval]: "csizeof rb_node_516 = 24" "calign rb_node_516 = 8"
  by (simp_all add: rb_node_516_def layout_eval del: One_nat_def)

definition util_est_516 :: ctype where
  "util_est_516 = CStruct
    [Field ''enqueued'' c_int,
     Field ''ewma'' c_int]"

lemma util_est_516_sa [layout_eval]: "csizeof util_est_516 = 8" "calign util_est_516 = 4"
  by (simp_all add: util_est_516_def layout_eval del: One_nat_def)

definition sched_avg_516 :: ctype where
  "sched_avg_516 = CStruct
    [Field ''last_update_time'' c_long,
     Field ''load_sum'' c_long,
     Field ''runnable_sum'' c_long,
     Field ''util_sum'' c_int,
     Field ''period_contrib'' c_int,
     Field ''load_avg'' c_long,
     Field ''runnable_avg'' c_long,
     Field ''util_avg'' c_long,
     Field ''util_est'' util_est_516]"

lemma sched_avg_516_sa [layout_eval]: "csizeof sched_avg_516 = 64" "calign sched_avg_516 = 8"
  by (simp_all add: sched_avg_516_def layout_eval del: One_nat_def)

definition sched_entity_516 :: ctype where
  "sched_entity_516 = CStruct
    [Field ''load'' load_weight_516,
     Field ''run_node'' rb_node_516,
     Field ''group_node'' list_head_516,
     Field ''on_rq'' c_int,
     Field ''exec_start'' c_long,
     Field ''sum_exec_runtime'' c_long,
     Field ''vruntime'' c_long,
     Field ''prev_sum_exec_runtime'' c_long,
     Field ''nr_migrations'' c_long,
     Field ''depth'' c_int,
     Field ''parent'' c_ptr,
     Field ''cfs_rq'' c_ptr,
     Field ''my_q'' c_ptr,
     Field ''runnable_weight'' c_long,
     Bits '''' 8 64,
     Bits '''' 8 64,
     Bits '''' 8 64,
     Bits '''' 8 64,
     Bits '''' 8 64,
     Bits '''' 8 64,
     Field ''avg'' sched_avg_516]"

lemma sched_entity_516_sa [layout_eval]: "csizeof sched_entity_516 = 256" "calign sched_entity_516 = 8"
  by (simp_all add: sched_entity_516_def layout_eval del: One_nat_def)

definition sched_rt_entity_516 :: ctype where
  "sched_rt_entity_516 = CStruct
    [Field ''run_list'' list_head_516,
     Field ''timeout'' c_long,
     Field ''watchdog_stamp'' c_long,
     Field ''time_slice'' c_int,
     Field ''on_rq'' c_short,
     Field ''on_list'' c_short,
     Field ''back'' c_ptr]"

lemma sched_rt_entity_516_sa [layout_eval]: "csizeof sched_rt_entity_516 = 48" "calign sched_rt_entity_516 = 8"
  by (simp_all add: sched_rt_entity_516_def layout_eval del: One_nat_def)

definition timerqueue_node_516 :: ctype where
  "timerqueue_node_516 = CStruct
    [Field ''node'' rb_node_516,
     Field ''expires'' c_long]"

lemma timerqueue_node_516_sa [layout_eval]: "csizeof timerqueue_node_516 = 32" "calign timerqueue_node_516 = 8"
  by (simp_all add: timerqueue_node_516_def layout_eval del: One_nat_def)

definition hrtimer_516 :: ctype where
  "hrtimer_516 = CStruct
    [Field ''node'' timerqueue_node_516,
     Field ''_softexpires'' c_long,
     Field ''function'' c_ptr,
     Field ''base'' c_ptr,
     Field ''state'' c_char,
     Field ''is_rel'' c_char,
     Field ''is_soft'' c_char,
     Field ''is_hard'' c_char]"

lemma hrtimer_516_sa [layout_eval]: "csizeof hrtimer_516 = 64" "calign hrtimer_516 = 8"
  by (simp_all add: hrtimer_516_def layout_eval del: One_nat_def)

definition sched_dl_entity_516 :: ctype where
  "sched_dl_entity_516 = CStruct
    [Field ''rb_node'' rb_node_516,
     Field ''dl_runtime'' c_long,
     Field ''dl_deadline'' c_long,
     Field ''dl_period'' c_long,
     Field ''dl_bw'' c_long,
     Field ''dl_density'' c_long,
     Field ''runtime'' c_long,
     Field ''deadline'' c_long,
     Field ''flags'' c_int,
     Bits ''dl_throttled'' 4 1,
     Bits ''dl_yielded'' 4 1,
     Bits ''dl_non_contending'' 4 1,
     Bits ''dl_overrun'' 4 1,
     Field ''dl_timer'' hrtimer_516,
     Field ''inactive_timer'' hrtimer_516,
     Field ''pi_se'' c_ptr]"

lemma sched_dl_entity_516_sa [layout_eval]: "csizeof sched_dl_entity_516 = 224" "calign sched_dl_entity_516 = 8"
  by (simp_all add: sched_dl_entity_516_def layout_eval del: One_nat_def)

definition uclamp_se_516 :: ctype where
  "uclamp_se_516 = CStruct
    [Bits ''value'' 4 11,
     Bits ''bucket_id'' 4 3,
     Bits ''active'' 4 1,
     Bits ''user_defined'' 4 1]"

lemma uclamp_se_516_sa [layout_eval]: "csizeof uclamp_se_516 = 4" "calign uclamp_se_516 = 4"
  by (simp_all add: uclamp_se_516_def layout_eval del: One_nat_def)

definition sched_statistics_516 :: ctype where
  "sched_statistics_516 = CStruct
    [Field ''wait_start'' c_long,
     Field ''wait_max'' c_long,
     Field ''wait_count'' c_long,
     Field ''wait_sum'' c_long,
     Field ''iowait_count'' c_long,
     Field ''iowait_sum'' c_long,
     Field ''sleep_start'' c_long,
     Field ''sleep_max'' c_long,
     Field ''sum_sleep_runtime'' c_long,
     Field ''block_start'' c_long,
     Field ''block_max'' c_long,
     Field ''sum_block_runtime'' c_long,
     Field ''exec_max'' c_long,
     Field ''slice_max'' c_long,
     Field ''nr_migrations_cold'' c_long,
     Field ''nr_failed_migrations_affine'' c_long,
     Field ''nr_failed_migrations_running'' c_long,
     Field ''nr_failed_migrations_hot'' c_long,
     Field ''nr_forced_migrations'' c_long,
     Field ''nr_wakeups'' c_long,
     Field ''nr_wakeups_sync'' c_long,
     Field ''nr_wakeups_migrate'' c_long,
     Field ''nr_wakeups_local'' c_long,
     Field ''nr_wakeups_remote'' c_long,
     Field ''nr_wakeups_affine'' c_long,
     Field ''nr_wakeups_affine_attempts'' c_long,
     Field ''nr_wakeups_passive'' c_long,
     Field ''nr_wakeups_idle'' c_long,
     Bits '''' 8 64,
     Bits '''' 8 64,
     Bits '''' 8 64,
     Bits '''' 8 64]"

lemma sched_statistics_516_sa [layout_eval]: "csizeof sched_statistics_516 = 256" "calign sched_statistics_516 = 8"
  by (simp_all add: sched_statistics_516_def layout_eval del: One_nat_def)

definition hlist_head_516 :: ctype where
  "hlist_head_516 = CStruct
    [Field ''first'' c_ptr]"

lemma hlist_head_516_sa [layout_eval]: "csizeof hlist_head_516 = 8" "calign hlist_head_516 = 8"
  by (simp_all add: hlist_head_516_def layout_eval del: One_nat_def)

definition cpumask_516 :: ctype where
  "cpumask_516 = CStruct
    [Field ''bits'' (CArray c_long 4)]"

lemma cpumask_516_sa [layout_eval]: "csizeof cpumask_516 = 32" "calign cpumask_516 = 8"
  by (simp_all add: cpumask_516_def layout_eval del: One_nat_def)

definition rcu_special_516 :: ctype where
  "rcu_special_516 = CUnion
    [Field ''b'' (CStruct [Field ''blocked'' c_char,
       Field ''need_qs'' c_char,
       Field ''exp_hint'' c_char,
       Field ''need_mb'' c_char]),
     Field ''s'' c_int]"

lemma rcu_special_516_sa [layout_eval]: "csizeof rcu_special_516 = 4" "calign rcu_special_516 = 4"
  by (simp_all add: rcu_special_516_def layout_eval del: One_nat_def)

definition sched_info_516 :: ctype where
  "sched_info_516 = CStruct
    [Field ''pcount'' c_long,
     Field ''run_delay'' c_long,
     Field ''last_arrival'' c_long,
     Field ''last_queued'' c_long]"

lemma sched_info_516_sa [layout_eval]: "csizeof sched_info_516 = 32" "calign sched_info_516 = 8"
  by (simp_all add: sched_info_516_def layout_eval del: One_nat_def)

definition plist_node_516 :: ctype where
  "plist_node_516 = CStruct
    [Field ''prio'' c_int,
     Field ''prio_list'' list_head_516,
     Field ''node_list'' list_head_516]"

lemma plist_node_516_sa [layout_eval]: "csizeof plist_node_516 = 40" "calign plist_node_516 = 8"
  by (simp_all add: plist_node_516_def layout_eval del: One_nat_def)

definition vmacache_516 :: ctype where
  "vmacache_516 = CStruct
    [Field ''seqnum'' c_long,
     Field ''vmas'' (CArray c_ptr 4)]"

lemma vmacache_516_sa [layout_eval]: "csizeof vmacache_516 = 40" "calign vmacache_516 = 8"
  by (simp_all add: vmacache_516_def layout_eval del: One_nat_def)

definition task_rss_stat_516 :: ctype where
  "task_rss_stat_516 = CStruct
    [Field ''events'' c_int,
     Field ''count'' (CArray c_int 4)]"

lemma task_rss_stat_516_sa [layout_eval]: "csizeof task_rss_stat_516 = 20" "calign task_rss_stat_516 = 4"
  by (simp_all add: task_rss_stat_516_def layout_eval del: One_nat_def)

definition restart_block_516 :: ctype where
  "restart_block_516 = CStruct
    [Field ''arch_data'' c_long,
     Field ''fn'' c_ptr,
     Field '''' (CUnion [Field ''futex'' (CStruct [Field ''uaddr'' c_ptr,
         Field ''val'' c_int,
         Field ''flags'' c_int,
         Field ''bitset'' c_int,
         Field ''time'' c_long,
         Field ''uaddr2'' c_ptr]),
       Field ''nanosleep'' (CStruct [Field ''clockid'' c_int,
         Field ''type'' c_int,
         Field '''' (CUnion [Field ''rmtp'' c_ptr,
           Field ''compat_rmtp'' c_ptr]),
         Field ''expires'' c_long]),
       Field ''poll'' (CStruct [Field ''ufds'' c_ptr,
         Field ''nfds'' c_int,
         Field ''has_timeout'' c_int,
         Field ''tv_sec'' c_long,
         Field ''tv_nsec'' c_long])])]"

lemma restart_block_516_sa [layout_eval]: "csizeof restart_block_516 = 56" "calign restart_block_516 = 8"
  by (simp_all add: restart_block_516_def layout_eval del: One_nat_def)

definition prev_cputime_516 :: ctype where
  "prev_cputime_516 = CStruct
    [Field ''utime'' c_long,
     Field ''stime'' c_long,
     Field ''lock'' raw_spinlock_516]"

lemma prev_cputime_516_sa [layout_eval]: "csizeof prev_cputime_516 = 24" "calign prev_cputime_516 = 8"
  by (simp_all add: prev_cputime_516_def layout_eval del: One_nat_def)

definition rb_root_cached_516 :: ctype where
  "rb_root_cached_516 = CStruct
    [Field ''rb_root'' rb_root_516,
     Field ''rb_leftmost'' c_ptr]"

lemma rb_root_cached_516_sa [layout_eval]: "csizeof rb_root_cached_516 = 16" "calign rb_root_cached_516 = 8"
  by (simp_all add: rb_root_cached_516_def layout_eval del: One_nat_def)

definition timerqueue_head_516 :: ctype where
  "timerqueue_head_516 = CStruct
    [Field ''rb_root'' rb_root_cached_516]"

lemma timerqueue_head_516_sa [layout_eval]: "csizeof timerqueue_head_516 = 16" "calign timerqueue_head_516 = 8"
  by (simp_all add: timerqueue_head_516_def layout_eval del: One_nat_def)

definition posix_cputimer_base_516 :: ctype where
  "posix_cputimer_base_516 = CStruct
    [Field ''nextevt'' c_long,
     Field ''tqhead'' timerqueue_head_516]"

lemma posix_cputimer_base_516_sa [layout_eval]: "csizeof posix_cputimer_base_516 = 24" "calign posix_cputimer_base_516 = 8"
  by (simp_all add: posix_cputimer_base_516_def layout_eval del: One_nat_def)

definition posix_cputimers_516 :: ctype where
  "posix_cputimers_516 = CStruct
    [Field ''bases'' (CArray posix_cputimer_base_516 3),
     Field ''timers_active'' c_int,
     Field ''expiry_active'' c_int]"

lemma posix_cputimers_516_sa [layout_eval]: "csizeof posix_cputimers_516 = 80" "calign posix_cputimers_516 = 8"
  by (simp_all add: posix_cputimers_516_def layout_eval del: One_nat_def)

definition posix_cputimers_work_516 :: ctype where
  "posix_cputimers_work_516 = CStruct
    [Field ''work'' callback_head_516,
     Field ''scheduled'' c_int]"

lemma posix_cputimers_work_516_sa [layout_eval]: "csizeof posix_cputimers_work_516 = 24" "calign posix_cputimers_work_516 = 8"
  by (simp_all add: posix_cputimers_work_516_def layout_eval del: One_nat_def)

definition sysv_sem_516 :: ctype where
  "sysv_sem_516 = CStruct
    [Field ''undo_list'' c_ptr]"

lemma sysv_sem_516_sa [layout_eval]: "csizeof sysv_sem_516 = 8" "calign sysv_sem_516 = 8"
  by (simp_all add: sysv_sem_516_def layout_eval del: One_nat_def)

definition sysv_shm_516 :: ctype where
  "sysv_shm_516 = CStruct
    [Field ''shm_clist'' list_head_516]"

lemma sysv_shm_516_sa [layout_eval]: "csizeof sysv_shm_516 = 16" "calign sysv_shm_516 = 8"
  by (simp_all add: sysv_shm_516_def layout_eval del: One_nat_def)

definition sigset_t_516 :: ctype where
  "sigset_t_516 = CStruct
    [Field ''sig'' (CArray c_long 1)]"

lemma sigset_t_516_sa [layout_eval]: "csizeof sigset_t_516 = 8" "calign sigset_t_516 = 8"
  by (simp_all add: sigset_t_516_def layout_eval del: One_nat_def)

definition sigpending_516 :: ctype where
  "sigpending_516 = CStruct
    [Field ''list'' list_head_516,
     Field ''signal'' sigset_t_516]"

lemma sigpending_516_sa [layout_eval]: "csizeof sigpending_516 = 24" "calign sigpending_516 = 8"
  by (simp_all add: sigpending_516_def layout_eval del: One_nat_def)

definition seccomp_516 :: ctype where
  "seccomp_516 = CStruct
    [Field ''mode'' c_int,
     Field ''filter_count'' atomic_t_516,
     Field ''filter'' c_ptr]"

lemma seccomp_516_sa [layout_eval]: "csizeof seccomp_516 = 16" "calign seccomp_516 = 8"
  by (simp_all add: seccomp_516_def layout_eval del: One_nat_def)

definition syscall_user_dispatch_516 :: ctype where
  "syscall_user_dispatch_516 = CStruct
    []"

lemma syscall_user_dispatch_516_sa [layout_eval]: "csizeof syscall_user_dispatch_516 = 0" "calign syscall_user_dispatch_516 = 1"
  by (simp_all add: syscall_user_dispatch_516_def layout_eval del: One_nat_def)

definition wake_q_node_516 :: ctype where
  "wake_q_node_516 = CStruct
    [Field ''next'' c_ptr]"

lemma wake_q_node_516_sa [layout_eval]: "csizeof wake_q_node_516 = 8" "calign wake_q_node_516 = 8"
  by (simp_all add: wake_q_node_516_def layout_eval del: One_nat_def)

definition task_io_accounting_516 :: ctype where
  "task_io_accounting_516 = CStruct
    [Field ''rchar'' c_long,
     Field ''wchar'' c_long,
     Field ''syscr'' c_long,
     Field ''syscw'' c_long,
     Field ''read_bytes'' c_long,
     Field ''write_bytes'' c_long,
     Field ''cancelled_write_bytes'' c_long]"

lemma task_io_accounting_516_sa [layout_eval]: "csizeof task_io_accounting_516 = 56" "calign task_io_accounting_516 = 8"
  by (simp_all add: task_io_accounting_516_def layout_eval del: One_nat_def)

definition nodemask_t_516 :: ctype where
  "nodemask_t_516 = CStruct
    [Field ''bits'' (CArray c_long 1)]"

lemma nodemask_t_516_sa [layout_eval]: "csizeof nodemask_t_516 = 8" "calign nodemask_t_516 = 8"
  by (simp_all add: nodemask_t_516_def layout_eval del: One_nat_def)

definition seqcount_516 :: ctype where
  "seqcount_516 = CStruct
    [Field ''sequence'' c_int]"

lemma seqcount_516_sa [layout_eval]: "csizeof seqcount_516 = 4" "calign seqcount_516 = 4"
  by (simp_all add: seqcount_516_def layout_eval del: One_nat_def)

definition seqcount_spinlock_516 :: ctype where
  "seqcount_spinlock_516 = CStruct
    [Field ''seqcount'' seqcount_516]"

lemma seqcount_spinlock_516_sa [layout_eval]: "csizeof seqcount_spinlock_516 = 4" "calign seqcount_spinlock_516 = 4"
  by (simp_all add: seqcount_spinlock_516_def layout_eval del: One_nat_def)

definition optimistic_spin_queue_516 :: ctype where
  "optimistic_spin_queue_516 = CStruct
    [Field ''tail'' atomic_t_516]"

lemma optimistic_spin_queue_516_sa [layout_eval]: "csizeof optimistic_spin_queue_516 = 4" "calign optimistic_spin_queue_516 = 4"
  by (simp_all add: optimistic_spin_queue_516_def layout_eval del: One_nat_def)

definition mutex_516 :: ctype where
  "mutex_516 = CStruct
    [Field ''owner'' atomic64_t_516,
     Field ''wait_lock'' raw_spinlock_516,
     Field ''osq'' optimistic_spin_queue_516,
     Field ''wait_list'' list_head_516]"

lemma mutex_516_sa [layout_eval]: "csizeof mutex_516 = 32" "calign mutex_516 = 8"
  by (simp_all add: mutex_516_def layout_eval del: One_nat_def)

definition tlbflush_unmap_batch_516 :: ctype where
  "tlbflush_unmap_batch_516 = CStruct
    []"

lemma tlbflush_unmap_batch_516_sa [layout_eval]: "csizeof tlbflush_unmap_batch_516 = 0" "calign tlbflush_unmap_batch_516 = 1"
  by (simp_all add: tlbflush_unmap_batch_516_def layout_eval del: One_nat_def)

definition kmap_ctrl_516 :: ctype where
  "kmap_ctrl_516 = CStruct
    []"

lemma kmap_ctrl_516_sa [layout_eval]: "csizeof kmap_ctrl_516 = 0" "calign kmap_ctrl_516 = 1"
  by (simp_all add: kmap_ctrl_516_def layout_eval del: One_nat_def)

definition llist_head_516 :: ctype where
  "llist_head_516 = CStruct
    [Field ''first'' c_ptr]"

lemma llist_head_516_sa [layout_eval]: "csizeof llist_head_516 = 8" "calign llist_head_516 = 8"
  by (simp_all add: llist_head_516_def layout_eval del: One_nat_def)

definition cpu_context_516 :: ctype where
  "cpu_context_516 = CStruct
    [Field ''x19'' c_long,
     Field ''x20'' c_long,
     Field ''x21'' c_long,
     Field ''x22'' c_long,
     Field ''x23'' c_long,
     Field ''x24'' c_long,
     Field ''x25'' c_long,
     Field ''x26'' c_long,
     Field ''x27'' c_long,
     Field ''x28'' c_long,
     Field ''fp'' c_long,
     Field ''sp'' c_long,
     Field ''pc'' c_long]"

lemma cpu_context_516_sa [layout_eval]: "csizeof cpu_context_516 = 104" "calign cpu_context_516 = 8"
  by (simp_all add: cpu_context_516_def layout_eval del: One_nat_def)

definition user_fpsimd_state_516 :: ctype where
  "user_fpsimd_state_516 = CStruct
    [Field ''vregs'' (CArray (CScalar 16) 32),
     Field ''fpsr'' c_int,
     Field ''fpcr'' c_int,
     Field ''__reserved'' (CArray c_int 2)]"

lemma user_fpsimd_state_516_sa [layout_eval]: "csizeof user_fpsimd_state_516 = 528" "calign user_fpsimd_state_516 = 16"
  by (simp_all add: user_fpsimd_state_516_def layout_eval del: One_nat_def)

definition debug_info_516 :: ctype where
  "debug_info_516 = CStruct
    [Field ''suspended_step'' c_int,
     Field ''bps_disabled'' c_int,
     Field ''wps_disabled'' c_int,
     Field ''hbp_break'' (CArray c_ptr 16),
     Field ''hbp_watch'' (CArray c_ptr 16)]"

lemma debug_info_516_sa [layout_eval]: "csizeof debug_info_516 = 272" "calign debug_info_516 = 8"
  by (simp_all add: debug_info_516_def layout_eval del: One_nat_def)

definition ptrauth_key_516 :: ctype where
  "ptrauth_key_516 = CStruct
    [Field ''lo'' c_long,
     Field ''hi'' c_long]"

lemma ptrauth_key_516_sa [layout_eval]: "csizeof ptrauth_key_516 = 16" "calign ptrauth_key_516 = 8"
  by (simp_all add: ptrauth_key_516_def layout_eval del: One_nat_def)

definition ptrauth_keys_user_516 :: ctype where
  "ptrauth_keys_user_516 = CStruct
    [Field ''apia'' ptrauth_key_516,
     Field ''apib'' ptrauth_key_516,
     Field ''apda'' ptrauth_key_516,
     Field ''apdb'' ptrauth_key_516,
     Field ''apga'' ptrauth_key_516]"

lemma ptrauth_keys_user_516_sa [layout_eval]: "csizeof ptrauth_keys_user_516 = 80" "calign ptrauth_keys_user_516 = 8"
  by (simp_all add: ptrauth_keys_user_516_def layout_eval del: One_nat_def)

definition ptrauth_keys_kernel_516 :: ctype where
  "ptrauth_keys_kernel_516 = CStruct
    [Field ''apia'' ptrauth_key_516]"

lemma ptrauth_keys_kernel_516_sa [layout_eval]: "csizeof ptrauth_keys_kernel_516 = 16" "calign ptrauth_keys_kernel_516 = 8"
  by (simp_all add: ptrauth_keys_kernel_516_def layout_eval del: One_nat_def)

definition thread_struct_516 :: ctype where
  "thread_struct_516 = CStruct
    [Field ''cpu_context'' cpu_context_516,
     Bits '''' 8 64,
     Field ''uw'' (CStruct [Field ''tp_value'' c_long,
       Field ''tp2_value'' c_long,
       Field ''fpsimd_state'' user_fpsimd_state_516]),
     Field ''fpsimd_cpu'' c_int,
     Field ''sve_state'' c_ptr,
     Field ''vl'' (CArray c_int 1),
     Field ''vl_onexec'' (CArray c_int 1),
     Field ''fault_address'' c_long,
     Field ''fault_code'' c_long,
     Field ''debug'' debug_info_516,
     Field ''keys_user'' ptrauth_keys_user_516,
     Field ''keys_kernel'' ptrauth_keys_kernel_516,
     Field ''mte_ctrl'' c_long,
     Field ''sctlr_user'' c_long,
     Bits '''' 8 64]"

lemma thread_struct_516_sa [layout_eval]: "csizeof thread_struct_516 = 1088" "calign thread_struct_516 = 16"
  by (simp_all add: thread_struct_516_def layout_eval del: One_nat_def)

definition task_struct_fields1_516 :: "cfield list" where
  "task_struct_fields1_516 =
    [Field ''thread_info'' thread_info_516,
     Field ''__state'' c_int,
     Field ''stack'' c_ptr,
     Field ''usage'' refcount_struct_516,
     Field ''flags'' c_int,
     Field ''ptrace'' c_int,
     Field ''on_cpu'' c_int,
     Field ''wake_entry'' call_single_node_516,
     Field ''wakee_flips'' c_int,
     Field ''wakee_flip_decay_ts'' c_long,
     Field ''last_wakee'' c_ptr,
     Field ''recent_used_cpu'' c_int,
     Field ''wake_cpu'' c_int,
     Field ''on_rq'' c_int,
     Field ''prio'' c_int,
     Field ''static_prio'' c_int,
     Field ''normal_prio'' c_int,
     Field ''rt_priority'' c_int,
     Bits '''' 8 32,
     Bits '''' 8 64,
     Bits '''' 8 64,
     Bits '''' 8 64,
     Bits '''' 8 64,
     Bits '''' 8 64,
     Bits '''' 8 64,
     Bits '''' 8 64,
     Field ''se'' sched_entity_516,
     Field ''rt'' sched_rt_entity_516,
     Field ''dl'' sched_dl_entity_516,
     Field ''sched_class'' c_ptr,
     Field ''core_node'' rb_node_516,
     Field ''core_cookie'' c_long,
     Field ''core_occupation'' c_int,
     Field ''sched_task_group'' c_ptr,
     Field ''uclamp_req'' (CArray uclamp_se_516 2),
     Field ''uclamp'' (CArray uclamp_se_516 2),
     Bits '''' 8 64,
     Bits '''' 8 64,
     Bits '''' 8 64,
     Bits '''' 8 64,
     Bits '''' 8 64,
     Field ''stats'' sched_statistics_516,
     Field ''preempt_notifiers'' hlist_head_516,
     Field ''btrace_seq'' c_int,
     Field ''policy'' c_int,
     Field ''nr_cpus_allowed'' c_int,
     Field ''cpus_ptr'' c_ptr,
     Field ''user_cpus_ptr'' c_ptr,
     Field ''cpus_mask'' cpumask_516,
     Field ''migration_pending'' c_ptr,
     Field ''migration_disabled'' c_short,
     Field ''migration_flags'' c_short,
     Field ''trc_reader_nesting'' c_int,
     Field ''trc_ipi_to_cpu'' c_int,
     Field ''trc_reader_special'' rcu_special_516,
     Field ''trc_reader_checked'' c_char,
     Field ''trc_holdout_list'' list_head_516,
     Field ''sched_info'' sched_info_516,
     Field ''tasks'' list_head_516,
     Field ''pushable_tasks'' plist_node_516,
     Field ''pushable_dl_tasks'' rb_node_516,
     Field ''mm'' c_ptr,
     Field ''active_mm'' c_ptr,
     Field ''vmacache'' vmacache_516,
     Field ''rss_stat'' task_rss_stat_516,
     Field ''exit_state'' c_int,
     Field ''exit_code'' c_int,
     Field ''exit_signal'' c_int,
     Field ''pdeath_signal'' c_int,
     Field ''jobctl'' c_long,
     Field ''personality'' c_int,
     Bits ''sched_reset_on_fork'' 4 1,
     Bits ''sched_contributes_to_load'' 4 1,
     Bits ''sched_migrated'' 4 1,
     Bits ''sched_psi_wake_requeue'' 4 1,
     Bits '''' 4 28,
     Bits ''sched_remote_wakeup'' 4 1,
     Bits ''in_execve'' 4 1,
     Bits ''in_iowait'' 4 1,
     Bits ''in_user_fault'' 4 1,
     Bits ''no_cgroup_migration'' 4 1,
     Bits ''frozen'' 4 1,
     Bits ''use_memdelay'' 4 1,
     Bits ''in_memstall'' 4 1,
     Bits ''in_eventfd_signal'' 4 1,
     Field ''atomic_flags'' c_long,
     Field ''restart_block'' restart_block_516,
     Field ''pid'' c_int,
     Field ''tgid'' c_int,
     Field ''stack_canary'' c_long,
     Field ''real_parent'' c_ptr,
     Field ''parent'' c_ptr,
     Field ''children'' list_head_516,
     Field ''sibling'' list_head_516,
     Field ''group_leader'' c_ptr,
     Field ''ptraced'' list_head_516,
     Field ''ptrace_entry'' list_head_516,
     Field ''thread_pid'' c_ptr,
     Field ''pid_links'' (CArray hlist_node_516 4),
     Field ''thread_group'' list_head_516,
     Field ''thread_node'' list_head_516,
     Field ''vfork_done'' c_ptr,
     Field ''set_child_tid'' c_ptr,
     Field ''clear_child_tid'' c_ptr,
     Field ''pf_io_worker'' c_ptr,
     Field ''utime'' c_long,
     Field ''stime'' c_long,
     Field ''gtime'' c_long,
     Field ''prev_cputime'' prev_cputime_516,
     Field ''nvcsw'' c_long,
     Field ''nivcsw'' c_long,
     Field ''start_time'' c_long,
     Field ''start_boottime'' c_long,
     Field ''min_flt'' c_long,
     Field ''maj_flt'' c_long,
     Field ''posix_cputimers'' posix_cputimers_516,
     Field ''posix_cputimers_work'' posix_cputimers_work_516,
     Field ''ptracer_cred'' c_ptr,
     Field ''real_cred'' c_ptr,
     Field ''cred'' c_ptr,
     Field ''cached_requested_key'' c_ptr,
     Field ''comm'' (CArray c_char 16),
     Field ''nameidata'' c_ptr]"

definition task_struct_fields2_516 :: "cfield list" where
  "task_struct_fields2_516 =
    [Field ''sysvsem'' sysv_sem_516,
     Field ''sysvshm'' sysv_shm_516,
     Field ''last_switch_count'' c_long,
     Field ''last_switch_time'' c_long,
     Field ''fs'' c_ptr,
     Field ''files'' c_ptr,
     Field ''io_uring'' c_ptr,
     Field ''nsproxy'' c_ptr,
     Field ''signal'' c_ptr,
     Field ''sighand'' c_ptr,
     Field ''blocked'' sigset_t_516,
     Field ''real_blocked'' sigset_t_516,
     Field ''saved_sigmask'' sigset_t_516,
     Field ''pending'' sigpending_516,
     Field ''sas_ss_sp'' c_long,
     Field ''sas_ss_size'' c_long,
     Field ''sas_ss_flags'' c_int,
     Field ''task_works'' c_ptr,
     Field ''audit_context'' c_ptr,
     Field ''loginuid'' kuid_t_516,
     Field ''sessionid'' c_int,
     Field ''seccomp'' seccomp_516,
     Field ''syscall_dispatch'' syscall_user_dispatch_516,
     Field ''parent_exec_id'' c_long,
     Field ''self_exec_id'' c_long,
     Field ''alloc_lock'' spinlock_516,
     Field ''pi_lock'' raw_spinlock_516,
     Field ''wake_q'' wake_q_node_516,
     Field ''pi_waiters'' rb_root_cached_516,
     Field ''pi_top_task'' c_ptr,
     Field ''pi_blocked_on'' c_ptr,
     Field ''journal_info'' c_ptr,
     Field ''bio_list'' c_ptr,
     Field ''plug'' c_ptr,
     Field ''reclaim_state'' c_ptr,
     Field ''backing_dev_info'' c_ptr,
     Field ''io_context'' c_ptr,
     Field ''capture_control'' c_ptr,
     Field ''ptrace_message'' c_long,
     Field ''last_siginfo'' c_ptr,
     Field ''ioac'' task_io_accounting_516,
     Field ''psi_flags'' c_int,
     Field ''acct_rss_mem1'' c_long,
     Field ''acct_vm_mem1'' c_long,
     Field ''acct_timexpd'' c_long,
     Field ''mems_allowed'' nodemask_t_516,
     Field ''mems_allowed_seq'' seqcount_spinlock_516,
     Field ''cpuset_mem_spread_rotor'' c_int,
     Field ''cpuset_slab_spread_rotor'' c_int,
     Field ''cgroups'' c_ptr,
     Field ''cg_list'' list_head_516,
     Field ''robust_list'' c_ptr,
     Field ''compat_robust_list'' c_ptr,
     Field ''pi_state_list'' list_head_516,
     Field ''pi_state_cache'' c_ptr,
     Field ''futex_exit_mutex'' mutex_516,
     Field ''futex_state'' c_int,
     Field ''perf_event_ctxp'' (CArray c_ptr 2),
     Field ''perf_event_mutex'' mutex_516,
     Field ''perf_event_list'' list_head_516,
     Field ''mempolicy'' c_ptr,
     Field ''il_prev'' c_short,
     Field ''pref_node_fork'' c_short,
     Field ''numa_scan_seq'' c_int,
     Field ''numa_scan_period'' c_int,
     Field ''numa_scan_period_max'' c_int,
     Field ''numa_preferred_nid'' c_int,
     Field ''numa_migrate_retry'' c_long,
     Field ''node_stamp'' c_long,
     Field ''last_task_numa_placement'' c_long,
     Field ''last_sum_exec_runtime'' c_long,
     Field ''numa_work'' callback_head_516,
     Field ''numa_group'' c_ptr,
     Field ''numa_faults'' c_ptr,
     Field ''total_numa_faults'' c_long,
     Field ''numa_faults_locality'' (CArray c_long 3),
     Field ''numa_pages_migrated'' c_long,
     Field ''rseq'' c_ptr,
     Field ''rseq_sig'' c_int,
     Field ''rseq_event_mask'' c_long,
     Field ''tlb_ubc'' tlbflush_unmap_batch_516,
     Field '''' (CUnion [Field ''rcu_users'' refcount_struct_516,
       Field ''rcu'' callback_head_516]),
     Field ''splice_pipe'' c_ptr,
     Field ''task_frag'' page_frag_516,
     Field ''delays'' c_ptr,
     Field ''nr_dirtied'' c_int,
     Field ''nr_dirtied_pause'' c_int,
     Field ''dirty_paused_when'' c_long,
     Field ''timer_slack_ns'' c_long,
     Field ''default_timer_slack_ns'' c_long,
     Field ''curr_ret_stack'' c_int,
     Field ''curr_ret_depth'' c_int,
     Field ''ret_stack'' c_ptr,
     Field ''ftrace_timestamp'' c_long,
     Field ''trace_overrun'' atomic_t_516,
     Field ''tracing_graph_pause'' atomic_t_516,
     Field ''trace'' c_long,
     Field ''trace_recursion'' c_long,
     Field ''memcg_in_oom'' c_ptr,
     Field ''memcg_oom_gfp_mask'' c_int,
     Field ''memcg_oom_order'' c_int,
     Field ''memcg_nr_pages_over_high'' c_int,
     Field ''active_memcg'' c_ptr,
     Field ''throttle_queue'' c_ptr,
     Field ''utask'' c_ptr,
     Field ''sequential_io'' c_int,
     Field ''sequential_io_avg'' c_int,
     Field ''kmap_ctrl'' kmap_ctrl_516,
     Field ''pagefault_disabled'' c_int,
     Field ''oom_reaper_list'' c_ptr,
     Field ''stack_vm_area'' c_ptr,
     Field ''stack_refcount'' refcount_struct_516,
     Field ''security'' c_ptr,
     Field ''bpf_storage'' c_ptr,
     Field ''bpf_ctx'' c_ptr,
     Field ''kretprobe_instances'' llist_head_516,
     Field ''thread'' thread_struct_516,
     Bits '''' 8 64,
     Bits '''' 8 64,
     Bits '''' 8 64,
     Bits '''' 8 64,
     Bits '''' 8 64,
     Bits '''' 8 64]"

definition task_struct_516 :: ctype where
  "task_struct_516 = CStruct (task_struct_fields1_516 @ task_struct_fields2_516)"

lemmas task_struct_516_unfold = task_struct_516_def task_struct_fields1_516_def task_struct_fields2_516_def append.simps

lemma task_struct_516_sa [layout_eval]: "csizeof task_struct_516 = 4160" "calign task_struct_516 = 16"
  by (simp_all add: task_struct_516_unfold layout_eval del: One_nat_def)

section \<open>Enumerations\<close>

definition bpf_func_id_516 :: "(string \<times> int) list" where
  "bpf_func_id_516 =
    [(''BPF_FUNC_unspec'', 0),
     (''BPF_FUNC_map_lookup_elem'', 1),
     (''BPF_FUNC_map_update_elem'', 2),
     (''BPF_FUNC_map_delete_elem'', 3),
     (''BPF_FUNC_probe_read'', 4),
     (''BPF_FUNC_ktime_get_ns'', 5),
     (''BPF_FUNC_trace_printk'', 6),
     (''BPF_FUNC_get_prandom_u32'', 7),
     (''BPF_FUNC_get_smp_processor_id'', 8),
     (''BPF_FUNC_skb_store_bytes'', 9),
     (''BPF_FUNC_l3_csum_replace'', 10),
     (''BPF_FUNC_l4_csum_replace'', 11),
     (''BPF_FUNC_tail_call'', 12),
     (''BPF_FUNC_clone_redirect'', 13),
     (''BPF_FUNC_get_current_pid_tgid'', 14),
     (''BPF_FUNC_get_current_uid_gid'', 15),
     (''BPF_FUNC_get_current_comm'', 16),
     (''BPF_FUNC_get_cgroup_classid'', 17),
     (''BPF_FUNC_skb_vlan_push'', 18),
     (''BPF_FUNC_skb_vlan_pop'', 19),
     (''BPF_FUNC_skb_get_tunnel_key'', 20),
     (''BPF_FUNC_skb_set_tunnel_key'', 21),
     (''BPF_FUNC_perf_event_read'', 22),
     (''BPF_FUNC_redirect'', 23),
     (''BPF_FUNC_get_route_realm'', 24),
     (''BPF_FUNC_perf_event_output'', 25),
     (''BPF_FUNC_skb_load_bytes'', 26),
     (''BPF_FUNC_get_stackid'', 27),
     (''BPF_FUNC_csum_diff'', 28),
     (''BPF_FUNC_skb_get_tunnel_opt'', 29),
     (''BPF_FUNC_skb_set_tunnel_opt'', 30),
     (''BPF_FUNC_skb_change_proto'', 31),
     (''BPF_FUNC_skb_change_type'', 32),
     (''BPF_FUNC_skb_under_cgroup'', 33),
     (''BPF_FUNC_get_hash_recalc'', 34),
     (''BPF_FUNC_get_current_task'', 35),
     (''BPF_FUNC_probe_write_user'', 36),
     (''BPF_FUNC_current_task_under_cgroup'', 37),
     (''BPF_FUNC_skb_change_tail'', 38),
     (''BPF_FUNC_skb_pull_data'', 39),
     (''BPF_FUNC_csum_update'', 40),
     (''BPF_FUNC_set_hash_invalid'', 41),
     (''BPF_FUNC_get_numa_node_id'', 42),
     (''BPF_FUNC_skb_change_head'', 43),
     (''BPF_FUNC_xdp_adjust_head'', 44),
     (''BPF_FUNC_probe_read_str'', 45),
     (''BPF_FUNC_get_socket_cookie'', 46),
     (''BPF_FUNC_get_socket_uid'', 47),
     (''BPF_FUNC_set_hash'', 48),
     (''BPF_FUNC_setsockopt'', 49),
     (''BPF_FUNC_skb_adjust_room'', 50),
     (''BPF_FUNC_redirect_map'', 51),
     (''BPF_FUNC_sk_redirect_map'', 52),
     (''BPF_FUNC_sock_map_update'', 53),
     (''BPF_FUNC_xdp_adjust_meta'', 54),
     (''BPF_FUNC_perf_event_read_value'', 55),
     (''BPF_FUNC_perf_prog_read_value'', 56),
     (''BPF_FUNC_getsockopt'', 57),
     (''BPF_FUNC_override_return'', 58),
     (''BPF_FUNC_sock_ops_cb_flags_set'', 59),
     (''BPF_FUNC_msg_redirect_map'', 60),
     (''BPF_FUNC_msg_apply_bytes'', 61),
     (''BPF_FUNC_msg_cork_bytes'', 62),
     (''BPF_FUNC_msg_pull_data'', 63),
     (''BPF_FUNC_bind'', 64),
     (''BPF_FUNC_xdp_adjust_tail'', 65),
     (''BPF_FUNC_skb_get_xfrm_state'', 66),
     (''BPF_FUNC_get_stack'', 67),
     (''BPF_FUNC_skb_load_bytes_relative'', 68),
     (''BPF_FUNC_fib_lookup'', 69),
     (''BPF_FUNC_sock_hash_update'', 70),
     (''BPF_FUNC_msg_redirect_hash'', 71),
     (''BPF_FUNC_sk_redirect_hash'', 72),
     (''BPF_FUNC_lwt_push_encap'', 73),
     (''BPF_FUNC_lwt_seg6_store_bytes'', 74),
     (''BPF_FUNC_lwt_seg6_adjust_srh'', 75),
     (''BPF_FUNC_lwt_seg6_action'', 76),
     (''BPF_FUNC_rc_repeat'', 77),
     (''BPF_FUNC_rc_keydown'', 78),
     (''BPF_FUNC_skb_cgroup_id'', 79),
     (''BPF_FUNC_get_current_cgroup_id'', 80),
     (''BPF_FUNC_get_local_storage'', 81),
     (''BPF_FUNC_sk_select_reuseport'', 82),
     (''BPF_FUNC_skb_ancestor_cgroup_id'', 83),
     (''BPF_FUNC_sk_lookup_tcp'', 84),
     (''BPF_FUNC_sk_lookup_udp'', 85),
     (''BPF_FUNC_sk_release'', 86),
     (''BPF_FUNC_map_push_elem'', 87),
     (''BPF_FUNC_map_pop_elem'', 88),
     (''BPF_FUNC_map_peek_elem'', 89),
     (''BPF_FUNC_msg_push_data'', 90),
     (''BPF_FUNC_msg_pop_data'', 91),
     (''BPF_FUNC_rc_pointer_rel'', 92),
     (''BPF_FUNC_spin_lock'', 93),
     (''BPF_FUNC_spin_unlock'', 94),
     (''BPF_FUNC_sk_fullsock'', 95),
     (''BPF_FUNC_tcp_sock'', 96),
     (''BPF_FUNC_skb_ecn_set_ce'', 97),
     (''BPF_FUNC_get_listener_sock'', 98),
     (''BPF_FUNC_skc_lookup_tcp'', 99),
     (''BPF_FUNC_tcp_check_syncookie'', 100),
     (''BPF_FUNC_sysctl_get_name'', 101),
     (''BPF_FUNC_sysctl_get_current_value'', 102),
     (''BPF_FUNC_sysctl_get_new_value'', 103),
     (''BPF_FUNC_sysctl_set_new_value'', 104),
     (''BPF_FUNC_strtol'', 105),
     (''BPF_FUNC_strtoul'', 106),
     (''BPF_FUNC_sk_storage_get'', 107),
     (''BPF_FUNC_sk_storage_delete'', 108),
     (''BPF_FUNC_send_signal'', 109),
     (''BPF_FUNC_tcp_gen_syncookie'', 110),
     (''BPF_FUNC_skb_output'', 111),
     (''BPF_FUNC_probe_read_user'', 112),
     (''BPF_FUNC_probe_read_kernel'', 113),
     (''BPF_FUNC_probe_read_user_str'', 114),
     (''BPF_FUNC_probe_read_kernel_str'', 115),
     (''BPF_FUNC_tcp_send_ack'', 116),
     (''BPF_FUNC_send_signal_thread'', 117),
     (''BPF_FUNC_jiffies64'', 118),
     (''BPF_FUNC_read_branch_records'', 119),
     (''BPF_FUNC_get_ns_current_pid_tgid'', 120),
     (''BPF_FUNC_xdp_output'', 121),
     (''BPF_FUNC_get_netns_cookie'', 122),
     (''BPF_FUNC_get_current_ancestor_cgroup_id'', 123),
     (''BPF_FUNC_sk_assign'', 124),
     (''BPF_FUNC_ktime_get_boot_ns'', 125),
     (''BPF_FUNC_seq_printf'', 126),
     (''BPF_FUNC_seq_write'', 127),
     (''BPF_FUNC_sk_cgroup_id'', 128),
     (''BPF_FUNC_sk_ancestor_cgroup_id'', 129),
     (''BPF_FUNC_ringbuf_output'', 130),
     (''BPF_FUNC_ringbuf_reserve'', 131),
     (''BPF_FUNC_ringbuf_submit'', 132),
     (''BPF_FUNC_ringbuf_discard'', 133),
     (''BPF_FUNC_ringbuf_query'', 134),
     (''BPF_FUNC_csum_level'', 135),
     (''BPF_FUNC_skc_to_tcp6_sock'', 136),
     (''BPF_FUNC_skc_to_tcp_sock'', 137),
     (''BPF_FUNC_skc_to_tcp_timewait_sock'', 138),
     (''BPF_FUNC_skc_to_tcp_request_sock'', 139),
     (''BPF_FUNC_skc_to_udp6_sock'', 140),
     (''BPF_FUNC_get_task_stack'', 141),
     (''BPF_FUNC_load_hdr_opt'', 142),
     (''BPF_FUNC_store_hdr_opt'', 143),
     (''BPF_FUNC_reserve_hdr_opt'', 144),
     (''BPF_FUNC_inode_storage_get'', 145),
     (''BPF_FUNC_inode_storage_delete'', 146),
     (''BPF_FUNC_d_path'', 147),
     (''BPF_FUNC_copy_from_user'', 148),
     (''BPF_FUNC_snprintf_btf'', 149),
     (''BPF_FUNC_seq_printf_btf'', 150),
     (''BPF_FUNC_skb_cgroup_classid'', 151),
     (''BPF_FUNC_redirect_neigh'', 152),
     (''BPF_FUNC_per_cpu_ptr'', 153),
     (''BPF_FUNC_this_cpu_ptr'', 154),
     (''BPF_FUNC_redirect_peer'', 155),
     (''BPF_FUNC_task_storage_get'', 156),
     (''BPF_FUNC_task_storage_delete'', 157),
     (''BPF_FUNC_get_current_task_btf'', 158),
     (''BPF_FUNC_bprm_opts_set'', 159),
     (''BPF_FUNC_ktime_get_coarse_ns'', 160),
     (''BPF_FUNC_ima_inode_hash'', 161),
     (''BPF_FUNC_sock_from_file'', 162),
     (''BPF_FUNC_check_mtu'', 163),
     (''BPF_FUNC_for_each_map_elem'', 164),
     (''BPF_FUNC_snprintf'', 165),
     (''BPF_FUNC_sys_bpf'', 166),
     (''BPF_FUNC_btf_find_by_name_kind'', 167),
     (''BPF_FUNC_sys_close'', 168),
     (''BPF_FUNC_timer_init'', 169),
     (''BPF_FUNC_timer_set_callback'', 170),
     (''BPF_FUNC_timer_start'', 171),
     (''BPF_FUNC_timer_cancel'', 172),
     (''BPF_FUNC_get_func_ip'', 173),
     (''BPF_FUNC_get_attach_cookie'', 174),
     (''BPF_FUNC_task_pt_regs'', 175),
     (''BPF_FUNC_get_branch_snapshot'', 176),
     (''BPF_FUNC_trace_vprintk'', 177),
     (''BPF_FUNC_skc_to_unix_sock'', 178),
     (''BPF_FUNC_kallsyms_lookup_name'', 179),
     (''__BPF_FUNC_MAX_ID'', 180)]"

definition bpf_map_type_516 :: "(string \<times> int) list" where
  "bpf_map_type_516 =
    [(''BPF_MAP_TYPE_UNSPEC'', 0),
     (''BPF_MAP_TYPE_HASH'', 1),
     (''BPF_MAP_TYPE_ARRAY'', 2),
     (''BPF_MAP_TYPE_PROG_ARRAY'', 3),
     (''BPF_MAP_TYPE_PERF_EVENT_ARRAY'', 4),
     (''BPF_MAP_TYPE_PERCPU_HASH'', 5),
     (''BPF_MAP_TYPE_PERCPU_ARRAY'', 6),
     (''BPF_MAP_TYPE_STACK_TRACE'', 7),
     (''BPF_MAP_TYPE_CGROUP_ARRAY'', 8),
     (''BPF_MAP_TYPE_LRU_HASH'', 9),
     (''BPF_MAP_TYPE_LRU_PERCPU_HASH'', 10),
     (''BPF_MAP_TYPE_LPM_TRIE'', 11),
     (''BPF_MAP_TYPE_ARRAY_OF_MAPS'', 12),
     (''BPF_MAP_TYPE_HASH_OF_MAPS'', 13),
     (''BPF_MAP_TYPE_DEVMAP'', 14),
     (''BPF_MAP_TYPE_SOCKMAP'', 15),
     (''BPF_MAP_TYPE_CPUMAP'', 16),
     (''BPF_MAP_TYPE_XSKMAP'', 17),
     (''BPF_MAP_TYPE_SOCKHASH'', 18),
     (''BPF_MAP_TYPE_CGROUP_STORAGE'', 19),
     (''BPF_MAP_TYPE_REUSEPORT_SOCKARRAY'', 20),
     (''BPF_MAP_TYPE_PERCPU_CGROUP_STORAGE'', 21),
     (''BPF_MAP_TYPE_QUEUE'', 22),
     (''BPF_MAP_TYPE_STACK'', 23),
     (''BPF_MAP_TYPE_SK_STORAGE'', 24),
     (''BPF_MAP_TYPE_DEVMAP_HASH'', 25),
     (''BPF_MAP_TYPE_STRUCT_OPS'', 26),
     (''BPF_MAP_TYPE_RINGBUF'', 27),
     (''BPF_MAP_TYPE_INODE_STORAGE'', 28),
     (''BPF_MAP_TYPE_TASK_STORAGE'', 29),
     (''BPF_MAP_TYPE_BLOOM_FILTER'', 30)]"

definition bpf_prog_type_516 :: "(string \<times> int) list" where
  "bpf_prog_type_516 =
    [(''BPF_PROG_TYPE_UNSPEC'', 0),
     (''BPF_PROG_TYPE_SOCKET_FILTER'', 1),
     (''BPF_PROG_TYPE_KPROBE'', 2),
     (''BPF_PROG_TYPE_SCHED_CLS'', 3),
     (''BPF_PROG_TYPE_SCHED_ACT'', 4),
     (''BPF_PROG_TYPE_TRACEPOINT'', 5),
     (''BPF_PROG_TYPE_XDP'', 6),
     (''BPF_PROG_TYPE_PERF_EVENT'', 7),
     (''BPF_PROG_TYPE_CGROUP_SKB'', 8),
     (''BPF_PROG_TYPE_CGROUP_SOCK'', 9),
     (''BPF_PROG_TYPE_LWT_IN'', 10),
     (''BPF_PROG_TYPE_LWT_OUT'', 11),
     (''BPF_PROG_TYPE_LWT_XMIT'', 12),
     (''BPF_PROG_TYPE_SOCK_OPS'', 13),
     (''BPF_PROG_TYPE_SK_SKB'', 14),
     (''BPF_PROG_TYPE_CGROUP_DEVICE'', 15),
     (''BPF_PROG_TYPE_SK_MSG'', 16),
     (''BPF_PROG_TYPE_RAW_TRACEPOINT'', 17),
     (''BPF_PROG_TYPE_CGROUP_SOCK_ADDR'', 18),
     (''BPF_PROG_TYPE_LWT_SEG6LOCAL'', 19),
     (''BPF_PROG_TYPE_LIRC_MODE2'', 20),
     (''BPF_PROG_TYPE_SK_REUSEPORT'', 21),
     (''BPF_PROG_TYPE_FLOW_DISSECTOR'', 22),
     (''BPF_PROG_TYPE_CGROUP_SYSCTL'', 23),
     (''BPF_PROG_TYPE_RAW_TRACEPOINT_WRITABLE'', 24),
     (''BPF_PROG_TYPE_CGROUP_SOCKOPT'', 25),
     (''BPF_PROG_TYPE_TRACING'', 26),
     (''BPF_PROG_TYPE_STRUCT_OPS'', 27),
     (''BPF_PROG_TYPE_EXT'', 28),
     (''BPF_PROG_TYPE_LSM'', 29),
     (''BPF_PROG_TYPE_SK_LOOKUP'', 30),
     (''BPF_PROG_TYPE_SYSCALL'', 31)]"

definition bpf_attach_type_516 :: "(string \<times> int) list" where
  "bpf_attach_type_516 =
    [(''BPF_CGROUP_INET_INGRESS'', 0),
     (''BPF_CGROUP_INET_EGRESS'', 1),
     (''BPF_CGROUP_INET_SOCK_CREATE'', 2),
     (''BPF_CGROUP_SOCK_OPS'', 3),
     (''BPF_SK_SKB_STREAM_PARSER'', 4),
     (''BPF_SK_SKB_STREAM_VERDICT'', 5),
     (''BPF_CGROUP_DEVICE'', 6),
     (''BPF_SK_MSG_VERDICT'', 7),
     (''BPF_CGROUP_INET4_BIND'', 8),
     (''BPF_CGROUP_INET6_BIND'', 9),
     (''BPF_CGROUP_INET4_CONNECT'', 10),
     (''BPF_CGROUP_INET6_CONNECT'', 11),
     (''BPF_CGROUP_INET4_POST_BIND'', 12),
     (''BPF_CGROUP_INET6_POST_BIND'', 13),
     (''BPF_CGROUP_UDP4_SENDMSG'', 14),
     (''BPF_CGROUP_UDP6_SENDMSG'', 15),
     (''BPF_LIRC_MODE2'', 16),
     (''BPF_FLOW_DISSECTOR'', 17),
     (''BPF_CGROUP_SYSCTL'', 18),
     (''BPF_CGROUP_UDP4_RECVMSG'', 19),
     (''BPF_CGROUP_UDP6_RECVMSG'', 20),
     (''BPF_CGROUP_GETSOCKOPT'', 21),
     (''BPF_CGROUP_SETSOCKOPT'', 22),
     (''BPF_TRACE_RAW_TP'', 23),
     (''BPF_TRACE_FENTRY'', 24),
     (''BPF_TRACE_FEXIT'', 25),
     (''BPF_MODIFY_RETURN'', 26),
     (''BPF_LSM_MAC'', 27),
     (''BPF_TRACE_ITER'', 28),
     (''BPF_CGROUP_INET4_GETPEERNAME'', 29),
     (''BPF_CGROUP_INET6_GETPEERNAME'', 30),
     (''BPF_CGROUP_INET4_GETSOCKNAME'', 31),
     (''BPF_CGROUP_INET6_GETSOCKNAME'', 32),
     (''BPF_XDP_DEVMAP'', 33),
     (''BPF_CGROUP_INET_SOCK_RELEASE'', 34),
     (''BPF_XDP_CPUMAP'', 35),
     (''BPF_SK_LOOKUP'', 36),
     (''BPF_XDP'', 37),
     (''BPF_SK_SKB_VERDICT'', 38),
     (''BPF_SK_REUSEPORT_SELECT'', 39),
     (''BPF_SK_REUSEPORT_SELECT_OR_MIGRATE'', 40),
     (''BPF_PERF_EVENT'', 41),
     (''__MAX_BPF_ATTACH_TYPE'', 42)]"

definition xdp_action_516 :: "(string \<times> int) list" where
  "xdp_action_516 =
    [(''XDP_ABORTED'', 0),
     (''XDP_DROP'', 1),
     (''XDP_PASS'', 2),
     (''XDP_TX'', 3),
     (''XDP_REDIRECT'', 4)]"

definition perf_type_id_516 :: "(string \<times> int) list" where
  "perf_type_id_516 =
    [(''PERF_TYPE_HARDWARE'', 0),
     (''PERF_TYPE_SOFTWARE'', 1),
     (''PERF_TYPE_TRACEPOINT'', 2),
     (''PERF_TYPE_HW_CACHE'', 3),
     (''PERF_TYPE_RAW'', 4),
     (''PERF_TYPE_BREAKPOINT'', 5),
     (''PERF_TYPE_MAX'', 6)]"

definition perf_hw_id_516 :: "(string \<times> int) list" where
  "perf_hw_id_516 =
    [(''PERF_COUNT_HW_CPU_CYCLES'', 0),
     (''PERF_COUNT_HW_INSTRUCTIONS'', 1),
     (''PERF_COUNT_HW_CACHE_REFERENCES'', 2),
     (''PERF_COUNT_HW_CACHE_MISSES'', 3),
     (''PERF_COUNT_HW_BRANCH_INSTRUCTIONS'', 4),
     (''PERF_COUNT_HW_BRANCH_MISSES'', 5),
     (''PERF_COUNT_HW_BUS_CYCLES'', 6),
     (''PERF_COUNT_HW_STALLED_CYCLES_FRONTEND'', 7),
     (''PERF_COUNT_HW_STALLED_CYCLES_BACKEND'', 8),
     (''PERF_COUNT_HW_REF_CPU_CYCLES'', 9),
     (''PERF_COUNT_HW_MAX'', 10)]"

end
