(* ===== verification/Vmlinux_pod.thy ===== *)
theory Vmlinux_pod
  imports Layout
begin

text \<open>
  Declarations of \<^verbatim>\<open>ebpf-pod-resize-libbpf-co-re/src/bpf/vmlinux.h\<close>, the header the pod snooper is built with:
  the packet headers, program contexts and kernel structures the programs read, with every
  structure they embed, and the enumerations of the BPF interface. Each declaration is transcribed
  member by member; the lemma after it gives its size and alignment.
\<close>

section \<open>Structures\<close>

definition ethhdr_pod :: ctype where
  "ethhdr_pod = CStruct
    [Field ''h_dest'' (CArray c_char 6),
     Field ''h_source'' (CArray c_char 6),
     Field ''h_proto'' c_short]"

lemma ethhdr_pod_sa [layout_eval]: "csizeof ethhdr_pod = 14" "calign ethhdr_pod = 2"
  by (simp_all add: ethhdr_pod_def layout_eval del: One_nat_def)

definition iphdr_pod :: ctype where
  "iphdr_pod = CStruct
    [Bits ''ihl'' 1 4,
     Bits ''version'' 1 4,
     Field ''tos'' c_char,
     Field ''tot_len'' c_short,
     Field ''id'' c_short,
     Field ''frag_off'' c_short,
     Field ''ttl'' c_char,
     Field ''protocol'' c_char,
     Field ''check'' c_short,
     Field ''saddr'' c_int,
     Field ''daddr'' c_int]"

lemma iphdr_pod_sa [layout_eval]: "csizeof iphdr_pod = 20" "calign iphdr_pod = 4"
  by (simp_all add: iphdr_pod_def layout_eval del: One_nat_def)

definition in6_addr_pod :: ctype where
  "in6_addr_pod = CStruct
    [Field ''in6_u'' (CUnion [Field ''u6_addr8'' (CArray c_char 16),
       Field ''u6_addr16'' (CArray c_short 8),
       Field ''u6_addr32'' (CArray c_int 4)])]"

lemma in6_addr_pod_sa [layout_eval]: "csizeof in6_addr_pod = 16" "calign in6_addr_pod = 4"
  by (simp_all add: in6_addr_pod_def layout_eval del: One_nat_def)

definition ipv6hdr_pod :: ctype where
  "ipv6hdr_pod = CStruct
    [Bits ''priority'' 1 4,
     Bits ''version'' 1 4,
     Field ''flow_lbl'' (CArray c_char 3),
     Field ''payload_len'' c_short,
     Field ''nexthdr'' c_char,
     Field ''hop_limit'' c_char,
     Field ''saddr'' in6_addr_pod,
     Field ''daddr'' in6_addr_pod]"

lemma ipv6hdr_pod_sa [layout_eval]: "csizeof ipv6hdr_pod = 40" "calign ipv6hdr_pod = 4"
  by (simp_all add: ipv6hdr_pod_def layout_eval del: One_nat_def)

definition tcphdr_pod :: ctype where
  "tcphdr_pod = CStruct
    [Field ''source'' c_short,
     Field ''dest'' c_short,
     Field ''seq'' c_int,
     Field ''ack_seq'' c_int,
     Bits ''res1'' 2 4,
     Bits ''doff'' 2 4,
     Bits ''fin'' 2 1,
     Bits ''syn'' 2 1,
     Bits ''rst'' 2 1,
     Bits ''psh'' 2 1,
     Bits ''ack'' 2 1,
     Bits ''urg'' 2 1,
     Bits ''ece'' 2 1,
     Bits ''cwr'' 2 1,
     Field ''window'' c_short,
     Field ''check'' c_short,
     Field ''urg_ptr'' c_short]"

lemma tcphdr_pod_sa [layout_eval]: "csizeof tcphdr_pod = 20" "calign tcphdr_pod = 4"
  by (simp_all add: tcphdr_pod_def layout_eval del: One_nat_def)

definition udphdr_pod :: ctype where
  "udphdr_pod = CStruct
    [Field ''source'' c_short,
     Field ''dest'' c_short,
     Field ''len'' c_short,
     Field ''check'' c_short]"

lemma udphdr_pod_sa [layout_eval]: "csizeof udphdr_pod = 8" "calign udphdr_pod = 2"
  by (simp_all add: udphdr_pod_def layout_eval del: One_nat_def)

definition sk_buff_ctx_pod :: ctype where
  "sk_buff_ctx_pod = CStruct
    [Field ''len'' c_int,
     Field ''pkt_type'' c_int,
     Field ''mark'' c_int,
     Field ''queue_mapping'' c_int,
     Field ''protocol'' c_int,
     Field ''vlan_present'' c_int,
     Field ''vlan_tci'' c_int,
     Field ''vlan_proto'' c_int,
     Field ''priority'' c_int,
     Field ''ingress_ifindex'' c_int,
     Field ''ifindex'' c_int,
     Field ''tc_index'' c_int,
     Field ''cb'' (CArray c_int 5),
     Field ''hash'' c_int,
     Field ''tc_classid'' c_int,
     Field ''data'' c_int,
     Field ''data_end'' c_int,
     Field ''napi_id'' c_int,
     Field ''family'' c_int,
     Field ''remote_ip4'' c_int,
     Field ''local_ip4'' c_int,
     Field ''remote_ip6'' (CArray c_int 4),
     Field ''local_ip6'' (CArray c_int 4),
     Field ''remote_port'' c_int,
     Field ''local_port'' c_int,
     Field ''data_meta'' c_int,
     Field '''' (CUnion [Field ''flow_keys'' c_ptr]),
     Field ''tstamp'' c_long,
     Field ''wire_len'' c_int,
     Field ''gso_segs'' c_int,
     Field '''' (CUnion [Field ''sk'' c_ptr]),
     Field ''gso_size'' c_int]"

lemma sk_buff_ctx_pod_sa [layout_eval]: "csizeof sk_buff_ctx_pod = 184" "calign sk_buff_ctx_pod = 8"
  by (simp_all add: sk_buff_ctx_pod_def layout_eval del: One_nat_def)

definition xdp_md_pod :: ctype where
  "xdp_md_pod = CStruct
    [Field ''data'' c_int,
     Field ''data_end'' c_int,
     Field ''data_meta'' c_int,
     Field ''ingress_ifindex'' c_int,
     Field ''rx_queue_index'' c_int,
     Field ''egress_ifindex'' c_int]"

lemma xdp_md_pod_sa [layout_eval]: "csizeof xdp_md_pod = 24" "calign xdp_md_pod = 4"
  by (simp_all add: xdp_md_pod_def layout_eval del: One_nat_def)

definition in_addr_pod :: ctype where
  "in_addr_pod = CStruct
    [Field ''s_addr'' c_int]"

lemma in_addr_pod_sa [layout_eval]: "csizeof in_addr_pod = 4" "calign in_addr_pod = 4"
  by (simp_all add: in_addr_pod_def layout_eval del: One_nat_def)

definition sockaddr_in_pod :: ctype where
  "sockaddr_in_pod = CStruct
    [Field ''sin_family'' c_short,
     Field ''sin_port'' c_short,
     Field ''sin_addr'' in_addr_pod,
     Field ''__pad'' (CArray c_char 8)]"

lemma sockaddr_in_pod_sa [layout_eval]: "csizeof sockaddr_in_pod = 16" "calign sockaddr_in_pod = 4"
  by (simp_all add: sockaddr_in_pod_def layout_eval del: One_nat_def)

definition filename_pod :: ctype where
  "filename_pod = CStruct
    [Field ''name'' c_ptr,
     Field ''uptr'' c_ptr,
     Field ''refcnt'' c_int,
     Field ''aname'' c_ptr,
     Field ''iname'' (CArray c_char 0)]"

lemma filename_pod_sa [layout_eval]: "csizeof filename_pod = 32" "calign filename_pod = 8"
  by (simp_all add: filename_pod_def layout_eval del: One_nat_def)

definition trace_entry_pod :: ctype where
  "trace_entry_pod = CStruct
    [Field ''type'' c_short,
     Field ''flags'' c_char,
     Field ''preempt_count'' c_char,
     Field ''pid'' c_int]"

lemma trace_entry_pod_sa [layout_eval]: "csizeof trace_entry_pod = 8" "calign trace_entry_pod = 4"
  by (simp_all add: trace_entry_pod_def layout_eval del: One_nat_def)

definition trace_event_raw_sched_process_exec_pod :: ctype where
  "trace_event_raw_sched_process_exec_pod = CStruct
    [Field ''ent'' trace_entry_pod,
     Field ''__data_loc_filename'' c_int,
     Field ''pid'' c_int,
     Field ''old_pid'' c_int,
     Field ''__data'' (CArray c_char 0)]"

lemma trace_event_raw_sched_process_exec_pod_sa [layout_eval]: "csizeof trace_event_raw_sched_process_exec_pod = 20" "calign trace_event_raw_sched_process_exec_pod = 4"
  by (simp_all add: trace_event_raw_sched_process_exec_pod_def layout_eval del: One_nat_def)

definition trace_event_raw_sched_process_template_pod :: ctype where
  "trace_event_raw_sched_process_template_pod = CStruct
    [Field ''ent'' trace_entry_pod,
     Field ''comm'' (CArray c_char 16),
     Field ''pid'' c_int,
     Field ''prio'' c_int,
     Field ''__data'' (CArray c_char 0)]"

lemma trace_event_raw_sched_process_template_pod_sa [layout_eval]: "csizeof trace_event_raw_sched_process_template_pod = 32" "calign trace_event_raw_sched_process_template_pod = 4"
  by (simp_all add: trace_event_raw_sched_process_template_pod_def layout_eval del: One_nat_def)

definition bpf_iter__task_pod :: ctype where
  "bpf_iter__task_pod = CStruct
    [Field '''' (CUnion [Field ''meta'' c_ptr]),
     Field '''' (CUnion [Field ''task'' c_ptr])]"

lemma bpf_iter__task_pod_sa [layout_eval]: "csizeof bpf_iter__task_pod = 16" "calign bpf_iter__task_pod = 8"
  by (simp_all add: bpf_iter__task_pod_def layout_eval del: One_nat_def)

definition perf_event_attr_pod :: ctype where
  "perf_event_attr_pod = CStruct
    [Field ''type'' c_int,
     Field ''size'' c_int,
     Field ''config'' c_long,
     Field '''' (CUnion [Field ''sample_period'' c_long,
       Field ''sample_freq'' c_long]),
     Field ''sample_type'' c_long,
     Field ''read_format'' c_long,
     Bits ''disabled'' 8 1,
     Bits ''inherit'' 8 1,
     Bits ''pinned'' 8 1,
     Bits ''exclusive'' 8 1,
     Bits ''exclude_user'' 8 1,
     Bits ''exclude_kernel'' 8 1,
     Bits ''exclude_hv'' 8 1,
     Bits ''exclude_idle'' 8 1,
     Bits ''mmap'' 8 1,
     Bits ''comm'' 8 1,
     Bits ''freq'' 8 1,
     Bits ''inherit_stat'' 8 1,
     Bits ''enable_on_exec'' 8 1,
     Bits ''task'' 8 1,
     Bits ''watermark'' 8 1,
     Bits ''precise_ip'' 8 2,
     Bits ''mmap_data'' 8 1,
     Bits ''sample_id_all'' 8 1,
     Bits ''exclude_host'' 8 1,
     Bits ''exclude_guest'' 8 1,
     Bits ''exclude_callchain_kernel'' 8 1,
     Bits ''exclude_callchain_user'' 8 1,
     Bits ''mmap2'' 8 1,
     Bits ''comm_exec'' 8 1,
     Bits ''use_clockid'' 8 1,
     Bits ''context_switch'' 8 1,
     Bits ''write_backward'' 8 1,
     Bits ''namespaces'' 8 1,
     Bits ''ksymbol'' 8 1,
     Bits ''bpf_event'' 8 1,
     Bits ''aux_output'' 8 1,
     Bits ''cgroup'' 8 1,
     Bits ''text_poke'' 8 1,
     Bits ''build_id'' 8 1,
     Bits ''inherit_thread'' 8 1,
     Bits ''remove_on_exec'' 8 1,
     Bits ''sigtrap'' 8 1,
     Bits ''__reserved_1'' 8 26,
     Field '''' (CUnion [Field ''wakeup_events'' c_int,
       Field ''wakeup_watermark'' c_int]),
     Field ''bp_type'' c_int,
     Field '''' (CUnion [Field ''bp_addr'' c_long,
       Field ''kprobe_func'' c_long,
       Field ''uprobe_path'' c_long,
       Field ''config1'' c_long]),
     Field '''' (CUnion [Field ''bp_len'' c_long,
       Field ''kprobe_addr'' c_long,
       Field ''probe_offset'' c_long,
       Field ''config2'' c_long]),
     Field ''branch_sample_type'' c_long,
     Field ''sample_regs_user'' c_long,
     Field ''sample_stack_user'' c_int,
     Field ''clockid'' c_int,
     Field ''sample_regs_intr'' c_long,
     Field ''aux_watermark'' c_int,
     Field ''sample_max_stack'' c_short,
     Field ''__reserved_2'' c_short,
     Field ''aux_sample_size'' c_int,
     Field ''__reserved_3'' c_int,
     Field ''sig_data'' c_long]"

lemma perf_event_attr_pod_sa [layout_eval]: "csizeof perf_event_attr_pod = 128" "calign perf_event_attr_pod = 8"
  by (simp_all add: perf_event_attr_pod_def layout_eval del: One_nat_def)

definition hlist_node_pod :: ctype where
  "hlist_node_pod = CStruct
    [Field ''next'' c_ptr,
     Field ''pprev'' c_ptr]"

lemma hlist_node_pod_sa [layout_eval]: "csizeof hlist_node_pod = 16" "calign hlist_node_pod = 8"
  by (simp_all add: hlist_node_pod_def layout_eval del: One_nat_def)

definition possible_net_t_pod :: ctype where
  "possible_net_t_pod = CStruct
    [Field ''net'' c_ptr]"

lemma possible_net_t_pod_sa [layout_eval]: "csizeof possible_net_t_pod = 8" "calign possible_net_t_pod = 8"
  by (simp_all add: possible_net_t_pod_def layout_eval del: One_nat_def)

definition atomic64_t_pod :: ctype where
  "atomic64_t_pod = CStruct
    [Field ''counter'' c_long]"

lemma atomic64_t_pod_sa [layout_eval]: "csizeof atomic64_t_pod = 8" "calign atomic64_t_pod = 8"
  by (simp_all add: atomic64_t_pod_def layout_eval del: One_nat_def)

definition hlist_nulls_node_pod :: ctype where
  "hlist_nulls_node_pod = CStruct
    [Field ''next'' c_ptr,
     Field ''pprev'' c_ptr]"

lemma hlist_nulls_node_pod_sa [layout_eval]: "csizeof hlist_nulls_node_pod = 16" "calign hlist_nulls_node_pod = 8"
  by (simp_all add: hlist_nulls_node_pod_def layout_eval del: One_nat_def)

definition atomic_t_pod :: ctype where
  "atomic_t_pod = CStruct
    [Field ''counter'' c_int]"

lemma atomic_t_pod_sa [layout_eval]: "csizeof atomic_t_pod = 4" "calign atomic_t_pod = 4"
  by (simp_all add: atomic_t_pod_def layout_eval del: One_nat_def)

definition refcount_struct_pod :: ctype where
  "refcount_struct_pod = CStruct
    [Field ''refs'' atomic_t_pod]"

lemma refcount_struct_pod_sa [layout_eval]: "csizeof refcount_struct_pod = 4" "calign refcount_struct_pod = 4"
  by (simp_all add: refcount_struct_pod_def layout_eval del: One_nat_def)

definition sock_common_pod :: ctype where
  "sock_common_pod = CStruct
    [Field '''' (CUnion [Field ''skc_addrpair'' c_long,
       Field '''' (CStruct [Field ''skc_daddr'' c_int,
         Field ''skc_rcv_saddr'' c_int])]),
     Field '''' (CUnion [Field ''skc_hash'' c_int,
       Field ''skc_u16hashes'' (CArray c_short 2)]),
     Field '''' (CUnion [Field ''skc_portpair'' c_int,
       Field '''' (CStruct [Field ''skc_dport'' c_short,
         Field ''skc_num'' c_short])]),
     Field ''skc_family'' c_short,
     Field ''skc_state'' c_char,
     Bits ''skc_reuse'' 1 4,
     Bits ''skc_reuseport'' 1 1,
     Bits ''skc_ipv6only'' 1 1,
     Bits ''skc_net_refcnt'' 1 1,
     Field ''skc_bound_dev_if'' c_int,
     Field '''' (CUnion [Field ''skc_bind_node'' hlist_node_pod,
       Field ''skc_portaddr_node'' hlist_node_pod]),
     Field ''skc_prot'' c_ptr,
     Field ''skc_net'' possible_net_t_pod,
     Field ''skc_v6_daddr'' in6_addr_pod,
     Field ''skc_v6_rcv_saddr'' in6_addr_pod,
     Field ''skc_cookie'' atomic64_t_pod,
     Field '''' (CUnion [Field ''skc_flags'' c_long,
       Field ''skc_listener'' c_ptr,
       Field ''skc_tw_dr'' c_ptr]),
     Field ''skc_dontcopy_begin'' (CArray c_int 0),
     Field '''' (CUnion [Field ''skc_node'' hlist_node_pod,
       Field ''skc_nulls_node'' hlist_nulls_node_pod]),
     Field ''skc_tx_queue_mapping'' c_short,
     Field ''skc_rx_queue_mapping'' c_short,
     Field '''' (CUnion [Field ''skc_incoming_cpu'' c_int,
       Field ''skc_rcv_wnd'' c_int,
       Field ''skc_tw_rcv_nxt'' c_int]),
     Field ''skc_refcnt'' refcount_struct_pod,
     Field ''skc_dontcopy_end'' (CArray c_int 0),
     Field '''' (CUnion [Field ''skc_rxhash'' c_int,
       Field ''skc_window_clamp'' c_int,
       Field ''skc_tw_snd_nxt'' c_int])]"

lemma sock_common_pod_sa [layout_eval]: "csizeof sock_common_pod = 136" "calign sock_common_pod = 8"
  by (simp_all add: sock_common_pod_def layout_eval del: One_nat_def)

definition qspinlock_pod :: ctype where
  "qspinlock_pod = CStruct
    [Field '''' (CUnion [Field ''val'' atomic_t_pod,
       Field '''' (CStruct [Field ''locked'' c_char,
         Field ''pending'' c_char]),
       Field '''' (CStruct [Field ''locked_pending'' c_short,
         Field ''tail'' c_short])])]"

lemma qspinlock_pod_sa [layout_eval]: "csizeof qspinlock_pod = 4" "calign qspinlock_pod = 4"
  by (simp_all add: qspinlock_pod_def layout_eval del: One_nat_def)

definition raw_spinlock_pod :: ctype where
  "raw_spinlock_pod = CStruct
    [Field ''raw_lock'' qspinlock_pod]"

lemma raw_spinlock_pod_sa [layout_eval]: "csizeof raw_spinlock_pod = 4" "calign raw_spinlock_pod = 4"
  by (simp_all add: raw_spinlock_pod_def layout_eval del: One_nat_def)

definition spinlock_pod :: ctype where
  "spinlock_pod = CStruct
    [Field '''' (CUnion [Field ''rlock'' raw_spinlock_pod])]"

lemma spinlock_pod_sa [layout_eval]: "csizeof spinlock_pod = 4" "calign spinlock_pod = 4"
  by (simp_all add: spinlock_pod_def layout_eval del: One_nat_def)

definition list_head_pod :: ctype where
  "list_head_pod = CStruct
    [Field ''next'' c_ptr,
     Field ''prev'' c_ptr]"

lemma list_head_pod_sa [layout_eval]: "csizeof list_head_pod = 16" "calign list_head_pod = 8"
  by (simp_all add: list_head_pod_def layout_eval del: One_nat_def)

definition wait_queue_head_pod :: ctype where
  "wait_queue_head_pod = CStruct
    [Field ''lock'' spinlock_pod,
     Field ''head'' list_head_pod]"

lemma wait_queue_head_pod_sa [layout_eval]: "csizeof wait_queue_head_pod = 24" "calign wait_queue_head_pod = 8"
  by (simp_all add: wait_queue_head_pod_def layout_eval del: One_nat_def)

definition socket_lock_t_pod :: ctype where
  "socket_lock_t_pod = CStruct
    [Field ''slock'' spinlock_pod,
     Field ''owned'' c_int,
     Field ''wq'' wait_queue_head_pod]"

lemma socket_lock_t_pod_sa [layout_eval]: "csizeof socket_lock_t_pod = 32" "calign socket_lock_t_pod = 8"
  by (simp_all add: socket_lock_t_pod_def layout_eval del: One_nat_def)

definition sk_buff_head_pod :: ctype where
  "sk_buff_head_pod = CStruct
    [Field ''next'' c_ptr,
     Field ''prev'' c_ptr,
     Field ''qlen'' c_int,
     Field ''lock'' spinlock_pod]"

lemma sk_buff_head_pod_sa [layout_eval]: "csizeof sk_buff_head_pod = 24" "calign sk_buff_head_pod = 8"
  by (simp_all add: sk_buff_head_pod_def layout_eval del: One_nat_def)

definition rb_root_pod :: ctype where
  "rb_root_pod = CStruct
    [Field ''rb_node'' c_ptr]"

lemma rb_root_pod_sa [layout_eval]: "csizeof rb_root_pod = 8" "calign rb_root_pod = 8"
  by (simp_all add: rb_root_pod_def layout_eval del: One_nat_def)

definition timer_list_pod :: ctype where
  "timer_list_pod = CStruct
    [Field ''entry'' hlist_node_pod,
     Field ''expires'' c_long,
     Field ''function'' c_ptr,
     Field ''flags'' c_int]"

lemma timer_list_pod_sa [layout_eval]: "csizeof timer_list_pod = 40" "calign timer_list_pod = 8"
  by (simp_all add: timer_list_pod_def layout_eval del: One_nat_def)

definition page_frag_pod :: ctype where
  "page_frag_pod = CStruct
    [Field ''page'' c_ptr,
     Field ''offset'' c_int,
     Field ''size'' c_int]"

lemma page_frag_pod_sa [layout_eval]: "csizeof page_frag_pod = 16" "calign page_frag_pod = 8"
  by (simp_all add: page_frag_pod_def layout_eval del: One_nat_def)

definition qrwlock_pod :: ctype where
  "qrwlock_pod = CStruct
    [Field '''' (CUnion [Field ''cnts'' atomic_t_pod,
       Field '''' (CStruct [Field ''wlocked'' c_char,
         Field ''__lstate'' (CArray c_char 3)])]),
     Field ''wait_lock'' qspinlock_pod]"

lemma qrwlock_pod_sa [layout_eval]: "csizeof qrwlock_pod = 8" "calign qrwlock_pod = 4"
  by (simp_all add: qrwlock_pod_def layout_eval del: One_nat_def)

definition rwlock_t_pod :: ctype where
  "rwlock_t_pod = CStruct
    [Field ''raw_lock'' qrwlock_pod]"

lemma rwlock_t_pod_sa [layout_eval]: "csizeof rwlock_t_pod = 8" "calign rwlock_t_pod = 4"
  by (simp_all add: rwlock_t_pod_def layout_eval del: One_nat_def)

definition kuid_t_pod :: ctype where
  "kuid_t_pod = CStruct
    [Field ''val'' c_int]"

lemma kuid_t_pod_sa [layout_eval]: "csizeof kuid_t_pod = 4" "calign kuid_t_pod = 4"
  by (simp_all add: kuid_t_pod_def layout_eval del: One_nat_def)

definition sock_cgroup_data_pod :: ctype where
  "sock_cgroup_data_pod = CStruct
    [Field ''cgroup'' c_ptr,
     Field ''classid'' c_int,
     Field ''prioidx'' c_short]"

lemma sock_cgroup_data_pod_sa [layout_eval]: "csizeof sock_cgroup_data_pod = 16" "calign sock_cgroup_data_pod = 8"
  by (simp_all add: sock_cgroup_data_pod_def layout_eval del: One_nat_def)

definition callback_head_pod :: ctype where
  "callback_head_pod = CStruct
    [Field ''next'' c_ptr,
     Field ''func'' c_ptr]"

lemma callback_head_pod_sa [layout_eval]: "csizeof callback_head_pod = 16" "calign callback_head_pod = 8"
  by (simp_all add: callback_head_pod_def layout_eval del: One_nat_def)

definition sock_pod :: ctype where
  "sock_pod = CStruct
    [Field ''__sk_common'' sock_common_pod,
     Field ''sk_lock'' socket_lock_t_pod,
     Field ''sk_drops'' atomic_t_pod,
     Field ''sk_rcvlowat'' c_int,
     Field ''sk_error_queue'' sk_buff_head_pod,
     Field ''sk_rx_skb_cache'' c_ptr,
     Field ''sk_receive_queue'' sk_buff_head_pod,
     Field ''sk_backlog'' (CStruct [Field ''rmem_alloc'' atomic_t_pod,
       Field ''len'' c_int,
       Field ''head'' c_ptr,
       Field ''tail'' c_ptr]),
     Field ''sk_forward_alloc'' c_int,
     Field ''sk_ll_usec'' c_int,
     Field ''sk_napi_id'' c_int,
     Field ''sk_rcvbuf'' c_int,
     Field ''sk_filter'' c_ptr,
     Field '''' (CUnion [Field ''sk_wq'' c_ptr,
       Field ''sk_wq_raw'' c_ptr]),
     Field ''sk_policy'' (CArray c_ptr 2),
     Field ''sk_rx_dst'' c_ptr,
     Field ''sk_rx_dst_ifindex'' c_int,
     Field ''sk_rx_dst_cookie'' c_int,
     Field ''sk_dst_cache'' c_ptr,
     Field ''sk_omem_alloc'' atomic_t_pod,
     Field ''sk_sndbuf'' c_int,
     Field ''sk_wmem_queued'' c_int,
     Field ''sk_wmem_alloc'' refcount_struct_pod,
     Field ''sk_tsq_flags'' c_long,
     Field '''' (CUnion [Field ''sk_send_head'' c_ptr,
       Field ''tcp_rtx_queue'' rb_root_pod]),
     Field ''sk_tx_skb_cache'' c_ptr,
     Field ''sk_write_queue'' sk_buff_head_pod,
     Field ''sk_peek_off'' c_int,
     Field ''sk_write_pending'' c_int,
     Field ''sk_dst_pending_confirm'' c_int,
     Field ''sk_pacing_status'' c_int,
     Field ''sk_sndtimeo'' c_long,
     Field ''sk_timer'' timer_list_pod,
     Field ''sk_priority'' c_int,
     Field ''sk_mark'' c_int,
     Field ''sk_pacing_rate'' c_long,
     Field ''sk_max_pacing_rate'' c_long,
     Field ''sk_frag'' page_frag_pod,
     Field ''sk_route_caps'' c_long,
     Field ''sk_route_nocaps'' c_long,
     Field ''sk_route_forced_caps'' c_long,
     Field ''sk_gso_type'' c_int,
     Field ''sk_gso_max_size'' c_int,
     Field ''sk_allocation'' c_int,
     Field ''sk_txhash'' c_int,
     Bits ''sk_padding'' 1 1,
     Bits ''sk_kern_sock'' 1 1,
     Bits ''sk_no_check_tx'' 1 1,
     Bits ''sk_no_check_rx'' 1 1,
     Bits ''sk_userlocks'' 1 4,
     Field ''sk_pacing_shift'' c_char,
     Field ''sk_type'' c_short,
     Field ''sk_protocol'' c_short,
     Field ''sk_gso_max_segs'' c_short,
     Field ''sk_lingertime'' c_long,
     Field ''sk_prot_creator'' c_ptr,
     Field ''sk_callback_lock'' rwlock_t_pod,
     Field ''sk_err'' c_int,
     Field ''sk_err_soft'' c_int,
     Field ''sk_ack_backlog'' c_int,
     Field ''sk_max_ack_backlog'' c_int,
     Field ''sk_uid'' kuid_t_pod,
     Field ''sk_prefer_busy_poll'' c_char,
     Field ''sk_busy_poll_budget'' c_short,
     Field ''sk_peer_lock'' spinlock_pod,
     Field ''sk_peer_pid'' c_ptr,
     Field ''sk_peer_cred'' c_ptr,
     Field ''sk_rcvtimeo'' c_long,
     Field ''sk_stamp'' c_long,
     Field ''sk_tsflags'' c_short,
     Field ''sk_bind_phc'' c_int,
     Field ''sk_shutdown'' c_char,
     Field ''sk_tskey'' atomic_t_pod,
     Field ''sk_zckey'' atomic_t_pod,
     Field ''sk_clockid'' c_char,
     Bits ''sk_txtime_deadline_mode'' 1 1,
     Bits ''sk_txtime_report_errors'' 1 1,
     Bits ''sk_txtime_unused'' 1 6,
     Field ''sk_socket'' c_ptr,
     Field ''sk_user_data'' c_ptr,
     Field ''sk_security'' c_ptr,
     Field ''sk_cgrp_data'' sock_cgroup_data_pod,
     Field ''sk_memcg'' c_ptr,
     Field ''sk_state_change'' c_ptr,
     Field ''sk_data_ready'' c_ptr,
     Field ''sk_write_space'' c_ptr,
     Field ''sk_error_report'' c_ptr,
     Field ''sk_backlog_rcv'' c_ptr,
     Field ''sk_validate_xmit_skb'' c_ptr,
     Field ''sk_destruct'' c_ptr,
     Field ''sk_reuseport_cb'' c_ptr,
     Field ''sk_bpf_storage'' c_ptr,
     Field ''sk_rcu'' callback_head_pod]"

lemma sock_pod_sa [layout_eval]: "csizeof sock_pod = 792" "calign sock_pod = 8"
  by (simp_all add: sock_pod_def layout_eval del: One_nat_def)

definition thread_info_pod :: ctype where
  "thread_info_pod = CStruct
    [Field ''flags'' c_long,
     Field ''syscall_work'' c_long,
     Field ''status'' c_int]"

lemma thread_info_pod_sa [layout_eval]: "csizeof thread_info_pod = 24" "calign thread_info_pod = 8"
  by (simp_all add: thread_info_pod_def layout_eval del: One_nat_def)

definition llist_node_pod :: ctype where
  "llist_node_pod = CStruct
    [Field ''next'' c_ptr]"

lemma llist_node_pod_sa [layout_eval]: "csizeof llist_node_pod = 8" "calign llist_node_pod = 8"
  by (simp_all add: llist_node_pod_def layout_eval del: One_nat_def)

definition call_single_node_pod :: ctype where
  "call_single_node_pod = CStruct
    [Field ''llist'' llist_node_pod,
     Field '''' (CUnion [Field ''u_flags'' c_int,
       Field ''a_flags'' atomic_t_pod]),
     Field ''src'' c_short,
     Field ''dst'' c_short]"

lemma call_single_node_pod_sa [layout_eval]: "csizeof call_single_node_pod = 16" "calign call_single_node_pod = 8"
  by (simp_all add: call_single_node_pod_def layout_eval del: One_nat_def)

definition load_weight_pod :: ctype where
  "load_weight_pod = CStruct
    [Field ''weight'' c_long,
     Field ''inv_weight'' c_int]"

lemma load_weight_pod_sa [layout_eval]: "csizeof load_weight_pod = 16" "calign load_weight_pod = 8"
  by (simp_all add: load_weight_pod_def layout_eval del: One_nat_def)

definition rb_node_pod :: ctype where
  "rb_node_pod = CStruct
    [Field ''__rb_parent_color'' c_long,
     Field ''rb_right'' c_ptr,
     Field ''rb_left'' c_ptr]"

lemma rb_node_pod_sa [layout_eval]: "csizeof rb_node_pod = 24" "calign rb_node_pod = 8"
  by (simp_all add: rb_node_pod_def layout_eval del: One_nat_def)

definition sched_statistics_pod :: ctype where
  "sched_statistics_pod = CStruct
    [Field ''wait_start'' c_long,
     Field ''wait_max'' c_long,
     Field ''wait_count'' c_long,
     Field ''wait_sum'' c_long,
     Field ''iowait_count'' c_long,
     Field ''iowait_sum'' c_long,
     Field ''sleep_start'' c_long,
     Field ''sleep_max'' c_long,
     Field ''sum_sleep_runtime'' c_long,
     Field ''block_start'' c_long,
     Field ''block_max'' c_long,
     Field ''exec_max'' c_long,
     Field ''slice_max'' c_long,
     Field ''nr_migrations_cold'' c_long,
     Field ''nr_failed_migrations_affine'' c_long,
     Field ''nr_failed_migrations_running'' c_long,
     Field ''nr_failed_migrations_hot'' c_long,
     Field ''nr_forced_migrations'' c_long,
     Field ''nr_wakeups'' c_long,
     Field ''nr_wakeups_sync'' c_long,
     Field ''nr_wakeups_migrate'' c_long,
     Field ''nr_wakeups_local'' c_long,
     Field ''nr_wakeups_remote'' c_long,
     Field ''nr_wakeups_affine'' c_long,
     Field ''nr_wakeups_affine_attempts'' c_long,
     Field ''nr_wakeups_passive'' c_long,
     Field ''nr_wakeups_idle'' c_long]"

lemma sched_statistics_pod_sa [layout_eval]: "csizeof sched_statistics_pod = 216" "calign sched_statistics_pod = 8"
  by (simp_all add: sched_statistics_pod_def layout_eval del: One_nat_def)

definition util_est_pod :: ctype where
  "util_est_pod = CStruct
    [Field ''enqueued'' c_int,
     Field ''ewma'' c_int]"

lemma util_est_pod_sa [layout_eval]: "csizeof util_est_pod = 8" "calign util_est_pod = 4"
  by (simp_all add: util_est_pod_def layout_eval del: One_nat_def)

definition sched_avg_pod :: ctype where
  "sched_avg_pod = CStruct
    [Field ''last_update_time'' c_long,
     Field ''load_sum'' c_long,
     Field ''runnable_sum'' c_long,
     Field ''util_sum'' c_int,
     Field ''period_contrib'' c_int,
     Field ''load_avg'' c_long,
     Field ''runnable_avg'' c_long,
     Field ''util_avg'' c_long,
     Field ''util_est'' util_est_pod]"

lemma sched_avg_pod_sa [layout_eval]: "csizeof sched_avg_pod = 64" "calign sched_avg_pod = 8"
  by (simp_all add: sched_avg_pod_def layout_eval del: One_nat_def)

definition sched_entity_pod :: ctype where
  "sched_entity_pod = CStruct
    [Field ''load'' load_weight_pod,
     Field ''run_node'' rb_node_pod,
     Field ''group_node'' list_head_pod,
     Field ''on_rq'' c_int,
     Field ''exec_start'' c_long,
     Field ''sum_exec_runtime'' c_long,
     Field ''vruntime'' c_long,
     Field ''prev_sum_exec_runtime'' c_long,
     Field ''nr_migrations'' c_long,
     Field ''statistics'' sched_statistics_pod,
     Field ''depth'' c_int,
     Field ''parent'' c_ptr,
     Field ''cfs_rq'' c_ptr,
     Field ''my_q'' c_ptr,
     Field ''runnable_weight'' c_long,
     Bits '''' 8 64,
     Bits '''' 8 64,
     Bits '''' 8 64,
     Field ''avg'' sched_avg_pod]"

lemma sched_entity_pod_sa [layout_eval]: "csizeof sched_entity_pod = 448" "calign sched_entity_pod = 8"
  by (simp_all add: sched_entity_pod_def layout_eval del: One_nat_def)

definition sched_rt_entity_pod :: ctype where
  "sched_rt_entity_pod = CStruct
    [Field ''run_list'' list_head_pod,
     Field ''timeout'' c_long,
     Field ''watchdog_stamp'' c_long,
     Field ''time_slice'' c_int,
     Field ''on_rq'' c_short,
     Field ''on_list'' c_short,
     Field ''back'' c_ptr]"

lemma sched_rt_entity_pod_sa [layout_eval]: "csizeof sched_rt_entity_pod = 48" "calign sched_rt_entity_pod = 8"
  by (simp_all add: sched_rt_entity_pod_def layout_eval del: One_nat_def)

definition timerqueue_node_pod :: ctype where
  "timerqueue_node_pod = CStruct
    [Field ''node'' rb_node_pod,
     Field ''expires'' c_long]"

lemma timerqueue_node_pod_sa [layout_eval]: "csizeof timerqueue_node_pod = 32" "calign timerqueue_node_pod = 8"
  by (simp_all add: timerqueue_node_pod_def layout_eval del: One_nat_def)

definition hrtimer_pod :: ctype where
  "hrtimer_pod = CStruct
    [Field ''node'' timerqueue_node_pod,
     Field ''_softexpires'' c_long,
     Field ''function'' c_ptr,
     Field ''base'' c_ptr,
     Field ''state'' c_char,
     Field ''is_rel'' c_char,
     Field ''is_soft'' c_char,
     Field ''is_hard'' c_char]"

lemma hrtimer_pod_sa [layout_eval]: "csizeof hrtimer_pod = 64" "calign hrtimer_pod = 8"
  by (simp_all add: hrtimer_pod_def layout_eval del: One_nat_def)

definition sched_dl_entity_pod :: ctype where
  "sched_dl_entity_pod = CStruct
    [Field ''rb_node'' rb_node_pod,
     Field ''dl_runtime'' c_long,
     Field ''dl_deadline'' c_long,
     Field ''dl_period'' c_long,
     Field ''dl_bw'' c_long,
     Field ''dl_density'' c_long,
     Field ''runtime'' c_long,
     Field ''deadline'' c_long,
     Field ''flags'' c_int,
     Bits ''dl_throttled'' 4 1,
     Bits ''dl_yielded'' 4 1,
     Bits ''dl_non_contending'' 4 1,
     Bits ''dl_overrun'' 4 1,
     Field ''dl_timer'' hrtimer_pod,
     Field ''inactive_timer'' hrtimer_pod,
     Field ''pi_se'' c_ptr]"

lemma sched_dl_entity_pod_sa [layout_eval]: "csizeof sched_dl_entity_pod = 224" "calign sched_dl_entity_pod = 8"
  by (simp_all add: sched_dl_entity_pod_def layout_eval del: One_nat_def)

definition uclamp_se_pod :: ctype where
  "uclamp_se_pod = CStruct
    [Bits ''value'' 4 11,
     Bits ''bucket_id'' 4 3,
     Bits ''active'' 4 1,
     Bits ''user_defined'' 4 1]"

lemma uclamp_se_pod_sa [layout_eval]: "csizeof uclamp_se_pod = 4" "calign uclamp_se_pod = 4"
  by (simp_all add: uclamp_se_pod_def layout_eval del: One_nat_def)

definition hlist_head_pod :: ctype where
  "hlist_head_pod = CStruct
    [Field ''first'' c_ptr]"

lemma hlist_head_pod_sa [layout_eval]: "csizeof hlist_head_pod = 8" "calign hlist_head_pod = 8"
  by (simp_all add: hlist_head_pod_def layout_eval del: One_nat_def)

definition cpumask_pod :: ctype where
  "cpumask_pod = CStruct
    [Field ''bits'' (CArray c_long 128)]"

lemma cpumask_pod_sa [layout_eval]: "csizeof cpumask_pod = 1024" "calign cpumask_pod = 8"
  by (simp_all add: cpumask_pod_def layout_eval del: One_nat_def)

definition rcu_special_pod :: ctype where
  "rcu_special_pod = CUnion
    [Field ''b'' (CStruct [Field ''blocked'' c_char,
       Field ''need_qs'' c_char,
       Field ''exp_hint'' c_char,
       Field ''need_mb'' c_char]),
     Field ''s'' c_int]"

lemma rcu_special_pod_sa [layout_eval]: "csizeof rcu_special_pod = 4" "calign rcu_special_pod = 4"
  by (simp_all add: rcu_special_pod_def layout_eval del: One_nat_def)

definition sched_info_pod :: ctype where
  "sched_info_pod = CStruct
    [Field ''pcount'' c_long,
     Field ''run_delay'' c_long,
     Field ''last_arrival'' c_long,
     Field ''last_queued'' c_long]"

lemma sched_info_pod_sa [layout_eval]: "csizeof sched_info_pod = 32" "calign sched_info_pod = 8"
  by (simp_all add: sched_info_pod_def layout_eval del: One_nat_def)

definition plist_node_pod :: ctype where
  "plist_node_pod = CStruct
    [Field ''prio'' c_int,
     Field ''prio_list'' list_head_pod,
     Field ''node_list'' list_head_pod]"

lemma plist_node_pod_sa [layout_eval]: "csizeof plist_node_pod = 40" "calign plist_node_pod = 8"
  by (simp_all add: plist_node_pod_def layout_eval del: One_nat_def)

definition vmacache_pod :: ctype where
  "vmacache_pod = CStruct
    [Field ''seqnum'' c_long,
     Field ''vmas'' (CArray c_ptr 4)]"

lemma vmacache_pod_sa [layout_eval]: "csizeof vmacache_pod = 40" "calign vmacache_pod = 8"
  by (simp_all add: vmacache_pod_def layout_eval del: One_nat_def)

definition task_rss_stat_pod :: ctype where
  "task_rss_stat_pod = CStruct
    [Field ''events'' c_int,
     Field ''count'' (CArray c_int 4)]"

lemma task_rss_stat_pod_sa [layout_eval]: "csizeof task_rss_stat_pod = 20" "calign task_rss_stat_pod = 4"
  by (simp_all add: task_rss_stat_pod_def layout_eval del: One_nat_def)

definition restart_block_pod :: ctype where
  "restart_block_pod = CStruct
    [Field ''arch_data'' c_long,
     Field ''fn'' c_ptr,
     Field '''' (CUnion [Field ''futex'' (CStruct [Field ''uaddr'' c_ptr,
         Field ''val'' c_int,
         Field ''flags'' c_int,
         Field ''bitset'' c_int,
         Field ''time'' c_long,
         Field ''uaddr2'' c_ptr]),
       Field ''nanosleep'' (CStruct [Field ''clockid'' c_int,
         Field ''type'' c_int,
         Field '''' (CUnion [Field ''rmtp'' c_ptr,
           Field ''compat_rmtp'' c_ptr]),
         Field ''expires'' c_long]),
       Field ''poll'' (CStruct [Field ''ufds'' c_ptr,
         Field ''nfds'' c_int,
         Field ''has_timeout'' c_int,
         Field ''tv_sec'' c_long,
         Field ''tv_nsec'' c_long])])]"

lemma restart_block_pod_sa [layout_eval]: "csizeof restart_block_pod = 56" "calign restart_block_pod = 8"
  by (simp_all add: restart_block_pod_def layout_eval del: One_nat_def)

definition prev_cputime_pod :: ctype where
  "prev_cputime_pod = CStruct
    [Field ''utime'' c_long,
     Field ''stime'' c_long,
     Field ''lock'' raw_spinlock_pod]"

lemma prev_cputime_pod_sa [layout_eval]: "csizeof prev_cputime_pod = 24" "calign prev_cputime_pod = 8"
  by (simp_all add: prev_cputime_pod_def layout_eval del: One_nat_def)

definition rb_root_cached_pod :: ctype where
  "rb_root_cached_pod = CStruct
    [Field ''rb_root'' rb_root_pod,
     Field ''rb_leftmost'' c_ptr]"

lemma rb_root_cached_pod_sa [layout_eval]: "csizeof rb_root_cached_pod = 16" "calign rb_root_cached_pod = 8"
  by (simp_all add: rb_root_cached_pod_def layout_eval del: One_nat_def)

definition timerqueue_head_pod :: ctype where
  "timerqueue_head_pod = CStruct
    [Field ''rb_root'' rb_root_cached_pod]"

lemma timerqueue_head_pod_sa [layout_eval]: "csizeof timerqueue_head_pod = 16" "calign timerqueue_head_pod = 8"
  by (simp_all add: timerqueue_head_pod_def layout_eval del: One_nat_def)

definition posix_cputimer_base_pod :: ctype where
  "posix_cputimer_base_pod = CStruct
    [Field ''nextevt'' c_long,
     Field ''tqhead'' timerqueue_head_pod]"

lemma posix_cputimer_base_pod_sa [layout_eval]: "csizeof posix_cputimer_base_pod = 24" "calign posix_cputimer_base_pod = 8"
  by (simp_all add: posix_cputimer_base_pod_def layout_eval del: One_nat_def)

definition posix_cputimers_pod :: ctype where
  "posix_cputimers_pod = CStruct
    [Field ''bases'' (CArray posix_cputimer_base_pod 3),
     Field ''timers_active'' c_int,
     Field ''expiry_active'' c_int]"

lemma posix_cputimers_pod_sa [layout_eval]: "csizeof posix_cputimers_pod = 80" "calign posix_cputimers_pod = 8"
  by (simp_all add: posix_cputimers_pod_def layout_eval del: One_nat_def)

definition posix_cputimers_work_pod :: ctype where
  "posix_cputimers_work_pod = CStruct
    [Field ''work'' callback_head_pod,
     Field ''scheduled'' c_int]"

lemma posix_cputimers_work_pod_sa [layout_eval]: "csizeof posix_cputimers_work_pod = 24" "calign posix_cputimers_work_pod = 8"
  by (simp_all add: posix_cputimers_work_pod_def layout_eval del: One_nat_def)

definition sysv_sem_pod :: ctype where
  "sysv_sem_pod = CStruct
    [Field ''undo_list'' c_ptr]"

lemma sysv_sem_pod_sa [layout_eval]: "csizeof sysv_sem_pod = 8" "calign sysv_sem_pod = 8"
  by (simp_all add: sysv_sem_pod_def layout_eval del: One_nat_def)

definition sysv_shm_pod :: ctype where
  "sysv_shm_pod = CStruct
    [Field ''shm_clist'' list_head_pod]"

lemma sysv_shm_pod_sa [layout_eval]: "csizeof sysv_shm_pod = 16" "calign sysv_shm_pod = 8"
  by (simp_all add: sysv_shm_pod_def layout_eval del: One_nat_def)

definition sigset_t_pod :: ctype where
  "sigset_t_pod = CStruct
    [Field ''sig'' (CArray c_long 1)]"

lemma sigset_t_pod_sa [layout_eval]: "csizeof sigset_t_pod = 8" "calign sigset_t_pod = 8"
  by (simp_all add: sigset_t_pod_def layout_eval del: One_nat_def)

definition sigpending_pod :: ctype where
  "sigpending_pod = CStruct
    [Field ''list'' list_head_pod,
     Field ''signal'' sigset_t_pod]"

lemma sigpending_pod_sa [layout_eval]: "csizeof sigpending_pod = 24" "calign sigpending_pod = 8"
  by (simp_all add: sigpending_pod_def layout_eval del: One_nat_def)

definition seccomp_pod :: ctype where
  "seccomp_pod = CStruct
    [Field ''mode'' c_int,
     Field ''filter_count'' atomic_t_pod,
     Field ''filter'' c_ptr]"

lemma seccomp_pod_sa [layout_eval]: "csizeof seccomp_pod = 16" "calign seccomp_pod = 8"
  by (simp_all add: seccomp_pod_def layout_eval del: One_nat_def)

definition syscall_user_dispatch_pod :: ctype where
  "syscall_user_dispatch_pod = CStruct
    [Field ''selector'' c_ptr,
     Field ''offset'' c_long,
     Field ''len'' c_long,
     Field ''on_dispatch'' c_char]"

lemma syscall_user_dispatch_pod_sa [layout_eval]: "csizeof syscall_user_dispatch_pod = 32" "calign syscall_user_dispatch_pod = 8"
  by (simp_all add: syscall_user_dispatch_pod_def layout_eval del: One_nat_def)

definition wake_q_node_pod :: ctype where
  "wake_q_node_pod = CStruct
    [Field ''next'' c_ptr]"

lemma wake_q_node_pod_sa [layout_eval]: "csizeof wake_q_node_pod = 8" "calign wake_q_node_pod = 8"
  by (simp_all add: wake_q_node_pod_def layout_eval del: One_nat_def)

definition task_io_accounting_pod :: ctype where
  "task_io_accounting_pod = CStruct
    [Field ''rchar'' c_long,
     Field ''wchar'' c_long,
     Field ''syscr'' c_long,
     Field ''syscw'' c_long,
     Field ''read_bytes'' c_long,
     Field ''write_bytes'' c_long,
     Field ''cancelled_write_bytes'' c_long]"

lemma task_io_accounting_pod_sa [layout_eval]: "csizeof task_io_accounting_pod = 56" "calign task_io_accounting_pod = 8"
  by (simp_all add: task_io_accounting_pod_def layout_eval del: One_nat_def)

definition nodemask_t_pod :: ctype where
  "nodemask_t_pod = CStruct
    [Field ''bits'' (CArray c_long 16)]"

lemma nodemask_t_pod_sa [layout_eval]: "csizeof nodemask_t_pod = 128" "calign nodemask_t_pod = 8"
  by (simp_all add: nodemask_t_pod_def layout_eval del: One_nat_def)

definition seqcount_pod :: ctype where
  "seqcount_pod = CStruct
    [Field ''sequence'' c_int]"

lemma seqcount_pod_sa [layout_eval]: "csizeof seqcount_pod = 4" "calign seqcount_pod = 4"
  by (simp_all add: seqcount_pod_def layout_eval del: One_nat_def)

definition seqcount_spinlock_pod :: ctype where
  "seqcount_spinlock_pod = CStruct
    [Field ''seqcount'' seqcount_pod]"

lemma seqcount_spinlock_pod_sa [layout_eval]: "csizeof seqcount_spinlock_pod = 4" "calign seqcount_spinlock_pod = 4"
  by (simp_all add: seqcount_spinlock_pod_def layout_eval del: One_nat_def)

definition optimistic_spin_queue_pod :: ctype where
  "optimistic_spin_queue_pod = CStruct
    [Field ''tail'' atomic_t_pod]"

lemma optimistic_spin_queue_pod_sa [layout_eval]: "csizeof optimistic_spin_queue_pod = 4" "calign optimistic_spin_queue_pod = 4"
  by (simp_all add: optimistic_spin_queue_pod_def layout_eval del: One_nat_def)

definition mutex_pod :: ctype where
  "mutex_pod = CStruct
    [Field ''owner'' atomic64_t_pod,
     Field ''wait_lock'' raw_spinlock_pod,
     Field ''osq'' optimistic_spin_queue_pod,
     Field ''wait_list'' list_head_pod]"

lemma mutex_pod_sa [layout_eval]: "csizeof mutex_pod = 32" "calign mutex_pod = 8"
  by (simp_all add: mutex_pod_def layout_eval del: One_nat_def)

definition arch_tlbflush_unmap_batch_pod :: ctype where
  "arch_tlbflush_unmap_batch_pod = CStruct
    [Field ''cpumask'' cpumask_pod]"

lemma arch_tlbflush_unmap_batch_pod_sa [layout_eval]: "csizeof arch_tlbflush_unmap_batch_pod = 1024" "calign arch_tlbflush_unmap_batch_pod = 8"
  by (simp_all add: arch_tlbflush_unmap_batch_pod_def layout_eval del: One_nat_def)

definition tlbflush_unmap_batch_pod :: ctype where
  "tlbflush_unmap_batch_pod = CStruct
    [Field ''arch'' arch_tlbflush_unmap_batch_pod,
     Field ''flush_required'' c_char,
     Field ''writable'' c_char]"

lemma tlbflush_unmap_batch_pod_sa [layout_eval]: "csizeof tlbflush_unmap_batch_pod = 1032" "calign tlbflush_unmap_batch_pod = 8"
  by (simp_all add: tlbflush_unmap_batch_pod_def layout_eval del: One_nat_def)

definition kmap_ctrl_pod :: ctype where
  "kmap_ctrl_pod = CStruct
    []"

lemma kmap_ctrl_pod_sa [layout_eval]: "csizeof kmap_ctrl_pod = 0" "calign kmap_ctrl_pod = 1"
  by (simp_all add: kmap_ctrl_pod_def layout_eval del: One_nat_def)

definition llist_head_pod :: ctype where
  "llist_head_pod = CStruct
    [Field ''first'' c_ptr]"

lemma llist_head_pod_sa [layout_eval]: "csizeof llist_head_pod = 8" "calign llist_head_pod = 8"
  by (simp_all add: llist_head_pod_def layout_eval del: One_nat_def)

definition desc_struct_pod :: ctype where
  "desc_struct_pod = CStruct
    [Field ''limit0'' c_short,
     Field ''base0'' c_short,
     Bits ''base1'' 2 8,
     Bits ''type'' 2 4,
     Bits ''s'' 2 1,
     Bits ''dpl'' 2 2,
     Bits ''p'' 2 1,
     Bits ''limit1'' 2 4,
     Bits ''avl'' 2 1,
     Bits ''l'' 2 1,
     Bits ''d'' 2 1,
     Bits ''g'' 2 1,
     Bits ''base2'' 2 8]"

lemma desc_struct_pod_sa [layout_eval]: "csizeof desc_struct_pod = 8" "calign desc_struct_pod = 2"
  by (simp_all add: desc_struct_pod_def layout_eval del: One_nat_def)

definition fpu_state_perm_pod :: ctype where
  "fpu_state_perm_pod = CStruct
    [Field ''__state_perm'' c_long,
     Field ''__state_size'' c_int,
     Field ''__user_state_size'' c_int]"

lemma fpu_state_perm_pod_sa [layout_eval]: "csizeof fpu_state_perm_pod = 16" "calign fpu_state_perm_pod = 8"
  by (simp_all add: fpu_state_perm_pod_def layout_eval del: One_nat_def)

definition fregs_state_pod :: ctype where
  "fregs_state_pod = CStruct
    [Field ''cwd'' c_int,
     Field ''swd'' c_int,
     Field ''twd'' c_int,
     Field ''fip'' c_int,
     Field ''fcs'' c_int,
     Field ''foo'' c_int,
     Field ''fos'' c_int,
     Field ''st_space'' (CArray c_int 20),
     Field ''status'' c_int]"

lemma fregs_state_pod_sa [layout_eval]: "csizeof fregs_state_pod = 112" "calign fregs_state_pod = 4"
  by (simp_all add: fregs_state_pod_def layout_eval del: One_nat_def)

definition fxregs_state_pod :: ctype where
  "fxregs_state_pod = CStruct
    [Field ''cwd'' c_short,
     Field ''swd'' c_short,
     Field ''twd'' c_short,
     Field ''fop'' c_short,
     Field '''' (CUnion [Field '''' (CStruct [Field ''rip'' c_long,
         Field ''rdp'' c_long]),
       Field '''' (CStruct [Field ''fip'' c_int,
         Field ''fcs'' c_int,
         Field ''foo'' c_int,
         Field ''fos'' c_int])]),
     Field ''mxcsr'' c_int,
     Field ''mxcsr_mask'' c_int,
     Field ''st_space'' (CArray c_int 32),
     Field ''xmm_space'' (CArray c_int 64),
     Field ''padding'' (CArray c_int 12),
     Field '''' (CUnion [Field ''padding1'' (CArray c_int 12),
       Field ''sw_reserved'' (CArray c_int 12)])]"

lemma fxregs_state_pod_sa [layout_eval]: "csizeof fxregs_state_pod = 512" "calign fxregs_state_pod = 8"
  by (simp_all add: fxregs_state_pod_def layout_eval del: One_nat_def)

definition swregs_state_pod :: ctype where
  "swregs_state_pod = CStruct
    [Field ''cwd'' c_int,
     Field ''swd'' c_int,
     Field ''twd'' c_int,
     Field ''fip'' c_int,
     Field ''fcs'' c_int,
     Field ''foo'' c_int,
     Field ''fos'' c_int,
     Field ''st_space'' (CArray c_int 20),
     Field ''ftop'' c_char,
     Field ''changed'' c_char,
     Field ''lookahead'' c_char,
     Field ''no_update'' c_char,
     Field ''rm'' c_char,
     Field ''alimit'' c_char,
     Field ''info'' c_ptr,
     Field ''entry_eip'' c_int]"

lemma swregs_state_pod_sa [layout_eval]: "csizeof swregs_state_pod = 136" "calign swregs_state_pod = 8"
  by (simp_all add: swregs_state_pod_def layout_eval del: One_nat_def)

definition xstate_header_pod :: ctype where
  "xstate_header_pod = CStruct
    [Field ''xfeatures'' c_long,
     Field ''xcomp_bv'' c_long,
     Field ''reserved'' (CArray c_long 6)]"

lemma xstate_header_pod_sa [layout_eval]: "csizeof xstate_header_pod = 64" "calign xstate_header_pod = 8"
  by (simp_all add: xstate_header_pod_def layout_eval del: One_nat_def)

definition xregs_state_pod :: ctype where
  "xregs_state_pod = CStruct
    [Field ''i387'' fxregs_state_pod,
     Field ''header'' xstate_header_pod,
     Field ''extended_state_area'' (CArray c_char 0)]"

lemma xregs_state_pod_sa [layout_eval]: "csizeof xregs_state_pod = 576" "calign xregs_state_pod = 8"
  by (simp_all add: xregs_state_pod_def layout_eval del: One_nat_def)

definition fpregs_state_pod :: ctype where
  "fpregs_state_pod = CUnion
    [Field ''fsave'' fregs_state_pod,
     Field ''fxsave'' fxregs_state_pod,
     Field ''soft'' swregs_state_pod,
     Field ''xsave'' xregs_state_pod,
     Field ''__padding'' (CArray c_char 4096)]"

lemma fpregs_state_pod_sa [layout_eval]: "csizeof fpregs_state_pod = 4096" "calign fpregs_state_pod = 8"
  by (simp_all add: fpregs_state_pod_def layout_eval del: One_nat_def)

definition fpstate_pod :: ctype where
  "fpstate_pod = CStruct
    [Field ''size'' c_int,
     Field ''user_size'' c_int,
     Field ''xfeatures'' c_long,
     Field ''user_xfeatures'' c_long,
     Field ''xfd'' c_long,
     Bits ''is_valloc'' 4 1,
     Bits ''is_guest'' 4 1,
     Bits ''is_confidential'' 4 1,
     Bits ''in_use'' 4 1,
     Bits '''' 8 60,
     Bits '''' 8 64,
     Bits '''' 8 64,
     Bits '''' 8 64,
     Field ''regs'' fpregs_state_pod]"

lemma fpstate_pod_sa [layout_eval]: "csizeof fpstate_pod = 4160" "calign fpstate_pod = 8"
  by (simp_all add: fpstate_pod_def layout_eval del: One_nat_def)

definition fpu_pod :: ctype where
  "fpu_pod = CStruct
    [Field ''last_cpu'' c_int,
     Field ''avx512_timestamp'' c_long,
     Field ''fpstate'' c_ptr,
     Field ''__task_fpstate'' c_ptr,
     Field ''perm'' fpu_state_perm_pod,
     Bits '''' 8 64,
     Bits '''' 8 64,
     Field ''__fpstate'' fpstate_pod]"

lemma fpu_pod_sa [layout_eval]: "csizeof fpu_pod = 4224" "calign fpu_pod = 8"
  by (simp_all add: fpu_pod_def layout_eval del: One_nat_def)

definition thread_struct_pod :: ctype where
  "thread_struct_pod = CStruct
    [Field ''tls_array'' (CArray desc_struct_pod 3),
     Field ''sp'' c_long,
     Field ''es'' c_short,
     Field ''ds'' c_short,
     Field ''fsindex'' c_short,
     Field ''gsindex'' c_short,
     Field ''fsbase'' c_long,
     Field ''gsbase'' c_long,
     Field ''ptrace_bps'' (CArray c_ptr 4),
     Field ''virtual_dr6'' c_long,
     Field ''ptrace_dr7'' c_long,
     Field ''cr2'' c_long,
     Field ''trap_nr'' c_long,
     Field ''error_code'' c_long,
     Field ''io_bitmap'' c_ptr,
     Field ''iopl_emul'' c_long,
     Bits ''iopl_warn'' 4 1,
     Bits ''sig_on_uaccess_err'' 4 1,
     Field ''pkru'' c_int,
     Bits '''' 8 64,
     Bits '''' 8 64,
     Bits '''' 8 64,
     Bits '''' 8 64,
     Bits '''' 8 64,
     Field ''fpu'' fpu_pod]"

lemma thread_struct_pod_sa [layout_eval]: "csizeof thread_struct_pod = 4416" "calign thread_struct_pod = 8"
  by (simp_all add: thread_struct_pod_def layout_eval del: One_nat_def)

definition task_struct_fields1_pod :: "cfield list" where
  "task_struct_fields1_pod =
    [Field ''thread_info'' thread_info_pod,
     Field ''__state'' c_int,
     Field ''stack'' c_ptr,
     Field ''usage'' refcount_struct_pod,
     Field ''flags'' c_int,
     Field ''ptrace'' c_int,
     Field ''on_cpu'' c_int,
     Field ''wake_entry'' call_single_node_pod,
     Field ''cpu'' c_int,
     Field ''wakee_flips'' c_int,
     Field ''wakee_flip_decay_ts'' c_long,
     Field ''last_wakee'' c_ptr,
     Field ''recent_used_cpu'' c_int,
     Field ''wake_cpu'' c_int,
     Field ''on_rq'' c_int,
     Field ''prio'' c_int,
     Field ''static_prio'' c_int,
     Field ''normal_prio'' c_int,
     Field ''rt_priority'' c_int,
     Field ''sched_class'' c_ptr,
     Bits '''' 8 64,
     Bits '''' 8 64,
     Bits '''' 8 64,
     Bits '''' 8 64,
     Bits '''' 8 64,
     Bits '''' 8 64,
     Bits '''' 8 64,
     Field ''se'' sched_entity_pod,
     Field ''rt'' sched_rt_entity_pod,
     Field ''dl'' sched_dl_entity_pod,
     Field ''core_node'' rb_node_pod,
     Field ''core_cookie'' c_long,
     Field ''core_occupation'' c_int,
     Field ''sched_task_group'' c_ptr,
     Field ''uclamp_req'' (CArray uclamp_se_pod 2),
     Field ''uclamp'' (CArray uclamp_se_pod 2),
     Field ''preempt_notifiers'' hlist_head_pod,
     Field ''btrace_seq'' c_int,
     Field ''policy'' c_int,
     Field ''nr_cpus_allowed'' c_int,
     Field ''cpus_ptr'' c_ptr,
     Field ''user_cpus_ptr'' c_ptr,
     Field ''cpus_mask'' cpumask_pod,
     Field ''migration_pending'' c_ptr,
     Field ''migration_disabled'' c_short,
     Field ''migration_flags'' c_short,
     Field ''trc_reader_nesting'' c_int,
     Field ''trc_ipi_to_cpu'' c_int,
     Field ''trc_reader_special'' rcu_special_pod,
     Field ''trc_reader_checked'' c_char,
     Field ''trc_holdout_list'' list_head_pod,
     Field ''sched_info'' sched_info_pod,
     Field ''tasks'' list_head_pod,
     Field ''pushable_tasks'' plist_node_pod,
     Field ''pushable_dl_tasks'' rb_node_pod,
     Field ''mm'' c_ptr,
     Field ''active_mm'' c_ptr,
     Field ''vmacache'' vmacache_pod,
     Field ''rss_stat'' task_rss_stat_pod,
     Field ''exit_state'' c_int,
     Field ''exit_code'' c_int,
     Field ''exit_signal'' c_int,
     Field ''pdeath_signal'' c_int,
     Field ''jobctl'' c_long,
     Field ''personality'' c_int,
     Bits ''sched_reset_on_fork'' 4 1,
     Bits ''sched_contributes_to_load'' 4 1,
     Bits ''sched_migrated'' 4 1,
     Bits ''sched_psi_wake_requeue'' 4 1,
     Bits '''' 4 28,
     Bits ''sched_remote_wakeup'' 4 1,
     Bits ''in_execve'' 4 1,
     Bits ''in_iowait'' 4 1,
     Bits ''restore_sigmask'' 4 1,
     Bits ''in_user_fault'' 4 1,
     Bits ''no_cgroup_migration'' 4 1,
     Bits ''frozen'' 4 1,
     Bits ''use_memdelay'' 4 1,
     Bits ''in_memstall'' 4 1,
     Bits ''in_eventfd_signal'' 4 1,
     Field ''atomic_flags'' c_long,
     Field ''restart_block'' restart_block_pod,
     Field ''pid'' c_int,
     Field ''tgid'' c_int,
     Field ''stack_canary'' c_long,
     Field ''real_parent'' c_ptr,
     Field ''parent'' c_ptr,
     Field ''children'' list_head_pod,
     Field ''sibling'' list_head_pod,
     Field ''group_leader'' c_ptr,
     Field ''ptraced'' list_head_pod,
     Field ''ptrace_entry'' list_head_pod,
     Field ''thread_pid'' c_ptr,
     Field ''pid_links'' (CArray hlist_node_pod 4),
     Field ''thread_group'' list_head_pod,
     Field ''thread_node'' list_head_pod,
     Field ''vfork_done'' c_ptr,
     Field ''set_child_tid'' c_ptr,
     Field ''clear_child_tid'' c_ptr,
     Field ''pf_io_worker'' c_ptr,
     Field ''utime'' c_long,
     Field ''stime'' c_long,
     Field ''gtime'' c_long,
     Field ''prev_cputime'' prev_cputime_pod,
     Field ''nvcsw'' c_long,
     Field ''nivcsw'' c_long,
     Field ''start_time'' c_long,
     Field ''start_boottime'' c_long,
     Field ''min_flt'' c_long,
     Field ''maj_flt'' c_long,
     Field ''posix_cputimers'' posix_cputimers_pod,
     Field ''posix_cputimers_work'' posix_cputimers_work_pod,
     Field ''ptracer_cred'' c_ptr,
     Field ''real_cred'' c_ptr,
     Field ''cred'' c_ptr,
     Field ''cached_requested_key'' c_ptr,
     Field ''comm'' (CArray c_char 16),
     Field ''nameidata'' c_ptr,
     Field ''sysvsem'' sysv_sem_pod,
     Field ''sysvshm'' sysv_shm_pod,
     Field ''last_switch_count'' c_long,
     Field ''last_switch_time'' c_long,
     Field ''fs'' c_ptr,
     Field ''files'' c_ptr,
     Field ''io_uring'' c_ptr,
     Field ''nsproxy'' c_ptr]"

definition task_struct_fields2_pod :: "cfield list" where
  "task_struct_fields2_pod =
    [Field ''signal'' c_ptr,
     Field ''sighand'' c_ptr,
     Field ''blocked'' sigset_t_pod,
     Field ''real_blocked'' sigset_t_pod,
     Field ''saved_sigmask'' sigset_t_pod,
     Field ''pending'' sigpending_pod,
     Field ''sas_ss_sp'' c_long,
     Field ''sas_ss_size'' c_long,
     Field ''sas_ss_flags'' c_int,
     Field ''task_works'' c_ptr,
     Field ''audit_context'' c_ptr,
     Field ''loginuid'' kuid_t_pod,
     Field ''sessionid'' c_int,
     Field ''seccomp'' seccomp_pod,
     Field ''syscall_dispatch'' syscall_user_dispatch_pod,
     Field ''parent_exec_id'' c_long,
     Field ''self_exec_id'' c_long,
     Field ''alloc_lock'' spinlock_pod,
     Field ''pi_lock'' raw_spinlock_pod,
     Field ''wake_q'' wake_q_node_pod,
     Field ''pi_waiters'' rb_root_cached_pod,
     Field ''pi_top_task'' c_ptr,
     Field ''pi_blocked_on'' c_ptr,
     Field ''in_ubsan'' c_int,
     Field ''journal_info'' c_ptr,
     Field ''bio_list'' c_ptr,
     Field ''plug'' c_ptr,
     Field ''reclaim_state'' c_ptr,
     Field ''backing_dev_info'' c_ptr,
     Field ''io_context'' c_ptr,
     Field ''capture_control'' c_ptr,
     Field ''ptrace_message'' c_long,
     Field ''last_siginfo'' c_ptr,
     Field ''ioac'' task_io_accounting_pod,
     Field ''psi_flags'' c_int,
     Field ''acct_rss_mem1'' c_long,
     Field ''acct_vm_mem1'' c_long,
     Field ''acct_timexpd'' c_long,
     Field ''mems_allowed'' nodemask_t_pod,
     Field ''mems_allowed_seq'' seqcount_spinlock_pod,
     Field ''cpuset_mem_spread_rotor'' c_int,
     Field ''cpuset_slab_spread_rotor'' c_int,
     Field ''cgroups'' c_ptr,
     Field ''cg_list'' list_head_pod,
     Field ''closid'' c_int,
     Field ''rmid'' c_int,
     Field ''robust_list'' c_ptr,
     Field ''compat_robust_list'' c_ptr,
     Field ''pi_state_list'' list_head_pod,
     Field ''pi_state_cache'' c_ptr,
     Field ''futex_exit_mutex'' mutex_pod,
     Field ''futex_state'' c_int,
     Field ''perf_event_ctxp'' (CArray c_ptr 2),
     Field ''perf_event_mutex'' mutex_pod,
     Field ''perf_event_list'' list_head_pod,
     Field ''mempolicy'' c_ptr,
     Field ''il_prev'' c_short,
     Field ''pref_node_fork'' c_short,
     Field ''numa_scan_seq'' c_int,
     Field ''numa_scan_period'' c_int,
     Field ''numa_scan_period_max'' c_int,
     Field ''numa_preferred_nid'' c_int,
     Field ''numa_migrate_retry'' c_long,
     Field ''node_stamp'' c_long,
     Field ''last_task_numa_placement'' c_long,
     Field ''last_sum_exec_runtime'' c_long,
     Field ''numa_work'' callback_head_pod,
     Field ''numa_group'' c_ptr,
     Field ''numa_faults'' c_ptr,
     Field ''total_numa_faults'' c_long,
     Field ''numa_faults_locality'' (CArray c_long 3),
     Field ''numa_pages_migrated'' c_long,
     Field ''rseq'' c_ptr,
     Field ''rseq_sig'' c_int,
     Field ''rseq_event_mask'' c_long,
     Field ''tlb_ubc'' tlbflush_unmap_batch_pod,
     Field '''' (CUnion [Field ''rcu_users'' refcount_struct_pod,
       Field ''rcu'' callback_head_pod]),
     Field ''splice_pipe'' c_ptr,
     Field ''task_frag'' page_frag_pod,
     Field ''delays'' c_ptr,
     Field ''nr_dirtied'' c_int,
     Field ''nr_dirtied_pause'' c_int,
     Field ''dirty_paused_when'' c_long,
     Field ''timer_slack_ns'' c_long,
     Field ''default_timer_slack_ns'' c_long,
     Field ''curr_ret_stack'' c_int,
     Field ''curr_ret_depth'' c_int,
     Field ''ret_stack'' c_ptr,
     Field ''ftrace_timestamp'' c_long,
     Field ''trace_overrun'' atomic_t_pod,
     Field ''tracing_graph_pause'' atomic_t_pod,
     Field ''trace'' c_long,
     Field ''trace_recursion'' c_long,
     Field ''memcg_in_oom'' c_ptr,
     Field ''memcg_oom_gfp_mask'' c_int,
     Field ''memcg_oom_order'' c_int,
     Field ''memcg_nr_pages_over_high'' c_int,
     Field ''active_memcg'' c_ptr,
     Field ''throttle_queue'' c_ptr,
     Field ''utask'' c_ptr,
     Field ''sequential_io'' c_int,
     Field ''sequential_io_avg'' c_int,
     Field ''kmap_ctrl'' kmap_ctrl_pod,
     Field ''pagefault_disabled'' c_int,
     Field ''oom_reaper_list'' c_ptr,
     Field ''oom_reaper_timer'' timer_list_pod,
     Field ''stack_vm_area'' c_ptr,
     Field ''stack_refcount'' refcount_struct_pod,
     Field ''patch_state'' c_int,
     Field ''security'' c_ptr,
     Field ''bpf_storage'' c_ptr,
     Field ''bpf_ctx'' c_ptr,
     Field ''mce_vaddr'' c_ptr,
     Field ''mce_kflags'' c_long,
     Field ''mce_addr'' c_long,
     Bits ''mce_ripv'' 8 1,
     Bits ''mce_whole_page'' 8 1,
     Bits ''__mce_reserved'' 8 62,
     Field ''mce_kill_me'' callback_head_pod,
     Field ''mce_count'' c_int,
     Field ''kretprobe_instances'' llist_head_pod,
     Field ''l1d_flush_kill'' callback_head_pod,
     Bits '''' 8 64,
     Bits '''' 8 64,
     Bits '''' 8 64,
     Bits '''' 8 64,
     Field ''thread'' thread_struct_pod]"

definition task_struct_pod :: ctype where
  "task_struct_pod = CStruct (task_struct_fields1_pod @ task_struct_fields2_pod)"

lemmas task_struct_pod_unfold = task_struct_pod_def task_struct_fields1_pod_def task_struct_fields2_pod_def append.simps

lemma task_struct_pod_sa [layout_eval]: "csizeof task_struct_pod = 9664" "calign task_struct_pod = 8"
  by (simp_all add: task_struct_pod_unfold layout_eval del: One_nat_def)

section \<open>Enumerations\<close>

definition bpf_func_id_pod :: "(string \<times> int) list" where
  "bpf_func_id_pod =
    [(''BPF_FUNC_unspec'', 0),
     (''BPF_FUNC_map_lookup_elem'', 1),
     (''BPF_FUNC_map_update_elem'', 2),
     (''BPF_FUNC_map_delete_elem'', 3),
     (''BPF_FUNC_probe_read'', 4),
     (''BPF_FUNC_ktime_get_ns'', 5),
     (''BPF_FUNC_trace_printk'', 6),
     (''BPF_FUNC_get_prandom_u32'', 7),
     (''BPF_FUNC_get_smp_processor_id'', 8),
     (''BPF_FUNC_skb_store_bytes'', 9),
     (''BPF_FUNC_l3_csum_replace'', 10),
     (''BPF_FUNC_l4_csum_replace'', 11),
     (''BPF_FUNC_tail_call'', 12),
     (''BPF_FUNC_clone_redirect'', 13),
     (''BPF_FUNC_get_current_pid_tgid'', 14),
     (''BPF_FUNC_get_current_uid_gid'', 15),
     (''BPF_FUNC_get_current_comm'', 16),
     (''BPF_FUNC_get_cgroup_classid'', 17),
     (''BPF_FUNC_skb_vlan_push'', 18),
     (''BPF_FUNC_skb_vlan_pop'', 19),
     (''BPF_FUNC_skb_get_tunnel_key'', 20),
     (''BPF_FUNC_skb_set_tunnel_key'', 21),
     (''BPF_FUNC_perf_event_read'', 22),
     (''BPF_FUNC_redirect'', 23),
     (''BPF_FUNC_get_route_realm'', 24),
     (''BPF_FUNC_perf_event_output'', 25),
     (''BPF_FUNC_skb_load_bytes'', 26),
     (''BPF_FUNC_get_stackid'', 27),
     (''BPF_FUNC_csum_diff'', 28),
     (''BPF_FUNC_skb_get_tunnel_opt'', 29),
     (''BPF_FUNC_skb_set_tunnel_opt'', 30),
     (''BPF_FUNC_skb_change_proto'', 31),
     (''BPF_FUNC_skb_change_type'', 32),
     (''BPF_FUNC_skb_under_cgroup'', 33),
     (''BPF_FUNC_get_hash_recalc'', 34),
     (''BPF_FUNC_get_current_task'', 35),
     (''BPF_FUNC_probe_write_user'', 36),
     (''BPF_FUNC_current_task_under_cgroup'', 37),
     (''BPF_FUNC_skb_change_tail'', 38),
     (''BPF_FUNC_skb_pull_data'', 39),
     (''BPF_FUNC_csum_update'', 40),
     (''BPF_FUNC_set_hash_invalid'', 41),
     (''BPF_FUNC_get_numa_node_id'', 42),
     (''BPF_FUNC_skb_change_head'', 43),
     (''BPF_FUNC_xdp_adjust_head'', 44),
     (''BPF_FUNC_probe_read_str'', 45),
     (''BPF_FUNC_get_socket_cookie'', 46),
     (''BPF_FUNC_get_socket_uid'', 47),
     (''BPF_FUNC_set_hash'', 48),
     (''BPF_FUNC_setsockopt'', 49),
     (''BPF_FUNC_skb_adjust_room'', 50),
     (''BPF_FUNC_redirect_map'', 51),
     (''BPF_FUNC_sk_redirect_map'', 52),
     (''BPF_FUNC_sock_map_update'', 53),
     (''BPF_FUNC_xdp_adjust_meta'', 54),
     (''BPF_FUNC_perf_event_read_value'', 55),
     (''BPF_FUNC_perf_prog_read_value'', 56),
     (''BPF_FUNC_getsockopt'', 57),
     (''BPF_FUNC_override_return'', 58),
     (''BPF_FUNC_sock_ops_cb_flags_set'', 59),
     (''BPF_FUNC_msg_redirect_map'', 60),
     (''BPF_FUNC_msg_apply_bytes'', 61),
     (''BPF_FUNC_msg_cork_bytes'', 62),
     (''BPF_FUNC_msg_pull_data'', 63),
     (''BPF_FUNC_bind'', 64),
     (''BPF_FUNC_xdp_adjust_tail'', 65),
     (''BPF_FUNC_skb_get_xfrm_state'', 66),
     (''BPF_FUNC_get_stack'', 67),
     (''BPF_FUNC_skb_load_bytes_relative'', 68),
     (''BPF_FUNC_fib_lookup'', 69),
     (''BPF_FUNC_sock_hash_update'', 70),
     (''BPF_FUNC_msg_redirect_hash'', 71),
     (''BPF_FUNC_sk_redirect_hash'', 72),
     (''BPF_FUNC_lwt_push_encap'', 73),
     (''BPF_FUNC_lwt_seg6_store_bytes'', 74),
     (''BPF_FUNC_lwt_seg6_adjust_srh'', 75),
     (''BPF_FUNC_lwt_seg6_action'', 76),
     (''BPF_FUNC_rc_repeat'', 77),
     (''BPF_FUNC_rc_keydown'', 78),
     (''BPF_FUNC_skb_cgroup_id'', 79),
     (''BPF_FUNC_get_current_cgroup_id'', 80),
     (''BPF_FUNC_get_local_storage'', 81),
     (''BPF_FUNC_sk_select_reuseport'', 82),
     (''BPF_FUNC_skb_ancestor_cgroup_id'', 83),
     (''BPF_FUNC_sk_lookup_tcp'', 84),
     (''BPF_FUNC_sk_lookup_udp'', 85),
     (''BPF_FUNC_sk_release'', 86),
     (''BPF_FUNC_map_push_elem'', 87),
     (''BPF_FUNC_map_pop_elem'', 88),
     (''BPF_FUNC_map_peek_elem'', 89),
     (''BPF_FUNC_msg_push_data'', 90),
     (''BPF_FUNC_msg_pop_data'', 91),
     (''BPF_FUNC_rc_pointer_rel'', 92),
     (''BPF_FUNC_spin_lock'', 93),
     (''BPF_FUNC_spin_unlock'', 94),
     (''BPF_FUNC_sk_fullsock'', 95),
     (''BPF_FUNC_tcp_sock'', 96),
     (''BPF_FUNC_skb_ecn_set_ce'', 97),
     (''BPF_FUNC_get_listener_sock'', 98),
     (''BPF_FUNC_skc_lookup_tcp'', 99),
     (''BPF_FUNC_tcp_check_syncookie'', 100),
     (''BPF_FUNC_sysctl_get_name'', 101),
     (''BPF_FUNC_sysctl_get_current_value'', 102),
     (''BPF_FUNC_sysctl_get_new_value'', 103),
     (''BPF_FUNC_sysctl_set_new_value'', 104),
     (''BPF_FUNC_strtol'', 105),
     (''BPF_FUNC_strtoul'', 106),
     (''BPF_FUNC_sk_storage_get'', 107),
     (''BPF_FUNC_sk_storage_delete'', 108),
     (''BPF_FUNC_send_signal'', 109),
     (''BPF_FUNC_tcp_gen_syncookie'', 110),
     (''BPF_FUNC_skb_output'', 111),
     (''BPF_FUNC_probe_read_user'', 112),
     (''BPF_FUNC_probe_read_kernel'', 113),
     (''BPF_FUNC_probe_read_user_str'', 114),
     (''BPF_FUNC_probe_read_kernel_str'', 115),
     (''BPF_FUNC_tcp_send_ack'', 116),
     (''BPF_FUNC_send_signal_thread'', 117),
     (''BPF_FUNC_jiffies64'', 118),
     (''BPF_FUNC_read_branch_records'', 119),
     (''BPF_FUNC_get_ns_current_pid_tgid'', 120),
     (''BPF_FUNC_xdp_output'', 121),
     (''BPF_FUNC_get_netns_cookie'', 122),
     (''BPF_FUNC_get_current_ancestor_cgroup_id'', 123),
     (''BPF_FUNC_sk_assign'', 124),
     (''BPF_FUNC_ktime_get_boot_ns'', 125),
     (''BPF_FUNC_seq_printf'', 126),
     (''BPF_FUNC_seq_write'', 127),
     (''BPF_FUNC_sk_cgroup_id'', 128),
     (''BPF_FUNC_sk_ancestor_cgroup_id'', 129),
     (''BPF_FUNC_ringbuf_output'', 130),
     (''BPF_FUNC_ringbuf_reserve'', 131),
     (''BPF_FUNC_ringbuf_submit'', 132),
     (''BPF_FUNC_ringbuf_discard'', 133),
     (''BPF_FUNC_ringbuf_query'', 134),
     (''BPF_FUNC_csum_level'', 135),
     (''BPF_FUNC_skc_to_tcp6_sock'', 136),
     (''BPF_FUNC_skc_to_tcp_sock'', 137),
     (''BPF_FUNC_skc_to_tcp_timewait_sock'', 138),
     (''BPF_FUNC_skc_to_tcp_request_sock'', 139),
     (''BPF_FUNC_skc_to_udp6_sock'', 140),
     (''BPF_FUNC_get_task_stack'', 141),
     (''BPF_FUNC_load_hdr_opt'', 142),
     (''BPF_FUNC_store_hdr_opt'', 143),
     (''BPF_FUNC_reserve_hdr_opt'', 144),
     (''BPF_FUNC_inode_storage_get'', 145),
     (''BPF_FUNC_inode_storage_delete'', 146),
     (''BPF_FUNC_d_path'', 147),
     (''BPF_FUNC_copy_from_user'', 148),
     (''BPF_FUNC_snprintf_btf'', 149),
     (''BPF_FUNC_seq_printf_btf'', 150),
     (''BPF_FUNC_skb_cgroup_classid'', 151),
     (''BPF_FUNC_redirect_neigh'', 152),
     (''BPF_FUNC_per_cpu_ptr'', 153),
     (''BPF_FUNC_this_cpu_ptr'', 154),
     (''BPF_FUNC_redirect_peer'', 155),
     (''BPF_FUNC_task_storage_get'', 156),
     (''BPF_FUNC_task_storage_delete'', 157),
     (''BPF_FUNC_get_current_task_btf'', 158),
     (''BPF_FUNC_bprm_opts_set'', 159),
     (''BPF_FUNC_ktime_get_coarse_ns'', 160),
     (''BPF_FUNC_ima_inode_hash'', 161),
     (''BPF_FUNC_sock_from_file'', 162),
     (''BPF_FUNC_check_mtu'', 163),
     (''BPF_FUNC_for_each_map_elem'', 164),
     (''BPF_FUNC_snprintf'', 165),
     (''BPF_FUNC_sys_bpf'', 166),
     (''BPF_FUNC_btf_find_by_name_kind'', 167),
     (''BPF_FUNC_sys_close'', 168),
     (''BPF_FUNC_timer_init'', 169),
     (''BPF_FUNC_timer_set_callback'', 170),
     (''BPF_FUNC_timer_start'', 171),
     (''BPF_FUNC_timer_cancel'', 172),
     (''BPF_FUNC_get_func_ip'', 173),
     (''BPF_FUNC_get_attach_cookie'', 174),
     (''BPF_FUNC_task_pt_regs'', 175),
     (''__BPF_FUNC_MAX_ID'', 176)]"

definition bpf_map_type_pod :: "(string \<times> int) list" where
  "bpf_map_type_pod =
    [(''BPF_MAP_TYPE_UNSPEC'', 0),
     (''BPF_MAP_TYPE_HASH'', 1),
     (''BPF_MAP_TYPE_ARRAY'', 2),
     (''BPF_MAP_TYPE_PROG_ARRAY'', 3),
     (''BPF_MAP_TYPE_PERF_EVENT_ARRAY'', 4),
     (''BPF_MAP_TYPE_PERCPU_HASH'', 5),
     (''BPF_MAP_TYPE_PERCPU_ARRAY'', 6),
     (''BPF_MAP_TYPE_STACK_TRACE'', 7),
     (''BPF_MAP_TYPE_CGROUP_ARRAY'', 8),
     (''BPF_MAP_TYPE_LRU_HASH'', 9),
     (''BPF_MAP_TYPE_LRU_PERCPU_HASH'', 10),
     (''BPF_MAP_TYPE_LPM_TRIE'', 11),
     (''BPF_MAP_TYPE_ARRAY_OF_MAPS'', 12),
     (''BPF_MAP_TYPE_HASH_OF_MAPS'', 13),
     (''BPF_MAP_TYPE_DEVMAP'', 14),
     (''BPF_MAP_TYPE_SOCKMAP'', 15),
     (''BPF_MAP_TYPE_CPUMAP'', 16),
     (''BPF_MAP_TYPE_XSKMAP'', 17),
     (''BPF_MAP_TYPE_SOCKHASH'', 18),
     (''BPF_MAP_TYPE_CGROUP_STORAGE'', 19),
     (''BPF_MAP_TYPE_REUSEPORT_SOCKARRAY'', 20),
     (''BPF_MAP_TYPE_PERCPU_CGROUP_STORAGE'', 21),
     (''BPF_MAP_TYPE_QUEUE'', 22),
     (''BPF_MAP_TYPE_STACK'', 23),
     (''BPF_MAP_TYPE_SK_STORAGE'', 24),
     (''BPF_MAP_TYPE_DEVMAP_HASH'', 25),
     (''BPF_MAP_TYPE_STRUCT_OPS'', 26),
     (''BPF_MAP_TYPE_RINGBUF'', 27),
     (''BPF_MAP_TYPE_INODE_STORAGE'', 28),
     (''BPF_MAP_TYPE_TASK_STORAGE'', 29)]"

definition bpf_prog_type_pod :: "(string \<times> int) list" where
  "bpf_prog_type_pod =
    [(''BPF_PROG_TYPE_UNSPEC'', 0),
     (''BPF_PROG_TYPE_SOCKET_FILTER'', 1),
     (''BPF_PROG_TYPE_KPROBE'', 2),
     (''BPF_PROG_TYPE_SCHED_CLS'', 3),
     (''BPF_PROG_TYPE_SCHED_ACT'', 4),
     (''BPF_PROG_TYPE_TRACEPOINT'', 5),
     (''BPF_PROG_TYPE_XDP'', 6),
     (''BPF_PROG_TYPE_PERF_EVENT'', 7),
     (''BPF_PROG_TYPE_CGROUP_SKB'', 8),
     (''BPF_PROG_TYPE_CGROUP_SOCK'', 9),
     (''BPF_PROG_TYPE_LWT_IN'', 10),
     (''BPF_PROG_TYPE_LWT_OUT'', 11),
     (''BPF_PROG_TYPE_LWT_XMIT'', 12),
     (''BPF_PROG_TYPE_SOCK_OPS'', 13),
     (''BPF_PROG_TYPE_SK_SKB'', 14),
     (''BPF_PROG_TYPE_CGROUP_DEVICE'', 15),
     (''BPF_PROG_TYPE_SK_MSG'', 16),
     (''BPF_PROG_TYPE_RAW_TRACEPOINT'', 17),
     (''BPF_PROG_TYPE_CGROUP_SOCK_ADDR'', 18),
     (''BPF_PROG_TYPE_LWT_SEG6LOCAL'', 19),
     (''BPF_PROG_TYPE_LIRC_MODE2'', 20),
     (''BPF_PROG_TYPE_SK_REUSEPORT'', 21),
     (''BPF_PROG_TYPE_FLOW_DISSECTOR'', 22),
     (''BPF_PROG_TYPE_CGROUP_SYSCTL'', 23),
     (''BPF_PROG_TYPE_RAW_TRACEPOINT_WRITABLE'', 24),
     (''BPF_PROG_TYPE_CGROUP_SOCKOPT'', 25),
     (''BPF_PROG_TYPE_TRACING'', 26),
     (''BPF_PROG_TYPE_STRUCT_OPS'', 27),
     (''BPF_PROG_TYPE_EXT'', 28),
     (''BPF_PROG_TYPE_LSM'', 29),
     (''BPF_PROG_TYPE_SK_LOOKUP'', 30),
     (''BPF_PROG_TYPE_SYSCALL'', 31)]"

definition bpf_attach_type_pod :: "(string \<times> int) list" where
  "bpf_attach_type_pod =
    [(''BPF_CGROUP_INET_INGRESS'', 0),
     (''BPF_CGROUP_INET_EGRESS'', 1),
     (''BPF_CGROUP_INET_SOCK_CREATE'', 2),
     (''BPF_CGROUP_SOCK_OPS'', 3),
     (''BPF_SK_SKB_STREAM_PARSER'', 4),
     (''BPF_SK_SKB_STREAM_VERDICT'', 5),
     (''BPF_CGROUP_DEVICE'', 6),
     (''BPF_SK_MSG_VERDICT'', 7),
     (''BPF_CGROUP_INET4_BIND'', 8),
     (''BPF_CGROUP_INET6_BIND'', 9),
     (''BPF_CGROUP_INET4_CONNECT'', 10),
     (''BPF_CGROUP_INET6_CONNECT'', 11),
     (''BPF_CGROUP_INET4_POST_BIND'', 12),
     (''BPF_CGROUP_INET6_POST_BIND'', 13),
     (''BPF_CGROUP_UDP4_SENDMSG'', 14),
     (''BPF_CGROUP_UDP6_SENDMSG'', 15),
     (''BPF_LIRC_MODE2'', 16),
     (''BPF_FLOW_DISSECTOR'', 17),
     (''BPF_CGROUP_SYSCTL'', 18),
     (''BPF_CGROUP_UDP4_RECVMSG'', 19),
     (''BPF_CGROUP_UDP6_RECVMSG'', 20),
     (''BPF_CGROUP_GETSOCKOPT'', 21),
     (''BPF_CGROUP_SETSOCKOPT'', 22),
     (''BPF_TRACE_RAW_TP'', 23),
     (''BPF_TRACE_FENTRY'', 24),
     (''BPF_TRACE_FEXIT'', 25),
     (''BPF_MODIFY_RETURN'', 26),
     (''BPF_LSM_MAC'', 27),
     (''BPF_TRACE_ITER'', 28),
     (''BPF_CGROUP_INET4_GETPEERNAME'', 29),
     (''BPF_CGROUP_INET6_GETPEERNAME'', 30),
     (''BPF_CGROUP_INET4_GETSOCKNAME'', 31),
     (''BPF_CGROUP_INET6_GETSOCKNAME'', 32),
     (''BPF_XDP_DEVMAP'', 33),
     (''BPF_CGROUP_INET_SOCK_RELEASE'', 34),
     (''BPF_XDP_CPUMAP'', 35),
     (''BPF_SK_LOOKUP'', 36),
     (''BPF_XDP'', 37),
     (''BPF_SK_SKB_VERDICT'', 38),
     (''BPF_SK_REUSEPORT_SELECT'', 39),
     (''BPF_SK_REUSEPORT_SELECT_OR_MIGRATE'', 40),
     (''BPF_PERF_EVENT'', 41),
     (''__MAX_BPF_ATTACH_TYPE'', 42)]"

definition xdp_action_pod :: "(string \<times> int) list" where
  "xdp_action_pod =
    [(''XDP_ABORTED'', 0),
     (''XDP_DROP'', 1),
     (''XDP_PASS'', 2),
     (''XDP_TX'', 3),
     (''XDP_REDIRECT'', 4)]"

definition perf_type_id_pod :: "(string \<times> int) list" where
  "perf_type_id_pod =
    [(''PERF_TYPE_HARDWARE'', 0),
     (''PERF_TYPE_SOFTWARE'', 1),
     (''PERF_TYPE_TRACEPOINT'', 2),
     (''PERF_TYPE_HW_CACHE'', 3),
     (''PERF_TYPE_RAW'', 4),
     (''PERF_TYPE_BREAKPOINT'', 5),
     (''PERF_TYPE_MAX'', 6)]"

definition perf_hw_id_pod :: "(string \<times> int) list" where
  "perf_hw_id_pod =
    [(''PERF_COUNT_HW_CPU_CYCLES'', 0),
     (''PERF_COUNT_HW_INSTRUCTIONS'', 1),
     (''PERF_COUNT_HW_CACHE_REFERENCES'', 2),
     (''PERF_COUNT_HW_CACHE_MISSES'', 3),
     (''PERF_COUNT_HW_BRANCH_INSTRUCTIONS'', 4),
     (''PERF_COUNT_HW_BRANCH_MISSES'', 5),
     (''PERF_COUNT_HW_BUS_CYCLES'', 6),
     (''PERF_COUNT_HW_STALLED_CYCLES_FRONTEND'', 7),
     (''PERF_COUNT_HW_STALLED_CYCLES_BACKEND'', 8),
     (''PERF_COUNT_HW_REF_CPU_CYCLES'', 9),
     (''PERF_COUNT_HW_MAX'', 10)]"

end
