(* ===== verification/Bootstrap.thy ===== *)
theory Bootstrap
  imports Bpf_Helpers Layout
begin

text \<open>
  The process tracer of \<^verbatim>\<open>libbpf-bootstrap/examples/c\<close>: \<^verbatim>\<open>bootstrap.bpf.c\<close> and \<^verbatim>\<open>bootstrap.h\<close>, and the
  event printer of \<^verbatim>\<open>bootstrap.c\<close>. \<^verbatim>\<open>handle_exec\<close> remembers when a process called \<^verbatim>\<open>exec\<close>,
  \<^verbatim>\<open>handle_exit\<close> computes how long it lived; both report to user space through a ring buffer. The
  specification is the map from live processes to their start times (\<open>live_step\<close>).
\<close>

section \<open>Data\<close>

record bootstrap_event =
  be_pid :: s32
  be_ppid :: s32
  be_exit_code :: u32
  be_duration_ns :: u64
  be_comm :: bytes
  be_filename :: bytes
  be_exit_event :: bool

definition MAX_FILENAME_LEN :: nat where "MAX_FILENAME_LEN = 127"
definition EXEC_START_ENTRIES :: nat where "EXEC_START_ENTRIES = 8192"

definition bootstrap_event_layout :: ctype where
  "bootstrap_event_layout = CStruct
     [Field ''pid'' c_int,
      Field ''ppid'' c_int,
      Field ''exit_code'' c_int,
      Field ''duration_ns'' c_long,
      Field ''comm'' (CArray c_char TASK_COMM_LEN),
      Field ''filename'' (CArray c_char MAX_FILENAME_LEN),
      Field ''exit_event'' c_char]"

record ('m, 'r) bootstrap_state =
  exec_start :: 'm
  bs_rb :: 'r

text \<open>
  What an invocation reads beside the helpers of \<^typ>\<open>task_env\<close>: fields of the current task through
  \<^verbatim>\<open>BPF_CORE_READ\<close>, and the context of the exec tracepoint. \<open>read_ctx_str off n\<close> is an \<open>n\<close>-byte
  buffer after \<^verbatim>\<open>bpf_probe_read_str\<close> from the context plus \<open>off\<close>.
\<close>

record bootstrap_env = task_env +
  real_parent_tgid :: s32
  task_exit_code :: s32
  data_loc_filename :: u32
  read_ctx_str :: "u32 \<Rightarrow> nat \<Rightarrow> bytes"

section \<open>bootstrap.bpf.c\<close>

definition handle_exec ::
  "('m, s32, u64) map_ops \<Rightarrow> ('r, bootstrap_event) ringbuf_ops \<Rightarrow> u64 \<Rightarrow> bootstrap_env \<Rightarrow>
   ('m, 'r) bootstrap_state \<Rightarrow> ('m, 'r) bootstrap_state \<times> int" where
  "handle_exec mops rops min_duration_ns env st =
     (let pid = tgid_of (current_pid_tgid env);
          ts = ktime_ns env;
          st1 = st\<lparr>exec_start := fst (map_update mops (exec_start st) pid ts BPF_ANY)\<rparr>
      in if min_duration_ns \<noteq> 0 then (st1, 0)
         else case rb_reserve rops (bs_rb st1) (csizeof bootstrap_event_layout) of
           None \<Rightarrow> (st1, 0)
         | Some (e, rb') \<Rightarrow>
             let fname_off = data_loc_filename env AND 0xFFFF;
                 e' = e\<lparr>be_exit_event := False, be_pid := pid, be_ppid := real_parent_tgid env,
                        be_comm := fst (current_comm env TASK_COMM_LEN),
                        be_filename := read_ctx_str env fname_off MAX_FILENAME_LEN\<rparr>
             in (st1\<lparr>bs_rb := rb_submit rops rb' e'\<rparr>, 0))"

definition handle_exit ::
  "('m, s32, u64) map_ops \<Rightarrow> ('r, bootstrap_event) ringbuf_ops \<Rightarrow> u64 \<Rightarrow> bootstrap_env \<Rightarrow>
   ('m, 'r) bootstrap_state \<Rightarrow> ('m, 'r) bootstrap_state \<times> int" where
  "handle_exit mops rops min_duration_ns env st =
     (let pid = tgid_of (current_pid_tgid env);
          tid = tid_of (current_pid_tgid env)
      in if pid \<noteq> tid then (st, 0)
         else
           let start_ts = map_lookup mops (exec_start st) pid in
           if start_ts = None \<and> min_duration_ns \<noteq> 0 then (st, 0)
           else
             let duration_ns = (case start_ts of Some t \<Rightarrow> ktime_ns env - t | None \<Rightarrow> 0);
                 st1 = st\<lparr>exec_start := fst (map_delete mops (exec_start st) pid)\<rparr>
             in if min_duration_ns \<noteq> 0 \<and> duration_ns < min_duration_ns then (st1, 0)
                else case rb_reserve rops (bs_rb st1) (csizeof bootstrap_event_layout) of
                  None \<Rightarrow> (st1, 0)
                | Some (e, rb') \<Rightarrow>
                    let e' = e\<lparr>be_exit_event := True, be_duration_ns := duration_ns, be_pid := pid,
                               be_ppid := real_parent_tgid env,
                               be_exit_code := signed_drop_bit 8 (task_exit_code env) AND 0xff,
                               be_comm := fst (current_comm env TASK_COMM_LEN)\<rparr>
                    in (st1\<lparr>bs_rb := rb_submit rops rb' e'\<rparr>, 0))"

text \<open>The two tracepoints, in the order the kernel hits them.\<close>

datatype sched_hook = SchedExec bootstrap_env | SchedExit bootstrap_env

fun bootstrap_step ::
  "('m, s32, u64) map_ops \<Rightarrow> ('r, bootstrap_event) ringbuf_ops \<Rightarrow> u64 \<Rightarrow> sched_hook \<Rightarrow>
   ('m, 'r) bootstrap_state \<Rightarrow> ('m, 'r) bootstrap_state \<times> int" where
  "bootstrap_step mops rops min_ns (SchedExec env) st = handle_exec mops rops min_ns env st"
| "bootstrap_step mops rops min_ns (SchedExit env) st = handle_exit mops rops min_ns env st"

section \<open>bootstrap.c: printing an event\<close>

text \<open>\<open>now\<close> is the formatted time; the result is the sequence of \<^verbatim>\<open>printf\<close> calls.\<close>

definition bootstrap_handle_event :: "bytes \<Rightarrow> bootstrap_event \<Rightarrow> printk list" where
  "bootstrap_handle_event now e =
     (if be_exit_event e then
        [(''%-8s %-5s %-16s %-7d %-7d [%u]'',
          [PStr now, PStr (map of_char ''EXIT''), PStr (c_str (be_comm e)), PInt (be_pid e), PInt (be_ppid e),
           PInt (be_exit_code e)])] @
        (if be_duration_ns e \<noteq> 0 then [('' (%llums)'', [PLong (be_duration_ns e div 1000000)])] else []) @
        [(nl, [])]
      else
        [(''%-8s %-5s %-16s %-7d %-7d %s'' @ nl,
          [PStr now, PStr (map of_char ''EXEC''), PStr (c_str (be_comm e)), PInt (be_pid e), PInt (be_ppid e),
           PStr (c_str (be_filename e))])])"

section \<open>The specification: live processes\<close>

fun live_step :: "sched_hook \<Rightarrow> (s32 \<rightharpoonup> u64) \<Rightarrow> (s32 \<rightharpoonup> u64)" where
  "live_step (SchedExec env) m = m(tgid_of (current_pid_tgid env) \<mapsto> ktime_ns env)"
| "live_step (SchedExit env) m =
     (if tgid_of (current_pid_tgid env) = tid_of (current_pid_tgid env)
      then m(tgid_of (current_pid_tgid env) := None) else m)"

fun live_run :: "sched_hook list \<Rightarrow> (s32 \<rightharpoonup> u64) \<Rightarrow> (s32 \<rightharpoonup> u64)" where
  "live_run [] m = m"
| "live_run (h # hs) m = live_run hs (live_step h m)"

fun is_exec :: "sched_hook \<Rightarrow> bool" where
  "is_exec (SchedExec env) = True"
| "is_exec (SchedExit env) = False"

fun hook_tgid :: "sched_hook \<Rightarrow> s32" where
  "hook_tgid (SchedExec env) = tgid_of (current_pid_tgid env)"
| "hook_tgid (SchedExit env) = tgid_of (current_pid_tgid env)"

section \<open>Lemmas\<close>

lemmas bootstrap_defs = handle_exec_def handle_exit_def Let_def

lemma handle_exec_map:
  "exec_start (fst (handle_exec mops rops d env st)) =
     fst (map_update mops (exec_start st) (tgid_of (current_pid_tgid env)) (ktime_ns env) BPF_ANY)"
  by (auto simp: bootstrap_defs split: option.splits)

lemma handle_exit_lookup:
  assumes "bpf_hash_map mops n"
  shows "map_lookup mops (exec_start (fst (handle_exit mops rops d env st))) =
    live_step (SchedExit env) (map_lookup mops (exec_start st))"
  by (auto simp: bootstrap_defs bpf_hash_map.delete_gone [OF assms] fun_eq_iff split: option.splits)

lemma bootstrap_step_live:
  assumes "bpf_hash_map mops n" and "finite (dom (map_lookup mops (exec_start st)))"
    and "is_exec h \<Longrightarrow> card (dom (map_lookup mops (exec_start st))) < n"
  shows "map_lookup mops (exec_start (fst (bootstrap_step mops rops d h st))) =
    live_step h (map_lookup mops (exec_start st))"
proof (cases h)
  case (SchedExec env)
  then show ?thesis
    using assms by (simp add: handle_exec_map bpf_hash_map.update_any)
next
  case (SchedExit env)
  then show ?thesis by (simp add: handle_exit_lookup [OF assms(1)])
qed

lemma live_step_dom:
  "finite (dom m) \<Longrightarrow> finite (dom (live_step h m)) \<and> card (dom (live_step h m)) \<le> card (dom m) + (if is_exec h then 1 else 0)"
  by (cases h) (auto simp: card_insert_if card_Diff1_le)

lemma bootstrap_run_live:
  assumes "bpf_hash_map mops n" and "finite (dom (map_lookup mops (exec_start st)))"
    and "card (dom (map_lookup mops (exec_start st))) + length (filter is_exec hs) \<le> n"
  shows "map_lookup mops (exec_start (run_steps (bootstrap_step mops rops d) hs st)) =
    live_run hs (map_lookup mops (exec_start st))"
  using assms(2,3)
proof (induction hs arbitrary: st)
  case Nil
  then show ?case by simp
next
  case (Cons h hs)
  let ?m = "map_lookup mops (exec_start st)" and ?st' = "fst (bootstrap_step mops rops d h st)"
  have eq: "map_lookup mops (exec_start ?st') = live_step h ?m"
    using Cons.prems by (intro bootstrap_step_live [OF assms(1)]) auto
  have "finite (dom (live_step h ?m))" "card (dom (live_step h ?m)) + length (filter is_exec hs) \<le> n"
    using live_step_dom [OF Cons.prems(1), of h] Cons.prems(2) by (auto split: if_splits)
  then show ?case using Cons.IH [of ?st'] by (simp add: eq)
qed

lemma live_run_untouched: "\<forall>h \<in> set hs. hook_tgid h \<noteq> p \<Longrightarrow> live_run hs m p = m p"
proof (induction hs arbitrary: m)
  case (Cons h hs)
  then show ?case by (cases h) auto
qed simp

lemma live_run_append: "live_run (xs @ ys) m = live_run ys (live_run xs m)"
  by (induction xs arbitrary: m) auto


text \<open>The exit event of one invocation, over the contents \<open>e\<close> of the reserved sample.\<close>

definition exit_event_of :: "bootstrap_env \<Rightarrow> u64 \<Rightarrow> bootstrap_event \<Rightarrow> bootstrap_event" where
  "exit_event_of env dur e = e\<lparr>be_exit_event := True, be_duration_ns := dur,
     be_pid := tgid_of (current_pid_tgid env), be_ppid := real_parent_tgid env,
     be_exit_code := signed_drop_bit 8 (task_exit_code env) AND 0xff,
     be_comm := fst (current_comm env TASK_COMM_LEN)\<rparr>"

text \<open>Whether a process that lived \<open>dur\<close> nanoseconds (if its start is known) is reported.\<close>

fun reported :: "u64 \<Rightarrow> u64 option \<Rightarrow> bool" where
  "reported min_ns None = (min_ns = 0)"
| "reported min_ns (Some dur) = (min_ns = 0 \<or> min_ns \<le> dur)"

lemma handle_exit_committed:
  assumes "bpf_ringbuf rops" and "tgid_of (current_pid_tgid env) = tid_of (current_pid_tgid env)"
  shows "rb_committed rops (bs_rb (fst (handle_exit mops rops d env st))) =
    rb_committed rops (bs_rb st) @
      (let dur = map_option (\<lambda>t. ktime_ns env - t) (map_lookup mops (exec_start st) (tgid_of (current_pid_tgid env)))
       in if reported d dur then
            case rb_reserve rops (bs_rb st) (csizeof bootstrap_event_layout) of
              None \<Rightarrow> []
            | Some (e, _) \<Rightarrow> [exit_event_of env (case dur of Some x \<Rightarrow> x | None \<Rightarrow> 0) e]
          else [])"
  using assms(2)
  by (auto simp: bootstrap_defs exit_event_of_def bpf_ringbuf.reserve_submit [OF assms(1)]
      split: option.splits)

lemma bootstrap_event_source:
  assumes "bpf_ringbuf rops"
  shows "event_source (bootstrap_step mops rops d) (\<lambda>st. True) (\<lambda>st. rb_committed rops (bs_rb st))
    (\<lambda>e. d \<noteq> 0 \<longrightarrow> be_exit_event e \<and> d \<le> be_duration_ns e)"
proof unfold_locales
  fix h and st :: "('b, 'a) bootstrap_state"
  show "rb_committed rops (bs_rb (fst (bootstrap_step mops rops d h st))) = rb_committed rops (bs_rb st) \<or>
    (\<exists>e. rb_committed rops (bs_rb (fst (bootstrap_step mops rops d h st))) = rb_committed rops (bs_rb st) @ [e] \<and>
      (d \<noteq> 0 \<longrightarrow> be_exit_event e \<and> d \<le> be_duration_ns e))"
    by (cases h) (auto simp: bootstrap_defs bpf_ringbuf.reserve_submit [OF assms] split: option.splits)
qed simp

interpretation boot: event_source "bootstrap_step mops (ringbuf_inst_ops junk) d" "\<lambda>st. True"
  "\<lambda>st. rb_committed (ringbuf_inst_ops junk) (bs_rb st)"
  "\<lambda>e. d \<noteq> 0 \<longrightarrow> be_exit_event e \<and> d \<le> be_duration_ns e"
  by (rule bootstrap_event_source) (rule ringbuf.bpf_ringbuf_axioms)

section \<open>Properties\<close>

text \<open>A process with id \<open>p\<close> at time \<open>t\<close>, for concrete runs.\<close>

definition boot_env :: "s32 \<Rightarrow> u64 \<Rightarrow> bootstrap_env" where
  "boot_env p t = \<lparr>current_pid_tgid = pid_tgid_join p p, current_uid_gid = 0, current_cgroup_id = 1,
     current_comm = comm_of [108, 115], ktime_ns = t, smp_processor_id = 0, real_parent_tgid = 1,
     task_exit_code = 0x100, data_loc_filename = 0, read_ctx_str = (\<lambda>off n. replicate n 0)\<rparr>"

definition boot_junk :: bootstrap_event where
  "boot_junk = \<lparr>be_pid = 0xdead, be_ppid = 0xdead, be_exit_code = 0xdead, be_duration_ns = 0xdead,
     be_comm = replicate 16 0xff, be_filename = replicate 127 0xff, be_exit_event = False\<rparr>"

definition boot_st :: "((s32 \<times> u64) list, bootstrap_event ringbuf_inst) bootstrap_state" where
  "boot_st = \<lparr>exec_start = [], bs_rb = \<lparr>rbi_free = 4096, rbi_done = []\<rparr>\<rparr>"

text \<open>C14: \<^verbatim>\<open>handle_exit\<close> on every branch. It returns 0; a thread that is not the group leader changes
  nothing; a leader's start time is forgotten, and exactly one exit event is committed, with the
  exit status of the task and the time since its start, when the process lived long enough (or its
  start is unknown and no minimum is set) and the ring buffer has room; otherwise none is.\<close>

theorem handle_exit_exact:
  assumes "bpf_hash_map mops n" and "bpf_ringbuf rops"
  shows "snd (handle_exit mops rops d env st) = 0 \<and>
    (if tgid_of (current_pid_tgid env) \<noteq> tid_of (current_pid_tgid env)
     then fst (handle_exit mops rops d env st) = st
     else map_lookup mops (exec_start (fst (handle_exit mops rops d env st))) =
            (map_lookup mops (exec_start st))(tgid_of (current_pid_tgid env) := None) \<and>
          rb_committed rops (bs_rb (fst (handle_exit mops rops d env st))) =
            rb_committed rops (bs_rb st) @
            (let dur = map_option (\<lambda>t. ktime_ns env - t)
                         (map_lookup mops (exec_start st) (tgid_of (current_pid_tgid env)))
             in if reported d dur then
                  case rb_reserve rops (bs_rb st) (csizeof bootstrap_event_layout) of
                    None \<Rightarrow> []
                  | Some (e, _) \<Rightarrow> [exit_event_of env (case dur of Some x \<Rightarrow> x | None \<Rightarrow> 0) e]
                else []))"
proof (cases "tgid_of (current_pid_tgid env) = tid_of (current_pid_tgid env)")
  case False
  then show ?thesis by (simp add: handle_exit_def)
next
  case True
  have "snd (handle_exit mops rops d env st) = 0"
    by (simp add: bootstrap_defs split: option.splits)
  with True show ?thesis
    using handle_exit_lookup [OF assms(1), of rops d env st] handle_exit_committed [OF assms(2) True, of mops d st]
    by simp
qed

theorem handle_exit_exact_witness:
  "map be_duration_ns (rb_committed (ringbuf_inst_ops boot_junk) (bs_rb (fst (handle_exit (hash_ops 8192)
     (ringbuf_inst_ops boot_junk) 500 (boot_env 7 5000) (boot_st\<lparr>exec_start := [(7, 1000)]\<rparr>))))) = [4000]"
proof -
  let ?st = "boot_st\<lparr>exec_start := [(7, 1000)]\<rparr>"
  have l: "tgid_of (current_pid_tgid (boot_env 7 5000)) = tid_of (current_pid_tgid (boot_env 7 5000))"
    by (simp add: boot_env_def)
  have r: "rb_reserve (ringbuf_inst_ops boot_junk) (bs_rb ?st) (csizeof bootstrap_event_layout) =
      Some (boot_junk, \<lparr>rbi_free = 4096 - 176, rbi_done = []\<rparr>)" by code_simp
  have m: "map_lookup (hash_ops 8192) (exec_start ?st) (tgid_of (current_pid_tgid (boot_env 7 5000))) = Some 1000"
    by code_simp
  show ?thesis
    using handle_exit_exact [OF hash.bpf_hash_map_axioms ringbuf.bpf_ringbuf_axioms, of 8192 boot_junk 500
      "boot_env 7 5000" ?st] l r m
    by (simp add: Let_def exit_event_of_def boot_st_def ringbuf_inst_ops_def) (simp add: boot_env_def)
qed

text \<open>C15: the table of start times refines the abstract map of live processes over every
  sequence of exec and exit tracepoints, of any processes and threads in any order, as long as the
  number of exec calls does not exceed the free entries of the map.\<close>

theorem bootstrap_refines_live:
  assumes "bpf_hash_map mops EXEC_START_ENTRIES" and "finite (dom (map_lookup mops (exec_start st)))"
    and "card (dom (map_lookup mops (exec_start st))) + length (filter is_exec hs) \<le> EXEC_START_ENTRIES"
  shows "map_lookup mops (exec_start (run_steps (bootstrap_step mops rops d) hs st)) =
    live_run hs (map_lookup mops (exec_start st))"
  by (rule bootstrap_run_live [OF assms])

theorem bootstrap_refines_live_witness:
  "map_lookup (hash_ops EXEC_START_ENTRIES) (exec_start (run_steps (bootstrap_step (hash_ops EXEC_START_ENTRIES)
     (ringbuf_inst_ops boot_junk) 0) [SchedExec (boot_env 7 1000), SchedExec (boot_env 8 1500), SchedExit (boot_env 7 2000)]
     boot_st)) = live_run [SchedExec (boot_env 7 1000), SchedExec (boot_env 8 1500), SchedExit (boot_env 7 2000)] Map.empty"
proof -
  have "map_lookup (hash_ops EXEC_START_ENTRIES) (exec_start boot_st) = Map.empty"
    by (simp add: boot_st_def hash_ops_def)
  then show ?thesis
    using bootstrap_refines_live [OF hash.bpf_hash_map_axioms, of boot_st
      "[SchedExec (boot_env 7 1000), SchedExec (boot_env 8 1500), SchedExit (boot_env 7 2000)]"]
    by (simp add: EXEC_START_ENTRIES_def)
qed

text \<open>With a minimum duration set, no sequence of tracepoints makes the program report an exec
  or a process that lived shorter than the minimum; with or without one it reports at most one event
  per tracepoint and never takes back an event.\<close>

lemma bootstrap_min_duration_respected:
  assumes "bpf_ringbuf rops"
  shows "\<exists>es. rb_committed rops (bs_rb (run_steps (bootstrap_step mops rops d) hs st)) =
      rb_committed rops (bs_rb st) @ es \<and> length es \<le> length hs \<and>
      list_all (\<lambda>e. d \<noteq> 0 \<longrightarrow> be_exit_event e \<and> d \<le> be_duration_ns e) es"
  by (rule event_source.run_emits [OF bootstrap_event_source [OF assms]]) simp

text \<open>After an exec of a process, and any number of tracepoints of other processes, the exit of its leader commits an
  event with the time between the two, provided the minimum is met and the buffer has room.\<close>

lemma lifetime_measured:
  assumes "bpf_hash_map mops EXEC_START_ENTRIES" and "bpf_ringbuf rops"
    and "finite (dom (map_lookup mops (exec_start st)))"
    and "card (dom (map_lookup mops (exec_start st))) + Suc (length mid) \<le> EXEC_START_ENTRIES"
    and "current_pid_tgid e1 = pid_tgid_join p t1" and "current_pid_tgid e2 = pid_tgid_join p p"
    and "\<forall>h \<in> set mid. hook_tgid h \<noteq> p"
    and "d \<le> ktime_ns e2 - ktime_ns e1"
    and "rb_reserve rops (bs_rb (run_steps (bootstrap_step mops rops d) (SchedExec e1 # mid) st))
           (csizeof bootstrap_event_layout) = Some (junk, rb')"
  shows "rb_committed rops (bs_rb (run_steps (bootstrap_step mops rops d) (SchedExec e1 # mid @ [SchedExit e2]) st)) =
    rb_committed rops (bs_rb (run_steps (bootstrap_step mops rops d) (SchedExec e1 # mid) st)) @
      [exit_event_of e2 (ktime_ns e2 - ktime_ns e1) junk]"
proof -
  let ?hs = "SchedExec e1 # mid" and ?step = "bootstrap_step mops rops d"
  let ?st = "run_steps ?step ?hs st"
  have "length (filter is_exec ?hs) \<le> Suc (length mid)" by simp
  then have "map_lookup mops (exec_start ?st) = live_run ?hs (map_lookup mops (exec_start st))"
    using assms(3,4) by (intro bootstrap_run_live [OF assms(1)]) linarith+
  then have start: "map_lookup mops (exec_start ?st) p = Some (ktime_ns e1)"
    using assms(5) live_run_untouched [OF assms(7)] by simp
  have run: "run_steps ?step (?hs @ [SchedExit e2]) st = fst (handle_exit mops rops d e2 ?st)"
    unfolding run_steps_append by simp
  have leader: "tgid_of (current_pid_tgid e2) = tid_of (current_pid_tgid e2)" "tgid_of (current_pid_tgid e2) = p"
    using assms(6) by simp_all
  show ?thesis
    using run start assms(8,9) leader(2)
    by (simp add: handle_exit_committed [OF assms(2) leader(1)] Let_def)
qed

text \<open>The exit status is the second byte of the exit code of the task.\<close>

lemma exit_status_byte: "signed_drop_bit 8 (w :: s32) AND 0xff = ucast (byte_of 1 w)"
proof -
  have ff: "(0xff :: s32) = mask 8" by (simp add: mask_eq_exp_minus_1)
  show ?thesis unfolding ff
    by (rule bit_word_eqI) (auto simp: byte_of_def bit_simps algebra_simps)
qed

text \<open>C16: the line for a process that ends. A process calls \<^verbatim>\<open>exec\<close>, then any number of tracepoints of other
  processes are hit, then its leader exits, at least the minimum duration after the \<^verbatim>\<open>exec\<close>. If the ring buffer has room the
  BPF program commits one more event, and for this event \<^verbatim>\<open>handle_event\<close> of \<^verbatim>\<open>bootstrap.c\<close> prints one line with the name,
  the process, its parent and its exit status (the second byte of the exit code of the task), and, unless it
  lived for no time at all, the number of whole milliseconds it lived.\<close>

theorem lifetime_printed:
  assumes "bpf_hash_map mops EXEC_START_ENTRIES" and "bpf_ringbuf rops"
    and "finite (dom (map_lookup mops (exec_start st)))"
    and "card (dom (map_lookup mops (exec_start st))) + Suc (length mid) \<le> EXEC_START_ENTRIES"
    and "current_pid_tgid e1 = pid_tgid_join p t1" and "current_pid_tgid e2 = pid_tgid_join p p"
    and "\<forall>h \<in> set mid. hook_tgid h \<noteq> p"
    and "ktime_ns e1 \<le> ktime_ns e2" and "unat d + unat (ktime_ns e1) \<le> unat (ktime_ns e2)"
    and "rb_reserve rops (bs_rb (run_steps (bootstrap_step mops rops d) (SchedExec e1 # mid) st))
           (csizeof bootstrap_event_layout) = Some (junk, rb')"
  shows "\<exists>e ms. rb_committed rops (bs_rb (run_steps (bootstrap_step mops rops d) (SchedExec e1 # mid @ [SchedExit e2]) st)) =
      rb_committed rops (bs_rb (run_steps (bootstrap_step mops rops d) (SchedExec e1 # mid) st)) @ [e] \<and>
    bootstrap_handle_event now e =
      (''%-8s %-5s %-16s %-7d %-7d [%u]'',
        [PStr now, PStr (map of_char ''EXIT''), PStr (c_str (fst (current_comm e2 TASK_COMM_LEN))), PInt p, PInt (real_parent_tgid e2),
         PInt (ucast (byte_of 1 (task_exit_code e2)))]) #
      (if ktime_ns e1 = ktime_ns e2 then [] else [('' (%llums)'', [PLong ms])]) @ [(nl, [])] \<and>
    unat ms = (unat (ktime_ns e2) - unat (ktime_ns e1)) div 1000000"
proof -
  let ?d = "ktime_ns e2 - ktime_ns e1"
  have dur: "unat ?d = unat (ktime_ns e2) - unat (ktime_ns e1)" using assms(8) by (simp add: unat_sub)
  have "d \<le> ?d" using assms(9) by (simp add: word_le_nat_alt dur)
  note committed = lifetime_measured [OF assms(1-7) this assms(10)]
  have zero: "?d = 0 \<longleftrightarrow> ktime_ns e1 = ktime_ns e2" by auto
  have ms: "unat (?d div 1000000) = (unat (ktime_ns e2) - unat (ktime_ns e1)) div 1000000"
    by (simp add: unat_div dur)
  show ?thesis
    using assms(6) zero
    by (intro exI [of _ "exit_event_of e2 ?d junk"] exI [of _ "?d div 1000000"] conjI committed ms)
      (simp add: bootstrap_handle_event_def exit_event_of_def exit_status_byte del: One_nat_def)
qed

theorem lifetime_printed_witness:
  "\<exists>e. rb_committed (ringbuf_inst_ops boot_junk) (bs_rb (run_steps (bootstrap_step (hash_ops EXEC_START_ENTRIES)
       (ringbuf_inst_ops boot_junk) 500) (SchedExec (boot_env 7 1000) # [SchedExec (boot_env 8 1200)] @
         [SchedExit (boot_env 7 4001000)]) boot_st)) =
     rb_committed (ringbuf_inst_ops boot_junk) (bs_rb (run_steps (bootstrap_step (hash_ops EXEC_START_ENTRIES)
       (ringbuf_inst_ops boot_junk) 500) (SchedExec (boot_env 7 1000) # [SchedExec (boot_env 8 1200)]) boot_st)) @ [e] \<and>
     bootstrap_handle_event [] e = [(''%-8s %-5s %-16s %-7d %-7d [%u]'',
        [PStr [], PStr (map of_char ''EXIT''), PStr [108, 115], PInt 7, PInt 1, PInt 1]), ('' (%llums)'', [PLong 4]), (nl, [])]"
proof -
  let ?a = "boot_env 7 1000" and ?b = "boot_env 7 4001000"
  have m: "map_lookup (hash_ops EXEC_START_ENTRIES) (exec_start boot_st) = Map.empty"
    by (simp add: boot_st_def hash_ops_def)
  have r: "rb_reserve (ringbuf_inst_ops boot_junk) (bs_rb (run_steps (bootstrap_step (hash_ops EXEC_START_ENTRIES)
       (ringbuf_inst_ops boot_junk) 500) (SchedExec ?a # [SchedExec (boot_env 8 1200)]) boot_st))
      (csizeof bootstrap_event_layout) = Some (boot_junk, \<lparr>rbi_free = 4096 - 176, rbi_done = []\<rparr>)"
    by code_simp
  have t: "ktime_ns ?a = 1000" "ktime_ns ?b = 4001000" "real_parent_tgid ?b = 1" by (simp_all add: boot_env_def)
  have c: "c_str (fst (current_comm ?b TASK_COMM_LEN)) = [108, 115]" "(ucast (byte_of 1 (task_exit_code ?b)) :: s32) = 1" by code_simp+
  have "\<exists>e ms. rb_committed (ringbuf_inst_ops boot_junk) (bs_rb (run_steps (bootstrap_step (hash_ops EXEC_START_ENTRIES)
       (ringbuf_inst_ops boot_junk) 500) (SchedExec ?a # [SchedExec (boot_env 8 1200)] @ [SchedExit ?b]) boot_st)) =
     rb_committed (ringbuf_inst_ops boot_junk) (bs_rb (run_steps (bootstrap_step (hash_ops EXEC_START_ENTRIES)
       (ringbuf_inst_ops boot_junk) 500) (SchedExec ?a # [SchedExec (boot_env 8 1200)]) boot_st)) @ [e] \<and>
     bootstrap_handle_event [] e = (''%-8s %-5s %-16s %-7d %-7d [%u]'',
        [PStr [], PStr (map of_char ''EXIT''), PStr (c_str (fst (current_comm ?b TASK_COMM_LEN))), PInt 7, PInt (real_parent_tgid ?b),
         PInt (ucast (byte_of 1 (task_exit_code ?b)))]) # (if ktime_ns ?a = ktime_ns ?b then [] else [('' (%llums)'', [PLong ms])]) @ [(nl, [])] \<and>
     unat ms = (unat (ktime_ns ?b) - unat (ktime_ns ?a)) div 1000000"
    by (rule lifetime_printed [OF hash.bpf_hash_map_axioms ringbuf.bpf_ringbuf_axioms, OF _ _ _ _ _ _ _ r])
      (simp_all only: m t, simp_all add: boot_env_def EXEC_START_ENTRIES_def)
  then obtain e ms where e: "rb_committed (ringbuf_inst_ops boot_junk) (bs_rb (run_steps (bootstrap_step (hash_ops EXEC_START_ENTRIES)
       (ringbuf_inst_ops boot_junk) 500) (SchedExec ?a # [SchedExec (boot_env 8 1200)] @ [SchedExit ?b]) boot_st)) =
     rb_committed (ringbuf_inst_ops boot_junk) (bs_rb (run_steps (bootstrap_step (hash_ops EXEC_START_ENTRIES)
       (ringbuf_inst_ops boot_junk) 500) (SchedExec ?a # [SchedExec (boot_env 8 1200)]) boot_st)) @ [e]"
    "bootstrap_handle_event [] e = [(''%-8s %-5s %-16s %-7d %-7d [%u]'',
        [PStr [], PStr (map of_char ''EXIT''), PStr [108, 115], PInt 7, PInt 1, PInt 1]), ('' (%llums)'', [PLong ms]), (nl, [])]"
    "unat ms = 4" unfolding c t by auto
  have "ms = 4" using e(3) by (simp add: word_unat_eq_iff)
  then show ?thesis using e(1,2) by blast
qed

end
