(* ===== verification/Sockfilter.thy ===== *)
theory Sockfilter
  imports Bpf_Helpers Packet
begin

text \<open>
  The socket filter of \<^verbatim>\<open>libbpf-bootstrap/examples/c\<close>: \<^verbatim>\<open>sockfilter.bpf.c\<close> and \<^verbatim>\<open>sockfilter.h\<close>, and the
  event printer of \<^verbatim>\<open>sockfilter.c\<close>. The program sees every frame of a raw socket, picks the
  unfragmented IPv4 ones, and sends addresses, ports and protocol to user space.

  The program reads the frame through \<^verbatim>\<open>bpf_skb_load_bytes\<close>. That helper is kernel code: it is the
  parameter \<open>load\<close> of the definitions, with its documented behaviour as the locale \<open>skb_access\<close>. The
  destination is filled on success and cleared on failure.
\<close>

section \<open>Data\<close>

record so_event =
  so_src_addr :: u32
  so_dst_addr :: u32
  so_ports :: u32
  so_ip_proto :: u32
  so_pkt_type :: u32
  so_ifindex :: u32

definition so_event_layout :: ctype where
  "so_event_layout = CStruct
     [Field ''src_addr'' c_int,
      Field ''dst_addr'' c_int,
      Field '''' (CUnion
        [Field ''ports'' c_int,
         Field ''port16'' (CArray c_short 2)]),
      Field ''ip_proto'' c_int,
      Field ''pkt_type'' c_int,
      Field ''ifindex'' c_int]"

text \<open>\<^verbatim>\<open>port16\<close> is the other view of the union: the two halves of \<^verbatim>\<open>ports\<close> in memory order.\<close>

definition port16 :: "so_event \<Rightarrow> nat \<Rightarrow> u16" where
  "port16 e i = ucast (drop_bit (16 * i) (so_ports e))"

record skb =
  skb_frame :: bytes
  skb_pkt_type :: u32
  skb_ifindex :: u32

definition skb_len :: "skb \<Rightarrow> u32" where
  "skb_len s = of_nat (length (skb_frame s))"

definition IP_MF :: u16 where "IP_MF = 0x2000"
definition IP_OFFSET :: u16 where "IP_OFFSET = 0x1FFF"
definition ETH_HLEN :: u32 where "ETH_HLEN = 14"
definition IPPROTO_GRE :: u32 where "IPPROTO_GRE = 47"
definition PACKET_HOST :: u32 where "PACKET_HOST = 0"
definition IPPROTO_MAX :: u32 where "IPPROTO_MAX = 263"

text \<open>\<^verbatim>\<open>bpf_skb_load_bytes\<close>: the \<open>n\<close> bytes at an offset of the frame, or an error.\<close>

type_synonym skb_loader = "bytes \<Rightarrow> u32 \<Rightarrow> nat \<Rightarrow> bytes option"

definition filled :: "nat \<Rightarrow> bytes option \<Rightarrow> bytes" where
  "filled n r = (case r of Some bs \<Rightarrow> bs | None \<Rightarrow> replicate n 0)"

definition skb_u8 :: "skb_loader \<Rightarrow> skb \<Rightarrow> u32 \<Rightarrow> u8" where
  "skb_u8 load s off = filled 1 (load (skb_frame s) off 1) ! 0"

definition skb_u16 :: "skb_loader \<Rightarrow> skb \<Rightarrow> u32 \<Rightarrow> u16" where
  "skb_u16 load s off = (let b = filled 2 (load (skb_frame s) off 2) in le16 (b ! 0) (b ! 1))"

definition skb_u32 :: "skb_loader \<Rightarrow> skb \<Rightarrow> u32 \<Rightarrow> u32" where
  "skb_u32 load s off = (let b = filled 4 (load (skb_frame s) off 4) in le32 (b ! 0) (b ! 1) (b ! 2) (b ! 3))"

section \<open>sockfilter.bpf.c\<close>

definition ip_is_fragment :: "skb_loader \<Rightarrow> skb \<Rightarrow> u32 \<Rightarrow> u16" where
  "ip_is_fragment load s nhoff =
     (let frag_off = ntohs (skb_u16 load s (nhoff + of_nat (offsetof iphdr_508 ''frag_off'')))
      in frag_off AND (IP_MF OR IP_OFFSET))"

text \<open>
  The one-byte load of the protocol goes into the first byte of the four-byte \<^verbatim>\<open>ip_proto\<close>: the other
  three keep what the reserved memory held.
\<close>

definition set_low_byte :: "u32 \<Rightarrow> u8 \<Rightarrow> u32" where
  "set_low_byte w b = le32 b (byte_of 1 w) (byte_of 2 w) (byte_of 3 w)"

definition socket_handler ::
  "skb_loader \<Rightarrow> ('r, so_event) ringbuf_ops \<Rightarrow> skb \<Rightarrow> 'r \<Rightarrow> 'r \<times> int" where
  "socket_handler load rops s rb =
     (let nhoff = ETH_HLEN;
          proto = ntohs (skb_u16 load s 12)
      in if proto \<noteq> ETH_P_IP then (rb, 0)
         else if ip_is_fragment load s nhoff \<noteq> 0 then (rb, 0)
         else case rb_reserve rops rb (csizeof so_event_layout) of
           None \<Rightarrow> (rb, 0)
         | Some (e, rb') \<Rightarrow>
             let e1 = e\<lparr>so_ip_proto := set_low_byte (so_ip_proto e)
                        (skb_u8 load s (nhoff + of_nat (offsetof iphdr_508 ''protocol'')))\<rparr>;
                 e2 = (if so_ip_proto e1 \<noteq> IPPROTO_GRE then
                         e1\<lparr>so_src_addr := skb_u32 load s (nhoff + of_nat (offsetof iphdr_508 ''saddr'')),
                            so_dst_addr := skb_u32 load s (nhoff + of_nat (offsetof iphdr_508 ''daddr''))\<rparr>
                       else e1);
                 verlen = skb_u8 load s (nhoff + 0);
                 e3 = e2\<lparr>so_ports := skb_u32 load s (nhoff + push_bit 2 (ucast (verlen AND 0xF))),
                         so_pkt_type := skb_pkt_type s, so_ifindex := skb_ifindex s\<rparr>
             in (rb_submit rops rb' e3, sint (skb_len s)))"

section \<open>sockfilter.c\<close>

text \<open>The protocol names, with the values \<^verbatim>\<open>linux/in.h\<close> gives the constants; the gaps are NULL.\<close>

definition ipproto_mapping :: "u32 \<rightharpoonup> string" where
  "ipproto_mapping = map_of
     [(0, ''IP''), (1, ''ICMP''), (2, ''IGMP''), (4, ''IPIP''), (6, ''TCP''), (8, ''EGP''), (12, ''PUP''),
      (17, ''UDP''), (22, ''IDP''), (29, ''TP''), (33, ''DCCP''), (41, ''IPV6''), (46, ''RSVP''), (47, ''GRE''),
      (50, ''ESP''), (51, ''AH''), (92, ''MTP''), (94, ''BEETPH''), (98, ''ENCAP''), (103, ''PIM''), (108, ''COMP''),
      (132, ''SCTP''), (136, ''UDPLITE''), (137, ''MPLS''), (255, ''RAW'')]"

text \<open>Dotted decimal notation of an address in network order (its bytes in memory order).\<close>

definition inet_ntoa :: "u32 \<Rightarrow> string" where
  "inet_ntoa a = dec (unat (byte_of 0 a)) @ ''.'' @ dec (unat (byte_of 1 a)) @ ''.'' @
     dec (unat (byte_of 2 a)) @ ''.'' @ dec (unat (byte_of 3 a))"

record so_line =
  sl_ifname :: string
  sl_protocol :: "string option"
  sl_src :: string
  sl_sport :: u16
  sl_dst :: string
  sl_dport :: u16

text \<open>
  The C library function \<^verbatim>\<open>inet_ntoa\<close> writes its text to a buffer of the library and returns the address of
  this buffer, the same one in every call (\<^verbatim>\<open>man 3 inet_ntoa\<close>). A store maps addresses to the strings there.
\<close>

type_synonym str_store = "nat \<Rightarrow> string"

definition NTOA_BUF :: nat where "NTOA_BUF = 0"

definition call_inet_ntoa :: "u32 \<Rightarrow> str_store \<Rightarrow> nat \<times> str_store" where
  "call_inet_ntoa a mem = (NTOA_BUF, mem(NTOA_BUF := inet_ntoa a))"

text \<open>
  Both calls are arguments of the same \<^verbatim>\<open>printf\<close>, so both are made before it reads the strings, in an order C
  does not fix: \<open>src_first\<close> is the order the compiler chose. \<open>ifname\<close> is \<^verbatim>\<open>if_indextoname\<close>.
\<close>

definition ntoa_args :: "bool \<Rightarrow> u32 \<Rightarrow> u32 \<Rightarrow> str_store \<Rightarrow> nat \<times> nat \<times> str_store" where
  "ntoa_args src_first src dst mem =
     (if src_first
      then let (p, mem1) = call_inet_ntoa src mem; (q, mem2) = call_inet_ntoa dst mem1 in (p, q, mem2)
      else let (q, mem1) = call_inet_ntoa dst mem; (p, mem2) = call_inet_ntoa src mem1 in (p, q, mem2))"

definition so_handle_event :: "bool \<Rightarrow> (u32 \<rightharpoonup> string) \<Rightarrow> so_event \<Rightarrow> str_store \<Rightarrow> so_line list \<times> int" where
  "so_handle_event src_first ifname e mem =
     (if so_pkt_type e \<noteq> PACKET_HOST then ([], 0)
      else if IPPROTO_MAX \<le> so_ip_proto e then ([], 0)
      else case ifname (so_ifindex e) of
        None \<Rightarrow> ([], 0)
      | Some n \<Rightarrow>
          let (p, q, mem') = ntoa_args src_first (so_src_addr e) (so_dst_addr e) mem
          in ([\<lparr>sl_ifname = n, sl_protocol = ipproto_mapping (so_ip_proto e), sl_src = mem' p,
                sl_sport = ntohs (port16 e 0), sl_dst = mem' q, sl_dport = ntohs (port16 e 1)\<rparr>], 0))"

section \<open>The contract of bpf_skb_load_bytes\<close>

text \<open>The bytes of a frame at an offset, zero past its end.\<close>

definition frame16 :: "bytes \<Rightarrow> nat \<Rightarrow> u16" where
  "frame16 f i = (if i + 2 \<le> length f then be16 (f ! i) (f ! (i + 1)) else 0)"

definition frame32 :: "bytes \<Rightarrow> nat \<Rightarrow> u32" where
  "frame32 f i = (if i + 4 \<le> length f then le32 (f ! i) (f ! (i + 1)) (f ! (i + 2)) (f ! (i + 3)) else 0)"

definition frame8 :: "bytes \<Rightarrow> nat \<Rightarrow> u8" where
  "frame8 f i = (if i < length f then f ! i else 0)"

lemma ntohs_zero [simp]: "ntohs 0 = 0"
  by (simp add: ntohs_def le16_def byte_of_def)

locale skb_access =
  fixes load :: skb_loader
  assumes load_in: "unat off + n \<le> length frame \<Longrightarrow> load frame off n = Some (take n (drop (unat off) frame))"
  and load_out: "length frame < unat off + n \<Longrightarrow> load frame off n = None"
begin

lemma u8_at: "skb_u8 load s off = frame8 (skb_frame s) (unat off)"
  by (auto simp: skb_u8_def filled_def load_in load_out frame8_def)

lemma u16_at: "ntohs (skb_u16 load s off) = frame16 (skb_frame s) (unat off)"
  by (auto simp: skb_u16_def filled_def load_in load_out frame16_def le16_def [of 0 0])

lemma u32_at: "skb_u32 load s off = frame32 (skb_frame s) (unat off)"
  by (auto simp: skb_u32_def filled_def load_in load_out frame32_def le32_def [of 0 0 0 0] numeral_3_eq_3)

end

text \<open>The helper as the documentation describes it.\<close>

definition skb_load_inst :: skb_loader where
  "skb_load_inst frame off n =
     (if unat off + n \<le> length frame then Some (take n (drop (unat off) frame)) else None)"

interpretation skb: skb_access skb_load_inst
  by unfold_locales (simp_all add: skb_load_inst_def)

section \<open>What the event should be\<close>

text \<open>The filter condition and the event.\<close>

definition whole_ipv4 :: "bytes \<Rightarrow> bool" where
  "whole_ipv4 f \<longleftrightarrow> frame16 f 12 = 0x0800 \<and> frame16 f 20 AND 0x3FFF = 0"

definition l4_offset :: "bytes \<Rightarrow> nat" where
  "l4_offset f = 14 + 4 * unat (ihl (frame8 f 14))"

definition frame_event :: "skb \<Rightarrow> so_event \<Rightarrow> so_event" where
  "frame_event s e =
     (let f = skb_frame s; proto = set_low_byte (so_ip_proto e) (frame8 f 23) in
      \<lparr>so_src_addr = (if proto \<noteq> 47 then frame32 f 26 else so_src_addr e),
       so_dst_addr = (if proto \<noteq> 47 then frame32 f 30 else so_dst_addr e),
       so_ports = frame32 f (l4_offset f), so_ip_proto = proto,
       so_pkt_type = skb_pkt_type s, so_ifindex = skb_ifindex s\<rparr>)"

section \<open>Lemmas\<close>

lemma so_event_size: "csizeof so_event_layout = 24"
  by (simp add: so_event_layout_def layout_eval del: One_nat_def)

lemma ip_offsets:
  "offsetof iphdr_508 ''frag_off'' = 6" "offsetof iphdr_508 ''protocol'' = 9"
  "offsetof iphdr_508 ''saddr'' = 12" "offsetof iphdr_508 ''daddr'' = 16"
  by (simp_all add: offsetof_def header_offset_eqs)

lemma unat_l4: "unat (14 + push_bit 2 (ucast (b AND 0xF)) :: u32) = 14 + 4 * unat (ihl b)"
proof -
  have b: "unat (ucast (ihl b) :: u32) = unat (ihl b)" by (rule unat_ucast_up) simp
  have "unat (push_bit 2 (ucast (ihl b)) :: u32) = 4 * unat (ihl b)"
    using ihl_bound [of b] by (simp add: push_bit_eq_mult unat_word_ariths b)
  then show ?thesis
    using ihl_bound [of b] by (simp add: ihl_def unat_word_ariths)
qed

lemma le32_low: "so_ip_proto e < 256 \<Longrightarrow> set_low_byte (so_ip_proto e) b = ucast b"
proof (rule bit_word_eqI)
  fix n assume lt: "so_ip_proto e < 256" and n: "n < LENGTH(32)"
  have high: "\<not> bit (so_ip_proto e) m" if "8 \<le> m" for m
  proof -
    have "unat (so_ip_proto e) < 2 ^ 8" using lt by (simp add: word_less_nat_alt)
    also have "\<dots> \<le> (2 :: nat) ^ m" using that by (intro power_increasing) simp_all
    finally have "\<not> bit (unat (so_ip_proto e)) m" by (simp add: bit_iff_odd)
    then show ?thesis by (auto simp: bit_unsigned_iff dest: bit_u32D)
  qed
  show "bit (set_low_byte (so_ip_proto e) b) n = bit (ucast b :: u32) n"
    using n high by (auto simp: set_low_byte_def le32_def byte_of_def bit_simps)
qed

context skb_access
begin

lemma fragment_at: "ip_is_fragment load s 14 = frame16 (skb_frame s) 20 AND 0x3FFF"
  by (simp add: ip_is_fragment_def u16_at ip_offsets IP_MF_def IP_OFFSET_def)

lemma event_at:
  "socket_handler load rops s rb =
     (if whole_ipv4 (skb_frame s) then
        case rb_reserve rops rb 24 of
          None \<Rightarrow> (rb, 0)
        | Some (e, rb') \<Rightarrow> (rb_submit rops rb' (frame_event s e), sint (skb_len s))
      else (rb, 0))"
  by (auto simp: socket_handler_def u16_at fragment_at whole_ipv4_def so_event_size ETH_P_IP_def
      ip_offsets ETH_HLEN_def u8_at u32_at unat_l4 frame_event_def Let_def IPPROTO_GRE_def
      l4_offset_def split: option.splits intro!: arg_cong [of _ _ "rb_submit rops _"])

end

text \<open>Dotted decimal notation loses nothing: addresses with the same text are the same address.\<close>

lemma append_dot_eq:
  "CHR ''.'' \<notin> set xs \<Longrightarrow> CHR ''.'' \<notin> set ys \<Longrightarrow>
   (xs @ CHR ''.'' # us = ys @ CHR ''.'' # vs) = (xs = ys \<and> us = vs)"
proof (induction xs arbitrary: ys)
  case Nil
  then show ?case by (cases ys) auto
next
  case (Cons x xs)
  then show ?case by (cases ys) auto
qed

lemma inet_ntoa_inj: "inet_ntoa a = inet_ntoa b \<Longrightarrow> a = b"
proof -
  assume eq: "inet_ntoa a = inet_ntoa b"
  have "byte_of 0 a = byte_of 0 b" "byte_of 1 a = byte_of 1 b" "byte_of 2 a = byte_of 2 b" "byte_of 3 a = byte_of 3 b"
    using eq by (auto simp: inet_ntoa_def append_dot_eq dec_no_dot word_unat_eq_iff dest!: dec_inj)
  moreover have "le32 (byte_of 0 w) (byte_of 1 w) (byte_of 2 w) (byte_of 3 w) = w" for w
    by (rule le32_bytes)
  ultimately show ?thesis by metis
qed

text \<open>The two halves of a 32-bit load are the 16-bit loads at the same place.\<close>

lemma port16_le32:
  assumes "so_ports e = le32 a b c d"
  shows "ntohs (port16 e 0) = be16 a b" and "ntohs (port16 e 1) = be16 c d"
proof -
  have "port16 e 0 = le16 a b"
    by (rule bit_word_eqI) (auto simp: port16_def assms le16_def le32_def bit_simps bit_u8_high)
  moreover have "port16 e 1 = le16 c d"
    by (rule bit_word_eqI) (auto simp: port16_def assms le16_def le32_def bit_simps bit_u8_high)
  ultimately show "ntohs (port16 e 0) = be16 a b" and "ntohs (port16 e 1) = be16 c d"
    by simp_all
qed

lemma ucast_u8_u32: "(ucast (b :: u8) :: u32) < 256" "((ucast b :: u32) = 47) = (b = 47)"
proof -
  have u: "unat (ucast b :: u32) = unat b" by (rule unat_ucast_up) simp
  then show "(ucast b :: u32) < 256" using unsigned_less [of b, where ?'a = nat] by (simp add: word_less_nat_alt)
  show "((ucast b :: u32) = 47) = (b = 47)" by (simp add: word_unat_eq_iff u)
qed

text \<open>Both arguments point to the text of the address that was formatted last.\<close>

lemma ntoa_args_eq:
  "ntoa_args src_first src dst mem = (NTOA_BUF, NTOA_BUF, mem') \<Longrightarrow> mem' NTOA_BUF = inet_ntoa (if src_first then dst else src)"
  "\<exists>mem'. ntoa_args src_first src dst mem = (NTOA_BUF, NTOA_BUF, mem')"
  by (auto simp: ntoa_args_def call_inet_ntoa_def split: if_splits)

lemma handled_event_line:
  fixes s :: skb and e :: so_event
  assumes "l4_offset (skb_frame s) + 4 \<le> length (skb_frame s)" and "34 \<le> length (skb_frame s)" and "so_ip_proto e < 256"
    and "skb_frame s ! 23 \<noteq> 47" and "skb_pkt_type s = PACKET_HOST" and "ifname (skb_ifindex s) = Some n"
    and "f = skb_frame s" and "p = l4_offset f" and "addr = inet_ntoa (frame32 f (if src_first then 30 else 26))"
  shows "so_handle_event src_first ifname (frame_event s e) mem =
    ([\<lparr>sl_ifname = n, sl_protocol = ipproto_mapping (ucast (f ! 23)), sl_src = addr,
       sl_sport = be16 (f ! p) (f ! (p + 1)), sl_dst = addr, sl_dport = be16 (f ! (p + 2)) (f ! (p + 3))\<rparr>], 0)"
proof -
  have proto: "set_low_byte (so_ip_proto e) (frame8 f 23) = ucast (f ! 23)"
    using assms(2,3,7) by (simp add: le32_low frame8_def)
  have small: "\<not> IPPROTO_MAX \<le> ucast (f ! 23)"
    using ucast_u8_u32(1) [of "f ! 23"] by (simp add: IPPROTO_MAX_def word_less_nat_alt word_le_nat_alt)
  have ev: "so_ip_proto (frame_event s e) = ucast (f ! 23)" "so_src_addr (frame_event s e) = frame32 f 26"
    "so_dst_addr (frame_event s e) = frame32 f 30" "so_pkt_type (frame_event s e) = PACKET_HOST" "so_ifindex (frame_event s e) = skb_ifindex s"
    using assms(4,5) proto ucast_u8_u32(2) [of "f ! 23"] by (simp_all add: frame_event_def Let_def flip: assms(7))
  have "so_ports (frame_event s e) = le32 (f ! p) (f ! (p + 1)) (f ! (p + 2)) (f ! (p + 3))"
    using assms(1) by (simp add: assms(7,8) frame_event_def Let_def frame32_def)
  note ports = port16_le32 [OF this]
  obtain mem' where m: "ntoa_args src_first (frame32 f 26) (frame32 f 30) mem = (NTOA_BUF, NTOA_BUF, mem')"
    using ntoa_args_eq(2) by blast
  then have "mem' NTOA_BUF = addr" using ntoa_args_eq(1) [OF m] by (simp add: assms(9))
  with m small assms(6) show ?thesis
    by (simp add: so_handle_event_def ev ports(1) ports(2) [unfolded One_nat_def])
qed

section \<open>Properties\<close>

text \<open>C24: the filter reports exactly the unfragmented IPv4 frames. For every frame, of any length and
  with any contents, the program sends one event when the frame carries the IPv4 ethertype and its
  fragment fields are zero and the ring buffer has room, and none otherwise. The event holds the
  addresses, the first four bytes of the layer 4 header found through the header length, the packet
  type and the interface; the return value accepts the whole frame or drops it. The upper bytes of
  the protocol, and the addresses of a GRE packet, are what the ring buffer memory held before.\<close>

theorem socket_handler_exact:
  assumes "skb_access load" and "bpf_ringbuf rops" and "length (skb_frame s) < 2 ^ 31"
  shows "rb_committed rops (fst (socket_handler load rops s rb)) = rb_committed rops rb @
      (case rb_reserve rops rb 24 of
         Some (e, rb') \<Rightarrow> if whole_ipv4 (skb_frame s) then [frame_event s e] else []
       | None \<Rightarrow> []) \<and>
    snd (socket_handler load rops s rb) =
      (if whole_ipv4 (skb_frame s) \<and> rb_reserve rops rb 24 \<noteq> None then int (length (skb_frame s)) else 0)"
proof -
  have len: "sint (skb_len s) = int (length (skb_frame s))"
    using assms(3) unfolding skb_len_def
    by (simp add: sint_uint signed_take_bit_int_eq_self uint_nat unat_of_nat)
  show ?thesis
    by (auto simp: skb_access.event_at [OF assms(1)] len bpf_ringbuf.reserve_submit [OF assms(2)]
        split: option.splits)
qed

definition so_frame :: bytes where
  "so_frame = replicate 12 0 @ [8, 0] @ [0x45, 0, 0, 28, 0, 0, 0x40, 0, 64, 6, 0, 0] @ [10, 0, 0, 1] @ [10, 0, 0, 2] @
     [0x1F, 0x90, 0, 80, 0, 0, 0, 0]"

definition so_clean :: so_event where
  "so_clean = \<lparr>so_src_addr = 0, so_dst_addr = 0, so_ports = 0, so_ip_proto = 0, so_pkt_type = 0, so_ifindex = 0\<rparr>"

theorem socket_handler_exact_witness:
  "rb_committed (ringbuf_inst_ops so_clean) (fst (socket_handler skb_load_inst (ringbuf_inst_ops so_clean)
     \<lparr>skb_frame = so_frame, skb_pkt_type = 0, skb_ifindex = 1\<rparr> \<lparr>rbi_free = 4096, rbi_done = []\<rparr>)) =
   [] @ [frame_event \<lparr>skb_frame = so_frame, skb_pkt_type = 0, skb_ifindex = 1\<rparr> so_clean]"
proof -
  have l: "length so_frame = 42" and w: "whole_ipv4 so_frame" by code_simp+
  show ?thesis
    using socket_handler_exact [OF skb.skb_access_axioms ringbuf.bpf_ringbuf_axioms,
      of "\<lparr>skb_frame = so_frame, skb_pkt_type = 0, skb_ifindex = 1\<rparr>" so_clean "\<lparr>rbi_free = 4096, rbi_done = []\<rparr>"]
    by (simp add: l w inst_defs)
qed

text \<open>C32: from the frame to the printed line. Let the ring buffer have room, with clean memory, and let the
  filter see an unfragmented IPv4 frame with a complete header and layer 4 ports, received by the host on a known
  interface, whose protocol is not GRE. The BPF program commits one event, and for that event \<^verbatim>\<open>handle_event\<close> prints one
  line with the name of the protocol in the header (NULL when the table has none) and the two ports of the frame
  in host order. Where the line should show source and destination it shows one address twice: the destination
  if the compiler evaluates the arguments from left to right, the source otherwise; so whenever the two differ
  one of them is wrong.\<close>

theorem sockfilter_line:
  assumes "skb_access load" and "bpf_ringbuf rops" and "rb_reserve rops rb 24 = Some (e, rb')" and "so_ip_proto e < 256"
    and "f = skb_frame s" and "whole_ipv4 f" and "p = l4_offset f" and "p + 4 \<le> length f" and "34 \<le> length f" and "f ! 23 \<noteq> 47"
    and "skb_pkt_type s = PACKET_HOST" and "ifname (skb_ifindex s) = Some n"
    and "addr = inet_ntoa (frame32 f (if src_first then 30 else 26))"
  shows "\<exists>ev. rb_committed rops (fst (socket_handler load rops s rb)) = rb_committed rops rb @ [ev] \<and>
    so_handle_event src_first ifname ev mem =
      ([\<lparr>sl_ifname = n, sl_protocol = ipproto_mapping (ucast (f ! 23)), sl_src = addr,
         sl_sport = be16 (f ! p) (f ! (p + 1)), sl_dst = addr,
         sl_dport = be16 (f ! (p + 2)) (f ! (p + 3))\<rparr>], 0) \<and>
    (frame32 f 26 \<noteq> frame32 f 30 \<longrightarrow> addr \<noteq> inet_ntoa (frame32 f (if src_first then 26 else 30)))"
proof (intro exI [of _ "frame_event s e"] conjI impI)
  show "rb_committed rops (fst (socket_handler load rops s rb)) = rb_committed rops rb @ [frame_event s e]"
    using assms(6) by (simp add: skb_access.event_at [OF assms(1)] assms(3,5) bpf_ringbuf.reserve_submit [OF assms(2,3)])
  show "so_handle_event src_first ifname (frame_event s e) mem =
      ([\<lparr>sl_ifname = n, sl_protocol = ipproto_mapping (ucast (f ! 23)), sl_src = addr,
         sl_sport = be16 (f ! p) (f ! (p + 1)), sl_dst = addr, sl_dport = be16 (f ! (p + 2)) (f ! (p + 3))\<rparr>], 0)"
    using assms(4,7-13) by (intro handled_event_line) (simp_all add: assms(5))
  assume "frame32 f 26 \<noteq> frame32 f 30"
  then show "addr \<noteq> inet_ntoa (frame32 f (if src_first then 26 else 30))"
    using inet_ntoa_inj by (auto simp: assms(13))
qed

theorem sockfilter_line_witness:
  "\<exists>ev. rb_committed (ringbuf_inst_ops so_clean) (fst (socket_handler skb_load_inst (ringbuf_inst_ops so_clean)
       \<lparr>skb_frame = so_frame, skb_pkt_type = 0, skb_ifindex = 1\<rparr> \<lparr>rbi_free = 4096, rbi_done = []\<rparr>)) = [ev] \<and>
    so_handle_event True (\<lambda>i. if i = 1 then Some ''lo'' else None) ev (\<lambda>_. []) =
      ([\<lparr>sl_ifname = ''lo'', sl_protocol = Some ''TCP'', sl_src = ''10.0.0.2'', sl_sport = 8080, sl_dst = ''10.0.0.2'',
         sl_dport = 80\<rparr>], 0)"
proof -
  let ?s = "\<lparr>skb_frame = so_frame, skb_pkt_type = 0, skb_ifindex = 1\<rparr>" and ?rb = "\<lparr>rbi_free = 4096, rbi_done = []\<rparr>"
  have r: "rb_reserve (ringbuf_inst_ops so_clean) ?rb 24 = Some (so_clean, \<lparr>rbi_free = 4096 - 32, rbi_done = []\<rparr>)" by code_simp
  have a: "l4_offset so_frame = 34" "length so_frame = 42" "whole_ipv4 so_frame" "so_ip_proto so_clean < 256" by code_simp+
  have c: "so_frame ! 23 = 6" "so_frame ! 34 = 0x1F" "so_frame ! 35 = 0x90" "so_frame ! 36 = 0" "so_frame ! 37 = 80"
    by code_simp+
  have d: "be16 0x1F 0x90 = 8080" "be16 0 80 = 80" "ipproto_mapping 6 = Some ''TCP''" "inet_ntoa (frame32 so_frame 30) = ''10.0.0.2''"
    by code_simp+
  have e: "rb_committed (ringbuf_inst_ops so_clean) ?rb = []" by (simp add: ringbuf_inst_ops_def)
  show ?thesis
    using sockfilter_line [OF skb.skb_access_axioms ringbuf.bpf_ringbuf_axioms r a(4), where s = ?s and f = so_frame and p = 34
        and ifname = "\<lambda>i. if i = 1 then Some ''lo'' else None" and n = "''lo''" and src_first = True and mem = "\<lambda>_. []"]
    by (auto simp: a c d e PACKET_HOST_def)
qed

end
