(* ===== verification/Abi.thy ===== *)
theory Abi
  imports Vmlinux_508 Vmlinux_515 Vmlinux_516 Vmlinux_pod Vmlinux_cargo Podsnoop Bootstrap Runqslower Capable Tracecon
    Sockfilter Profile
begin

text \<open>
  What the programs rely on in the kernel headers of the repository. The five generated headers
  describe five kernels: \<^verbatim>\<open>libbpf-cargo/test_data/vmlinux.h\<close> (the oldest), \<^verbatim>\<open>vmlinux_508.h\<close>,
  \<^verbatim>\<open>vmlinux_515.h\<close>, the header of the pod snooper and \<^verbatim>\<open>vmlinux_516.h\<close> (arm64). A program compiled
  against one of them runs on another: the numbers of helpers, map types, program types and attach
  points must not change, packet headers must have one layout, and a structure whose layout does
  change must be read through relocations.
\<close>

section \<open>Stable enumerations\<close>

text \<open>The markers for the number of constants (\<^verbatim>\<open>__...MAX\<close>) move with every release.\<close>

definition stable :: "(string \<times> int) list \<Rightarrow> (string \<times> int) list" where
  "stable es = filter (\<lambda>(n, v). take 2 n \<noteq> ''__'') es"

text \<open>Each table extends the ones before it.\<close>

fun append_only :: "(string \<times> int) list list \<Rightarrow> bool" where
  "append_only (a # b # rest) = (prefix (stable a) (stable b) \<and> append_only (b # rest))"
| "append_only tables = True"

lemma stable_split:
  assumes "take k xs = take k ys" and "prefix (stable (drop k xs)) (stable (drop k ys))"
  shows "prefix (stable xs) (stable ys)"
proof -
  have "stable zs = stable (take k zs) @ stable (drop k zs)" for zs
    unfolding stable_def by (metis append_take_drop_id filter_append)
  then show ?thesis using assms by (metis same_prefix_prefix)
qed

lemma func_ids_cargo_508: "prefix (stable bpf_func_id_cargo) (stable bpf_func_id_508)"
  by code_simp

lemma func_ids_508_515: "prefix (stable bpf_func_id_508) (stable bpf_func_id_515)"
  by code_simp

lemma func_ids_515_pod_low: "take 90 bpf_func_id_515 = take 90 bpf_func_id_pod"
  by code_simp

lemma func_ids_515_pod_high: "prefix (stable (drop 90 bpf_func_id_515)) (stable (drop 90 bpf_func_id_pod))"
  by code_simp

lemma func_ids_515_pod: "prefix (stable bpf_func_id_515) (stable bpf_func_id_pod)"
  by (rule stable_split [OF func_ids_515_pod_low func_ids_515_pod_high])

lemma func_ids_pod_516_low: "take 90 bpf_func_id_pod = take 90 bpf_func_id_516"
  by code_simp

lemma func_ids_pod_516_high: "prefix (stable (drop 90 bpf_func_id_pod)) (stable (drop 90 bpf_func_id_516))"
  by code_simp

lemma func_ids_pod_516: "prefix (stable bpf_func_id_pod) (stable bpf_func_id_516)"
  by (rule stable_split [OF func_ids_pod_516_low func_ids_pod_516_high])

lemma func_ids_append_only:
  "append_only [bpf_func_id_cargo, bpf_func_id_508, bpf_func_id_515, bpf_func_id_pod, bpf_func_id_516]"
  by (simp add: func_ids_cargo_508 func_ids_508_515 func_ids_515_pod func_ids_pod_516)

lemma map_types_append_only:
  "append_only [bpf_map_type_cargo, bpf_map_type_508, bpf_map_type_515, bpf_map_type_pod, bpf_map_type_516]"
  by code_simp

lemma prog_types_append_only:
  "append_only [bpf_prog_type_cargo, bpf_prog_type_508, bpf_prog_type_515, bpf_prog_type_pod, bpf_prog_type_516]"
  by code_simp

lemma attach_types_append_only:
  "append_only [bpf_attach_type_cargo, bpf_attach_type_508, bpf_attach_type_515, bpf_attach_type_pod, bpf_attach_type_516]"
  by code_simp

section \<open>The task structure\<close>





section \<open>Network structures\<close>

lemma net_eqs:
  "ethhdr_515 = ethhdr_508" "ethhdr_pod = ethhdr_508" "ethhdr_516 = ethhdr_508"
  "iphdr_515 = iphdr_508" "iphdr_pod = iphdr_508" "iphdr_516 = iphdr_508"
  "ipv6hdr_515 = ipv6hdr_508" "ipv6hdr_pod = ipv6hdr_508" "ipv6hdr_516 = ipv6hdr_508"
  "tcphdr_515 = tcphdr_508" "tcphdr_pod = tcphdr_508" "tcphdr_516 = tcphdr_508"
  "udphdr_515 = udphdr_508" "udphdr_pod = udphdr_508" "udphdr_516 = udphdr_508"
  "xdp_md_515 = xdp_md_508" "xdp_md_pod = xdp_md_508" "xdp_md_516 = xdp_md_508"
  "sockaddr_in_515 = sockaddr_in_508" "sockaddr_in_pod = sockaddr_in_508" "sockaddr_in_516 = sockaddr_in_508"
  by (simp_all add: ethhdr_508_def ethhdr_515_def ethhdr_pod_def ethhdr_516_def iphdr_508_def iphdr_515_def iphdr_pod_def
      iphdr_516_def ipv6hdr_508_def ipv6hdr_515_def ipv6hdr_pod_def ipv6hdr_516_def in6_addr_508_def
      in6_addr_515_def in6_addr_pod_def in6_addr_516_def tcphdr_508_def tcphdr_515_def tcphdr_pod_def
      tcphdr_516_def udphdr_508_def udphdr_515_def udphdr_pod_def udphdr_516_def xdp_md_508_def xdp_md_515_def
      xdp_md_pod_def xdp_md_516_def sockaddr_in_508_def sockaddr_in_515_def sockaddr_in_pod_def
      sockaddr_in_516_def in_addr_508_def in_addr_515_def in_addr_pod_def in_addr_516_def)

lemma sock_common_eqs: "sock_common_515 = sock_common_508" "sock_common_pod = sock_common_508" "sock_common_516 = sock_common_508"
  by (simp_all add: sock_common_508_def sock_common_515_def sock_common_pod_def sock_common_516_def possible_net_t_508_def
      possible_net_t_515_def possible_net_t_pod_def possible_net_t_516_def hlist_node_508_def
      hlist_node_515_def hlist_node_pod_def hlist_node_516_def hlist_nulls_node_508_def
      hlist_nulls_node_515_def hlist_nulls_node_pod_def hlist_nulls_node_516_def atomic64_t_508_def
      atomic64_t_515_def atomic64_t_pod_def atomic64_t_516_def in6_addr_508_def in6_addr_515_def
      in6_addr_pod_def in6_addr_516_def refcount_struct_508_def refcount_struct_515_def refcount_struct_pod_def
      refcount_struct_516_def atomic_t_508_def atomic_t_515_def atomic_t_pod_def atomic_t_516_def)

section \<open>What the programs read\<close>














section \<open>Properties\<close>

text \<open>The kernel interface only grows. In the order of the kernels, the helper numbers, the map types,
  the program types and the attach types of each header start with all those of the one before, with
  the same names and values: a program compiled against an older header calls the same helpers on
  every newer kernel.\<close>

lemma kernel_interface_append_only:
  "append_only [bpf_func_id_cargo, bpf_func_id_508, bpf_func_id_515, bpf_func_id_pod, bpf_func_id_516] \<and>
   append_only [bpf_map_type_cargo, bpf_map_type_508, bpf_map_type_515, bpf_map_type_pod, bpf_map_type_516] \<and>
   append_only [bpf_prog_type_cargo, bpf_prog_type_508, bpf_prog_type_515, bpf_prog_type_pod, bpf_prog_type_516] \<and>
   append_only [bpf_attach_type_cargo, bpf_attach_type_508, bpf_attach_type_515, bpf_attach_type_pod, bpf_attach_type_516]"
  by (intro conjI func_ids_append_only map_types_append_only prog_types_append_only attach_types_append_only)


text \<open>The structures the packet and socket programs read have one layout in all headers: the Ethernet,
  IPv4, IPv6, TCP and UDP headers, the XDP context, socket addresses and the common part of a socket
  are declared alike, and the address \<^verbatim>\<open>tracecon\<close> reads is the first member of every socket.\<close>

lemma network_layouts_agree:
  "{ethhdr_515, ethhdr_pod, ethhdr_516} = {ethhdr_508} \<and> {iphdr_515, iphdr_pod, iphdr_516} = {iphdr_508} \<and>
   {ipv6hdr_515, ipv6hdr_pod, ipv6hdr_516} = {ipv6hdr_508} \<and> {tcphdr_515, tcphdr_pod, tcphdr_516} = {tcphdr_508} \<and>
   {udphdr_515, udphdr_pod, udphdr_516} = {udphdr_508} \<and> {xdp_md_515, xdp_md_pod, xdp_md_516} = {xdp_md_508} \<and>
   {sockaddr_in_515, sockaddr_in_pod, sockaddr_in_516} = {sockaddr_in_508} \<and>
   {sock_common_515, sock_common_pod, sock_common_516} = {sock_common_508} \<and>
   map (\<lambda>t. moff t ''__sk_common'') [sock_508, sock_515, sock_pod, sock_516] = [Some 0, Some 0, Some 0, Some 0] \<and>
   moff sock_common_508 ''skc_daddr'' = Some 0"
proof (intro conjI)
  show "{sock_common_515, sock_common_pod, sock_common_516} = {sock_common_508}"
    by (simp add: sock_common_eqs)
  show "map (\<lambda>t. moff t ''__sk_common'') [sock_508, sock_515, sock_pod, sock_516] = [Some 0, Some 0, Some 0, Some 0]"
    by (simp add: sock_508_def sock_515_def sock_pod_def sock_516_def layout_eval)
  show "moff sock_common_508 ''skc_daddr'' = Some 0"
    by (simp add: sock_common_508_def layout_eval)
qed (simp_all add: net_eqs)

end
