(* ===== verification/Bpf_Query.thy ===== *)
theory Bpf_Query
  imports Libbpf_Query Front_Ends Abi
begin

text \<open>
  The program \<^verbatim>\<open>libbpf-rs/examples/bpf_query/src/main.rs\<close>, which lists the BPF objects of the running kernel with the
  queries of \<^verbatim>\<open>libbpf-rs\<close>, and the names it prints for types, compared with the kernel headers.
\<close>

section \<open>Definitions\<close>

datatype bq_command = BqProg | BqMap | BqBtf | BqLink

text \<open>The kernel: the calls for each kind of object, and the name of a raw tracepoint.\<close>

record 'r bq_kernel =
  bq_progs :: "'r prog_uapi query_ops"
  bq_maps :: "map_uapi query_ops"
  bq_btfs :: "btf_info query_ops"
  bq_links :: "link_uapi query_ops"
  bq_tp_name :: "int \<Rightarrow> bytes option"

text \<open>\<^verbatim>\<open>Display for MapType\<close>\<close>

definition map_type_display :: "map_type \<Rightarrow> string" where
  "map_type_display t = (case map_of (zip MAP_TYPES MAP_TYPE_NAMES) t of Some n \<Rightarrow> n | None \<Rightarrow> ''Unknown'')"

definition bq_prog_line :: "'r prog_info \<Rightarrow> fe_line" where
  "bq_prog_line p = (''name={:<16} type={:<15} run_count={:<2} runtime_ns={}'',
     [Txt (pi_name p), Txt (pi_ty p), Num (uint (pi_run_cnt p)), Num (uint (pi_run_time_ns p))])"

definition bq_map_line :: "map_info \<Rightarrow> fe_line" where
  "bq_map_line m = (''name={:<16} type={}'', [Txt (mi_name m), Txt (map_type_display (mi_ty m))])"

definition bq_btf_line :: "btf_info \<Rightarrow> fe_line" where
  "bq_btf_line b = (''id={:4} size={}'', [Num (uint (bi_id b)), Num (uint (bi_btf_size b))])"

definition link_type_str :: "link_type_info \<Rightarrow> string" where
  "link_type_str t =
     (case t of RawTracepoint _ \<Rightarrow> ''raw_tracepoint'' | Tracing _ \<Rightarrow> ''tracing'' | Cgroup _ _ \<Rightarrow> ''cgroup''
      | IterLink \<Rightarrow> ''iter'' | NetNs _ _ \<Rightarrow> ''netns'' | UnknownLink \<Rightarrow> ''unknown'')"

definition bq_link_line :: "link_info \<Rightarrow> fe_line" where
  "bq_link_line l = (''id={:4} prog_id={:4} type={}'',
     [Num (uint (li_id l)), Num (uint (li_prog_id l)), Txt (link_type_str (li_info l))])"

text \<open>A \<^verbatim>\<open>for\<close> loop that prints a line for each object.\<close>

definition print_all :: "'s query_ops \<Rightarrow> (int \<Rightarrow> 's \<Rightarrow> 'i option) \<Rightarrow> ('i \<Rightarrow> fe_line) \<Rightarrow> fe_line list option" where
  "print_all ops from_uapi line = map_option (\<lambda>r. map line (snd r)) (info_all ops from_uapi 0)"

text \<open>\<^verbatim>\<open>main\<close>: the lines of both output streams and the exit status.\<close>

definition bpf_query_main :: "'r bq_kernel \<Rightarrow> u32 \<Rightarrow> bq_command \<Rightarrow> (fe_line list \<times> int) option" where
  "bpf_query_main k euid opts =
     (if euid \<noteq> 0 then Some ([(''Must run as root'', [])], 1)
      else map_option (\<lambda>ls. (ls, 0))
        (case opts of
           BqProg \<Rightarrow> print_all (bq_progs k) prog_info_from_uapi bq_prog_line
         | BqMap \<Rightarrow> print_all (bq_maps k) map_info_from_uapi bq_map_line
         | BqBtf \<Rightarrow> print_all (bq_btfs k) btf_info_from_uapi bq_btf_line
         | BqLink \<Rightarrow> print_all (bq_links k) (link_info_from_uapi (bq_tp_name k)) bq_link_line))"

section \<open>Names of types\<close>

text \<open>
  An enumerator of a kernel header without its prefix, in lower case and without underscores; the library writes the
  same name in camel case.
\<close>

definition plain_name :: "string \<Rightarrow> string \<Rightarrow> string" where
  "plain_name pre x = map ascii_lower (filter (\<lambda>c. c \<noteq> CHR ''_'') (drop (length pre) x))"

definition named_as :: "string \<Rightarrow> string list \<Rightarrow> (string \<times> int) list \<Rightarrow> bool" where
  "named_as pre names enum \<longleftrightarrow>
     list_all (\<lambda>(x, n). prefix pre x \<and> map ascii_lower (enum_name_of names (word_of_int n)) = plain_name pre x) (stable enum)"

lemma named_as_prefix: "prefix (stable a) (stable b) \<Longrightarrow> named_as pre names b \<Longrightarrow> named_as pre names a"
  by (auto simp: named_as_def prefix_def)

lemma named_as_append_only:
  "append_only [a, b, c, d, e] \<Longrightarrow> named_as pre names e \<Longrightarrow> list_all (named_as pre names) [a, b, c, d, e]"
  using named_as_prefix by auto

lemma ascii_lower_code [code]:
  "ascii_lower c = (let n = of_char c :: int in if 65 \<le> n \<and> n \<le> 90 then char_of (n + 32) else c)"
proof -
  have n: "(of_char c :: int) = int (of_char c)" by (simp add: of_nat_of_char)
  have "char_of (int (of_char c) + 32) = char_of ((of_char c :: nat) + 32)"
    using char_of_nat [of "of_char c + 32", where 'a = int] by simp
  then show ?thesis by (simp add: ascii_lower_def Let_def n)
qed

text \<open>When the enumerators are numbered from 0 on, it is enough to compare the names in order.\<close>

lemma named_asI:
  assumes "map snd (stable enum) = map int [0..<length (stable enum)]"
    and "length names < 2 ^ 32" and "length (stable enum) \<le> length names"
    and "list_all2 (\<lambda>x n. prefix pre x \<and> map ascii_lower n = plain_name pre x) (map fst (stable enum)) (take (length (stable enum)) names)"
  shows "named_as pre names enum"
proof -
  have "prefix pre (fst (stable enum ! i)) \<and> map ascii_lower (enum_name_of names (word_of_int (snd (stable enum ! i)))) = plain_name pre (fst (stable enum ! i))"
    if i: "i < length (stable enum)" for i
  proof -
    have "snd (stable enum ! i) = int i" using arg_cong [OF assms(1), of "\<lambda>l. l ! i"] i by simp
    moreover have "unat (of_nat i :: u32) = i" using i assms(2,3) by (simp add: unat_of_nat)
    ultimately show ?thesis
      using assms(3,4) i by (auto simp: list_all2_conv_all_nth enum_name_of_def)
  qed
  then show ?thesis by (simp add: named_as_def list_all_length case_prod_beta)
qed

lemma map_types_516: "named_as ''BPF_MAP_TYPE_'' MAP_TYPE_NAMES bpf_map_type_516"
proof (rule named_asI)
  show "length MAP_TYPE_NAMES < 2 ^ 32" by (simp add: MAP_TYPE_NAMES_def)
qed code_simp+

lemma prog_types_516: "named_as ''BPF_PROG_TYPE_'' PROGRAM_TYPES bpf_prog_type_516"
proof (rule named_asI)
  show "length PROGRAM_TYPES < 2 ^ 32" by (simp add: PROGRAM_TYPES_def)
qed code_simp+

lemma attach_types_516: "named_as ''BPF_'' ATTACH_TYPES bpf_attach_type_516"
proof (rule named_asI)
  show "length ATTACH_TYPES < 2 ^ 32" by (simp add: ATTACH_TYPES_def)
qed code_simp+

lemma map_types_distinct: "distinct MAP_TYPES" "length MAP_TYPES = length MAP_TYPE_NAMES" by code_simp+

lemma map_type_displayed:
  "map_type_display (if unat n < length MAP_TYPES then MAP_TYPES ! unat n else MtUnknown) = enum_name_of MAP_TYPE_NAMES n"
proof (cases "unat n < length MAP_TYPES")
  case True
  then have "map_of (zip MAP_TYPES MAP_TYPE_NAMES) (MAP_TYPES ! unat n) = Some (MAP_TYPE_NAMES ! unat n)"
    using map_types_distinct by (intro map_of_zip_nth) auto
  with True map_types_distinct(2) show ?thesis by (simp add: map_type_display_def enum_name_of_def)
next
  case False
  have "map_type_display MtUnknown = ''Unknown''" by code_simp
  with False map_types_distinct(2) show ?thesis by (simp add: enum_name_of_def)
qed

lemma listed_all:
  assumes "\<And>i. i \<in> set is \<Longrightarrow> \<exists>fd. q_fd_by_id ops i = Inr fd \<and> Option.bind (q_info ops fd) (from_uapi fd) = Some (obj i)"
  shows "snd (listed ops from_uapi is) = map obj is"
  using assms by (induction "is") (fastforce split: prod.splits)+

section \<open>Properties\<close>

text \<open>The names of types that the library prints are those of the kernel. For all five headers, every map type, program type
  and attach type of the kernel has, in the library, the name of its enumerator, in camel case and without the
  prefix.\<close>

lemma library_type_names:
  "list_all (named_as ''BPF_MAP_TYPE_'' MAP_TYPE_NAMES)
     [bpf_map_type_cargo, bpf_map_type_508, bpf_map_type_515, bpf_map_type_pod, bpf_map_type_516] \<and>
   list_all (named_as ''BPF_PROG_TYPE_'' PROGRAM_TYPES)
     [bpf_prog_type_cargo, bpf_prog_type_508, bpf_prog_type_515, bpf_prog_type_pod, bpf_prog_type_516] \<and>
   list_all (named_as ''BPF_'' ATTACH_TYPES)
     [bpf_attach_type_cargo, bpf_attach_type_508, bpf_attach_type_515, bpf_attach_type_pod, bpf_attach_type_516]"
  by (intro conjI named_as_append_only map_types_append_only prog_types_append_only attach_types_append_only
      map_types_516 prog_types_516 attach_types_516)

text \<open>\<^verbatim>\<open>bpf_query map\<close> prints the maps of the kernel. Run as root, when the kernel hands out its ids in increasing order and
  every map can be opened and described, it ends with status 0 after one line for each map, in the
  order of the ids, with the map's name and the name of its type; for any other user it prints that it must
  run as root and exits with status 1.\<close>

lemma bpf_query_prints_maps:
  assumes "ids_in_order (bq_maps k) is" and "0 \<notin> set is"
    and "\<And>i. i \<in> set is \<Longrightarrow> \<exists>fd. q_fd_by_id (bq_maps k) i = Inr fd \<and> q_info (bq_maps k) fd = Some (desc i)"
  shows "bpf_query_main k 0 BqMap =
      Some (map (\<lambda>i. (''name={:<16} type={}'',
        [Txt (name_arr_to_string (mu_name (desc i)) ''(?)''), Txt (enum_name_of MAP_TYPE_NAMES (mu_type (desc i)))])) is, 0) \<and>
    (euid \<noteq> 0 \<longrightarrow> bpf_query_main k euid opts = Some ([(''Must run as root'', [])], 1))"
proof -
  have "snd (listed (bq_maps k) map_info_from_uapi is) = map (\<lambda>i. the (map_info_from_uapi 0 (desc i))) is"
    using assms(3) by (intro listed_all) (fastforce simp: map_info_from_uapi_def)
  moreover have "bq_map_line (the (map_info_from_uapi 0 d)) =
      (''name={:<16} type={}'', [Txt (name_arr_to_string (mu_name d) ''(?)''), Txt (enum_name_of MAP_TYPE_NAMES (mu_type d))])" for d
    using map_type_displayed [of "mu_type d"] by (simp add: bq_map_line_def map_info_from_uapi_def)
  ultimately show ?thesis
    by (simp add: bpf_query_main_def print_all_def info_all_from_start [OF assms(1,2)] comp_def)
qed

definition one_map :: map_uapi where
  "one_map = \<lparr>mu_type = 27, mu_name = [114, 98] @ replicate 14 0, mu_id = 7, mu_key_size = 0, mu_value_size = 0, mu_max_entries = 4096,
     mu_map_flags = 0, mu_ifindex = 0, mu_btf_vmlinux_value_type_id = 0, mu_netns_dev = 0, mu_netns_ino = 0, mu_btf_id = 0,
     mu_btf_key_type_id = 0, mu_btf_value_type_id = 0\<rparr>"

definition no_objects :: "'s query_ops" where
  "no_objects = \<lparr>q_next_id = (\<lambda>_. None), q_fd_by_id = (\<lambda>_. Inl ENOENT), q_info = (\<lambda>_. None)\<rparr>"

definition one_map_kernel :: "unit bq_kernel" where
  "one_map_kernel = \<lparr>bq_progs = no_objects,
     bq_maps = \<lparr>q_next_id = (\<lambda>c. find (\<lambda>i. c < i) [7]), q_fd_by_id = (\<lambda>i. if i = 7 then Inr 3 else Inl ENOENT), q_info = (\<lambda>fd. Some one_map)\<rparr>,
     bq_btfs = no_objects, bq_links = no_objects, bq_tp_name = (\<lambda>_. None)\<rparr>"

lemma bpf_query_prints_maps_example:
  "bpf_query_main one_map_kernel 0 BqMap = Some ([(''name={:<16} type={}'', [Txt ''rb'', Txt ''RingBuf''])], 0) \<and>
   bpf_query_main one_map_kernel 1000 BqMap = Some ([(''Must run as root'', [])], 1)"
proof -
  have ids: "ids_in_order (bq_maps one_map_kernel) [7]" by (simp add: ids_in_order_def one_map_kernel_def)
  have d: "\<exists>fd. q_fd_by_id (bq_maps one_map_kernel) i = Inr fd \<and> q_info (bq_maps one_map_kernel) fd = Some one_map" if "i \<in> set [7]" for i
    using that by (simp add: one_map_kernel_def)
  have n: "name_arr_to_string (mu_name one_map) ''(?)'' = ''rb''" "enum_name_of MAP_TYPE_NAMES (mu_type one_map) = ''RingBuf''"
    by code_simp+
  show ?thesis using bpf_query_prints_maps [OF ids _ d, of 1000 BqMap] n by simp
qed

end
