(* ===== verification/Loaders.thy ===== *)
theory Loaders
  imports Userspace
begin

text \<open>
  The \<^verbatim>\<open>main\<close> functions of \<^verbatim>\<open>minimal.c\<close>, \<^verbatim>\<open>minimal_legacy.c\<close>, \<^verbatim>\<open>fentry.c\<close>, \<^verbatim>\<open>kprobe.c\<close>, \<^verbatim>\<open>usdt.c\<close>, \<^verbatim>\<open>tc.c\<close>,
  \<^verbatim>\<open>uprobe.c\<close>, \<^verbatim>\<open>sockfilter.c\<close> and \<^verbatim>\<open>bootstrap.c\<close> under \<^verbatim>\<open>libbpf-bootstrap/examples/c\<close>, with the functions
  they call: the search for the offset of a function in \<^verbatim>\<open>/proc/self/maps\<close>, the raw socket, the
  command line of \<^verbatim>\<open>bootstrap\<close>. The results of the calls into libbpf, the C library's system calls and
  the kernel are the fields of the environment records.
\<close>

section \<open>Shared parts\<close>

text \<open>
  \<open>skel_open\<close>: the skeleton function that opens (and in some programs loads) returned one, not NULL.
  \<open>skel_load\<close> and \<open>skel_attach\<close>: the codes of the other two. \<open>errno_value\<close> is \<^verbatim>\<open>errno\<close> after a failed
  call, \<open>strerror\<close> the C library function.
\<close>

record skel_env =
  skel_open :: bool
  skel_load :: int
  skel_attach :: int
  getpid_result :: s32
  signal_fails :: bool
  errno_value :: int
  strerror :: "int \<Rightarrow> bytes"

definition libbpf_setup :: "action list" where
  "libbpf_setup = [Invoke ''libbpf_set_strict_mode'' [], Invoke ''libbpf_set_print'' []]"

definition skel_call :: "string \<Rightarrow> action list" where
  "skel_call f = [Use Skel, Invoke f []]"

text \<open>\<^verbatim>\<open>cleanup: ..._bpf__destroy(skel); return -err;\<close>\<close>

definition destroy_and_return :: "int \<Rightarrow> trace" where
  "destroy_and_return err = ([Release Skel], Exited (- err))"

definition dot :: "action list" where "dot = [Eprint (''.'', []), Sleep 1]"

section \<open>minimal.c and minimal_legacy.c\<close>

definition minimal_main :: "skel_env \<Rightarrow> nat \<Rightarrow> trace" where
  "minimal_main env rounds =
     emit libbpf_setup
       (if \<not> skel_open env then ([complain ''Failed to open BPF skeleton''], Exited 1)
        else emit ([Acquire Skel, SetGlobal ''my_pid'' (sint (getpid_result env))] @ skel_call ''minimal_bpf__load'')
          (if skel_load env \<noteq> 0
           then emit [complain ''Failed to load and verify BPF skeleton''] (destroy_and_return (skel_load env))
           else emit (skel_call ''minimal_bpf__attach'')
             (if skel_attach env \<noteq> 0
              then emit [complain ''Failed to attach BPF skeleton''] (destroy_and_return (skel_attach env))
              else emit [started ''to see output of the BPF programs.''] (dots_forever rounds))))"

record legacy_env = skel_env +
  map_update_rc :: int

definition minimal_legacy_main :: "legacy_env \<Rightarrow> nat \<Rightarrow> trace" where
  "minimal_legacy_main env rounds =
     emit libbpf_setup
       (if \<not> skel_open env then ([complain ''Failed to open and load BPF skeleton''], Exited 1)
        else emit [Acquire Skel, Use Skel, Invoke ''bpf_map__update_elem'' [0, sint (getpid_result env)]]
          (if map_update_rc env < 0
           then emit [Eprint (''Error updating map with pid: %s'' @ nl, [PStr (strerror env (map_update_rc env))])]
                  (destroy_and_return (map_update_rc env))
           else emit (skel_call ''minimal_legacy_bpf__attach'')
             (if skel_attach env \<noteq> 0
              then emit [complain ''Failed to attach BPF skeleton''] (destroy_and_return (skel_attach env))
              else emit [started ''to see output of the BPF programs.''] (dots_forever rounds))))"

section \<open>fentry.c and kprobe.c\<close>

text \<open>
  The two programs are the same but for the names. A failing \<^verbatim>\<open>signal\<close> leaves \<^verbatim>\<open>err\<close> as it is, 0.
\<close>

definition probe_main :: "string \<Rightarrow> skel_env \<Rightarrow> bool list \<Rightarrow> trace" where
  "probe_main attach env flags =
     emit libbpf_setup
       (if \<not> skel_open env then ([complain ''Failed to open BPF skeleton''], Exited 1)
        else emit (Acquire Skel # skel_call attach)
          (let err = skel_attach env in
           if err \<noteq> 0 then emit [complain ''Failed to attach BPF skeleton''] (destroy_and_return err)
           else emit [Invoke ''signal'' [2]]
             (if signal_fails env
              then emit [Eprint (''can't set signal handler: %s'' @ nl, [PStr (strerror env (errno_value env))])]
                     (destroy_and_return err)
              else emit [started ''to see output of the BPF programs.'']
                (let (as, fin) = dots_until dot flags in
                 if fin then emit as (destroy_and_return err) else (as, Running)))))"

definition fentry_main :: "skel_env \<Rightarrow> bool list \<Rightarrow> trace" where
  "fentry_main = probe_main ''fentry_bpf__attach''"

definition kprobe_main :: "skel_env \<Rightarrow> bool list \<Rightarrow> trace" where
  "kprobe_main = probe_main ''kprobe_bpf__attach''"

section \<open>usdt.c\<close>

text \<open>
  After the load the source tests \<^verbatim>\<open>skel\<close> again instead of \<^verbatim>\<open>err\<close>: the test repeats the first one and
  never succeeds, so a failed load goes unnoticed there.
\<close>

record usdt_env = skel_env +
  usdt_link_ok :: bool

definition usdt_main :: "usdt_env \<Rightarrow> bool list \<Rightarrow> trace" where
  "usdt_main env flags =
     emit libbpf_setup
       (if \<not> skel_open env then ([complain ''Failed to open BPF skeleton''], Exited 1)
        else emit ([Acquire Skel, SetGlobal ''my_pid'' (sint (getpid_result env))] @ skel_call ''usdt_bpf__load'')
          (if \<not> skel_open env then ([complain ''Failed to load BPF skeleton''], Exited 1)
           else emit [Use Skel, Invoke ''bpf_program__attach_usdt'' [sint (getpid_result env)]]
             (if \<not> usdt_link_ok env
              then emit [complain ''Failed to attach BPF program `usdt_manual_attach`'']
                     (destroy_and_return (errno_value env))
              else emit (skel_call ''usdt_bpf__attach'')
                (let err = skel_attach env in
                 if err \<noteq> 0 then emit [complain ''Failed to attach BPF skeleton''] (destroy_and_return err)
                 else emit [Invoke ''signal'' [2]]
                   (if signal_fails env
                    then emit [Eprint (''can't set signal handler: %s'' @ nl, [PStr (strerror env (errno_value env))])]
                           (destroy_and_return (errno_value env))
                    else emit [started ''to see output of the BPF programs.'']
                      (let (as, fin) = dots_until (Invoke ''setjmp'' [] # dot) flags in
                       if fin then emit as (destroy_and_return err) else (as, Running)))))))"

section \<open>tc.c\<close>

text \<open>
  \<open>hook_destroy_removes\<close>: whether \<^verbatim>\<open>bpf_tc_hook_destroy\<close> removes the queueing discipline, or the filter that is
  attached to it. The function belongs to libbpf. A comment in \<^verbatim>\<open>main\<close> says that for a hook at the ingress only it does not
  remove the discipline.
\<close>

record tc_env = skel_env +
  hook_create_rc :: int
  tc_attach_rc :: int
  tc_detach_rc :: int
  hook_destroy_removes :: "resource \<Rightarrow> bool"

definition LO_IFINDEX :: int where "LO_IFINDEX = 1"

text \<open>\<open>attached\<close>: the filter is there when the cleanup starts; \<^verbatim>\<open>main\<close> does not keep track of it.\<close>

definition tc_cleanup :: "tc_env \<Rightarrow> bool \<Rightarrow> bool \<Rightarrow> int \<Rightarrow> trace" where
  "tc_cleanup env hook_created attached err =
     ((if hook_created
       then Invoke ''bpf_tc_hook_destroy'' [LO_IFINDEX] #
         map Release (filter (hook_destroy_removes env) ((if attached then [TcFilter] else []) @ [TcHook]))
       else []) @ [Release Skel], Exited (- err))"

definition tc_main :: "tc_env \<Rightarrow> bool list \<Rightarrow> trace" where
  "tc_main env flags =
     emit libbpf_setup
       (if \<not> skel_open env then ([complain ''Failed to open BPF skeleton''], Exited 1)
        else emit [Acquire Skel, Invoke ''bpf_tc_hook_create'' [LO_IFINDEX]]
          (let err = hook_create_rc env; hook_created = (err = 0) in
           emit (if hook_created then [Acquire TcHook] else [])
             (if err \<noteq> 0 \<and> err \<noteq> - EEXIST
              then emit [Eprint (''Failed to create TC hook: %d'' @ nl, [PInt (of_int err)])]
                     (tc_cleanup env hook_created False err)
              else emit [Use Skel, Invoke ''bpf_tc_attach'' [1, 1]]
                (let err = tc_attach_rc env in
                 if err \<noteq> 0
                 then emit [Eprint (''Failed to attach TC: %d'' @ nl, [PInt (of_int err)])]
                        (tc_cleanup env hook_created False err)
                 else emit [Acquire TcFilter, Invoke ''signal'' [2]]
                   (if signal_fails env
                    then emit [Eprint (''Can't set signal handler: %s'' @ nl, [PStr (strerror env (errno_value env))])]
                           (tc_cleanup env hook_created True (errno_value env))
                    else emit [started ''to see output of the BPF program.'']
                      (let (as, fin) = dots_until dot flags in
                       if \<not> fin then (as, Running)
                       else emit (as @ [Invoke ''bpf_tc_detach'' [1, 1]])
                         (let err = tc_detach_rc env in
                          if err \<noteq> 0
                          then emit [Eprint (''Failed to detach TC: %d'' @ nl, [PInt (of_int err)])]
                                 (tc_cleanup env hook_created True err)
                          else emit [Release TcFilter] (tc_cleanup env hook_created False err))))))))"

section \<open>uprobe.c\<close>

text \<open>
  A line of \<^verbatim>\<open>/proc/self/maps\<close> as \<^verbatim>\<open>fscanf\<close> reads it: start, end, the third character of the permissions
  and the file offset. \<^term>\<open>None\<close> is a line (or the end of the file) where fewer than four fields match.
\<close>

record map_entry =
  me_start :: u64
  me_end :: u64
  me_buf2 :: char
  me_base :: u64

fun find_mapping :: "u64 \<Rightarrow> map_entry option list \<Rightarrow> map_entry option" where
  "find_mapping addr [] = None"
| "find_mapping addr (None # ls) = None"
| "find_mapping addr (Some e # ls) =
     (if me_buf2 e = CHR ''x'' \<and> me_start e \<le> addr \<and> addr < me_end e then Some e else find_mapping addr ls)"

text \<open>The file may fail to open (\<open>Inl errno\<close>). The result is a signed 64-bit value.\<close>

definition get_uprobe_offset :: "int + map_entry option list \<Rightarrow> u64 \<Rightarrow> int" where
  "get_uprobe_offset maps addr =
     (case maps of
        Inl errno \<Rightarrow> - errno
      | Inr ls \<Rightarrow>
          (case find_mapping addr ls of
             None \<Rightarrow> - ESRCH
           | Some e \<Rightarrow> sint (addr - me_start e + me_base e)))"

definition uprobed_add :: "s32 \<Rightarrow> s32 \<Rightarrow> s32" where "uprobed_add a b = a + b"
definition uprobed_sub :: "s32 \<Rightarrow> s32 \<Rightarrow> s32" where "uprobed_sub a b = a - b"

text \<open>
  Round \<open>k\<close> of the endless loop, with the values as 32-bit words. In C the product is a signed
  overflow, and undefined, once \<open>i * i\<close> exceeds \<open>2 ^ 31 - 1\<close>; the words wrap around, as the machine does.
\<close>

definition uprobe_round :: "nat \<Rightarrow> action list" where
  "uprobe_round k =
     (let i = of_nat k :: s32 in
      [Eprint (''.'', []), Invoke ''uprobed_add'' [sint i, sint (i + 1)], Invoke ''uprobed_sub'' [sint (i * i), sint i],
       Sleep 1])"

record uprobe_env = skel_env +
  proc_maps :: "int + map_entry option list"
  addr_uprobed_add :: u64
  uprobe_link_ok :: bool
  uretprobe_link_ok :: bool

definition uprobe_main :: "uprobe_env \<Rightarrow> nat \<Rightarrow> trace" where
  "uprobe_main env rounds =
     emit libbpf_setup
       (if \<not> skel_open env then ([complain ''Failed to open and load BPF skeleton''], Exited 1)
        else
          let uprobe_offset = get_uprobe_offset (proc_maps env) (addr_uprobed_add env) in
          emit [Acquire Skel, Use Skel, Invoke ''bpf_program__attach_uprobe'' [0, 0, uprobe_offset]]
            (if \<not> uprobe_link_ok env
             then let err = - errno_value env in
               emit [Eprint (''Failed to attach uprobe: %d'' @ nl, [PInt (of_int err)])] (destroy_and_return err)
             else emit [Use Skel, Invoke ''bpf_program__attach_uprobe'' [1, -1, uprobe_offset]]
               (if \<not> uretprobe_link_ok env
                then let err = - errno_value env in
                  emit [Eprint (''Failed to attach uprobe: %d'' @ nl, [PInt (of_int err)])] (destroy_and_return err)
                else emit (skel_call ''uprobe_bpf__attach'')
                  (let err = skel_attach env in
                   if err \<noteq> 0
                   then emit [Eprint (''Failed to auto-attach BPF skeleton: %d'' @ nl, [PInt (of_int err)])]
                          (destroy_and_return err)
                   else emit [started ''to see output of the BPF programs.'']
                     (concat (map uprobe_round [0..<rounds]), Running)))))"

section \<open>sockfilter.c\<close>

record sock_env = skel_env +
  ringbuf_ok :: bool
  socket_result :: int
  lo_ifindex :: u32
  bind_result :: int
  setsockopt_result :: int
  err_junk :: int

text \<open>The raw socket: what is done, and the descriptor or -1.\<close>

definition open_raw_sock :: "sock_env \<Rightarrow> string \<Rightarrow> action list \<times> int" where
  "open_raw_sock env name =
     (let sock = socket_result env in
      if sock < 0 then ([complain ''Failed to create raw socket''], -1)
      else if bind_result env < 0
      then ([Acquire Sock, Invoke ''bind'' [sock, uint (lo_ifindex env)],
             Eprint (''Failed to bind to %s: %s'' @ nl, [PStr (map of_char name), PStr (strerror env (errno_value env))]),
             Release Sock], -1)
      else ([Acquire Sock, Invoke ''bind'' [sock, uint (lo_ifindex env)]], sock))"

text \<open>\<^verbatim>\<open>ring_buffer__free\<close> accepts NULL.\<close>

definition sockfilter_cleanup :: "bool \<Rightarrow> int \<Rightarrow> trace" where
  "sockfilter_cleanup rb err =
     ((if rb then [Release RingBuf] else []) @ [Release Skel], Exited (- err))"

definition sock_report :: "int \<Rightarrow> action" where
  "sock_report e = Eprint (''Error polling perf buffer: %d'' @ nl, [PInt (of_int e)])"

lemma sock_report_neutral [simp]: "neutral (sock_report e)"
  by (simp add: sock_report_def)

text \<open>
  \<open>err_junk\<close> is the value of the uninitialised \<^verbatim>\<open>err\<close>: it is returned when the flag is set before the
  first poll. A poll returns the number of events, which also reaches \<^verbatim>\<open>return -err\<close>.
\<close>

definition sockfilter_main :: "sock_env \<Rightarrow> (bool \<times> int) list \<Rightarrow> trace" where
  "sockfilter_main env polls =
     emit (libbpf_setup @ [Invoke ''signal'' [2], Invoke ''signal'' [15]])
       (if \<not> skel_open env then ([complain ''Failed to open and load BPF skeleton''], Exited 1)
        else emit [Acquire Skel, Use Skel]
          (if \<not> ringbuf_ok env then emit [complain ''Failed to create ring buffer''] (sockfilter_cleanup False (-1))
           else emit (Acquire RingBuf # fst (open_raw_sock env ''lo''))
             (let sock = snd (open_raw_sock env ''lo'') in
              if sock < 0 then emit [complain ''Failed to open raw socket''] (sockfilter_cleanup True (-2))
              else emit [Use Skel, Use Sock, Invoke ''setsockopt'' [sock]]
                (if setsockopt_result env \<noteq> 0
                 then emit [complain ''Failed to attach to raw socket''] (sockfilter_cleanup True (-3))
                 else
                   let (as, res) = poll_loop sock_report
                                     [Sleep 1] polls (err_junk env) in
                   case res of
                     None \<Rightarrow> (as, Running)
                   | Some err \<Rightarrow> emit as (sockfilter_cleanup True err)))))"

section \<open>Every program keeps the resource discipline\<close>

lemmas main_parts = libbpf_setup_def skel_call_def destroy_and_return_def dot_def

lemma monitor_uprobe_rounds [simp]: "monitor held (concat (map uprobe_round ks)) = Some held"
  using monitor_neutral [of "concat (map uprobe_round ks)" held "[]"]
  by (induction ks) (simp_all add: uprobe_round_def Let_def)

interpretation minimal_main: disciplined "\<lambda>(env, n). minimal_main env n" "\<lambda>_. []"
  by unfold_locales (auto simp: minimal_main_def main_parts split: if_splits)

interpretation legacy_main: disciplined "\<lambda>(env, n). minimal_legacy_main env n" "\<lambda>_. []"
  by unfold_locales (auto simp: minimal_legacy_main_def main_parts split: if_splits)

interpretation probe_main: disciplined "\<lambda>(env, fs). probe_main f env fs" "\<lambda>_. []"
  by unfold_locales (auto simp: probe_main_def main_parts Let_def case_prod_beta split: if_splits)

interpretation usdt_main: disciplined "\<lambda>(env, fs). usdt_main env fs" "\<lambda>_. []"
  by unfold_locales (auto simp: usdt_main_def main_parts Let_def case_prod_beta split: if_splits)

interpretation uprobe_main: disciplined "\<lambda>(env, n). uprobe_main env n" "\<lambda>_. []"
  by unfold_locales (auto simp: uprobe_main_def main_parts Let_def split: if_splits)

text \<open>
  \<^verbatim>\<open>tc\<close> leaves its filter attached when it ends without a successful \<^verbatim>\<open>bpf_tc_detach\<close>, and the discipline it has
  created, unless \<^verbatim>\<open>bpf_tc_hook_destroy\<close>, which it calls only when it created the hook itself, removes them.
\<close>

definition tc_attached :: "tc_env \<Rightarrow> bool" where
  "tc_attached env \<longleftrightarrow> skel_open env \<and> (hook_create_rc env = 0 \<or> hook_create_rc env = - EEXIST) \<and> tc_attach_rc env = 0"

definition tc_leaks :: "tc_env \<Rightarrow> resource list" where
  "tc_leaks env =
     (let created = (skel_open env \<and> hook_create_rc env = 0); removed = (\<lambda>r. created \<and> hook_destroy_removes env r) in
      (if tc_attached env \<and> (signal_fails env \<or> tc_detach_rc env \<noteq> 0) \<and> \<not> removed TcFilter then [TcFilter] else []) @
      (if created \<and> \<not> removed TcHook then [TcHook] else []))"

interpretation tc_main: disciplined "\<lambda>(env, fs). tc_main env fs" "\<lambda>(env, fs). tc_leaks env"
  by unfold_locales (auto simp: tc_main_def tc_cleanup_def tc_leaks_def tc_attached_def main_parts errno_defs Let_def
      case_prod_beta split: if_splits)

text \<open>\<^verbatim>\<open>sockfilter\<close> never closes the raw socket once it is bound; the exit of the process does.\<close>

definition sockfilter_leaks :: "sock_env \<Rightarrow> resource list" where
  "sockfilter_leaks env =
     (if skel_open env \<and> ringbuf_ok env \<and> 0 \<le> socket_result env \<and> 0 \<le> bind_result env then [Sock] else [])"

interpretation sockfilter_main: disciplined "\<lambda>(env, ps). sockfilter_main env ps" "\<lambda>(env, ps). sockfilter_leaks env"
  by unfold_locales (auto simp: sockfilter_main_def sockfilter_cleanup_def sockfilter_leaks_def open_raw_sock_def
      main_parts Let_def case_prod_beta split: if_splits option.splits)

section \<open>Lemmas\<close>

lemma find_mapping_hit:
  assumes "find_mapping addr ls = Some e"
  shows "Some e \<in> set ls \<and> me_buf2 e = CHR ''x'' \<and> me_start e \<le> addr \<and> addr < me_end e"
  using assms by (induction addr ls rule: find_mapping.induct) (auto split: if_splits)

lemma find_mapping_miss:
  "find_mapping addr (map Some es @ None # ls) = None \<longleftrightarrow>
   (\<forall>e \<in> set es. \<not> (me_buf2 e = CHR ''x'' \<and> me_start e \<le> addr \<and> addr < me_end e))"
  by (induction es) auto

lemma find_mapping_scanned: "find_mapping addr (map Some es @ None # ls) = find_mapping addr (map Some es)"
  by (induction es) auto

text \<open>The mappings of a process do not overlap.\<close>

definition disjoint_maps :: "map_entry list \<Rightarrow> bool" where
  "disjoint_maps es \<longleftrightarrow>
     (\<forall>a \<in> set es. \<forall>b \<in> set es. a \<noteq> b \<longrightarrow> me_end a \<le> me_start b \<or> me_end b \<le> me_start a)"

lemma uprobe_offset_value:
  fixes addr start base :: u64
  assumes "start \<le> addr" and "unat base + (unat addr - unat start) < 2 ^ 63"
  shows "sint (addr - start + base) = int (unat base + (unat addr - unat start))"
proof -
  have "unat (addr - start) = unat addr - unat start"
    using assms(1) by (simp add: unat_sub)
  with assms(2) have u: "unat (addr - start + base) = unat base + (unat addr - unat start)"
    by (simp add: unat_word_ariths)
  then have "sint (addr - start + base) = int (unat (addr - start + base))"
    using assms(2) by (simp add: sint_uint uint_nat signed_take_bit_int_eq_self del: of_nat_unat)
  with u show ?thesis by simp
qed

section \<open>Properties\<close>

text \<open>C33: every user-space program keeps its resources in order, for every result its calls can have
  and every number of rounds of its loop. It never uses or releases the skeleton, a ring buffer, a
  socket or a hook it does not hold, never acquires one twice, and when it exits everything has been
  released exactly once; the exceptions are the raw socket of \<^verbatim>\<open>sockfilter\<close>, left to the end of the
  process, and of \<^verbatim>\<open>tc\<close> the filter, which stays attached when installing the signal handler or
  detaching fails, and the queueing discipline it created, both as far as \<^verbatim>\<open>bpf_tc_hook_destroy\<close> does not remove them; as
  the comment in \<^verbatim>\<open>tc.c\<close> says, the discipline stays.\<close>

theorem loaders_release_resources:
  "well_ended (minimal_main e1 n1) [] \<and> well_ended (minimal_legacy_main e2 n2) [] \<and>
   well_ended (fentry_main e3 f3) [] \<and> well_ended (kprobe_main e4 f4) [] \<and> well_ended (usdt_main e5 f5) [] \<and>
   well_ended (uprobe_main e6 n6) [] \<and> well_ended (tc_main e7 f7) (tc_leaks e7) \<and>
   well_ended (sockfilter_main e8 p8) (sockfilter_leaks e8)"
  using minimal_main.ends_well [of "(e1, n1)"] legacy_main.ends_well [of "(e2, n2)"]
    probe_main.ends_well [of "''fentry_bpf__attach''" "(e3, f3)"] probe_main.ends_well [of "''kprobe_bpf__attach''" "(e4, f4)"]
    usdt_main.ends_well [of "(e5, f5)"] uprobe_main.ends_well [of "(e6, n6)"] tc_main.ends_well [of "(e7, f7)"]
    sockfilter_main.ends_well [of "(e8, p8)"]
  by (simp add: fentry_main_def kprobe_main_def)

text \<open>C36: \<^verbatim>\<open>get_uprobe_offset\<close> finds the file offset of an address. When the address lies in an executable
  mapping that the scan reaches, the result is the offset of that mapping in the file plus the
  distance of the address from its start, inside the mapped part of the file; when it lies in none,
  the result is \<^verbatim>\<open>-ESRCH\<close>.\<close>

theorem get_uprobe_offset_correct:
  assumes "disjoint_maps es"
  shows "(\<forall>e \<in> set es. me_buf2 e = CHR ''x'' \<and> me_start e \<le> addr \<and> addr < me_end e \<and>
        unat (me_base e) + (unat (me_end e) - unat (me_start e)) < 2 ^ 63 \<longrightarrow>
      get_uprobe_offset (Inr (map Some es @ None # ls)) addr =
        int (unat (me_base e) + (unat addr - unat (me_start e))) \<and>
      get_uprobe_offset (Inr (map Some es @ None # ls)) addr <
        int (unat (me_base e) + (unat (me_end e) - unat (me_start e)))) \<and>
    ((\<forall>e \<in> set es. me_buf2 e = CHR ''x'' \<longrightarrow> addr < me_start e \<or> me_end e \<le> addr) \<longrightarrow>
      get_uprobe_offset (Inr (map Some es @ None # ls)) addr = - ESRCH)"
proof (intro conjI ballI impI; (elim conjE)?)
  fix e assume e: "e \<in> set es" "me_buf2 e = CHR ''x''" "me_start e \<le> addr" "addr < me_end e"
    and b: "unat (me_base e) + (unat (me_end e) - unat (me_start e)) < 2 ^ 63"
  obtain e' where f: "find_mapping addr (map Some es @ None # ls) = Some e'"
    using e find_mapping_miss [of addr es ls] by (cases "find_mapping addr (map Some es @ None # ls)") auto
  then have "e' \<in> set es" "me_start e' \<le> addr" "addr < me_end e'"
    using find_mapping_hit [of addr "map Some es" e'] by (auto simp: find_mapping_scanned)
  moreover from assms this(1) e(1) have "e' \<noteq> e \<longrightarrow> me_end e' \<le> me_start e \<or> me_end e \<le> me_start e'"
    by (simp add: disjoint_maps_def)
  ultimately have same: "e' = e"
    using e(3,4) by (meson le_less_trans less_le_trans not_less_iff_gr_or_eq order.strict_implies_order leD)
  have lt: "unat addr < unat (me_end e)" "unat (me_start e) \<le> unat addr"
    using e(3,4) by (simp_all add: word_less_nat_alt word_le_nat_alt)
  have val: "sint (addr - me_start e + me_base e) = int (unat (me_base e) + (unat addr - unat (me_start e)))"
    using b lt by (intro uprobe_offset_value [OF e(3)]) linarith
  then show "get_uprobe_offset (Inr (map Some es @ None # ls)) addr = int (unat (me_base e) + (unat addr - unat (me_start e)))"
    and "get_uprobe_offset (Inr (map Some es @ None # ls)) addr < int (unat (me_base e) + (unat (me_end e) - unat (me_start e)))"
    using lt by (simp_all add: get_uprobe_offset_def f same del: of_nat_unat of_nat_add)
next
  assume "\<forall>e \<in> set es. me_buf2 e = CHR ''x'' \<longrightarrow> addr < me_start e \<or> me_end e \<le> addr"
  then have "find_mapping addr (map Some es @ None # ls) = None"
    unfolding find_mapping_miss by (auto simp: leD)
  then show "get_uprobe_offset (Inr (map Some es @ None # ls)) addr = - ESRCH"
    by (simp add: get_uprobe_offset_def)
qed

definition uprobe_maps :: "map_entry list" where
  "uprobe_maps = [\<lparr>me_start = 0x400000, me_end = 0x401000, me_buf2 = CHR ''-'', me_base = 0\<rparr>,
     \<lparr>me_start = 0x401000, me_end = 0x404000, me_buf2 = CHR ''x'', me_base = 0x1000\<rparr>]"

theorem get_uprobe_offset_correct_witness:
  "get_uprobe_offset (Inr (map Some uprobe_maps @ [None])) 0x401234 = 0x1234 \<and>
   get_uprobe_offset (Inr (map Some uprobe_maps @ [None])) 0x400010 = - ESRCH"
proof -
  have d: "disjoint_maps uprobe_maps" by code_simp
  show ?thesis
    using get_uprobe_offset_correct [OF d, of "0x401234" "[]"] get_uprobe_offset_correct [OF d, of "0x400010" "[]"]
    by (simp add: uprobe_maps_def)
qed

text \<open>What the exit status of \<^verbatim>\<open>sockfilter\<close> says. When every call of the set-up succeeds and the
  program is stopped by the flag after polls that all succeeded, it exits with minus the number of
  events of the last poll (and with the indeterminate initial value of \<^verbatim>\<open>err\<close> when it is stopped before
  the first one): the status of a clean run is 0 only if the last poll was empty.\<close>

lemma sockfilter_exit_status:
  assumes "skel_open env" and "ringbuf_ok env" and "0 \<le> socket_result env" and "0 \<le> bind_result env"
    and "setsockopt_result env = 0" and "list_all ((\<le>) 0) counts"
  shows "snd (sockfilter_main env (map (Pair False) counts @ [(True, x)])) = Exited (- last (err_junk env # counts))"
  using assms by (simp add: sockfilter_main_def open_raw_sock_def sockfilter_cleanup_def Let_def case_prod_beta
      poll_loop_counts)

definition sock_ok_env :: sock_env where
  "sock_ok_env = \<lparr>skel_open = True, skel_load = 0, skel_attach = 0, getpid_result = 1, signal_fails = False,
     errno_value = 0, strerror = (\<lambda>_. []), ringbuf_ok = True, socket_result = 5, lo_ifindex = 1, bind_result = 0,
     setsockopt_result = 0, err_junk = 77\<rparr>"

lemma sockfilter_exit_status_example:
  "snd (sockfilter_main sock_ok_env (map (Pair False) [0, 3] @ [(True, 0)])) = Exited (-3) \<and>
   snd (sockfilter_main sock_ok_env (map (Pair False) [] @ [(True, 0)])) = Exited (-77)"
  using sockfilter_exit_status [of sock_ok_env "[0, 3]" 0] sockfilter_exit_status [of sock_ok_env "[]" 0]
  by (simp add: sock_ok_env_def)

text \<open>Errors that reach the exit status and errors that do not. When the signal handler cannot be
  installed, \<^verbatim>\<open>fentry\<close> and \<^verbatim>\<open>kprobe\<close> report success; \<^verbatim>\<open>usdt\<close> goes on to attach its program after a failed
  load, whatever the error was; \<^verbatim>\<open>tc\<close> exits with the negated error number and leaves its filter behind.
  Failures to attach are reported by all of them, with minus the error code.\<close>

lemma loader_error_status:
  "(\<forall>e. skel_open e \<and> skel_attach e = 0 \<and> signal_fails e \<longrightarrow>
      snd (fentry_main e fs) = Exited 0 \<and> snd (kprobe_main e fs) = Exited 0) \<and>
   (\<forall>e. skel_open e \<and> skel_attach e \<noteq> 0 \<longrightarrow>
      snd (fentry_main e fs) = Exited (- skel_attach e) \<and> snd (kprobe_main e fs) = Exited (- skel_attach e)) \<and>
   (\<forall>e. skel_open e \<longrightarrow> Invoke ''bpf_program__attach_usdt'' [sint (getpid_result e)] \<in> set (fst (usdt_main e fs))) \<and>
   (\<forall>e. tc_attached e \<and> signal_fails e \<and> \<not> (hook_create_rc e = 0 \<and> hook_destroy_removes e TcFilter) \<longrightarrow>
      snd (tc_main e fs) = Exited (- errno_value e) \<and>
      (\<exists>left. monitor [] (fst (tc_main e fs)) = Some left \<and> TcFilter \<in> set left))"
proof (intro conjI allI impI; (elim conjE)?)
  fix e assume "tc_attached e" and "signal_fails e" and "\<not> (hook_create_rc e = 0 \<and> hook_destroy_removes e TcFilter)"
  then show s: "snd (tc_main e fs) = Exited (- errno_value e)"
    by (auto simp: tc_main_def tc_attached_def tc_cleanup_def Let_def errno_defs)
  show "\<exists>left. monitor [] (fst (tc_main e fs)) = Some left \<and> TcFilter \<in> set left"
    using tc_main.exits [of "(e, fs)"] s \<open>tc_attached e\<close> \<open>signal_fails e\<close>
      \<open>\<not> (hook_create_rc e = 0 \<and> hook_destroy_removes e TcFilter)\<close> by (auto simp: tc_leaks_def)
qed (simp_all add: fentry_main_def kprobe_main_def probe_main_def usdt_main_def destroy_and_return_def)

lemma loader_error_status_example:
  "snd (fentry_main \<lparr>skel_open = True, skel_load = 0, skel_attach = 0, getpid_result = 1, signal_fails = True,
     errno_value = 22, strerror = (\<lambda>_. [])\<rparr> []) = Exited 0"
  using loader_error_status [of "[]"] by simp

end
