(* ===== verification/Bootstrap_Main.thy ===== *)
theory Bootstrap_Main
  imports Loaders Bootstrap
begin

text \<open>
  The user-space program of \<^verbatim>\<open>bootstrap.c\<close>: its command line and its \<^verbatim>\<open>main\<close>. The option is followed from its text on the command
  line to the events of the BPF program.
\<close>

section \<open>The command line\<close>

record cli_env =
  cli_verbose :: bool
  cli_min_duration_ms :: int

definition cli_init :: cli_env where
  "cli_init = \<lparr>cli_verbose = False, cli_min_duration_ms = 0\<rparr>"

text \<open>The callbacks \<^verbatim>\<open>argp_parse\<close> makes: an option, an argument, or one of its own keys.\<close>

datatype arg_key = OptVerbose | OptDuration string | KeyArg string | KeyOther

text \<open>\<^verbatim>\<open>argp_usage\<close> prints the usage message and exits.\<close>

datatype arg_result = ArgOk cli_env | ArgUsage "action list" | ArgUnknown

fun parse_arg :: "arg_key \<Rightarrow> cli_env \<Rightarrow> arg_result" where
  "parse_arg OptVerbose env = ArgOk (env\<lparr>cli_verbose := True\<rparr>)"
| "parse_arg (OptDuration arg) env =
     (let (v, err) = strtol10 arg in
      if err \<or> v \<le> 0 then ArgUsage [Eprint (''Invalid duration: %s'' @ nl, [PStr (map of_char arg)])]
      else ArgOk (env\<lparr>cli_min_duration_ms := v\<rparr>))"
| "parse_arg (KeyArg arg) env = ArgUsage []"
| "parse_arg KeyOther env = ArgUnknown"

text \<open>
  The keys in order; an unknown key is one argp handles itself. The result is \<^term>\<open>None\<close> when the
  usage message ended the process.
\<close>

fun parse_args :: "arg_key list \<Rightarrow> cli_env \<Rightarrow> action list \<times> cli_env option" where
  "parse_args [] env = ([], Some env)"
| "parse_args (k # ks) env =
     (case parse_arg k env of
        ArgOk env' \<Rightarrow> parse_args ks env'
      | ArgUsage as \<Rightarrow> (as @ [Invoke ''argp_usage'' []], None)
      | ArgUnknown \<Rightarrow> parse_args ks env)"

definition EX_USAGE :: int where "EX_USAGE = 64"

section \<open>main\<close>

record boot_main_env = skel_env +
  argp_rc :: int
  boot_ringbuf_ok :: bool

definition min_duration_ns_of :: "cli_env \<Rightarrow> u64" where
  "min_duration_ns_of cli = of_int (cli_min_duration_ms cli) * 1000000"

definition bootstrap_cleanup :: "bool \<Rightarrow> int \<Rightarrow> trace" where
  "bootstrap_cleanup rb err =
     ((if rb then [Release RingBuf] else []) @ [Release Skel], Exited (if err < 0 then - err else 0))"

definition boot_report :: "int \<Rightarrow> action" where
  "boot_report e = Print (''Error polling perf buffer: %d'' @ nl, [PInt (of_int e)])"

lemma boot_report_neutral [simp]: "neutral (boot_report e)"
  by (simp add: boot_report_def)

definition bootstrap_main :: "arg_key list \<Rightarrow> boot_main_env \<Rightarrow> (bool \<times> int) list \<Rightarrow> trace" where
  "bootstrap_main keys env polls =
     (case parse_args keys cli_init of
        (as, None) \<Rightarrow> (as, Exited EX_USAGE)
      | (as, Some cli) \<Rightarrow>
          if argp_rc env \<noteq> 0 then (as, Exited (argp_rc env))
          else emit (as @ libbpf_setup @ [Invoke ''signal'' [2], Invoke ''signal'' [15]])
            (if \<not> skel_open env then ([complain ''Failed to open and load BPF skeleton''], Exited 1)
             else emit ([Acquire Skel, SetGlobal ''min_duration_ns'' (uint (min_duration_ns_of cli))] @
                        skel_call ''bootstrap_bpf__load'')
               (if skel_load env \<noteq> 0
                then emit [complain ''Failed to load and verify BPF skeleton''] (bootstrap_cleanup False (skel_load env))
                else emit (skel_call ''bootstrap_bpf__attach'')
                  (if skel_attach env \<noteq> 0
                   then emit [complain ''Failed to attach BPF skeleton''] (bootstrap_cleanup False (skel_attach env))
                   else emit [Use Skel]
                     (if \<not> boot_ringbuf_ok env
                      then emit [complain ''Failed to create ring buffer''] (bootstrap_cleanup False (-1))
                      else emit [Acquire RingBuf,
                          Print (''%-8s %-5s %-16s %-7s %-7s %s'' @ nl,
                            map (\<lambda>s. PStr (map of_char s))
                              [''TIME'', ''EVENT'', ''COMM'', ''PID'', ''PPID'', ''FILENAME/EXIT CODE''])]
                        (let (bs, res) = poll_loop boot_report
                                           [] polls 0 in
                         case res of
                           None \<Rightarrow> (bs, Running)
                         | Some err \<Rightarrow> emit bs (bootstrap_cleanup True err)))))))"

section \<open>Lemmas\<close>

lemma parse_args_neutral: "list_all neutral (fst (parse_args ks env))"
proof (induction ks env rule: parse_args.induct)
  case (2 k ks env)
  then show ?case by (cases k) (auto simp: Let_def split: prod.splits)
qed simp

lemma parse_args_monitor [simp]: "monitor held (fst (parse_args ks env) @ as) = monitor held as"
  by (rule monitor_neutral [OF parse_args_neutral])

interpretation boot_main: disciplined "\<lambda>(ks, env, ps). bootstrap_main ks env ps" "\<lambda>_. []"
  by unfold_locales (auto simp: bootstrap_main_def bootstrap_cleanup_def main_parts Let_def case_prod_beta
      parse_args_monitor [where as = "[]", simplified] split: if_splits option.splits)

lemma parse_duration:
  assumes "0 < n" and "n < 2 ^ 63"
  shows "parse_args [OptDuration (dec n)] cli_init = ([], Some (cli_init\<lparr>cli_min_duration_ms := int n\<rparr>))"
  using assms by (simp add: strtol10_dec)

lemma min_duration_exact:
  assumes "n * 1000000 < 2 ^ 64"
  shows "unat (min_duration_ns_of (cli_init\<lparr>cli_min_duration_ms := int n\<rparr>)) = n * 1000000"
  using assms by (simp add: min_duration_ns_of_def unat_word_ariths unat_of_nat)

text \<open>The value the BPF program is loaded with is the one the options give.\<close>

fun sets_global :: "action \<Rightarrow> bool" where
  "sets_global (SetGlobal g v) = True"
| "sets_global a = False"

lemma poll_loop_no_global:
  "list_all (\<lambda>a. \<not> sets_global a) pause \<Longrightarrow> (\<And>r. \<not> sets_global (report r)) \<Longrightarrow>
   filter sets_global (fst (poll_loop report pause ps err)) = []"
  by (induction report pause ps err rule: poll_loop.induct)
    (auto simp: Let_def case_prod_beta filter_empty_conv list_all_iff)

lemma parse_args_no_global: "filter sets_global (fst (parse_args ks env)) = []"
proof (induction ks env rule: parse_args.induct)
  case (2 k ks env)
  then show ?case by (cases k) (auto simp: Let_def split: prod.splits)
qed simp

lemma bootstrap_main_global:
  assumes "parse_args keys cli_init = (as, Some cli)" and "argp_rc env = 0" and "skel_open env"
  shows "filter sets_global (fst (bootstrap_main keys env polls)) =
    [SetGlobal ''min_duration_ns'' (uint (min_duration_ns_of cli))]"
  using assms parse_args_no_global [of keys cli_init]
  by (auto simp: bootstrap_main_def bootstrap_cleanup_def main_parts complain_def Let_def case_prod_beta
      poll_loop_no_global boot_report_def split: option.splits)

lemma bootstrap_main_outcome:
  assumes "parse_args keys cli_init = (as, Some cli)" and "argp_rc env = 0"
  shows "snd (bootstrap_main keys env polls) =
    (if \<not> skel_open env then Exited 1
     else if skel_load env \<noteq> 0 then Exited (if skel_load env < 0 then - skel_load env else 0)
     else if skel_attach env \<noteq> 0 then Exited (if skel_attach env < 0 then - skel_attach env else 0)
     else if \<not> boot_ringbuf_ok env then Exited 1
     else case snd (poll_loop boot_report [] polls 0) of
       None \<Rightarrow> Running
     | Some err \<Rightarrow> Exited (if err < 0 then - err else 0))"
  using assms by (auto simp: bootstrap_main_def bootstrap_cleanup_def Let_def case_prod_beta split: option.splits)

section \<open>Properties\<close>

text \<open>C34: the option \<^verbatim>\<open>-d\<close> from the command line to the events. Called with a number of milliseconds in
  decimal notation whose nanoseconds fit 64 bits, the program loads its BPF part with exactly that
  many nanoseconds as the minimum (and sets no other global), and whatever the processes of the
  system then do, every event the BPF part sends is the exit of a process that lived at least that
  long.\<close>

theorem duration_option_effective:
  assumes "0 < n" and "n * 1000000 < 2 ^ 64" and "argp_rc env = 0" and "skel_open env" and "bpf_ringbuf rops"
  shows "\<exists>d :: u64. filter sets_global (fst (bootstrap_main [OptDuration (dec n)] env polls)) =
        [SetGlobal ''min_duration_ns'' (uint d)] \<and> unat d = n * 1000000 \<and>
      (\<exists>es. rb_committed rops (bs_rb (run_steps (bootstrap_step mops rops d) hs st)) =
          rb_committed rops (bs_rb st) @ es \<and>
        list_all (\<lambda>e. be_exit_event e \<and> n * 1000000 \<le> unat (be_duration_ns e)) es)"
proof -
  let ?d = "min_duration_ns_of (cli_init\<lparr>cli_min_duration_ms := int n\<rparr>)"
  have n: "n < 2 ^ 63" using assms(2) by simp
  have d: "unat ?d = n * 1000000" by (rule min_duration_exact [OF assms(2)])
  then have d0: "?d \<noteq> 0" using assms(1) by (metis mult_eq_0_iff neq0_conv unat_0 zero_neq_numeral)
  obtain es where es: "rb_committed rops (bs_rb (run_steps (bootstrap_step mops rops ?d) hs st)) = rb_committed rops (bs_rb st) @ es"
    and good: "list_all (\<lambda>e. ?d \<noteq> 0 \<longrightarrow> be_exit_event e \<and> ?d \<le> be_duration_ns e) es"
    using event_source.run_emits [OF bootstrap_event_source [OF assms(5)]] by blast
  have "list_all (\<lambda>e. be_exit_event e \<and> n * 1000000 \<le> unat (be_duration_ns e)) es"
    using good d0 by (auto simp: list_all_iff word_le_nat_alt d)
  with es show ?thesis
    using bootstrap_main_global [OF parse_duration [OF assms(1) n] assms(3,4)] d by blast
qed

definition boot_main_ok :: boot_main_env where
  "boot_main_ok = \<lparr>skel_open = True, skel_load = 0, skel_attach = 0, getpid_result = 1, signal_fails = False,
     errno_value = 0, strerror = (\<lambda>_. []), argp_rc = 0, boot_ringbuf_ok = True\<rparr>"

theorem duration_option_effective_witness:
  "\<exists>d :: u64. filter sets_global (fst (bootstrap_main [OptDuration (dec 250)] boot_main_ok [])) =
        [SetGlobal ''min_duration_ns'' (uint d)] \<and> unat d = 250 * 1000000 \<and>
      (\<exists>es. rb_committed (ringbuf_inst_ops boot_junk) (bs_rb (run_steps (bootstrap_step (hash_ops 8192)
            (ringbuf_inst_ops boot_junk) d) [SchedExec (boot_env 7 1000)] boot_st)) =
          rb_committed (ringbuf_inst_ops boot_junk) (bs_rb boot_st) @ es \<and>
        list_all (\<lambda>e. be_exit_event e \<and> 250 * 1000000 \<le> unat (be_duration_ns e)) es)"
  by (rule duration_option_effective [OF _ _ _ _ ringbuf.bpf_ringbuf_axioms]) (simp_all add: boot_main_ok_def)

text \<open>C35: the exit status of \<^verbatim>\<open>bootstrap\<close>. With a valid command line, and libbpf codes that are zero or
  negative, the program exits with status 0 exactly when everything could be set up and the polling
  loop was ended by a signal after polls that all succeeded; and it always keeps its resources in
  order, on every command line.\<close>

theorem bootstrap_exit_status:
  assumes "parse_args keys cli_init = (as, Some cli)" and "argp_rc env = 0" and "skel_load env \<le> 0" and "skel_attach env \<le> 0"
  shows "(snd (bootstrap_main keys env polls) = Exited 0 \<longleftrightarrow>
      skel_open env \<and> skel_load env = 0 \<and> skel_attach env = 0 \<and> boot_ringbuf_ok env \<and> clean_end polls) \<and>
    (\<forall>keys' env'. well_ended (bootstrap_main keys' env' polls) [])"
proof -
  have w: "well_ended (bootstrap_main keys' env' polls) []" for keys' env'
    using boot_main.ends_well [of "(keys', env', polls)"] by simp
  show ?thesis
    unfolding bootstrap_main_outcome [OF assms(1,2)]
    using assms(3,4) w poll_loop_clean [of 0 polls boot_report "[]"]
    by (auto split: option.splits)
qed

theorem bootstrap_exit_status_witness:
  "snd (bootstrap_main [OptVerbose] boot_main_ok [(False, 3), (True, 0)]) = Exited 0 \<and>
   snd (bootstrap_main [OptVerbose] boot_main_ok [(False, -5)]) \<noteq> Exited 0"
proof -
  have p: "parse_args [OptVerbose] cli_init = ([], Some (cli_init\<lparr>cli_verbose := True\<rparr>))" by simp
  show ?thesis
    using bootstrap_exit_status [OF p, of boot_main_ok "[(False, 3), (True, 0)]"]
      bootstrap_exit_status [OF p, of boot_main_ok "[(False, -5)]"]
    by (simp add: boot_main_ok_def EINTR_def)
qed

end
