(* ===== verification/Monitoring.thy ===== *)
theory Monitoring
  imports Bootstrap_Main Sockfilter
begin

text \<open>
  The running system of \<^verbatim>\<open>bootstrap\<close> and \<^verbatim>\<open>sockfilter\<close>: the BPF program, which commits events at any time; the
  signal handler of \<^verbatim>\<open>bootstrap.c\<close>, which may run between any two steps; and the loop of \<^verbatim>\<open>main\<close>, which
  polls the ring buffer, upon which libbpf calls \<^verbatim>\<open>handle_event\<close> for the events it finds. The three are interleaved by a
  step relation. libbpf is not part of the repository: \<open>poll\<close> is what a call of \<^verbatim>\<open>ring_buffer__poll\<close> does, and its
  documented behaviour is the locale \<open>ring_consumer\<close>. \<open>poll_loop\<close> of \<^verbatim>\<open>Userspace\<close>, which the \<^verbatim>\<open>main\<close> functions use, takes the flag and the result
  of every round as given; here they come about.
\<close>

section \<open>The step relation\<close>

text \<open>
  Where the loop is: before the test of the flag, before the poll, after a poll with its result, past
  the loop.
\<close>

datatype mon_pc = AtTest | AtPoll | AtCheck int | AtEnd

text \<open>
  \<open>poll w s u\<close> is a call of \<^verbatim>\<open>ring_buffer__poll\<close> on the consumer \<open>u\<close> when the BPF program is in the state \<open>s\<close>: the
  new state of the consumer, the events for which \<^verbatim>\<open>handle_event\<close> is called, and the result. \<open>w\<close> stands for all else that
  it may depend on, such as the time that passes.
\<close>

type_synonym ('w, 's, 'u, 'e) ring_poll = "'w \<Rightarrow> 's \<Rightarrow> 'u \<Rightarrow> 'u \<times> 'e list \<times> int"

record ('s, 'u, 'e) mon_conf =
  mc_prog :: 's
  mc_ring :: 'u
  mc_handled :: "'e list"
  mc_flag :: bool
  mc_pc :: mon_pc
  mc_err :: int
  mc_acts :: "action list"

definition sig_handler :: "('s, 'u, 'e) mon_conf \<Rightarrow> ('s, 'u, 'e) mon_conf" where
  "sig_handler c = c\<lparr>mc_flag := True\<rparr>"

definition goto :: "mon_pc \<Rightarrow> int \<Rightarrow> action list \<Rightarrow> ('s, 'u, 'e) mon_conf \<Rightarrow> ('s, 'u, 'e) mon_conf" where
  "goto pc err as c = c\<lparr>mc_pc := pc, mc_err := err, mc_acts := mc_acts c @ as\<rparr>"

inductive loop_step ::
  "('w, 's, 'u, 'e) ring_poll \<Rightarrow> (int \<Rightarrow> action) \<Rightarrow> action list \<Rightarrow> ('s, 'u, 'e) mon_conf \<Rightarrow> ('s, 'u, 'e) mon_conf \<Rightarrow> bool"
  for poll report pause where
  loop_exit: "mc_pc c = AtTest \<Longrightarrow> mc_flag c \<Longrightarrow>
    loop_step poll report pause c (goto AtEnd (mc_err c) [] c)"
| loop_enter: "mc_pc c = AtTest \<Longrightarrow> \<not> mc_flag c \<Longrightarrow>
    loop_step poll report pause c (goto AtPoll (mc_err c) [] c)"
| loop_poll: "mc_pc c = AtPoll \<Longrightarrow> poll w (mc_prog c) (mc_ring c) = (u, es, r) \<Longrightarrow>
    loop_step poll report pause c
      (goto (AtCheck r) (mc_err c) [Use RingBuf] (c\<lparr>mc_ring := u, mc_handled := mc_handled c @ es\<rparr>))"
| loop_interrupted: "mc_pc c = AtCheck r \<Longrightarrow> r = - EINTR \<Longrightarrow>
    loop_step poll report pause c (goto AtEnd 0 [] c)"
| loop_error: "mc_pc c = AtCheck r \<Longrightarrow> r \<noteq> - EINTR \<Longrightarrow> r < 0 \<Longrightarrow>
    loop_step poll report pause c (goto AtEnd r [report r] c)"
| loop_again: "mc_pc c = AtCheck r \<Longrightarrow> 0 \<le> r \<Longrightarrow>
    loop_step poll report pause c (goto AtTest r pause c)"

text \<open>Who makes a step.\<close>

datatype actor = Program | Signal | Loop

inductive mon_step ::
  "('i \<Rightarrow> 's \<Rightarrow> 's \<times> int) \<Rightarrow> ('w, 's, 'u, 'e) ring_poll \<Rightarrow> (int \<Rightarrow> action) \<Rightarrow> action list \<Rightarrow>
   ('s, 'u, 'e) mon_conf \<Rightarrow> actor \<Rightarrow> ('s, 'u, 'e) mon_conf \<Rightarrow> bool"
  for step poll report pause where
  by_program: "mon_step step poll report pause c Program (c\<lparr>mc_prog := fst (step i (mc_prog c))\<rparr>)"
| by_signal: "mon_step step poll report pause c Signal (sig_handler c)"
| by_loop: "loop_step poll report pause c c' \<Longrightarrow> mon_step step poll report pause c Loop c'"

text \<open>An execution, with the actors in order.\<close>

inductive mon_exec ::
  "('i \<Rightarrow> 's \<Rightarrow> 's \<times> int) \<Rightarrow> ('w, 's, 'u, 'e) ring_poll \<Rightarrow> (int \<Rightarrow> action) \<Rightarrow> action list \<Rightarrow>
   ('s, 'u, 'e) mon_conf \<Rightarrow> actor list \<Rightarrow> ('s, 'u, 'e) mon_conf \<Rightarrow> bool"
  for step poll report pause where
  exec_refl: "mon_exec step poll report pause c [] c"
| exec_step: "mon_exec step poll report pause c as c' \<Longrightarrow> mon_step step poll report pause c' a c'' \<Longrightarrow>
    mon_exec step poll report pause c (as @ [a]) c''"

inductive_cases by_loopE: "mon_step step poll report pause c Loop c'"

definition mon_start :: "'s \<Rightarrow> 'u \<Rightarrow> int \<Rightarrow> ('s, 'u, 'e) mon_conf" where
  "mon_start s u err = \<lparr>mc_prog = s, mc_ring = u, mc_handled = [], mc_flag = False, mc_pc = AtTest, mc_err = err, mc_acts = []\<rparr>"

lemma goto_simps [simp]:
  "mc_prog (goto pc e as c) = mc_prog c" "mc_ring (goto pc e as c) = mc_ring c" "mc_handled (goto pc e as c) = mc_handled c"
  "mc_flag (goto pc e as c) = mc_flag c" "mc_pc (goto pc e as c) = pc" "mc_err (goto pc e as c) = e"
  "mc_acts (goto pc e as c) = mc_acts c @ as"
  by (simp_all add: goto_def)

lemma sig_handler_simps [simp]:
  "mc_prog (sig_handler c) = mc_prog c" "mc_ring (sig_handler c) = mc_ring c" "mc_handled (sig_handler c) = mc_handled c"
  "mc_flag (sig_handler c) = True" "mc_pc (sig_handler c) = mc_pc c" "mc_err (sig_handler c) = mc_err c"
  "mc_acts (sig_handler c) = mc_acts c"
  by (simp_all add: sig_handler_def)

section \<open>The loop stops after a signal\<close>

fun pc_rank :: "mon_pc \<Rightarrow> nat" where
  "pc_rank AtEnd = 0"
| "pc_rank AtTest = 1"
| "pc_rank (AtCheck r) = 2"
| "pc_rank AtPoll = 3"

lemma loop_step_flagged:
  "loop_step poll report pause c c' \<Longrightarrow> mc_flag c \<Longrightarrow> mc_flag c' \<and> pc_rank (mc_pc c') < pc_rank (mc_pc c)"
  by (cases rule: loop_step.cases) auto

lemma mon_exec_flagged:
  assumes "mon_exec step poll report pause c as c'" and "mc_flag c"
  shows "mc_flag c' \<and> count_list as Loop + pc_rank (mc_pc c') \<le> pc_rank (mc_pc c)"
  using assms
proof (induction rule: mon_exec.induct)
  case (exec_step c as c' a c'')
  from exec_step.hyps(2) exec_step.IH [OF exec_step.prems] show ?case
    by cases (auto dest: loop_step_flagged)
qed simp

text \<open>The loop can always go on, up to its end.\<close>

lemma loop_progress: "mc_pc c \<noteq> AtEnd \<Longrightarrow> \<exists>c'. loop_step poll report pause c c'"
proof (cases "mc_pc c")
  case AtTest
  then show ?thesis using loop_exit loop_enter by (cases "mc_flag c") blast+
next
  case AtPoll
  obtain u es r where p: "poll undefined (mc_prog c) (mc_ring c) = (u, es, r)" by (rule prod_cases3)
  show ?thesis by (rule exI) (rule loop_poll [where poll = poll, OF AtPoll p])
next
  case (AtCheck r)
  consider "r = - EINTR" | "r \<noteq> - EINTR" "r < 0" | "0 \<le> r" by linarith
  then show ?thesis
    using loop_interrupted [where poll = poll, OF AtCheck] loop_error [where poll = poll, OF AtCheck]
      loop_again [where poll = poll, OF AtCheck] by cases meson+
qed simp

section \<open>Events are handled in the order of their commits\<close>

text \<open>
  The calls of \<^verbatim>\<open>handle_event\<close> so far are those for the events committed since the start, up to the
  position of the consumer.
\<close>

definition handled_inv :: "('s \<Rightarrow> 'e list) \<Rightarrow> ('u \<Rightarrow> nat) \<Rightarrow> nat \<Rightarrow> ('s, 'u, 'e) mon_conf \<Rightarrow> bool" where
  "handled_inv emitted position n0 c \<longleftrightarrow>
     n0 \<le> position (mc_ring c) \<and> position (mc_ring c) \<le> length (emitted (mc_prog c)) \<and>
     mc_handled c = take (position (mc_ring c) - n0) (drop n0 (emitted (mc_prog c)))"

text \<open>
  What libbpf documents of the consumer: it has a position in the sequence of committed events; a poll calls \<^verbatim>\<open>handle_event\<close>,
  which never stops it (it returns 0), for some of the events from there on, in order, and moves behind them.
\<close>

locale ring_consumer =
  fixes poll :: "('w, 's, 'u, 'e) ring_poll" and emitted :: "'s \<Rightarrow> 'e list" and position :: "'u \<Rightarrow> nat"
  assumes poll_takes: "poll w s u = (u', es, r) \<Longrightarrow> position u \<le> length (emitted s) \<Longrightarrow>
    position u' = position u + length es \<and> es = take (length es) (drop (position u) (emitted s))"
begin

lemma polled_inv:
  assumes "poll w (mc_prog c) (mc_ring c) = (u, es, r)" and "handled_inv emitted position n0 c"
  shows "handled_inv emitted position n0 (c\<lparr>mc_ring := u, mc_handled := mc_handled c @ es\<rparr>)"
proof -
  let ?xs = "emitted (mc_prog c)" and ?k = "position (mc_ring c)"
  have k: "n0 \<le> ?k" "?k \<le> length ?xs" "mc_handled c = take (?k - n0) (drop n0 ?xs)"
    using assms(2) by (simp_all add: handled_inv_def)
  have es: "position u = ?k + length es" "es = take (length es) (drop ?k ?xs)"
    using poll_takes [OF assms(1) k(2)] by simp_all
  have "length es \<le> length ?xs - ?k" using arg_cong [OF es(2), of length] by simp
  moreover have "take (?k + length es - n0) (drop n0 ?xs) = take (?k - n0) (drop n0 ?xs) @ take (length es) (drop ?k ?xs)"
    using k(1) take_add [of "?k - n0" "length es" "drop n0 ?xs"] by simp
  ultimately show ?thesis using k es by (simp add: handled_inv_def)
qed

lemma loop_handled:
  assumes "loop_step poll report pause c c'" and "handled_inv emitted position n0 c"
  shows "handled_inv emitted position n0 c' \<and> mc_prog c' = mc_prog c"
  using assms(1)
proof cases
  case (loop_poll w u es r)
  then show ?thesis using polled_inv [OF loop_poll(3) assms(2)] by (simp add: handled_inv_def)
qed (use assms(2) in \<open>simp_all add: handled_inv_def\<close>)

end

locale monitored = event_source step inv emitted good + ring_consumer poll emitted position
  for step :: "'i \<Rightarrow> 's \<Rightarrow> 's \<times> int" and inv emitted good and poll :: "('w, 's, 'u, 'e) ring_poll" and position
begin

lemma program_handled:
  assumes "inv (mc_prog c)" and "handled_inv emitted position n0 c"
  shows "handled_inv emitted position n0 (c\<lparr>mc_prog := fst (step i (mc_prog c))\<rparr>)"
  using step_emits [OF assms(1), of i] assms(2) by (auto simp: handled_inv_def)

lemma mon_handled:
  assumes "mon_exec step poll report pause c as c'" and "inv (mc_prog c)" and "handled_inv emitted position n0 c"
  shows "inv (mc_prog c') \<and> handled_inv emitted position n0 c'"
  using assms
proof (induction rule: mon_exec.induct)
  case (exec_step c as c' a c'')
  then have h: "inv (mc_prog c')" "handled_inv emitted position n0 c'" by auto
  from exec_step.hyps(2) show ?case
  proof cases
    case (by_program i)
    with h show ?thesis by (simp add: step_inv program_handled)
  next
    case by_signal
    with h show ?thesis by (simp add: handled_inv_def)
  next
    case by_loop
    then show ?thesis using loop_handled h by metis
  qed
qed simp

text \<open>What the program commits during an execution is good, so what user space handles is.\<close>

lemma mon_emits:
  assumes "mon_exec step poll report pause c as c'" and "inv (mc_prog c)"
  shows "inv (mc_prog c') \<and> (\<exists>es. emitted (mc_prog c') = emitted (mc_prog c) @ es \<and> list_all good es)"
  using assms
proof (induction rule: mon_exec.induct)
  case (exec_step c as c' a c'')
  then obtain es where es: "inv (mc_prog c')" "emitted (mc_prog c') = emitted (mc_prog c) @ es" "list_all good es" by auto
  from exec_step.hyps(2) show ?case
  proof cases
    case (by_program i)
    from step_emits [OF es(1), of i] obtain fs where "emitted (fst (step i (mc_prog c'))) = emitted (mc_prog c') @ fs" "list_all good fs"
      by (metis append.right_neutral list.pred_inject)
    with by_program es show ?thesis by (simp add: step_inv)
  next
    case by_loop
    from by_loop(2) have "mc_prog c'' = mc_prog c'" by cases simp_all
    with es show ?thesis by simp
  qed (use es in simp)
qed simp

lemma handled_good:
  assumes "mon_exec step poll report pause (mon_start s u err) as c" and "inv s" and "position u = length (emitted s)"
  shows "\<exists>es. emitted (mc_prog c) = emitted s @ es \<and> list_all good es \<and>
    mc_handled c = take (position (mc_ring c) - position u) es"
proof -
  have "handled_inv emitted position (length (emitted s)) (mon_start s u err)"
    using assms(3) by (simp add: handled_inv_def mon_start_def)
  with mon_handled [OF assms(1)] assms(2)
  have h: "handled_inv emitted position (length (emitted s)) c" by (simp add: mon_start_def)
  from mon_emits [OF assms(1)] assms(2) obtain es where "emitted (mc_prog c) = emitted s @ es" "list_all good es"
    by (auto simp: mon_start_def)
  with h show ?thesis using assms(3) by (auto simp: handled_inv_def)
qed

end

text \<open>A consumer that takes up to \<open>w\<close> events in a poll.\<close>

definition fifo_poll :: "('s \<Rightarrow> 'e list) \<Rightarrow> (nat, 's, nat, 'e) ring_poll" where
  "fifo_poll emitted w s u = (let es = take w (drop u (emitted s)) in (u + length es, es, int (length es)))"

interpretation fifo: ring_consumer "fifo_poll emitted" emitted "\<lambda>u. u"
  by unfold_locales (auto simp: fifo_poll_def Let_def min_def)

section \<open>The loop refines the one of the main functions\<close>

text \<open>
  What the loop has done is what \<open>poll_loop\<close> does on the rounds so far: \<open>rounds\<close> holds the flags and
  results of the complete rounds.
\<close>

definition rounds_done ::
  "(int \<Rightarrow> action) \<Rightarrow> action list \<Rightarrow> (bool \<times> int) list \<Rightarrow> int \<Rightarrow> action list \<Rightarrow> int \<Rightarrow> bool" where
  "rounds_done report pause rounds err0 as err \<longleftrightarrow>
     (\<forall>rest. poll_loop report pause (rounds @ rest) err0 =
        (as @ fst (poll_loop report pause rest err), snd (poll_loop report pause rest err)))"

definition loop_refines :: "(int \<Rightarrow> action) \<Rightarrow> action list \<Rightarrow> int \<Rightarrow> ('s, 'u, 'e) mon_conf \<Rightarrow> bool" where
  "loop_refines report pause err0 c \<longleftrightarrow>
     (case mc_pc c of
        AtEnd \<Rightarrow> \<exists>rounds. poll_loop report pause rounds err0 = (mc_acts c, Some (mc_err c))
      | AtCheck r \<Rightarrow> \<exists>rounds as. rounds_done report pause rounds err0 as (mc_err c) \<and> mc_acts c = as @ [Use RingBuf]
      | _ \<Rightarrow> \<exists>rounds. rounds_done report pause rounds err0 (mc_acts c) (mc_err c))"

lemma rounds_done_again:
  assumes "rounds_done report pause rounds err0 as err" and "0 \<le> r"
  shows "rounds_done report pause (rounds @ [(False, r)]) err0 (as @ Use RingBuf # pause) r"
  using assms by (simp add: rounds_done_def EINTR_def Let_def case_prod_beta)

lemma rounds_done_end:
  assumes "rounds_done report pause rounds err0 as err"
  shows "poll_loop report pause (rounds @ [(True, r)]) err0 = (as, Some err)"
    and "poll_loop report pause (rounds @ [(False, - EINTR)]) err0 = (as @ [Use RingBuf], Some 0)"
    and "r \<noteq> - EINTR \<Longrightarrow> r < 0 \<Longrightarrow> poll_loop report pause (rounds @ [(False, r)]) err0 = (as @ [Use RingBuf, report r], Some r)"
  using assms by (simp_all add: rounds_done_def)

lemma loop_step_refines:
  assumes "loop_step poll report pause c c'" and "loop_refines report pause err0 c"
  shows "loop_refines report pause err0 c'"
  using assms(1)
proof cases
  case loop_exit
  then show ?thesis using assms(2) rounds_done_end(1) by (fastforce simp: loop_refines_def)
next
  case (loop_interrupted r)
  then show ?thesis using assms(2) rounds_done_end(2) by (fastforce simp: loop_refines_def)
next
  case (loop_error r)
  then show ?thesis using assms(2) rounds_done_end(3) by (fastforce simp: loop_refines_def)
next
  case (loop_again r)
  then show ?thesis using assms(2) rounds_done_again by (fastforce simp: loop_refines_def)
qed (use assms(2) in \<open>auto simp: loop_refines_def\<close>)

lemma mon_exec_refines:
  assumes "mon_exec step poll report pause c as c'" and "loop_refines report pause err0 c"
  shows "loop_refines report pause err0 c'"
  using assms
proof (induction rule: mon_exec.induct)
  case (exec_step c as c' a c'')
  then have r: "loop_refines report pause err0 c'" by auto
  from exec_step.hyps(2) show ?case
  proof cases
    case by_loop
    then show ?thesis using r loop_step_refines by blast
  qed (use r in \<open>auto simp: loop_refines_def split: mon_pc.splits\<close>)
qed simp

lemma mon_start_refines: "loop_refines report pause err (mon_start s n err)"
  unfolding loop_refines_def mon_start_def by (auto simp: rounds_done_def intro: exI [of _ "[]"])

text \<open>A round takes one poll, so that at most one more poll is made once the flag is set.\<close>

definition polls_made :: "('s, 'u, 'e) mon_conf \<Rightarrow> nat" where
  "polls_made c = count_list (mc_acts c) (Use RingBuf)"

lemma loop_step_polls:
  assumes "loop_step poll report pause c c'" and "mc_flag c"
    and "Use RingBuf \<notin> set pause" and "\<And>r. report r \<noteq> Use RingBuf"
  shows "polls_made c' + (if mc_pc c' = AtPoll then 1 else 0) \<le> polls_made c + (if mc_pc c = AtPoll then 1 else 0)"
  using assms by cases (auto simp: polls_made_def count_list_0_iff)

lemma mon_exec_polls:
  assumes "mon_exec step poll report pause c as c'" and "mc_flag c"
    and "Use RingBuf \<notin> set pause" and "\<And>r. report r \<noteq> Use RingBuf"
  shows "polls_made c' + (if mc_pc c' = AtPoll then 1 else 0) \<le> polls_made c + (if mc_pc c = AtPoll then 1 else 0)"
  using assms(1,2)
proof (induction rule: mon_exec.induct)
  case (exec_step c as c' a c'')
  note flag = mon_exec_flagged [OF exec_step.hyps(1) exec_step.prems]
  from exec_step.hyps(2) show ?case
  proof cases
    case by_loop
    then show ?thesis
      using loop_step_polls [OF by_loop(2) _ assms(3,4)] exec_step.IH [OF exec_step.prems] flag by force
  qed (use exec_step.IH [OF exec_step.prems] in \<open>simp_all add: polls_made_def\<close>)
qed simp

section \<open>The two programs\<close>

lemma sockfilter_event_source:
  assumes "skb_access load" and "bpf_ringbuf rops"
  shows "event_source (socket_handler load rops) (\<lambda>_. True) (rb_committed rops)
    (\<lambda>e. \<exists>s junk. whole_ipv4 (skb_frame s) \<and> e = frame_event s junk)"
  by unfold_locales (auto simp: skb_access.event_at [OF assms(1)] bpf_ringbuf.reserve_submit [OF assms(2)] split: option.splits)

interpretation sock: event_source "socket_handler skb_load_inst (ringbuf_inst_ops junk)" "\<lambda>_. True"
  "rb_committed (ringbuf_inst_ops junk)" "\<lambda>e. \<exists>s junk. whole_ipv4 (skb_frame s) \<and> e = frame_event s junk"
  by (rule sockfilter_event_source [OF skb.skb_access_axioms ringbuf.bpf_ringbuf_axioms])

section \<open>Properties\<close>

text \<open>C17: the programs stop. Once a signal has been handled, then whatever the BPF program, further signals
  and the results of the poll do, the loop of \<^verbatim>\<open>main\<close> makes at most three more steps (finish the
  poll, look at its result, test the flag), with at most one more poll, and it is at its end after
  three; before that it can always make a step. This holds for both programs, whose loops differ
  in the message and in the pause after a round.\<close>

theorem loop_ends_after_signal:
  assumes "mon_exec step poll report pause c as c'" and "mc_flag c"
    and "report = boot_report \<and> pause = [] \<or> report = sock_report \<and> pause = [Sleep 1]"
  shows "count_list as Loop \<le> 3 \<and> (count_list as Loop = 3 \<longrightarrow> mc_pc c' = AtEnd) \<and>
    polls_made c' \<le> Suc (polls_made c) \<and>
    (mc_pc c' \<noteq> AtEnd \<longrightarrow> (\<exists>c''. loop_step poll report pause c' c''))"
proof -
  have "count_list as Loop + pc_rank (mc_pc c') \<le> pc_rank (mc_pc c)"
    using mon_exec_flagged [OF assms(1,2)] by simp
  moreover have "pc_rank (mc_pc c) \<le> 3" by (cases "mc_pc c") auto
  moreover have "pc_rank (mc_pc c') = 0 \<longleftrightarrow> mc_pc c' = AtEnd" by (cases "mc_pc c'") auto
  moreover have "polls_made c' \<le> Suc (polls_made c)"
    using mon_exec_polls [OF assms(1,2)] assms(3) by (fastforce simp: boot_report_def sock_report_def split: if_splits)
  ultimately show ?thesis using loop_progress [of c' poll report pause] by auto
qed

lemma mon_exec_Cons:
  "mon_exec step poll report pause c' as c'' \<Longrightarrow> mon_step step poll report pause c a c' \<Longrightarrow>
   mon_exec step poll report pause c (a # as) c''"
proof (induction rule: mon_exec.induct)
  case (exec_refl c')
  then show ?case using exec_step [OF mon_exec.exec_refl] by fastforce
next
  case (exec_step c' as x b y)
  then show ?case using mon_exec.exec_step [of step poll report pause c "a # as" x b y] by simp
qed

text \<open>The process tracer, with a consumer that takes one event at a time.\<close>

type_synonym demo_state = "((s32 \<times> u64) list, bootstrap_event ringbuf_inst) bootstrap_state"

definition demo_committed :: "demo_state \<Rightarrow> bootstrap_event list" where
  "demo_committed st = rb_committed (ringbuf_inst_ops boot_junk) (bs_rb st)"

definition demo_step :: "sched_hook \<Rightarrow> demo_state \<Rightarrow> demo_state \<times> int" where
  "demo_step = bootstrap_step (hash_ops 8192) (ringbuf_inst_ops boot_junk) 0"

definition demo_conf :: "(demo_state, nat, bootstrap_event) mon_conf" where
  "demo_conf = mon_start boot_st 0 0"

theorem loop_ends_after_signal_witness:
  "\<exists>c'. mon_exec demo_step (fifo_poll demo_committed) boot_report [] (sig_handler demo_conf) [Loop] c' \<and>
     mc_pc c' = AtEnd \<and> polls_made c' \<le> 1"
proof -
  let ?c = "sig_handler demo_conf"
  let ?c' = "goto AtEnd (mc_err ?c) [] ?c"
  have e: "mon_exec demo_step (fifo_poll demo_committed) boot_report [] ?c [Loop] ?c'"
    by (rule mon_exec_Cons [OF exec_refl by_loop [OF loop_exit]]) (simp_all add: demo_conf_def mon_start_def)
  from loop_ends_after_signal [OF this] have "polls_made ?c' \<le> Suc (polls_made ?c)" by simp
  moreover have "polls_made ?c = 0" by (simp add: polls_made_def demo_conf_def mon_start_def)
  ultimately show ?thesis using e by (intro exI [of _ ?c']) simp
qed

text \<open>With a consumer as libbpf documents it, the events of the process tracer are handled in the order of their commits,
  none twice and none left out before the position of the consumer, however tracepoints, signals and polls interleave, and
  each of them respects the minimum duration.\<close>

lemma bootstrap_events_in_order:
  assumes "bpf_ringbuf rops" and "ring_consumer poll (\<lambda>st. rb_committed rops (bs_rb st)) position"
    and "mon_exec (bootstrap_step mops rops d) poll report pause (mon_start s u err) as c"
    and "position u = length (rb_committed rops (bs_rb s))"
  shows "\<exists>es. rb_committed rops (bs_rb (mc_prog c)) = rb_committed rops (bs_rb s) @ es \<and>
    list_all (\<lambda>e. d \<noteq> 0 \<longrightarrow> be_exit_event e \<and> d \<le> be_duration_ns e) es \<and>
    mc_handled c = take (position (mc_ring c) - position u) es"
  using monitored.handled_good [OF monitored.intro [OF bootstrap_event_source [OF assms(1)] assms(2)] assms(3) _ assms(4)] by simp

interpretation demo: monitored "bootstrap_step mops (ringbuf_inst_ops junk) d" "\<lambda>st. True"
  "\<lambda>st. rb_committed (ringbuf_inst_ops junk) (bs_rb st)" "\<lambda>e. d \<noteq> 0 \<longrightarrow> be_exit_event e \<and> d \<le> be_duration_ns e"
  "fifo_poll (\<lambda>st. rb_committed (ringbuf_inst_ops junk) (bs_rb st))" "\<lambda>u. u"
  by unfold_locales

text \<open>The interleaved system refines \<^verbatim>\<open>main\<close>. When the loop of the process tracer has come to its end, in any
  interleaving with the BPF program and the signals, then what it did is a run of \<^verbatim>\<open>bootstrap\<close>: with
  the rounds that were made, \<^verbatim>\<open>main\<close> performs its set-up, the actions of the loop and the clean-up, and
  exits with the status of the loop.\<close>

lemma bootstrap_system_refines_main:
  assumes "mon_exec step poll boot_report [] (mon_start s u 0) as c" and "mc_pc c = AtEnd"
    and "parse_args keys cli_init = (opts, Some cli)" and "argp_rc env = 0" and "skel_open env" and "skel_load env = 0"
    and "skel_attach env = 0" and "boot_ringbuf_ok env"
  shows "\<exists>polls. bootstrap_main keys env polls =
    (fst (bootstrap_main keys env []) @ mc_acts c @ [Release RingBuf, Release Skel],
     Exited (if mc_err c < 0 then - mc_err c else 0))"
proof -
  have "loop_refines boot_report [] 0 c"
    by (rule mon_exec_refines [OF assms(1) mon_start_refines])
  then obtain polls where p: "poll_loop boot_report [] polls 0 = (mc_acts c, Some (mc_err c))"
    using assms(2) by (auto simp: loop_refines_def)
  show ?thesis
    using assms(3-8) p unfolding bootstrap_main_def by (intro exI [of _ polls]) (simp add: bootstrap_cleanup_def emit_def)
qed

lemma bootstrap_system_refines_main_example:
  "\<exists>polls. bootstrap_main [OptVerbose] boot_main_ok polls =
    (fst (bootstrap_main [OptVerbose] boot_main_ok []) @ [] @ [Release RingBuf, Release Skel], Exited 0)"
proof -
  let ?c = "sig_handler demo_conf"
  let ?c' = "goto AtEnd (mc_err ?c) [] ?c"
  have "mon_exec demo_step (fifo_poll demo_committed) boot_report [] (mon_start boot_st 0 0) [Signal, Loop] ?c'"
    by (fold demo_conf_def, rule mon_exec_Cons [OF mon_exec_Cons [OF exec_refl by_loop [OF loop_exit]] by_signal])
      (simp_all add: demo_conf_def mon_start_def)
  from bootstrap_system_refines_main [OF this, of "[OptVerbose]"] show ?thesis
    by (simp add: boot_main_ok_def demo_conf_def mon_start_def)
qed

end
