(* ===== verification/Capable_Race.thy ===== *)
theory Capable_Race
  imports Capable
begin

text \<open>
  The capability tracer on several CPUs. \<^verbatim>\<open>record_cap\<close> looks a key up in \<^verbatim>\<open>seen\<close>, enters it, and sends the
  event. Each of the three helper calls is atomic, but between them the same program may run on
  another CPU. The step relation interleaves them; \<open>Capable\<close> treats the whole function as one step.
\<close>

section \<open>The step relation\<close>

text \<open>
  Where a CPU is: not in the program; past the filters and the lookup, which found nothing (or is
  switched off); past the update of \<^verbatim>\<open>seen\<close>.
\<close>

datatype cap_pc = Idle | Looked cap_hit | Entered cap_hit

type_synonym ('m, 'p) cap_conf = "('m, 'p) capable_state \<times> (nat \<Rightarrow> cap_pc)"

definition cap_enter ::
  "('m, unique_key, u64) map_ops \<Rightarrow> tool_config \<Rightarrow> cap_hit \<Rightarrow> ('m, 'p) capable_state \<Rightarrow> ('m, 'p) capable_state" where
  "cap_enter mops cfg hit st =
     (if cfg_unique_type cfg = UNQ_OFF then st
      else st\<lparr>cap_seen := fst (map_update mops (cap_seen st) (hit_key cfg hit) 0 0)\<rparr>)"

definition cap_send ::
  "('p, cap_event) perf_ops \<Rightarrow> int \<Rightarrow> cap_hit \<Rightarrow> ('m, 'p) capable_state \<Rightarrow> ('m, 'p) capable_state" where
  "cap_send pops kver hit st =
     st\<lparr>cap_events := fst (perf_output pops (cap_events st) (hit_event kver hit) (csizeof cap_event_layout))\<rparr>"

inductive cap_step ::
  "('m, unique_key, u64) map_ops \<Rightarrow> ('p, cap_event) perf_ops \<Rightarrow> int \<Rightarrow> tool_config \<Rightarrow> nat \<Rightarrow> cap_hit set \<Rightarrow>
   ('m, 'p) cap_conf \<Rightarrow> ('m, 'p) cap_conf \<Rightarrow> bool"
  for mops pops kver cfg cpus hits where
  step_ignore: "c < cpus \<Longrightarrow> pc c = Idle \<Longrightarrow> hit \<in> hits \<Longrightarrow>
    \<not> (event_wanted cfg (hit_event kver hit) \<and> is_fresh mops cfg st hit) \<Longrightarrow>
    cap_step mops pops kver cfg cpus hits (st, pc) (st, pc)"
| step_lookup: "c < cpus \<Longrightarrow> pc c = Idle \<Longrightarrow> hit \<in> hits \<Longrightarrow>
    event_wanted cfg (hit_event kver hit) \<Longrightarrow> is_fresh mops cfg st hit \<Longrightarrow>
    cap_step mops pops kver cfg cpus hits (st, pc) (st, pc(c := Looked hit))"
| step_enter: "c < cpus \<Longrightarrow> pc c = Looked hit \<Longrightarrow>
    cap_step mops pops kver cfg cpus hits (st, pc) (cap_enter mops cfg hit st, pc(c := Entered hit))"
| step_send: "c < cpus \<Longrightarrow> pc c = Entered hit \<Longrightarrow>
    cap_step mops pops kver cfg cpus hits (st, pc) (cap_send pops kver hit st, pc(c := Idle))"

inductive_cases cap_stepE: "cap_step mops pops kver cfg cpus hits (st, pc) (st', pc')"

definition cap_reaches where
  "cap_reaches mops pops kver cfg cpus hits = (cap_step mops pops kver cfg cpus hits)\<^sup>*\<^sup>*"

text \<open>A whole invocation of the probe is a sequence of steps of one CPU.\<close>

lemma invocation_reaches:
  assumes "c < cpus" and "pc c = Idle" and "hit \<in> hits"
  shows "cap_reaches mops pops kver cfg cpus hits (st, pc) (fst (kprobe__cap_capable mops pops kver cfg hit st), pc)"
proof (cases "event_wanted cfg (hit_event kver hit) \<and> is_fresh mops cfg st hit")
  case False
  then show ?thesis by (auto simp: capable_unfold cap_reaches_def)
next
  case True
  let ?step = "cap_step mops pops kver cfg cpus hits"
  let ?st1 = "cap_enter mops cfg hit st"
  have "?step (st, pc) (st, pc(c := Looked hit))" using assms True by (simp add: step_lookup)
  moreover have "?step (st, pc(c := Looked hit)) (?st1, pc(c := Looked hit, c := Entered hit))"
    using assms(1) by (intro step_enter) simp_all
  moreover have "?step (?st1, pc(c := Entered hit)) (cap_send pops kver hit ?st1, pc(c := Entered hit, c := Idle))"
    using assms(1) by (intro step_send) simp_all
  moreover have "pc(c := Idle) = pc" using assms(2) by (simp add: fun_upd_idem)
  moreover have "cap_send pops kver hit ?st1 = fst (kprobe__cap_capable mops pops kver cfg hit st)"
    using True by (simp add: capable_unfold cap_enter_def cap_send_def)
  ultimately show ?thesis unfolding cap_reaches_def
    by (simp add: rtranclp.rtrancl_into_rtrancl [OF rtranclp.rtrancl_into_rtrancl [OF r_into_rtranclp]])
qed

section \<open>The invariant\<close>

text \<open>The key a CPU is working on.\<close>

fun pc_key :: "tool_config \<Rightarrow> cap_pc \<Rightarrow> unique_key option" where
  "pc_key cfg Idle = None"
| "pc_key cfg (Looked hit) = Some (hit_key cfg hit)"
| "pc_key cfg (Entered hit) = Some (hit_key cfg hit)"

definition in_flight :: "tool_config \<Rightarrow> nat \<Rightarrow> (nat \<Rightarrow> cap_pc) \<Rightarrow> unique_key \<Rightarrow> nat set" where
  "in_flight cfg cpus pc k = {c. c < cpus \<and> pc_key cfg (pc c) = Some k}"

definition sent :: "('p, cap_event) perf_ops \<Rightarrow> ('m, 'p) capable_state \<Rightarrow> unique_key \<Rightarrow> nat" where
  "sent pops st k = count_list (map pid_key (perf_records pops (cap_events st))) k"

lemma in_flight_upd:
  assumes "c < cpus"
  shows "in_flight cfg cpus (pc(c := x)) k =
    (if pc_key cfg x = Some k then insert c (in_flight cfg cpus pc k) else in_flight cfg cpus pc k - {c})"
  using assms by (auto simp: in_flight_def)

lemma in_flight_bound: "finite (in_flight cfg cpus pc k)" "card (in_flight cfg cpus pc k) \<le> cpus"
proof -
  have sub: "in_flight cfg cpus pc k \<subseteq> {..<cpus}" by (auto simp: in_flight_def)
  then show "finite (in_flight cfg cpus pc k)" by (rule finite_subset) simp
  show "card (in_flight cfg cpus pc k) \<le> cpus" using card_mono [OF _ sub] by simp
qed

text \<open>Every CPU works on a wanted hit, and only wanted events were sent.\<close>

definition work_inv :: "('p, cap_event) perf_ops \<Rightarrow> int \<Rightarrow> tool_config \<Rightarrow> nat \<Rightarrow> cap_hit set \<Rightarrow> ('m, 'p) cap_conf \<Rightarrow> bool" where
  "work_inv pops kver cfg cpus hits x \<longleftrightarrow>
     (\<forall>c < cpus. \<forall>hit. snd x c = Looked hit \<or> snd x c = Entered hit \<longrightarrow> hit \<in> hits \<and> event_wanted cfg (hit_event kver hit)) \<and>
     list_all (event_wanted cfg) (perf_records pops (cap_events (fst x)))"

text \<open>The table holds keys of hits only, and every key that was entered or sent.\<close>

definition table_inv ::
  "('m, unique_key, u64) map_ops \<Rightarrow> ('p, cap_event) perf_ops \<Rightarrow> tool_config \<Rightarrow> nat \<Rightarrow> cap_hit set \<Rightarrow> ('m, 'p) cap_conf \<Rightarrow> bool" where
  "table_inv mops pops cfg cpus hits x \<longleftrightarrow>
     dom (map_lookup mops (cap_seen (fst x))) \<subseteq> hit_key cfg ` hits \<and>
     (\<forall>k. k \<notin> dom (map_lookup mops (cap_seen (fst x))) \<longrightarrow>
        sent pops (fst x) k = 0 \<and> (\<forall>c < cpus. \<forall>hit. snd x c = Entered hit \<longrightarrow> hit_key cfg hit \<noteq> k))"

text \<open>What was sent for a key and what is on its way do not exceed the number of CPUs.\<close>

definition count_inv :: "('p, cap_event) perf_ops \<Rightarrow> tool_config \<Rightarrow> nat \<Rightarrow> ('m, 'p) cap_conf \<Rightarrow> bool" where
  "count_inv pops cfg cpus x \<longleftrightarrow> (\<forall>k. sent pops (fst x) k + card (in_flight cfg cpus (snd x) k) \<le> cpus)"

text \<open>The effect of the steps on the table and on the counts.\<close>

lemma cap_enter_simps [simp]:
  "cap_events (cap_enter mops cfg hit st) = cap_events st" "cap_seen (cap_send pops kver hit st) = cap_seen st"
  "sent pops (cap_enter mops cfg hit st) = sent pops st"
  by (simp_all add: cap_enter_def cap_send_def sent_def fun_eq_iff)

lemma sent_send:
  assumes "bpf_perf pops" and "cfg_unique_type cfg = UNQ_PID"
  shows "sent pops (cap_send pops kver hit st) k \<le> sent pops st k + (if k = hit_key cfg hit then 1 else 0)"
  by (simp add: sent_def cap_send_def bpf_perf.output_records [OF assms(1)] pid_key_hit [OF assms(2), of hit kver])

lemma work_step:
  assumes "bpf_perf pops" and "cap_step mops pops kver cfg cpus hits x y" and "work_inv pops kver cfg cpus hits x"
  shows "work_inv pops kver cfg cpus hits y"
  using assms(2,3)
  by cases (auto simp: work_inv_def cap_send_def bpf_perf.output_records [OF assms(1)])

lemma enter_table:
  assumes "bpf_hash_map mops n" and "cfg_unique_type cfg = UNQ_PID" and "finite (hit_key cfg ` hits)"
    and "card (hit_key cfg ` hits) \<le> n" and "dom (map_lookup mops (cap_seen st)) \<subseteq> hit_key cfg ` hits" and "hit \<in> hits"
  shows "map_lookup mops (cap_seen (cap_enter mops cfg hit st)) = (map_lookup mops (cap_seen st))(hit_key cfg hit \<mapsto> 0)"
proof -
  let ?k = "hit_key cfg hit" and ?D = "dom (map_lookup mops (cap_seen st))"
  have "?k \<in> ?D \<or> finite ?D \<and> card ?D < n"
  proof (cases "?k \<in> ?D")
    case False
    have fin: "finite ?D" using assms(5,3) by (rule finite_subset)
    have "card (insert ?k ?D) \<le> card (hit_key cfg ` hits)" using assms(3,5,6) by (intro card_mono) auto
    with False fin assms(4) show ?thesis by simp
  qed simp
  then have "snd (map_update mops (cap_seen st) ?k 0 BPF_ANY) = 0"
    by (intro bpf_hash_map.room [OF assms(1)]) auto
  then show ?thesis
    using assms(2) by (simp add: cap_enter_def BPF_ANY_def bpf_map.lookup_update [OF bpf_hash_map.axioms(1) [OF assms(1)]])
qed

lemma table_step:
  assumes "bpf_hash_map mops n" and "bpf_perf pops" and "cfg_unique_type cfg = UNQ_PID"
    and "finite (hit_key cfg ` hits)" and "card (hit_key cfg ` hits) \<le> n"
    and "cap_step mops pops kver cfg cpus hits x y" and "work_inv pops kver cfg cpus hits x"
    and "table_inv mops pops cfg cpus hits x"
  shows "table_inv mops pops cfg cpus hits y"
  using assms(6)
proof cases
  case (step_enter c pc hit st)
  then have "hit \<in> hits" using assms(7) by (cases hit) (auto simp: work_inv_def)
  then show ?thesis
    using step_enter assms(8) enter_table [OF assms(1,3,4,5), of st hit] by (auto simp: table_inv_def)
next
  case (step_send c pc hit st)
  have "sent pops (cap_send pops kver hit st) k = 0" if "k \<notin> dom (map_lookup mops (cap_seen st))" for k
  proof -
    from that have "sent pops st k = 0" "k \<noteq> hit_key cfg hit"
      using assms(8) step_send unfolding table_inv_def by (metis fst_conv, metis fst_conv snd_conv)
    then show ?thesis using sent_send [OF assms(2,3), of kver hit st k] by simp
  qed
  with step_send assms(8) show ?thesis unfolding table_inv_def by (simp add: domIff del: split_paired_All)
qed (use assms(8) in \<open>auto simp: table_inv_def\<close>)

lemma count_step:
  assumes "bpf_perf pops" and "cfg_unique_type cfg = UNQ_PID"
    and "cap_step mops pops kver cfg cpus hits x y" and "table_inv mops pops cfg cpus hits x" and "count_inv pops cfg cpus x"
  shows "count_inv pops cfg cpus y"
  using assms(3)
proof cases
  case (step_lookup c pc hit st)
  have "sent pops st (hit_key cfg hit) = 0"
    using step_lookup assms(2,4) by (auto simp: table_inv_def is_fresh_def)
  moreover have "in_flight cfg cpus pc k - {c} = in_flight cfg cpus pc k" for k
    using step_lookup(4) by (auto simp: in_flight_def)
  ultimately show ?thesis
    using step_lookup assms(5) in_flight_bound(2) [of cfg cpus "pc(c := Looked hit)" "hit_key cfg hit"]
    by (auto simp: count_inv_def in_flight_upd)
next
  case (step_enter c pc hit st)
  have "in_flight cfg cpus (pc(c := Entered hit)) k = in_flight cfg cpus pc k" for k
    using step_enter by (auto simp: in_flight_def)
  then show ?thesis using step_enter assms(5) by (simp add: count_inv_def)
next
  case (step_send c pc hit st)
  have "sent pops (cap_send pops kver hit st) k + card (in_flight cfg cpus (pc(c := Idle)) k) \<le> cpus" for k
  proof -
    have c: "c \<in> in_flight cfg cpus pc k \<longleftrightarrow> k = hit_key cfg hit" using step_send by (auto simp: in_flight_def)
    have "card (in_flight cfg cpus pc k) = card (in_flight cfg cpus pc k - {c}) + (if k = hit_key cfg hit then 1 else 0)"
      using c card.remove [OF in_flight_bound(1), of c cfg cpus pc k] by simp
    moreover have "sent pops st k + card (in_flight cfg cpus pc k) \<le> cpus" using assms(5) step_send by (simp add: count_inv_def)
    ultimately show ?thesis
      using sent_send [OF assms(1,2), of kver hit st k] step_send by (simp add: in_flight_upd)
  qed
  then show ?thesis using step_send by (simp add: count_inv_def)
qed (use assms(5) in auto)

text \<open>The three invariants together, over the reachable configurations.\<close>

definition race_inv ::
  "('m, unique_key, u64) map_ops \<Rightarrow> ('p, cap_event) perf_ops \<Rightarrow> int \<Rightarrow> tool_config \<Rightarrow> nat \<Rightarrow> cap_hit set \<Rightarrow> ('m, 'p) cap_conf \<Rightarrow> bool" where
  "race_inv mops pops kver cfg cpus hits x \<longleftrightarrow>
     work_inv pops kver cfg cpus hits x \<and> table_inv mops pops cfg cpus hits x \<and> count_inv pops cfg cpus x"

lemma race_inv_reachable:
  assumes "bpf_hash_map mops n" and "bpf_perf pops" and "cfg_unique_type cfg = UNQ_PID"
    and "finite (hit_key cfg ` hits)" and "card (hit_key cfg ` hits) \<le> n"
    and "cap_reaches mops pops kver cfg cpus hits x y" and "race_inv mops pops kver cfg cpus hits x"
  shows "race_inv mops pops kver cfg cpus hits y"
  using assms(6,7) unfolding cap_reaches_def
proof (induction rule: rtranclp_induct)
  case (step y z)
  then show ?case
    using work_step [OF assms(2) step(2)] table_step [OF assms(1-5) step(2)] count_step [OF assms(2,3) step(2)]
    by (auto simp: race_inv_def)
qed

lemma race_inv_init:
  assumes "map_lookup mops (cap_seen st) = Map.empty" and "perf_records pops (cap_events st) = []"
  shows "race_inv mops pops kver cfg cpus hits (st, \<lambda>_. Idle)"
  using assms by (simp add: race_inv_def work_inv_def table_inv_def count_inv_def sent_def in_flight_def)

lemma distinct_count_list: "(\<And>x. count_list xs x \<le> 1) \<Longrightarrow> distinct xs"
proof (induction xs)
  case (Cons a xs)
  have "a \<notin> set xs" using Cons.prems [of a] by (simp add: count_list_0_iff)
  moreover have "count_list xs x \<le> 1" for x using Cons.prems [of x] by (simp split: if_splits)
  ultimately show ?case using Cons.IH by simp
qed simp

section \<open>Properties\<close>

definition cap_start :: "((unique_key \<times> u64) list, nat \<times> cap_event list) capable_state" where
  "cap_start = \<lparr>cap_seen = [], cap_events = (4, [])\<rparr>"

text \<open>The bound is reached: two CPUs that both look the key up before either enters it.\<close>

lemma race_reports_twice:
  "\<exists>st pc. cap_reaches (hash_ops SEEN_ENTRIES) perf_inst_ops (KERNEL_VERSION 5 15 0) cap_cfg 2 {cap_hit_of 7 21} (cap_start, \<lambda>_. Idle) (st, pc) \<and>
    map pid_key (perf_records perf_inst_ops (cap_events st)) = replicate 2 (pid_key (hit_event (KERNEL_VERSION 5 15 0) (cap_hit_of 7 21)))"
proof -
  let ?kv = "KERNEL_VERSION 5 15 0" and ?h = "cap_hit_of 7 21"
  let ?m = "hash_ops SEEN_ENTRIES :: ((unique_key \<times> u64) list, unique_key, u64) map_ops"
  let ?step = "cap_step ?m perf_inst_ops ?kv cap_cfg 2 {?h}"
  let ?st1 = "cap_enter ?m cap_cfg ?h cap_start" and ?i = "\<lambda>_ :: nat. Idle"
  let ?st2 = "cap_enter ?m cap_cfg ?h ?st1"
  let ?st3 = "cap_send perf_inst_ops ?kv ?h ?st2"
  let ?st4 = "cap_send perf_inst_ops ?kv ?h ?st3"
  have w: "event_wanted cap_cfg (hit_event ?kv ?h)" by code_simp
  have f: "is_fresh ?m cap_cfg cap_start ?h" by (simp add: is_fresh_def hash_ops_def cap_start_def)
  have s: "?step (cap_start, ?i) (cap_start, ?i(0 := Looked ?h))"
    "?step (cap_start, ?i(0 := Looked ?h)) (cap_start, ?i(0 := Looked ?h, 1 := Looked ?h))"
    "?step (cap_start, ?i(0 := Looked ?h, 1 := Looked ?h)) (?st1, ?i(0 := Looked ?h, 1 := Looked ?h, 0 := Entered ?h))"
    "?step (?st1, ?i(0 := Looked ?h, 1 := Looked ?h, 0 := Entered ?h))
       (?st2, ?i(0 := Looked ?h, 1 := Looked ?h, 0 := Entered ?h, 1 := Entered ?h))"
    "?step (?st2, ?i(0 := Looked ?h, 1 := Looked ?h, 0 := Entered ?h, 1 := Entered ?h))
       (?st3, ?i(0 := Looked ?h, 1 := Looked ?h, 0 := Entered ?h, 1 := Entered ?h, 0 := Idle))"
    "?step (?st3, ?i(0 := Looked ?h, 1 := Looked ?h, 0 := Entered ?h, 1 := Entered ?h, 0 := Idle))
       (?st4, ?i(0 := Looked ?h, 1 := Looked ?h, 0 := Entered ?h, 1 := Entered ?h, 0 := Idle, 1 := Idle))"
    by (rule step_lookup step_enter step_send; simp add: w f)+
  have "perf_records perf_inst_ops (cap_events ?st4) = [hit_event ?kv ?h, hit_event ?kv ?h]"
    by (simp add: cap_send_def cap_start_def inst_defs cap_enter_def)
  then have "map pid_key (perf_records perf_inst_ops (cap_events ?st4)) = replicate 2 (pid_key (hit_event ?kv ?h))"
    by (simp add: numeral_2_eq_2)
  moreover have "?step\<^sup>*\<^sup>* (cap_start, ?i)
      (?st4, ?i(0 := Looked ?h, 1 := Looked ?h, 0 := Entered ?h, 1 := Entered ?h, 0 := Idle, 1 := Idle))"
    by (rule converse_rtranclp_into_rtranclp, rule s(1), rule converse_rtranclp_into_rtranclp, rule s(2),
        rule converse_rtranclp_into_rtranclp, rule s(3), rule converse_rtranclp_into_rtranclp, rule s(4),
        rule converse_rtranclp_into_rtranclp, rule s(5), rule r_into_rtranclp, rule s(6))
  ultimately show ?thesis unfolding cap_reaches_def by blast
qed

text \<open>C20: uniqueness on several CPUs. However the steps of the invocations interleave, as long as the keys
  fit the table, no capability of a process is reported more often than there are CPUs, and every
  event passes the filters. On one CPU each is reported at most once; on two CPUs twice is possible,
  because the lookup and the update of the table are separate steps.\<close>

theorem unique_pid_bounded_by_cpus:
  assumes "bpf_hash_map mops SEEN_ENTRIES" and "bpf_perf pops" and "cfg_unique_type cfg = UNQ_PID"
    and "finite (hit_key cfg ` hits)" and "card (hit_key cfg ` hits) \<le> SEEN_ENTRIES"
    and "map_lookup mops (cap_seen st) = Map.empty" and "perf_records pops (cap_events st) = []"
    and "cap_reaches mops pops kver cfg cpus hits (st, \<lambda>_. Idle) (st', pc')"
  shows "(\<forall>k. count_list (map pid_key (perf_records pops (cap_events st'))) k \<le> cpus) \<and>
    (cpus = 1 \<longrightarrow> distinct (map pid_key (perf_records pops (cap_events st')))) \<and>
    list_all (event_wanted cfg) (perf_records pops (cap_events st')) \<and>
    (\<exists>st pc. cap_reaches (hash_ops SEEN_ENTRIES) perf_inst_ops (KERNEL_VERSION 5 15 0) cap_cfg 2 {cap_hit_of 7 21} (cap_start, \<lambda>_. Idle) (st, pc) \<and>
      map pid_key (perf_records perf_inst_ops (cap_events st)) = replicate 2 (pid_key (hit_event (KERNEL_VERSION 5 15 0) (cap_hit_of 7 21))))"
proof -
  have inv: "race_inv mops pops kver cfg cpus hits (st', pc')"
    by (rule race_inv_reachable [OF assms(1-5,8) race_inv_init [OF assms(6,7)]])
  then have c: "sent pops st' k \<le> cpus" for k
    unfolding race_inv_def count_inv_def by (metis add_leD1 fst_conv)
  moreover have "distinct (map pid_key (perf_records pops (cap_events st')))" if "cpus = 1"
    using c that by (intro distinct_count_list) (auto simp: sent_def)
  ultimately show ?thesis using inv race_reports_twice by (simp add: race_inv_def work_inv_def sent_def)
qed

theorem unique_pid_bounded_by_cpus_witness:
  "(\<forall>k. count_list (map pid_key (perf_records perf_inst_ops (cap_events (fst (kprobe__cap_capable (hash_ops SEEN_ENTRIES)
      perf_inst_ops (KERNEL_VERSION 5 15 0) cap_cfg (cap_hit_of 7 21) cap_start))))) k \<le> 2)"
proof -
  have "cap_reaches (hash_ops SEEN_ENTRIES) perf_inst_ops (KERNEL_VERSION 5 15 0) cap_cfg 2 {cap_hit_of 7 21} (cap_start, \<lambda>_. Idle)
    (fst (kprobe__cap_capable (hash_ops SEEN_ENTRIES) perf_inst_ops (KERNEL_VERSION 5 15 0) cap_cfg (cap_hit_of 7 21) cap_start), \<lambda>_. Idle)"
    by (rule invocation_reaches [of 0]) simp_all
  from unique_pid_bounded_by_cpus [OF hash.bpf_hash_map_axioms perf.bpf_perf_axioms _ _ _ _ _ this] show ?thesis
    by (simp add: cap_cfg_def cap_start_def hash_ops_def perf_inst_ops_def SEEN_ENTRIES_def)
qed

end
