(* ===== verification/Probes.thy ===== *)
theory Probes
  imports Bpf_Helpers
begin

text \<open>
  The small tracing programs: \<^verbatim>\<open>minimal\<close>, \<^verbatim>\<open>minimal_legacy\<close>, \<^verbatim>\<open>fentry\<close>, \<^verbatim>\<open>kprobe\<close>, \<^verbatim>\<open>uprobe\<close> and
  \<^verbatim>\<open>usdt\<close> of \<^verbatim>\<open>libbpf-bootstrap/examples/c\<close>, which write to the trace pipe, and the programs
  \<^verbatim>\<open>ringbuf\<close>, \<^verbatim>\<open>usdt\<close>, \<^verbatim>\<open>taskiter\<close> and \<^verbatim>\<open>percpu_map\<close> of \<^verbatim>\<open>libbpf-rs/tests/bin/src\<close>.

  The trace pipe is the list of lines written so far. The locale \<open>pid_probe\<close> is what the programs
  that filter by process promise; it is interpreted on \<^verbatim>\<open>minimal\<close>, \<^verbatim>\<open>minimal_legacy\<close> and the automatically
  attached program of \<^verbatim>\<open>usdt\<close>.
\<close>

section \<open>minimal.bpf.c and minimal_legacy.bpf.c\<close>

definition minimal_line :: "s32 \<Rightarrow> printk" where
  "minimal_line pid = (''BPF triggered from PID %d.'' @ nl, [PInt pid])"

definition minimal_handle_tp :: "s32 \<Rightarrow> task_env \<Rightarrow> printk list \<Rightarrow> printk list \<times> int" where
  "minimal_handle_tp my_pid env log =
     (let pid = tgid_of (current_pid_tgid env) in
      if pid \<noteq> my_pid then (log, 0) else (log @ [minimal_line pid], 0))"

definition MY_PID_MAP_ENTRIES :: nat where "MY_PID_MAP_ENTRIES = 1"

definition legacy_handle_tp ::
  "('m, u32, s32) map_ops \<Rightarrow> 'm \<Rightarrow> task_env \<Rightarrow> printk list \<Rightarrow> printk list \<times> int" where
  "legacy_handle_tp mops my_pid_map env log =
     (let index = 0; pid = tgid_of (current_pid_tgid env) in
      case map_lookup mops my_pid_map index of
        None \<Rightarrow> (log, 1)
      | Some my_pid \<Rightarrow> if my_pid \<noteq> pid then (log, 1) else (log @ [minimal_line pid], 0))"

section \<open>fentry.bpf.c and kprobe.bpf.c\<close>

text \<open>
  \<open>filename_name p\<close> is the member \<^verbatim>\<open>name\<close> of the \<^verbatim>\<open>struct filename\<close> at \<open>p\<close>, \<open>kernel_str\<close> the string
  \<^verbatim>\<open>%s\<close> prints for a kernel pointer.
\<close>

record unlink_env = task_env +
  filename_name :: "u64 \<Rightarrow> u64"
  kernel_str :: "u64 \<Rightarrow> bytes"

definition fentry_do_unlinkat :: "unlink_env \<Rightarrow> u64 \<Rightarrow> printk list \<Rightarrow> printk list \<times> int" where
  "fentry_do_unlinkat env name log =
     (let pid = tgid_of (current_pid_tgid env) in
      (log @ [(''fentry: pid = %d, filename = %s'' @ nl,
         [PInt pid, PStr (kernel_str env (filename_name env name))])], 0))"

definition fexit_do_unlinkat :: "unlink_env \<Rightarrow> u64 \<Rightarrow> u64 \<Rightarrow> printk list \<Rightarrow> printk list \<times> int" where
  "fexit_do_unlinkat env name ret log =
     (let pid = tgid_of (current_pid_tgid env) in
      (log @ [(''fexit: pid = %d, filename = %s, ret = %ld'' @ nl,
         [PInt pid, PStr (kernel_str env (filename_name env name)), PLong ret])], 0))"

definition kprobe_do_unlinkat :: "unlink_env \<Rightarrow> u64 \<Rightarrow> printk list \<Rightarrow> printk list \<times> int" where
  "kprobe_do_unlinkat env name log =
     (let pid = tgid_of (current_pid_tgid env); filename = filename_name env name in
      (log @ [(''KPROBE ENTRY pid = %d, filename = %s'' @ nl,
         [PInt pid, PStr (kernel_str env filename)])], 0))"

definition kretprobe_do_unlinkat :: "unlink_env \<Rightarrow> u64 \<Rightarrow> printk list \<Rightarrow> printk list \<times> int" where
  "kretprobe_do_unlinkat env ret log =
     (let pid = tgid_of (current_pid_tgid env) in
      (log @ [(''KPROBE EXIT: pid = %d, ret = %ld'' @ nl, [PInt pid, PLong ret])], 0))"

text \<open>
  One call of \<^verbatim>\<open>do_unlinkat\<close>, as each pair of probes sees it: an entry hit and, when the function
  returns, an exit hit.
\<close>

datatype unlink_hit = UnlinkEnter unlink_env u64 | UnlinkExit unlink_env u64 u64

fun fentry_step :: "unlink_hit \<Rightarrow> printk list \<Rightarrow> printk list \<times> int" where
  "fentry_step (UnlinkEnter env name) log = fentry_do_unlinkat env name log"
| "fentry_step (UnlinkExit env name ret) log = fexit_do_unlinkat env name ret log"

fun kprobe_step :: "unlink_hit \<Rightarrow> printk list \<Rightarrow> printk list \<times> int" where
  "kprobe_step (UnlinkEnter env name) log = kprobe_do_unlinkat env name log"
| "kprobe_step (UnlinkExit env name ret) log = kretprobe_do_unlinkat env ret log"

section \<open>uprobe.bpf.c\<close>

definition uprobe_add :: "s32 \<Rightarrow> s32 \<Rightarrow> printk list \<Rightarrow> printk list \<times> int" where
  "uprobe_add a b log = (log @ [(''uprobed_add ENTRY: a = %d, b = %d'', [PInt a, PInt b])], 0)"

definition uretprobe_add :: "s32 \<Rightarrow> printk list \<Rightarrow> printk list \<times> int" where
  "uretprobe_add ret log = (log @ [(''uprobed_add EXIT: return = %d'', [PInt ret])], 0)"

definition uprobe_sub :: "s32 \<Rightarrow> s32 \<Rightarrow> printk list \<Rightarrow> printk list \<times> int" where
  "uprobe_sub a b log = (log @ [(''uprobed_sub ENTRY: a = %d, b = %d'', [PInt a, PInt b])], 0)"

definition uretprobe_sub :: "s32 \<Rightarrow> printk list \<Rightarrow> printk list \<times> int" where
  "uretprobe_sub ret log = (log @ [(''uprobed_sub EXIT: return = %d'', [PInt ret])], 0)"

section \<open>usdt.bpf.c\<close>

definition usdt_auto_attach ::
  "s32 \<Rightarrow> task_env \<Rightarrow> u64 \<Rightarrow> s32 \<Rightarrow> u64 \<Rightarrow> printk list \<Rightarrow> printk list \<times> int" where
  "usdt_auto_attach my_pid env arg1 arg2 arg3 log =
     (let pid = tgid_of (current_pid_tgid env) in
      if pid \<noteq> my_pid then (log, 0)
      else (log @ [(''USDT auto attach to libc:setjmp: arg1 = %lx, arg2 = %d, arg3 = %lx'',
              [PLong arg1, PInt arg2, PLong arg3])], 0))"

definition usdt_manual_attach :: "u64 \<Rightarrow> s32 \<Rightarrow> u64 \<Rightarrow> printk list \<Rightarrow> printk list \<times> int" where
  "usdt_manual_attach arg1 arg2 arg3 log =
     (log @ [(''USDT manual attach to libc:setjmp: arg1 = %lx, arg2 = %d, arg3 = %lx'',
        [PLong arg1, PInt arg2, PLong arg3])], 0)"

section \<open>Test programs: ringbuf.bpf.c and usdt.bpf.c\<close>

definition handle__usdt :: "('r, s32) ringbuf_ops \<Rightarrow> 'r \<Rightarrow> 'r \<times> int" where
  "handle__usdt rops ringbuf =
     (case rb_reserve rops ringbuf 4 of
        Some (_, rb) \<Rightarrow> (rb_submit rops rb 1, 0)
      | None \<Rightarrow> (ringbuf, 0))"

definition handle__sys_enter_getpid :: "('r, s32) ringbuf_ops \<Rightarrow> 'r \<times> 'r \<Rightarrow> ('r \<times> 'r) \<times> int" where
  "handle__sys_enter_getpid rops st =
     (let (ringbuf1, ringbuf2) = st;
          rb1 = (case rb_reserve rops ringbuf1 4 of
                   Some (_, rb) \<Rightarrow> rb_submit rops rb 1
                 | None \<Rightarrow> ringbuf1);
          rb2 = (case rb_reserve rops ringbuf2 4 of
                   Some (_, rb) \<Rightarrow> rb_submit rops rb 2
                 | None \<Rightarrow> ringbuf2)
      in ((rb1, rb2), 0))"

section \<open>Test programs: taskiter.bpf.c and percpu_map.bpf.c\<close>

record index_pid_pair =
  ipp_i :: u32
  ipp_pid :: s32

text \<open>
  The iterator calls the program once for every task, with the task in the context, and a last time
  with none. \<open>seq_write\<close> is \<^verbatim>\<open>bpf_seq_write\<close> for the output file of the iterator.
\<close>

record 'q seq_ops =
  seq_write :: "'q \<Rightarrow> index_pid_pair \<Rightarrow> 'q \<times> int"
  seq_room :: "'q \<Rightarrow> nat"
  seq_data :: "'q \<Rightarrow> index_pid_pair list"

text \<open>A write appends the record while there is room for it, and fails without effect once there is not.\<close>

locale bpf_seq =
  fixes ops :: "'q seq_ops"
  assumes write_data: "seq_data ops (fst (seq_write ops q p)) =
    (if seq_room ops q = 0 then seq_data ops q else seq_data ops q @ [p])"
  and write_room: "seq_room ops (fst (seq_write ops q p)) = seq_room ops q - 1"

definition dump_pid :: "'q seq_ops \<Rightarrow> s32 option \<Rightarrow> u32 \<times> 'q \<Rightarrow> (u32 \<times> 'q) \<times> int" where
  "dump_pid ops task_tgid st =
     (let (i, seq) = st in
      case task_tgid of
        None \<Rightarrow> ((i, seq), 0)
      | Some tgid \<Rightarrow>
          let p = \<lparr>ipp_i = i, ipp_pid = tgid\<rparr> in ((i + 1, fst (seq_write ops seq p)), 0))"

record map_decl =
  md_type :: nat
  md_key_size :: nat
  md_value_size :: nat
  md_max_entries :: nat

definition BPF_MAP_TYPE_PERCPU_ARRAY :: nat where "BPF_MAP_TYPE_PERCPU_ARRAY = 6"

definition percpu_map :: map_decl where
  "percpu_map = \<lparr>md_type = BPF_MAP_TYPE_PERCPU_ARRAY, md_key_size = 4, md_value_size = 4, md_max_entries = 1\<rparr>"

section \<open>The contract of the process filters\<close>

text \<open>
  \<open>mine\<close> says which hits come from the traced process, \<open>line\<close> what is written for one.
\<close>

locale pid_probe =
  fixes handler :: "'i \<Rightarrow> printk list \<Rightarrow> printk list \<times> int"
  and mine :: "'i \<Rightarrow> bool"
  and line :: "'i \<Rightarrow> printk"
  assumes writes: "fst (handler i log) = (if mine i then log @ [line i] else log)"
begin

lemma run_log: "run_steps handler is log = log @ map line (filter mine is)"
  by (induction "is" arbitrary: log) (simp_all add: writes)

end

interpretation minimal: pid_probe "minimal_handle_tp my_pid"
  "\<lambda>env. tgid_of (current_pid_tgid env) = my_pid" "\<lambda>env. minimal_line my_pid"
  by unfold_locales (auto simp: minimal_handle_tp_def Let_def)

interpretation legacy: pid_probe "legacy_handle_tp mops m"
  "\<lambda>env. map_lookup mops m 0 = Some (tgid_of (current_pid_tgid env))"
  "\<lambda>env. minimal_line (tgid_of (current_pid_tgid env))"
  by unfold_locales (auto simp: legacy_handle_tp_def Let_def split: option.splits)

interpretation usdt: pid_probe "\<lambda>(env, a, b, c). usdt_auto_attach my_pid env a b c"
  "\<lambda>(env, a, b, c). tgid_of (current_pid_tgid env) = my_pid"
  "\<lambda>(env, a, b, c). (''USDT auto attach to libc:setjmp: arg1 = %lx, arg2 = %d, arg3 = %lx'', [PLong a, PInt b, PLong c])"
  by unfold_locales (auto simp: usdt_auto_attach_def Let_def)

interpretation fentry: pid_probe fentry_step "\<lambda>_. True"
  "\<lambda>h. case h of
     UnlinkEnter env name \<Rightarrow> (''fentry: pid = %d, filename = %s'' @ nl,
       [PInt (tgid_of (current_pid_tgid env)), PStr (kernel_str env (filename_name env name))])
   | UnlinkExit env name ret \<Rightarrow> (''fexit: pid = %d, filename = %s, ret = %ld'' @ nl,
       [PInt (tgid_of (current_pid_tgid env)), PStr (kernel_str env (filename_name env name)), PLong ret])"
  by unfold_locales (auto simp: fentry_do_unlinkat_def fexit_do_unlinkat_def Let_def split: unlink_hit.splits)

interpretation kprobe: pid_probe kprobe_step "\<lambda>_. True"
  "\<lambda>h. case h of
     UnlinkEnter env name \<Rightarrow> (''KPROBE ENTRY pid = %d, filename = %s'' @ nl,
       [PInt (tgid_of (current_pid_tgid env)), PStr (kernel_str env (filename_name env name))])
   | UnlinkExit env name ret \<Rightarrow> (''KPROBE EXIT: pid = %d, ret = %ld'' @ nl,
       [PInt (tgid_of (current_pid_tgid env)), PLong ret])"
  by unfold_locales (auto simp: kprobe_do_unlinkat_def kretprobe_do_unlinkat_def Let_def split: unlink_hit.splits)

text \<open>The iterator output file, as a list with room for a number of records.\<close>

definition seq_inst_ops :: "(nat \<times> index_pid_pair list) seq_ops" where
  "seq_inst_ops = \<lparr>seq_write = (\<lambda>(k, ps) p. if k = 0 then ((k, ps), - 75) else ((k - 1, ps @ [p]), 0)),
     seq_room = fst, seq_data = snd\<rparr>"

interpretation seq: bpf_seq seq_inst_ops
  by unfold_locales (auto simp: seq_inst_ops_def split: if_splits)

section \<open>Lemmas\<close>

context bpf_seq
begin

lemma dump_step:
  "fst (dump_pid ops (Some t) (i, q)) = (i + 1, fst (seq_write ops q \<lparr>ipp_i = i, ipp_pid = t\<rparr>))"
  by (simp add: dump_pid_def Let_def)

lemma dump_run:
  "fst (run_steps (dump_pid ops) (map Some tgids) (i, q)) = i + of_nat (length tgids) \<and>
   seq_data ops (snd (run_steps (dump_pid ops) (map Some tgids) (i, q))) =
     seq_data ops q @ take (seq_room ops q)
       (map (\<lambda>k. \<lparr>ipp_i = i + of_nat k, ipp_pid = tgids ! k\<rparr>) [0..<length tgids])"
proof (induction tgids arbitrary: i q)
  case Nil
  show ?case by simp
next
  case (Cons t ts)
  have "map (\<lambda>k. \<lparr>ipp_i = i + of_nat k, ipp_pid = (t # ts) ! k\<rparr>) [0..<length (t # ts)] =
    \<lparr>ipp_i = i, ipp_pid = t\<rparr> # map (\<lambda>k. \<lparr>ipp_i = i + 1 + of_nat k, ipp_pid = ts ! k\<rparr>) [0..<length ts]"
    by (simp add: upt_conv_Cons map_Suc_upt [symmetric] add.assoc o_def del: upt_Suc)
  then show ?case
    using Cons.IH [of "i + 1" "fst (seq_write ops q \<lparr>ipp_i = i, ipp_pid = t\<rparr>)"]
    by (simp add: dump_step write_data write_room take_Cons' add.assoc del: upt_Suc)
qed

end

text \<open>Both test programs put a constant into a ring buffer when there is room.\<close>

definition rb_put :: "('r, s32) ringbuf_ops \<Rightarrow> s32 \<Rightarrow> 'r \<Rightarrow> 'r \<times> int" where
  "rb_put rops v r = (case rb_reserve rops r 4 of Some (_, rb) \<Rightarrow> rb_submit rops rb v | None \<Rightarrow> r, 0)"

lemma usdt_put: "handle__usdt rops = rb_put rops 1"
  by (simp add: fun_eq_iff handle__usdt_def rb_put_def split: option.splits)

lemma getpid_run:
  "run_steps (\<lambda>_ :: unit. handle__sys_enter_getpid rops) calls (r1, r2) =
     (run_steps (\<lambda>_. rb_put rops 1) calls r1, run_steps (\<lambda>_. rb_put rops 2) calls r2)"
  by (induction calls arbitrary: r1 r2) (simp_all add: handle__sys_enter_getpid_def rb_put_def Let_def)

lemma put_source:
  assumes "bpf_ringbuf rops"
  shows "event_source (\<lambda>_. rb_put rops v) (\<lambda>_. True) (rb_committed rops) (\<lambda>e. e = v)"
  by unfold_locales (auto simp: rb_put_def bpf_ringbuf.reserve_submit [OF assms] split: option.splits)

lemma put_run:
  assumes "bpf_ringbuf rops"
  shows "\<exists>k \<le> length calls. rb_committed rops (run_steps (\<lambda>_. rb_put rops v) calls r) = rb_committed rops r @ replicate k v"
proof -
  obtain es where "rb_committed rops (run_steps (\<lambda>_. rb_put rops v) calls r) = rb_committed rops r @ es"
    and "length es \<le> length calls" and "list_all (\<lambda>e. e = v) es"
    using event_source.run_emits [OF put_source [OF assms, of v], of calls r] by auto
  moreover from this(3) have "es = replicate (length es) v"
    by (induction es) auto
  ultimately show ?thesis by metis
qed

section \<open>Properties\<close>

text \<open>The two versions of the minimal program agree. When user space stores its process id in element
  0 of the array map, the legacy program writes, over any sequence of system calls, the very lines
  the program with the global variable writes: one line for every call of that process, none for
  any other.\<close>

lemma minimal_legacy_equivalent:
  assumes "bpf_array_map mops MY_PID_MAP_ENTRIES"
  shows "run_steps (legacy_handle_tp mops (fst (map_update mops m 0 my_pid BPF_ANY))) envs log =
      run_steps (minimal_handle_tp my_pid) envs log \<and>
    run_steps (minimal_handle_tp my_pid) envs log =
      log @ replicate (length (filter (\<lambda>env. tgid_of (current_pid_tgid env) = my_pid) envs)) (minimal_line my_pid)"
proof -
  have "snd (map_update mops m 0 my_pid BPF_ANY) = 0"
    by (rule bpf_array_map.array_update [OF assms]) (simp add: MY_PID_MAP_ENTRIES_def)
  then have l: "map_lookup mops (fst (map_update mops m 0 my_pid BPF_ANY)) 0 = Some my_pid"
    by (rule bpf_map.lookup_update_same [OF bpf_array_map.axioms(1) [OF assms]])
  show ?thesis
    unfolding legacy.run_log minimal.run_log l
    by (auto simp: map_replicate_const [symmetric] eq_commute [of my_pid] intro: map_cong)
qed

definition write_call :: "u32 \<Rightarrow> task_env" where
  "write_call pid = \<lparr>current_pid_tgid = pid_tgid_join pid pid, current_uid_gid = 0, current_cgroup_id = 0,
     current_comm = comm_of [], ktime_ns = 0, smp_processor_id = 0\<rparr>"

lemma minimal_legacy_equivalent_example:
  "run_steps (legacy_handle_tp (array_ops MY_PID_MAP_ENTRIES 0)
      (fst (map_update (array_ops MY_PID_MAP_ENTRIES 0) [] 0 7 BPF_ANY))) [write_call 7, write_call 8, write_call 7] [] =
    [minimal_line 7, minimal_line 7]"
  using minimal_legacy_equivalent [OF array.bpf_array_map_axioms, of 0 "[]" 7 "[write_call 7, write_call 8, write_call 7]" "[]"]
  by (simp add: write_call_def)

text \<open>The task iterator numbers the tasks. Called once for each task and a last time without one,
  the program writes the process ids in order, numbered consecutively from the value of its counter
  (modulo \<open>2 ^ 32\<close>), as long as the output has room, and leaves the counter at the next number.\<close>

lemma dump_pid_numbers:
  assumes "bpf_seq ops"
  shows "fst (run_steps (dump_pid ops) (map Some tgids @ [None]) (i, q)) = i + of_nat (length tgids) \<and>
    seq_data ops (snd (run_steps (dump_pid ops) (map Some tgids @ [None]) (i, q))) =
      seq_data ops q @ take (seq_room ops q)
        (map (\<lambda>k. \<lparr>ipp_i = i + of_nat k, ipp_pid = tgids ! k\<rparr>) [0..<length tgids])"
  unfolding run_steps_append using bpf_seq.dump_run [OF assms] by (simp add: dump_pid_def Let_def case_prod_beta)

text \<open>The two ring buffers of the test program do not influence each other: over any number of
  system calls the first buffer evolves exactly as the buffer of the USDT test program, and the two
  only ever receive their own value, at most once per call.\<close>

lemma getpid_buffers_independent:
  assumes "bpf_ringbuf rops"
  shows "fst (run_steps (\<lambda>_ :: unit. handle__sys_enter_getpid rops) calls (r1, r2)) =
      run_steps (\<lambda>_. handle__usdt rops) calls r1 \<and>
    (\<exists>k1 \<le> length calls. \<exists>k2 \<le> length calls.
      rb_committed rops (fst (run_steps (\<lambda>_. handle__sys_enter_getpid rops) calls (r1, r2))) =
        rb_committed rops r1 @ replicate k1 1 \<and>
      rb_committed rops (snd (run_steps (\<lambda>_. handle__sys_enter_getpid rops) calls (r1, r2))) =
        rb_committed rops r2 @ replicate k2 2)"
  using put_run [OF assms, of calls 1 r1] put_run [OF assms, of calls 2 r2]
  by (simp add: getpid_run usdt_put) blast

end
