(* ===== verification/Libbpf_Object.thy ===== *)
theory Libbpf_Object
  imports Libbpf_Map
begin

text \<open>
  BPF objects and skeletons: \<^verbatim>\<open>object.rs\<close> and \<^verbatim>\<open>skeleton.rs\<close> of \<^verbatim>\<open>libbpf-rs\<close>, and \<^verbatim>\<open>gen.rs\<close> of \<^verbatim>\<open>libbpf-cargo\<close>, which generates a
  skeleton for an object file. What libbpf says about an object, and whether it opens and loads, are
  parameters. Of the generated text the model keeps what it consists of: the calls that configure the skeleton, the
  accessor functions with their indices, and the way from open to load.
\<close>

unbundle bit_operations_syntax

section \<open>object.rs\<close>

text \<open>The maps and programs of an object as libbpf reports them: the descriptor of a map that was not created is negative.\<close>

record map_desc =
  md_name :: bytes
  md_fd :: int
  md_type :: u32
  md_key_size :: u32
  md_value_size :: u32

record prog_desc =
  pd_name :: bytes
  pd_section :: bytes

record obj_desc =
  od_maps :: "map_desc list"
  od_progs :: "prog_desc list"

text \<open>The calls that concern the life of the object; closing a null pointer does nothing and is left out.\<close>

datatype obj_call = ObjOpen | ObjLoad | ObjClose

record open_object =
  oo_maps :: "(string \<times> map_desc) list"
  oo_progs :: "(string \<times> string) list"

record object =
  ob_maps :: "(string \<times> lib_map) list"
  ob_progs :: "(string \<times> string) list"

text \<open>The loops that fill the hash maps; \<^verbatim>\<open>insert\<close> replaces the value of a key that is there.\<close>

fun add_open_maps :: "map_desc list \<Rightarrow> (string \<times> map_desc) list \<Rightarrow> (string \<times> map_desc) list lib_result" where
  "add_open_maps [] acc = Inr acc"
| "add_open_maps (m # ms) acc =
     (case c_ptr_to_string (Some (md_name m)) of
        Inl e \<Rightarrow> Inl e
      | Inr name \<Rightarrow> add_open_maps ms (AList.update name m acc))"

fun add_progs :: "prog_desc list \<Rightarrow> (string \<times> string) list \<Rightarrow> (string \<times> string) list lib_result" where
  "add_progs [] acc = Inr acc"
| "add_progs (p # ps) acc =
     (case c_ptr_to_string (Some (pd_name p)) of
        Inl e \<Rightarrow> Inl e
      | Inr name \<Rightarrow>
          (case c_ptr_to_string (Some (pd_section p)) of
             Inl e \<Rightarrow> Inl e
           | Inr section \<Rightarrow> add_progs ps (AList.update name section acc)))"

fun add_maps :: "map_desc list \<Rightarrow> (string \<times> lib_map) list \<Rightarrow> (string \<times> lib_map) list lib_result" where
  "add_maps [] acc = Inr acc"
| "add_maps (m # ms) acc =
     (case c_ptr_to_string (Some (md_name m)) of
        Inl e \<Rightarrow> Inl e
      | Inr name \<Rightarrow>
          if md_fd m < 0 then Inl (System (- md_fd m))
          else add_maps ms (AList.update name \<lparr>lm_fd = md_fd m, lm_name = name, lm_ty = md_type m,
            lm_key_size = md_key_size m, lm_value_size = md_value_size m, lm_ptr = True\<rparr> acc))"

text \<open>
  \<^verbatim>\<open>OpenObject::new\<close> and \<^verbatim>\<open>Object::new\<close>. Both build a value that owns the pointer first; when they return an error
  this value is dropped, which closes the object.
\<close>

definition open_object_new :: "obj_desc \<Rightarrow> obj_call list \<times> open_object lib_result" where
  "open_object_new d =
     (case add_open_maps (od_maps d) [] of
        Inl e \<Rightarrow> ([ObjClose], Inl e)
      | Inr maps \<Rightarrow>
          (case add_progs (od_progs d) [] of
             Inl e \<Rightarrow> ([ObjClose], Inl e)
           | Inr progs \<Rightarrow> ([], Inr \<lparr>oo_maps = maps, oo_progs = progs\<rparr>)))"

definition object_new :: "obj_desc \<Rightarrow> obj_call list \<times> object lib_result" where
  "object_new d =
     (case add_maps (od_maps d) [] of
        Inl e \<Rightarrow> ([ObjClose], Inl e)
      | Inr maps \<Rightarrow>
          (case add_progs (od_progs d) [] of
             Inl e \<Rightarrow> ([ObjClose], Inl e)
           | Inr progs \<Rightarrow> ([], Inr \<lparr>ob_maps = maps, ob_progs = progs\<rparr>)))"

definition open_object_map :: "open_object \<Rightarrow> string \<Rightarrow> map_desc option" where
  "open_object_map obj name = map_of (oo_maps obj) name"

definition object_map :: "object \<Rightarrow> string \<Rightarrow> lib_map option" where
  "object_map obj name = map_of (ob_maps obj) name"

text \<open>\<^verbatim>\<open>ObjectBuilder::open_file\<close> and \<^verbatim>\<open>open_memory\<close>; \<open>err\<close> is what \<^verbatim>\<open>libbpf_get_error\<close> says of the pointer.\<close>

definition open_with :: "string lib_result list \<Rightarrow> int \<Rightarrow> obj_desc \<Rightarrow> obj_call list \<times> open_object lib_result" where
  "open_with strings err d =
     (case find (\<lambda>s. case s of Inl e \<Rightarrow> True | Inr _ \<Rightarrow> False) strings of
        Some (Inl e) \<Rightarrow> ([], Inl e)
      | _ \<Rightarrow> if err \<noteq> 0 then ([], Inl (System err)) else (case open_object_new d of (cs, r) \<Rightarrow> (ObjOpen # cs, r)))"

definition open_file :: "string option \<Rightarrow> string \<Rightarrow> int \<Rightarrow> obj_desc \<Rightarrow> obj_call list \<times> open_object lib_result" where
  "open_file path name err d = open_with [path_to_cstring path, str_to_cstring name] err d"

definition open_memory :: "string \<Rightarrow> int \<Rightarrow> obj_desc \<Rightarrow> obj_call list \<times> open_object lib_result" where
  "open_memory name err d = open_with [str_to_cstring name] err d"

text \<open>
  \<^verbatim>\<open>OpenObject::load\<close> consumes the open object. Its pointer is cleared after \<^verbatim>\<open>Object::new\<close>, so on every path that
  returns an error it is still set when the open object is dropped. \<open>d\<close> describes the object after loading.
\<close>

definition open_object_load :: "int \<Rightarrow> obj_desc \<Rightarrow> obj_call list \<times> object lib_result" where
  "open_object_load rc d =
     (if rc \<noteq> 0 then ([ObjLoad, ObjClose], Inl (System (- rc)))
      else case object_new d of
        (cs, Inl e) \<Rightarrow> (ObjLoad # cs @ [ObjClose], Inl e)
      | (cs, Inr obj) \<Rightarrow> (ObjLoad # cs, Inr obj))"

text \<open>
  \<^verbatim>\<open>load\<close> of a generated skeleton takes the pointer out of the open object before it hands it to \<^verbatim>\<open>Object::from_ptr\<close>.
\<close>

definition skel_load :: "int \<Rightarrow> obj_desc \<Rightarrow> obj_call list \<times> object lib_result" where
  "skel_load rc d =
     (if rc \<noteq> 0 then ([ObjLoad, ObjClose], Inl (System (- rc)))
      else case object_new d of (cs, r) \<Rightarrow> (ObjLoad # cs, r))"

text \<open>
  A client of the library that opens an object, loads it with \<^verbatim>\<open>OpenObject::load\<close> and drops what it has in the end. \<open>d'\<close> describes
  the object after loading.
\<close>

definition builder_session :: "obj_call list \<times> open_object lib_result \<Rightarrow> int \<Rightarrow> obj_desc \<Rightarrow> obj_call list" where
  "builder_session opened rc d' =
     (case opened of
        (cs, Inl e) \<Rightarrow> cs
      | (cs, Inr _) \<Rightarrow>
          (case open_object_load rc d' of
             (cs', Inl e) \<Rightarrow> cs @ cs'
           | (cs', Inr _) \<Rightarrow> cs @ cs' @ [ObjClose]))"

section \<open>skeleton.rs\<close>

record map_skel =
  ms_name :: string
  ms_mmaped :: "u64 option"

record prog_skel =
  ps_name :: string
  ps_link :: u64

record skel_builder =
  sb_name :: "string option"
  sb_maps :: "map_skel list"
  sb_progs :: "prog_skel list"

definition skel_builder_new :: skel_builder where
  "skel_builder_new = \<lparr>sb_name = None, sb_maps = [], sb_progs = []\<rparr>"

definition skel_name :: "string \<Rightarrow> skel_builder \<Rightarrow> skel_builder" where
  "skel_name n b = b\<lparr>sb_name := Some n\<rparr>"

definition skel_map :: "string \<Rightarrow> bool \<Rightarrow> skel_builder \<Rightarrow> skel_builder" where
  "skel_map n mmaped b = b\<lparr>sb_maps := sb_maps b @ [\<lparr>ms_name = n, ms_mmaped = (if mmaped then Some 0 else None)\<rparr>]\<rparr>"

definition skel_prog :: "string \<Rightarrow> skel_builder \<Rightarrow> skel_builder" where
  "skel_prog n b = b\<lparr>sb_progs := sb_progs b @ [\<lparr>ps_name = n, ps_link = 0\<rparr>]\<rparr>"

text \<open>
  The arrays that are allocated for libbpf, with their lengths, and the strings that are kept alive, in order. A NUL
  in the name of a map or program is a panic, after the array has been allocated.
\<close>

datatype skel_mem = AllocMaps nat | AllocProgs nat | FreeMaps | FreeProgs

record skel_config =
  sc_maps :: "map_skel list"
  sc_progs :: "prog_skel list"
  sc_maps_layout :: "nat option"
  sc_progs_layout :: "nat option"
  sc_string_pool :: "string list"

definition build_array :: "(nat \<Rightarrow> skel_mem) \<Rightarrow> string list \<Rightarrow> skel_mem list \<times> nat option \<times> bool" where
  "build_array alloc names =
     (if names = [] then ([], None, True)
      else ([alloc (length names)], Some (length names), list_all (\<lambda>n. CHR 0x00 \<notin> set n) names))"

definition skel_build :: "skel_builder \<Rightarrow> skel_mem list \<times> skel_config rust_result" where
  "skel_build b =
     (if (case sb_name b of Some n \<Rightarrow> CHR 0x00 \<in> set n | None \<Rightarrow> False) then ([], Err)
      else
        let (as, maps_layout, maps_ok) = build_array AllocMaps (map ms_name (sb_maps b));
            (bs, progs_layout, progs_ok) = build_array AllocProgs (map ps_name (sb_progs b))
        in if \<not> maps_ok then (as, Panic)
           else if \<not> progs_ok then (as @ bs, Panic)
           else (as @ bs, Ok \<lparr>sc_maps = sb_maps b, sc_progs = sb_progs b, sc_maps_layout = maps_layout, sc_progs_layout = progs_layout,
             sc_string_pool = (case sb_name b of Some n \<Rightarrow> [n] | None \<Rightarrow> []) @ map ms_name (sb_maps b) @ map ps_name (sb_progs b)\<rparr>))"

definition skel_drop :: "skel_config \<Rightarrow> skel_mem list" where
  "skel_drop c = (case sc_maps_layout c of None \<Rightarrow> [] | Some _ \<Rightarrow> [FreeMaps]) @ (case sc_progs_layout c of None \<Rightarrow> [] | Some _ \<Rightarrow> [FreeProgs])"

text \<open>
  \<^verbatim>\<open>open\<close> (and \<^verbatim>\<open>open_opts\<close>) of a generated skeleton: the configuration that the builder \<open>b\<close> describes, the call of
  \<^verbatim>\<open>bpf_object__open_skeleton\<close> with the result \<open>rc\<close>, and \<^verbatim>\<open>OpenObject::from_ptr\<close>. libbpf stores the object in the skeleton as soon as it
  is open and may return an error after that, when it does not find one of the maps or programs: \<open>opened\<close> says whether the
  object was open when the call returned. The configuration is dropped on an error, but does not own the object.
\<close>

definition open_skel ::
  "skel_builder \<Rightarrow> bool \<Rightarrow> int \<Rightarrow> obj_desc \<Rightarrow> skel_mem list \<times> obj_call list \<times> (open_object \<times> skel_config) rust_result" where
  "open_skel b opened rc d =
     (case skel_build b of
        (as, Err) \<Rightarrow> (as, [], Err)
      | (as, Panic) \<Rightarrow> (as, [], Panic)
      | (as, Ok c) \<Rightarrow>
          if rc \<noteq> 0 then (as @ skel_drop c, if opened then [ObjOpen] else [], Err)
          else
            (case open_object_new d of
               (cs, Inl e) \<Rightarrow> (as @ skel_drop c, ObjOpen # cs, Err)
             | (cs, Inr obj) \<Rightarrow> (as, ObjOpen # cs, Ok (obj, c))))"

text \<open>A client that opens a generated skeleton, loads it and drops what it has in the end.\<close>

definition skel_session ::
  "skel_builder \<Rightarrow> bool \<Rightarrow> int \<Rightarrow> obj_desc \<Rightarrow> int \<Rightarrow> obj_desc \<Rightarrow> skel_mem list \<times> obj_call list" where
  "skel_session b opened open_rc d rc d' =
     (case open_skel b opened open_rc d of
        (as, cs, Ok (obj, c)) \<Rightarrow>
          (case skel_load rc d' of
             (cs', Inl e) \<Rightarrow> (as @ skel_drop c, cs @ cs')
           | (cs', Inr _) \<Rightarrow> (as @ skel_drop c, cs @ cs' @ [ObjClose]))
      | (as, cs, _) \<Rightarrow> (as, cs))"

definition map_mmap_ptr :: "skel_config \<Rightarrow> nat \<Rightarrow> u64 lib_result" where
  "map_mmap_ptr c index =
     (if length (sc_maps c) \<le> index then Inl Internal
      else case ms_mmaped (sc_maps c ! index) of None \<Rightarrow> Inl Internal | Some p \<Rightarrow> Inr p)"

definition prog_link_ptr :: "skel_config \<Rightarrow> nat \<Rightarrow> u64 lib_result" where
  "prog_link_ptr c index = (if length (sc_progs c) \<le> index then Inl Internal else Inr (ps_link (sc_progs c ! index)))"

section \<open>gen.rs\<close>

text \<open>
  \<^verbatim>\<open>capitalize_first_letter\<close>: an empty part between underscores has no first letter; and a first letter of several
  bytes is cut in two by \<^verbatim>\<open>ts[1..]\<close>.
\<close>

definition ascii_upper :: "char \<Rightarrow> char" where
  "ascii_upper c = (let n = of_char c :: nat in if 97 \<le> n \<and> n \<le> 122 then char_of (n - 32) else c)"

fun capitalize_parts :: "string list \<Rightarrow> string \<Rightarrow> string rust_result" where
  "capitalize_parts [] acc = Ok acc"
| "capitalize_parts (ts # tss) acc =
     (case ts of
        [] \<Rightarrow> Panic
      | c # cs \<Rightarrow> if 0x80 \<le> (of_char c :: nat) then Panic else capitalize_parts tss (acc @ ascii_upper c # cs))"

definition capitalize_first_letter :: "string \<Rightarrow> string rust_result" where
  "capitalize_first_letter s = (if s = [] then Ok [] else capitalize_parts (str_split ''_'' s) [])"

record gen_map =
  gm_name :: "bytes option"
  gm_internal :: bool
  gm_flags :: u32

definition raw_name :: "bytes option \<Rightarrow> string rust_result" where
  "raw_name p =
     (case p of None \<Rightarrow> Err | Some bs \<Rightarrow> if utf8 (map unat (c_str bs)) then Ok (str_of (c_str bs)) else Err)"

definition get_raw_map_name :: "gen_map \<Rightarrow> string rust_result" where
  "get_raw_map_name m = raw_name (gm_name m)"

definition canonicalize_internal_map_name :: "string \<Rightarrow> string option" where
  "canonicalize_internal_map_name s =
     (if suffix ''.data'' s then Some ''data''
      else if suffix ''.rodata'' s then Some ''rodata''
      else if suffix ''.bss'' s then Some ''bss''
      else if suffix ''.kconfig'' s then Some ''kconfig''
      else None)"

definition get_map_name :: "gen_map \<Rightarrow> string option rust_result" where
  "get_map_name m =
     (case get_raw_map_name m of
        Ok name \<Rightarrow> Ok (if \<not> gm_internal m then Some name else canonicalize_internal_map_name name)
      | Err \<Rightarrow> Err
      | Panic \<Rightarrow> Panic)"

definition BPF_F_RDONLY_PROG :: u32 where "BPF_F_RDONLY_PROG = 0x80"
definition BPF_F_MMAPABLE :: u32 where "BPF_F_MMAPABLE = 0x400"

definition map_is_mmapable :: "gen_map \<Rightarrow> bool" where
  "map_is_mmapable m \<longleftrightarrow> 0 < gm_flags m AND BPF_F_MMAPABLE"

definition map_is_datasec :: "gen_map \<Rightarrow> bool" where
  "map_is_datasec m \<longleftrightarrow> gm_internal m \<and> map_is_mmapable m"

definition map_is_readonly :: "gen_map \<Rightarrow> bool" where
  "map_is_readonly m \<longleftrightarrow> 0 < gm_flags m AND BPF_F_RDONLY_PROG"

text \<open>\<^verbatim>\<open>gen_skel_c_skel_constructor\<close>: the generated \<^verbatim>\<open>build_skel_config\<close>, as the builder it configures.\<close>

fun config_maps :: "gen_map list \<Rightarrow> skel_builder \<Rightarrow> skel_builder rust_result" where
  "config_maps [] b = Ok b"
| "config_maps (m # ms) b =
     (case get_raw_map_name m of
        Ok n \<Rightarrow> config_maps ms (skel_map n (map_is_mmapable m) b)
      | Err \<Rightarrow> Err
      | Panic \<Rightarrow> Panic)"

fun config_progs :: "bytes option list \<Rightarrow> skel_builder \<Rightarrow> skel_builder rust_result" where
  "config_progs [] b = Ok b"
| "config_progs (p # ps) b =
     (case raw_name p of Ok n \<Rightarrow> config_progs ps (skel_prog n b) | Err \<Rightarrow> Err | Panic \<Rightarrow> Panic)"

definition gen_skel_constructor :: "string \<Rightarrow> gen_map list \<Rightarrow> bytes option list \<Rightarrow> skel_builder rust_result" where
  "gen_skel_constructor name ms ps =
     (case config_maps ms (skel_name name skel_builder_new) of
        Ok b \<Rightarrow> config_progs ps b
      | Err \<Rightarrow> Err
      | Panic \<Rightarrow> Panic)"

text \<open>\<^verbatim>\<open>gen_skel_map_defs\<close>: the name of each accessor and the name it looks up.\<close>

fun gen_map_accessors :: "gen_map list \<Rightarrow> (string \<times> string) list rust_result" where
  "gen_map_accessors [] = Ok []"
| "gen_map_accessors (m # ms) =
     (case get_map_name m of
        Ok None \<Rightarrow> gen_map_accessors ms
      | Ok (Some n) \<Rightarrow>
          (case get_raw_map_name m of
             Ok r \<Rightarrow> (case gen_map_accessors ms of Ok fs \<Rightarrow> Ok ((n, r) # fs) | Err \<Rightarrow> Err | Panic \<Rightarrow> Panic)
           | Err \<Rightarrow> Err
           | Panic \<Rightarrow> Panic)
      | Err \<Rightarrow> Err
      | Panic \<Rightarrow> Panic)"

text \<open>\<^verbatim>\<open>gen_skel_datasec_getters\<close>: name, index of the map and whether the section may be written, from index \<open>i\<close> on.\<close>

fun gen_datasec_getters :: "bool \<Rightarrow> nat \<Rightarrow> gen_map list \<Rightarrow> (string \<times> nat \<times> bool) list rust_result" where
  "gen_datasec_getters loaded i [] = Ok []"
| "gen_datasec_getters loaded i (m # ms) =
     (if \<not> map_is_datasec m then gen_datasec_getters loaded (Suc i) ms
      else case get_map_name m of
        Ok None \<Rightarrow> gen_datasec_getters loaded (Suc i) ms
      | Ok (Some n) \<Rightarrow>
          (case gen_datasec_getters loaded (Suc i) ms of
             Ok gs \<Rightarrow> Ok ((n, i, \<not> (loaded \<and> map_is_readonly m)) # gs)
           | Err \<Rightarrow> Err
           | Panic \<Rightarrow> Panic)
      | Err \<Rightarrow> Err
      | Panic \<Rightarrow> Panic)"

text \<open>\<^verbatim>\<open>gen_single\<close> and \<^verbatim>\<open>gen_skel\<close>: the name of the object from the name of its file.\<close>

definition gen_object_name :: "string option \<Rightarrow> string rust_result" where
  "gen_object_name file_name =
     (case file_name of
        None \<Rightarrow> Err
      | Some n \<Rightarrow>
          if \<not> suffix ''.o'' n then Err
          else let name = hd (str_split ''.'' n) in if name = [] then Err else Ok name)"

section \<open>Lemmas\<close>

lemma open_object_new_calls:
  "open_object_new d = (cs, r) \<Longrightarrow> cs = (case r of Inl _ \<Rightarrow> [ObjClose] | Inr _ \<Rightarrow> [])"
  by (auto simp: open_object_new_def split: sum.splits)

lemma object_new_calls:
  "object_new d = (cs, r) \<Longrightarrow> cs = (case r of Inl _ \<Rightarrow> [ObjClose] | Inr _ \<Rightarrow> [])"
  by (auto simp: object_new_def split: sum.splits)

lemma open_with_calls:
  "open_with ss err d = (cs, r) \<Longrightarrow> (case r of Inl _ \<Rightarrow> cs = [] \<or> cs = [ObjOpen, ObjClose] | Inr _ \<Rightarrow> cs = [ObjOpen])"
  by (auto simp: open_with_def dest: open_object_new_calls split: option.splits sum.splits if_splits prod.splits)

text \<open>A map that was not created makes \<^verbatim>\<open>Object::new\<close> fail.\<close>

lemma add_maps_uncreated: "\<exists>m \<in> set ms. md_fd m < 0 \<Longrightarrow> \<exists>e. add_maps ms acc = Inl e"
  by (induction ms acc rule: add_maps.induct) (auto split: sum.splits)

lemma object_new_uncreated: "\<exists>m \<in> set (od_maps d). md_fd m < 0 \<Longrightarrow> \<exists>e. snd (object_new d) = Inl e"
  using add_maps_uncreated [of "od_maps d" "[]"] by (auto simp: object_new_def)

lemma skel_load_calls:
  "skel_load rc d = (cs, r) \<Longrightarrow> (case r of Inl _ \<Rightarrow> cs = [ObjLoad, ObjClose] | Inr _ \<Rightarrow> cs = [ObjLoad])"
  by (auto simp: skel_load_def dest!: object_new_calls split: if_splits sum.splits prod.splits)

lemma object_load_calls:
  "open_object_load rc d = (cs, r) \<Longrightarrow>
   (case r of Inl _ \<Rightarrow> cs = (if rc \<noteq> 0 then [ObjLoad, ObjClose] else [ObjLoad, ObjClose, ObjClose]) | Inr _ \<Rightarrow> cs = [ObjLoad])"
  by (auto simp: open_object_load_def dest!: object_new_calls split: if_splits sum.splits prod.splits)

lemma skel_session_calls:
  assumes "skel_build b = (as, Ok c)" and "skel_session b opened open_rc d rc d' = (mem, calls)"
  shows "if open_rc = 0 then calls \<in> {[ObjOpen, ObjClose], [ObjOpen, ObjLoad, ObjClose]}
    else calls = (if opened then [ObjOpen] else [])"
  using assms
  by (auto simp: skel_session_def open_skel_def dest!: open_object_new_calls skel_load_calls split: prod.splits sum.splits if_splits)

lemma skel_session_mem:
  assumes "skel_build b = (as, Ok c)" and "skel_session b opened open_rc d rc d' = (mem, calls)"
  shows "mem = as @ skel_drop c"
  using assms by (auto simp: skel_session_def open_skel_def split: prod.splits sum.splits if_splits)

lemma skel_build_mem:
  assumes "skel_build b = (as, Ok c)"
  shows "as = (if sb_maps b = [] then [] else [AllocMaps (length (sb_maps b))]) @
      (if sb_progs b = [] then [] else [AllocProgs (length (sb_progs b))])"
    and "skel_drop c = (if sb_maps b = [] then [] else [FreeMaps]) @ (if sb_progs b = [] then [] else [FreeProgs])"
  using assms by (auto simp: skel_build_def build_array_def skel_drop_def split: if_splits prod.splits)

lemma builder_session_calls:
  assumes "opened = open_file path name err d \<or> opened = open_memory name err d"
  shows "builder_session opened rc d' =
    (case snd opened of
       Inl e \<Rightarrow> fst opened
     | Inr _ \<Rightarrow> if rc = 0 \<and> (\<exists>e. snd (object_new d') = Inl e) then [ObjOpen, ObjLoad, ObjClose, ObjClose] else [ObjOpen, ObjLoad, ObjClose])"
    and "case snd opened of Inl _ \<Rightarrow> fst opened = [] \<or> fst opened = [ObjOpen, ObjClose] | Inr _ \<Rightarrow> fst opened = [ObjOpen]"
proof -
  obtain cs r where op: "opened = (cs, r)" by (cases opened)
  have cs: "case r of Inl _ \<Rightarrow> cs = [] \<or> cs = [ObjOpen, ObjClose] | Inr _ \<Rightarrow> cs = [ObjOpen]"
    using assms open_with_calls op by (metis open_file_def open_memory_def)
  then show "case snd opened of Inl _ \<Rightarrow> fst opened = [] \<or> fst opened = [ObjOpen, ObjClose] | Inr _ \<Rightarrow> fst opened = [ObjOpen]"
    by (simp add: op split: sum.splits)
  obtain cs2 r2 where l2: "open_object_load rc d' = (cs2, r2)" by (cases "open_object_load rc d'")
  have r2: "rc = 0 \<Longrightarrow> snd (object_new d') = r2"
    using l2 by (auto simp: open_object_load_def split: prod.splits sum.splits)
  have err: "rc \<noteq> 0 \<Longrightarrow> \<exists>e. r2 = Inl e" using l2 by (auto simp: open_object_load_def)
  show "builder_session opened rc d' =
    (case snd opened of
       Inl e \<Rightarrow> fst opened
     | Inr _ \<Rightarrow> if rc = 0 \<and> (\<exists>e. snd (object_new d') = Inl e) then [ObjOpen, ObjLoad, ObjClose, ObjClose] else [ObjOpen, ObjLoad, ObjClose])"
    using cs object_load_calls [OF l2] r2 err by (auto simp: builder_session_def op l2 split: sum.splits)
qed

text \<open>The configured maps and programs are those of the object, in order.\<close>

lemma config_maps_eq:
  "config_maps ms b = Ok b' \<Longrightarrow> \<exists>ns. list_all2 (\<lambda>m n. get_raw_map_name m = Ok n) ms ns \<and>
     sb_maps b' = sb_maps b @ map2 (\<lambda>m n. \<lparr>ms_name = n, ms_mmaped = (if map_is_mmapable m then Some 0 else None)\<rparr>) ms ns"
proof (induction ms b rule: config_maps.induct)
  case (2 m ms b)
  then obtain n where n: "get_raw_map_name m = Ok n" "config_maps ms (skel_map n (map_is_mmapable m) b) = Ok b'"
    by (auto split: rust_result.splits)
  from "2.IH" [OF n] obtain ns where "list_all2 (\<lambda>m n. get_raw_map_name m = Ok n) ms ns"
    "sb_maps b' = sb_maps (skel_map n (map_is_mmapable m) b) @
      map2 (\<lambda>m n. \<lparr>ms_name = n, ms_mmaped = (if map_is_mmapable m then Some 0 else None)\<rparr>) ms ns" by blast
  then show ?case using n(1) by (intro exI [of _ "n # ns"]) (simp add: skel_map_def)
qed simp

lemma config_progs_maps: "config_progs ps b = Ok b' \<Longrightarrow> sb_maps b' = sb_maps b"
  by (induction ps b rule: config_progs.induct) (auto simp: skel_prog_def split: rust_result.splits)

lemma constructor_maps:
  assumes "gen_skel_constructor name ms ps = Ok b"
  shows "length (sb_maps b) = length ms"
    and "i < length ms \<Longrightarrow> ms_mmaped (sb_maps b ! i) = (if map_is_mmapable (ms ! i) then Some 0 else None)"
proof -
  obtain b0 where b0: "config_maps ms (skel_name name skel_builder_new) = Ok b0" "config_progs ps b0 = Ok b"
    using assms by (auto simp: gen_skel_constructor_def split: rust_result.splits)
  from config_maps_eq [OF b0(1)] obtain ns where "list_all2 (\<lambda>m n. get_raw_map_name m = Ok n) ms ns"
    "sb_maps b0 = map2 (\<lambda>m n. \<lparr>ms_name = n, ms_mmaped = (if map_is_mmapable m then Some 0 else None)\<rparr>) ms ns"
    by (auto simp: skel_name_def skel_builder_new_def)
  then show "length (sb_maps b) = length ms"
    "i < length ms \<Longrightarrow> ms_mmaped (sb_maps b ! i) = (if map_is_mmapable (ms ! i) then Some 0 else None)"
    using config_progs_maps [OF b0(2)] by (auto dest: list_all2_lengthD)
qed

lemma skel_build_maps: "skel_build b = (as, Ok c) \<Longrightarrow> sc_maps c = sb_maps b"
  by (auto simp: skel_build_def split: if_splits prod.splits)

text \<open>The getters are those of the sections with a known name, each with its own index.\<close>

lemma datasec_getters_iff:
  "gen_datasec_getters loaded i ms = Ok gs \<Longrightarrow>
   (n, k, w) \<in> set gs \<longleftrightarrow> i \<le> k \<and> k < i + length ms \<and> map_is_datasec (ms ! (k - i)) \<and> get_map_name (ms ! (k - i)) = Ok (Some n) \<and>
     (w \<longleftrightarrow> \<not> (loaded \<and> map_is_readonly (ms ! (k - i))))"
proof (induction loaded i ms arbitrary: gs rule: gen_datasec_getters.induct)
  case (2 loaded i m ms)
  let ?P = "\<lambda>m. map_is_datasec m \<and> get_map_name m = Ok (Some n) \<and> (w \<longleftrightarrow> \<not> (loaded \<and> map_is_readonly m))"
  have shift: "(i \<le> k \<and> k < i + length (m # ms) \<and> ?P ((m # ms) ! (k - i))) \<longleftrightarrow>
      (k = i \<and> ?P m) \<or> (Suc i \<le> k \<and> k < Suc i + length ms \<and> ?P (ms ! (k - Suc i)))"
    by (cases "k = i") (auto simp: nth_Cons' Suc_le_eq)
  show ?case
  proof (cases "map_is_datasec m \<and> get_map_name m \<noteq> Ok None")
    case True
    then obtain n0 gs0 where n0: "get_map_name m = Ok (Some n0)" "gen_datasec_getters loaded (Suc i) ms = Ok gs0"
      "gs = (n0, i, \<not> (loaded \<and> map_is_readonly m)) # gs0"
      using "2.prems" by (auto split: rust_result.splits option.splits)
    have "(n, k, w) \<in> set gs0 \<longleftrightarrow> Suc i \<le> k \<and> k < Suc i + length ms \<and> ?P (ms ! (k - Suc i))"
      using "2.IH"(3) [OF _ n0(1) refl n0(2)] True by blast
    moreover have "(n, k, w) = (n0, i, \<not> (loaded \<and> map_is_readonly m)) \<longleftrightarrow> k = i \<and> ?P m"
      using True n0(1) by auto
    ultimately show ?thesis unfolding shift n0(3) by simp
  next
    case False
    then have rest: "gen_datasec_getters loaded (Suc i) ms = Ok gs" using "2.prems" by (auto split: if_splits)
    have "(n, k, w) \<in> set gs \<longleftrightarrow> Suc i \<le> k \<and> k < Suc i + length ms \<and> ?P (ms ! (k - Suc i))"
    proof (cases "map_is_datasec m")
      case True
      with False show ?thesis using "2.IH"(2) [OF _ _ refl rest] by blast
    next
      case no: False
      show ?thesis using "2.IH"(1) [OF no rest] by blast
    qed
    with False show ?thesis unfolding shift by auto
  qed
qed simp

text \<open>
  What libbpf does to the configuration when it opens the skeleton: it stores, through the pointers it is given, the address
  of the memory of each map that has such a pointer.
\<close>

definition skel_opened :: "(nat \<Rightarrow> u64) \<Rightarrow> skel_config \<Rightarrow> skel_config \<Rightarrow> bool" where
  "skel_opened mem c c' \<longleftrightarrow> length (sc_maps c') = length (sc_maps c) \<and>
     (\<forall>i < length (sc_maps c). ms_mmaped (sc_maps c' ! i) = map_option (\<lambda>_. mem i) (ms_mmaped (sc_maps c ! i)))"

lemma capitalize_parts_ok:
  "(\<exists>t. capitalize_parts tss acc = Ok t) \<longleftrightarrow> list_all (\<lambda>ts. ts \<noteq> [] \<and> (of_char (hd ts) :: nat) < 0x80) tss"
  by (induction tss acc rule: capitalize_parts.induct) (auto split: list.splits)

text \<open>A skeleton can be named exactly when no part of the name between underscores is empty and each starts with an ASCII
  character; an object file such as \<^verbatim>\<open>my__prog.bpf.o\<close> makes the generator panic.\<close>

lemma capitalize_ok_iff:
  "(\<exists>t. capitalize_first_letter s = Ok t) \<longleftrightarrow>
     s = [] \<or> list_all (\<lambda>ts. ts \<noteq> [] \<and> (of_char (hd ts) :: nat) < 0x80) (str_split ''_'' s)"
  using capitalize_parts_ok by (auto simp: capitalize_first_letter_def)

section \<open>Properties\<close>

text \<open>C27: how often an object is closed. A client that opens a generated skeleton, loads it and drops everything closes the object
  exactly as often as it was opened, after it was opened and loaded, whenever \<^verbatim>\<open>bpf_object__open_skeleton\<close> succeeds, on every path after it; and it frees both
  arrays of the skeleton. But if that call fails when the object is already open, the object is never closed. Through
  the library, a client that opens a file or memory and calls \<^verbatim>\<open>OpenObject::load\<close> closes the object as often as it was opened,
  unless libbpf has loaded the object but \<^verbatim>\<open>Object::new\<close> fails, as it does when a map was not created
  (\<^verbatim>\<open>set_autocreate(false)\<close>): then the object is closed twice.\<close>

theorem object_closed_once:
  assumes "skel_build b = (as, Ok c)" and "skel_session b opened open_rc d rc d' = (mem, calls)"
    and "by_builder = open_file path name err d \<or> by_builder = open_memory name err d"
  shows "(open_rc = 0 \<longrightarrow> calls \<in> {[ObjOpen, ObjClose], [ObjOpen, ObjLoad, ObjClose]}) \<and>
    (open_rc \<noteq> 0 \<longrightarrow> calls = (if opened then [ObjOpen] else [])) \<and>
    count_list mem FreeMaps = of_bool (sb_maps b \<noteq> []) \<and> count_list mem (AllocMaps (length (sb_maps b))) = of_bool (sb_maps b \<noteq> []) \<and>
    count_list mem FreeProgs = of_bool (sb_progs b \<noteq> []) \<and> count_list mem (AllocProgs (length (sb_progs b))) = of_bool (sb_progs b \<noteq> []) \<and>
    (rc \<noteq> 0 \<or> (\<exists>obj. snd (object_new d') = Inr obj) \<longrightarrow>
      count_list (builder_session by_builder rc d') ObjClose = count_list (fst by_builder) ObjOpen) \<and>
    (rc = 0 \<and> (\<exists>m \<in> set (od_maps d'). md_fd m < 0) \<and> (\<exists>obj. snd by_builder = Inr obj) \<longrightarrow>
      count_list (builder_session by_builder rc d') ObjOpen = 1 \<and>
      count_list (builder_session by_builder rc d') ObjClose = 2)"
proof (intro conjI impI; (elim conjE)?)
  show "open_rc = 0 \<Longrightarrow> calls \<in> {[ObjOpen, ObjClose], [ObjOpen, ObjLoad, ObjClose]}"
    and "open_rc \<noteq> 0 \<Longrightarrow> calls = (if opened then [ObjOpen] else [])"
    using skel_session_calls [OF assms(1,2)] by simp_all
  show "count_list mem FreeMaps = of_bool (sb_maps b \<noteq> [])" "count_list mem (AllocMaps (length (sb_maps b))) = of_bool (sb_maps b \<noteq> [])"
    "count_list mem FreeProgs = of_bool (sb_progs b \<noteq> [])" "count_list mem (AllocProgs (length (sb_progs b))) = of_bool (sb_progs b \<noteq> [])"
    unfolding skel_session_mem [OF assms(1,2)] by (simp_all add: skel_build_mem [OF assms(1)])
next
  show "rc \<noteq> 0 \<or> (\<exists>obj. snd (object_new d') = Inr obj) \<Longrightarrow>
      count_list (builder_session by_builder rc d') ObjClose = count_list (fst by_builder) ObjOpen"
    using builder_session_calls(1) [OF assms(3), of rc d'] builder_session_calls(2) [OF assms(3)] by (auto split: sum.splits)
  assume "rc = 0" "\<exists>m \<in> set (od_maps d'). md_fd m < 0" "\<exists>obj. snd by_builder = Inr obj"
  then show "count_list (builder_session by_builder rc d') ObjOpen = 1" "count_list (builder_session by_builder rc d') ObjClose = 2"
    using builder_session_calls(1) [OF assms(3), of rc d'] object_new_uncreated [of d'] by auto
qed

text \<open>An object with one map, before loading and after loading without creating it.\<close>

definition lazy_map :: obj_desc where
  "lazy_map = \<lparr>od_maps = [\<lparr>md_name = [109], md_fd = - 1, md_type = 1, md_key_size = 4, md_value_size = 8\<rparr>], od_progs = []\<rparr>"

definition lazy_skel :: skel_builder where
  "lazy_skel = skel_map ''m'' False (skel_name ''lazy_bpf'' skel_builder_new)"

theorem object_closed_once_witness:
  "snd (skel_session lazy_skel True 0 lazy_map 0 lazy_map) \<in> {[ObjOpen, ObjClose], [ObjOpen, ObjLoad, ObjClose]} \<and>
   snd (skel_session lazy_skel True (-3) lazy_map 0 lazy_map) = [ObjOpen] \<and>
   count_list (fst (skel_session lazy_skel True 0 lazy_map 0 lazy_map)) FreeMaps = 1 \<and>
   count_list (builder_session (open_memory ''obj'' 0 lazy_map) 0 lazy_map) ObjClose = 2"
proof -
  obtain as c where b: "skel_build lazy_skel = (as, Ok c)" and maps: "sb_maps lazy_skel \<noteq> []"
    by (simp add: lazy_skel_def skel_map_def skel_name_def skel_builder_new_def skel_build_def build_array_def)
  have o: "\<exists>obj. snd (open_memory ''obj'' 0 lazy_map) = Inr obj"
    by (simp add: lazy_map_def open_memory_def open_with_def str_to_cstring_def open_object_new_def c_ptr_to_string_def c_str_def)
  have u: "\<exists>m \<in> set (od_maps lazy_map). md_fd m < 0" by (simp add: lazy_map_def)
  note once = object_closed_once [OF b surjective_pairing disjI2 [OF refl], where err = 0 and name = "''obj''" and d = lazy_map and d' = lazy_map and rc = 0]
  show ?thesis using once [where opened = True and open_rc = 0] once [where opened = True and open_rc = "-3"] o u maps by simp
qed

text \<open>The accessors of a generated skeleton reach their own sections. For every data section of the object with a known name
  the skeleton has an accessor, and no other; its index, used on the configuration the same generator
  wrote, yields the memory of exactly this map, so the \<^verbatim>\<open>unwrap\<close> in it never panics; and it is writable unless the
  section is read-only and the object is loaded.\<close>

lemma datasec_getters_sound:
  assumes "gen_skel_constructor name ms ps = Ok b" and "skel_build b = (as, Ok c)" and "skel_opened mem c c'"
    and "gen_datasec_getters loaded 0 ms = Ok gs"
  shows "((n, k, w) \<in> set gs \<longleftrightarrow> k < length ms \<and> map_is_datasec (ms ! k) \<and> get_map_name (ms ! k) = Ok (Some n) \<and>
      (w \<longleftrightarrow> \<not> (loaded \<and> map_is_readonly (ms ! k)))) \<and>
    ((n, k, w) \<in> set gs \<longrightarrow> map_mmap_ptr c' k = Inr (mem k))"
proof -
  have iff: "(n, k, w) \<in> set gs \<longleftrightarrow> k < length ms \<and> map_is_datasec (ms ! k) \<and> get_map_name (ms ! k) = Ok (Some n) \<and>
      (w \<longleftrightarrow> \<not> (loaded \<and> map_is_readonly (ms ! k)))"
    using datasec_getters_iff [OF assms(4), of n k w] by simp
  have "map_mmap_ptr c' k = Inr (mem k)" if "k < length ms" "map_is_datasec (ms ! k)"
    using that assms(3) constructor_maps [OF assms(1)]
    by (auto simp: map_mmap_ptr_def skel_opened_def skel_build_maps [OF assms(2)] map_is_datasec_def)
  with iff show ?thesis by blast
qed

text \<open>A ring buffer and the sections \<^verbatim>\<open>.rodata\<close> and \<^verbatim>\<open>.bss\<close> of the connection tracer.\<close>

definition tracer_maps :: "gen_map list" where
  "tracer_maps = [\<lparr>gm_name = Some (as_bytes ''events''), gm_internal = False, gm_flags = 0\<rparr>,
     \<lparr>gm_name = Some (as_bytes ''tracecon.rodata''), gm_internal = True, gm_flags = 0x480\<rparr>,
     \<lparr>gm_name = Some (as_bytes ''tracecon.bss''), gm_internal = True, gm_flags = 0x400\<rparr>]"

definition tracer_config :: skel_config where
  "tracer_config = \<lparr>sc_maps = [\<lparr>ms_name = ''events'', ms_mmaped = None\<rparr>, \<lparr>ms_name = ''tracecon.rodata'', ms_mmaped = Some 0\<rparr>,
     \<lparr>ms_name = ''tracecon.bss'', ms_mmaped = Some 0\<rparr>], sc_progs = [], sc_maps_layout = Some 3, sc_progs_layout = None,
     sc_string_pool = [''tracecon_bpf'', ''events'', ''tracecon.rodata'', ''tracecon.bss'']\<rparr>"

lemma datasec_getters_sound_example:
  "map_mmap_ptr (tracer_config\<lparr>sc_maps := [\<lparr>ms_name = ''events'', ms_mmaped = None\<rparr>, \<lparr>ms_name = ''tracecon.rodata'', ms_mmaped = Some 0x1000\<rparr>,
     \<lparr>ms_name = ''tracecon.bss'', ms_mmaped = Some 0x2000\<rparr>]\<rparr>) 1 = Inr 0x1000"
proof -
  let ?b = "\<lparr>sb_name = Some ''tracecon_bpf'', sb_maps = sc_maps tracer_config, sb_progs = []\<rparr>"
  let ?c = "tracer_config\<lparr>sc_maps := [\<lparr>ms_name = ''events'', ms_mmaped = None\<rparr>, \<lparr>ms_name = ''tracecon.rodata'', ms_mmaped = Some 0x1000\<rparr>,
     \<lparr>ms_name = ''tracecon.bss'', ms_mmaped = Some 0x2000\<rparr>]\<rparr>"
  have b: "gen_skel_constructor ''tracecon_bpf'' tracer_maps [] = Ok ?b" by code_simp
  have c: "skel_build ?b = ([AllocMaps 3], Ok tracer_config)" by code_simp
  have o: "skel_opened (\<lambda>i. 0x1000 * of_nat i) tracer_config ?c"
    by (simp add: skel_opened_def tracer_config_def less_Suc_eq numeral_3_eq_3)
  have g: "gen_datasec_getters True 0 tracer_maps = Ok [(''rodata'', 1, False), (''bss'', 2, True)]" by code_simp
  show ?thesis using datasec_getters_sound [OF b c o g, of "''rodata''" 1 False] by simp
qed

end
