(* ===== verification/Btf.thy ===== *)
theory Btf
  imports Rust_Std
begin

text \<open>
  The BTF reader of \<^verbatim>\<open>libbpf-cargo\<close> (\<^verbatim>\<open>src/btf/types.rs\<close>, \<^verbatim>\<open>src/btf/c_types.rs\<close> and the loading half of
  \<^verbatim>\<open>src/btf/btf.rs\<close>): the type records of a BPF object, decoded from the bytes of its \<^verbatim>\<open>.BTF\<close> section. The
  skeletons of the Rust examples are generated from these types. libbpf, which opens the object and
  hands out the raw section, is a parameter. Lemmas: the reader inverts the encoding of the format,
  for sequences of any length, and ends on any input.
\<close>

section \<open>Types\<close>

datatype btf_kind =
    KVoid | KInt | KPtr | KArray | KStruct | KUnion | KEnum | KFwd | KTypedef | KVolatile | KConst | KRestrict
  | KFunc | KFuncProto | KVar | KDatasec | KFloat | KDeclTag | KTypeTag

datatype btf_int_encoding = EncNone | EncSigned | EncChar | EncBool

record btf_int =
  int_name :: string
  int_bits :: u8
  int_offset :: u8
  int_encoding :: btf_int_encoding

record btf_array =
  arr_nelems :: u32
  arr_index_type_id :: u32
  arr_val_type_id :: u32

record btf_member =
  mem_name :: string
  mem_type_id :: u32
  mem_bit_offset :: u32
  mem_bit_size :: u8

record btf_composite =
  comp_name :: string
  comp_is_struct :: bool
  comp_size :: u32
  comp_members :: "btf_member list"

record btf_enum =
  enum_name :: string
  enum_size :: u32
  enum_values :: "(string \<times> s32) list"

datatype btf_fwd_kind = FwdStruct | FwdUnion

record btf_func_proto =
  proto_ret_type_id :: u32
  proto_params :: "(string \<times> u32) list"

datatype btf_var_linkage = VStatic | VGlobalAlloc | VGlobalExtern

record btf_var =
  var_name :: string
  var_type_id :: u32
  var_linkage :: btf_var_linkage

record btf_datasec_var =
  dv_type_id :: u32
  dv_offset :: u32
  dv_size :: u32

record btf_datasec =
  sec_name :: string
  sec_size :: u32
  sec_vars :: "btf_datasec_var list"

record btf_float =
  float_name :: string
  float_size :: u32

datatype btf_type =
    TVoid
  | TInt btf_int
  | TPtr u32
  | TArray btf_array
  | TStruct btf_composite
  | TUnion btf_composite
  | TEnum btf_enum
  | TFwd string btf_fwd_kind
  | TTypedef string u32
  | TVolatile u32
  | TConst u32
  | TRestrict u32
  | TFunc string u32
  | TFuncProto btf_func_proto
  | TVar btf_var
  | TDatasec btf_datasec
  | TFloat btf_float
  | TDeclTag string u32 s32
  | TTypeTag string u32

fun btf_kind_of :: "btf_type \<Rightarrow> btf_kind" where
  "btf_kind_of TVoid = KVoid"
| "btf_kind_of (TInt _) = KInt"
| "btf_kind_of (TPtr _) = KPtr"
| "btf_kind_of (TArray _) = KArray"
| "btf_kind_of (TStruct _) = KStruct"
| "btf_kind_of (TUnion _) = KUnion"
| "btf_kind_of (TEnum _) = KEnum"
| "btf_kind_of (TFwd _ _) = KFwd"
| "btf_kind_of (TTypedef _ _) = KTypedef"
| "btf_kind_of (TVolatile _) = KVolatile"
| "btf_kind_of (TConst _) = KConst"
| "btf_kind_of (TRestrict _) = KRestrict"
| "btf_kind_of (TFunc _ _) = KFunc"
| "btf_kind_of (TFuncProto _) = KFuncProto"
| "btf_kind_of (TVar _) = KVar"
| "btf_kind_of (TDatasec _) = KDatasec"
| "btf_kind_of (TFloat _) = KFloat"
| "btf_kind_of (TDeclTag _ _ _) = KDeclTag"
| "btf_kind_of (TTypeTag _ _) = KTypeTag"

text \<open>The numbers of the enumerations (\<^verbatim>\<open>TryFromPrimitive\<close>): a number without a constructor is an error.\<close>

definition BTF_KINDS :: "btf_kind list" where
  "BTF_KINDS = [KVoid, KInt, KPtr, KArray, KStruct, KUnion, KEnum, KFwd, KTypedef, KVolatile, KConst, KRestrict,
     KFunc, KFuncProto, KVar, KDatasec, KFloat, KDeclTag, KTypeTag]"

definition kind_try_from :: "u32 \<Rightarrow> btf_kind run" where
  "kind_try_from n = (if unat n < length BTF_KINDS then ret (BTF_KINDS ! unat n) else bail)"

definition encoding_try_from :: "u8 \<Rightarrow> btf_int_encoding run" where
  "encoding_try_from n =
     (if n = 0 then ret EncNone else if n = 1 then ret EncSigned else if n = 2 then ret EncChar
      else if n = 4 then ret EncBool else bail)"

definition linkage_try_from :: "u32 \<Rightarrow> btf_var_linkage run" where
  "linkage_try_from n =
     (if n = 0 then ret VStatic else if n = 1 then ret VGlobalAlloc else if n = 2 then ret VGlobalExtern else bail)"

section \<open>Reading the section\<close>

text \<open>\<^verbatim>\<open>pread\<close> of the words of a C structure, little-endian; a read past the end is an error.\<close>

definition pread_u32 :: "bytes \<Rightarrow> nat \<Rightarrow> u32 run" where
  "pread_u32 bs off =
     (if off + 4 \<le> length bs then ret (le32 (bs ! off) (bs ! (off + 1)) (bs ! (off + 2)) (bs ! (off + 3))) else bail)"

definition pread2 :: "bytes \<Rightarrow> nat \<Rightarrow> (u32 \<times> u32) run" where
  "pread2 bs off = rbind (pread_u32 bs off) (\<lambda>a. rbind (pread_u32 bs (off + 4)) (\<lambda>b. ret (a, b)))"

definition pread3 :: "bytes \<Rightarrow> nat \<Rightarrow> (u32 \<times> u32 \<times> u32) run" where
  "pread3 bs off = rbind (pread_u32 bs off) (\<lambda>a. rbind (pread2 bs (off + 4)) (\<lambda>(b, c). ret (a, b, c)))"

definition get_vlen :: "u32 \<Rightarrow> u32" where
  "get_vlen info = info AND 0xffff"

definition get_kind_flag :: "u32 \<Rightarrow> bool" where
  "get_kind_flag info \<longleftrightarrow> drop_bit 31 info = 1"

definition get_kind :: "u32 \<Rightarrow> u32" where
  "get_kind info = drop_bit 24 info AND 0x1f"

text \<open>
  A name: the index panics behind the string table; \<^verbatim>\<open>CStr::from_ptr\<close> reads up to the next NUL and, in a
  table that does not end with one, past the table.
\<close>

definition get_btf_str :: "bytes \<Rightarrow> u32 \<Rightarrow> string run" where
  "get_btf_str tab off =
     (if length tab \<le> unat off then panic
      else let rest = drop (unat off) tab in
        if 0 \<notin> set rest then None
        else if utf8 (map unat (c_str rest)) then ret (str_of (c_str rest)) else bail)"

definition ANON_PREFIX :: string where "ANON_PREFIX = ''__anon_''"

text \<open>The name of a structure, union or enumeration: unnamed ones are numbered, with the new count.\<close>

definition composite_name :: "bytes \<Rightarrow> u32 \<Rightarrow> u32 \<Rightarrow> (string \<times> u32) run" where
  "composite_name tab anon name_off =
     rbind (get_btf_str tab name_off) (\<lambda>n.
       ret (if n = [] then (ANON_PREFIX @ dec (unat (anon + 1)), anon + 1) else (n, anon)))"

text \<open>The loops over the entries behind a type record: \<open>n\<close> entries of \<open>sz\<close> bytes from \<open>off\<close> on.\<close>

fun load_seq :: "(nat \<Rightarrow> 'a run) \<Rightarrow> nat \<Rightarrow> nat \<Rightarrow> nat \<Rightarrow> 'a list run" where
  "load_seq entry sz off 0 = ret []"
| "load_seq entry sz off (Suc n) =
     rbind (entry off) (\<lambda>x. rbind (load_seq entry sz (off + sz) n) (\<lambda>xs. ret (x # xs)))"

definition load_int :: "bytes \<Rightarrow> u32 \<Rightarrow> bytes \<Rightarrow> btf_type run" where
  "load_int tab name_off extra =
     rbind (pread_u32 extra 0) (\<lambda>info.
       let enc = ucast (drop_bit 24 info AND 0xf); off = ucast (drop_bit 16 info AND 0xff); bits = ucast (info AND 0xff)
       in rbind (get_btf_str tab name_off) (\<lambda>name. rbind (encoding_try_from enc) (\<lambda>e.
            ret (TInt \<lparr>int_name = name, int_bits = bits, int_offset = off, int_encoding = e\<rparr>))))"

definition load_array :: "bytes \<Rightarrow> btf_type run" where
  "load_array extra =
     rbind (pread3 extra 0) (\<lambda>(val_type_id, idx_type_id, nelems).
       ret (TArray \<lparr>arr_nelems = nelems, arr_index_type_id = idx_type_id, arr_val_type_id = val_type_id\<rparr>))"

definition load_members :: "bytes \<Rightarrow> u32 \<Rightarrow> bytes \<Rightarrow> btf_member list run" where
  "load_members tab info extra =
     load_seq (\<lambda>off. rbind (pread3 extra off) (\<lambda>(name_off, type_id, offset).
         rbind (get_btf_str tab name_off) (\<lambda>name.
           ret \<lparr>mem_name = name, mem_type_id = type_id,
                mem_bit_offset = (if get_kind_flag info then offset AND 0xffffff else offset),
                mem_bit_size = (if get_kind_flag info then ucast (drop_bit 24 offset) else 0)\<rparr>)))
       12 0 (unat (get_vlen info))"

definition load_composite :: "bool \<Rightarrow> bytes \<Rightarrow> u32 \<Rightarrow> u32 \<times> u32 \<times> u32 \<Rightarrow> bytes \<Rightarrow> (btf_composite \<times> u32) run" where
  "load_composite is_struct tab anon t extra =
     (case t of (name_off, info, bytes_size) \<Rightarrow>
        rbind (composite_name tab anon name_off) (\<lambda>(name, anon').
        rbind (load_members tab info extra) (\<lambda>ms.
          ret (\<lparr>comp_name = name, comp_is_struct = is_struct, comp_size = bytes_size, comp_members = ms\<rparr>, anon'))))"

definition load_enum :: "bytes \<Rightarrow> u32 \<Rightarrow> u32 \<times> u32 \<times> u32 \<Rightarrow> bytes \<Rightarrow> (btf_type \<times> u32) run" where
  "load_enum tab anon t extra =
     (case t of (name_off, info, bytes_size) \<Rightarrow>
        rbind (composite_name tab anon name_off) (\<lambda>(name, anon').
        rbind (load_seq (\<lambda>off. rbind (pread2 extra off) (\<lambda>(n, v). rbind (get_btf_str tab n) (\<lambda>s. ret (s, v))))
                 8 0 (unat (get_vlen info))) (\<lambda>vals.
          ret (TEnum \<lparr>enum_name = name, enum_size = bytes_size, enum_values = vals\<rparr>, anon'))))"

definition load_func_proto :: "bytes \<Rightarrow> u32 \<times> u32 \<times> u32 \<Rightarrow> bytes \<Rightarrow> btf_type run" where
  "load_func_proto tab t extra =
     (case t of (name_off, info, type_id) \<Rightarrow>
        rbind (load_seq (\<lambda>off. rbind (pread2 extra off) (\<lambda>(n, ty). rbind (get_btf_str tab n) (\<lambda>s. ret (s, ty))))
                 8 0 (unat (get_vlen info))) (\<lambda>params.
          ret (TFuncProto \<lparr>proto_ret_type_id = type_id, proto_params = params\<rparr>)))"

definition load_var :: "bytes \<Rightarrow> u32 \<times> u32 \<times> u32 \<Rightarrow> bytes \<Rightarrow> btf_type run" where
  "load_var tab t extra =
     (case t of (name_off, info, type_id) \<Rightarrow>
        rbind (pread_u32 extra 0) (\<lambda>kind. rbind (get_btf_str tab name_off) (\<lambda>name. rbind (linkage_try_from kind) (\<lambda>l.
          ret (TVar \<lparr>var_name = name, var_type_id = type_id, var_linkage = l\<rparr>)))))"

definition load_datasec :: "bytes \<Rightarrow> u32 \<times> u32 \<times> u32 \<Rightarrow> bytes \<Rightarrow> btf_type run" where
  "load_datasec tab t extra =
     (case t of (name_off, info, bytes_size) \<Rightarrow>
        rbind (load_seq (\<lambda>off. rbind (pread3 extra off) (\<lambda>(ty, o', sz).
                 ret \<lparr>dv_type_id = ty, dv_offset = o', dv_size = sz\<rparr>)) 12 0 (unat (get_vlen info))) (\<lambda>vars.
        rbind (get_btf_str tab name_off) (\<lambda>name.
          ret (TDatasec \<lparr>sec_name = name, sec_size = bytes_size, sec_vars = vars\<rparr>))))"

definition load_decl_tag :: "bytes \<Rightarrow> u32 \<times> u32 \<times> u32 \<Rightarrow> bytes \<Rightarrow> btf_type run" where
  "load_decl_tag tab t extra =
     (case t of (name_off, info, type_id) \<Rightarrow>
        rbind (pread_u32 extra 0) (\<lambda>idx. rbind (get_btf_str tab name_off) (\<lambda>name. ret (TDeclTag name type_id idx))))"

text \<open>A type without a name of its own to number, and the count unchanged.\<close>

definition keep :: "u32 \<Rightarrow> btf_type run \<Rightarrow> (btf_type \<times> u32) run" where
  "keep anon m = rbind m (\<lambda>t. ret (t, anon))"

definition load_type :: "bytes \<Rightarrow> u32 \<Rightarrow> bytes \<Rightarrow> (btf_type \<times> u32) run" where
  "load_type tab anon data =
     rbind (pread3 data 0) (\<lambda>(name_off, info, type_id).
       let extra = drop 12 data; t = (name_off, info, type_id) in
       rbind (kind_try_from (get_kind info)) (\<lambda>kind.
         case kind of
           KVoid \<Rightarrow> bail
         | KInt \<Rightarrow> keep anon (load_int tab name_off extra)
         | KFloat \<Rightarrow> keep anon (rbind (get_btf_str tab name_off) (\<lambda>n. ret (TFloat \<lparr>float_name = n, float_size = type_id\<rparr>)))
         | KPtr \<Rightarrow> ret (TPtr type_id, anon)
         | KArray \<Rightarrow> keep anon (load_array extra)
         | KStruct \<Rightarrow> rbind (load_composite True tab anon t extra) (\<lambda>(c, a). ret (TStruct c, a))
         | KUnion \<Rightarrow> rbind (load_composite False tab anon t extra) (\<lambda>(c, a). ret (TUnion c, a))
         | KEnum \<Rightarrow> load_enum tab anon t extra
         | KFwd \<Rightarrow> keep anon (rbind (get_btf_str tab name_off) (\<lambda>n. ret (TFwd n (if get_kind_flag info then FwdUnion else FwdStruct))))
         | KTypedef \<Rightarrow> keep anon (rbind (get_btf_str tab name_off) (\<lambda>n. ret (TTypedef n type_id)))
         | KVolatile \<Rightarrow> ret (TVolatile type_id, anon)
         | KConst \<Rightarrow> ret (TConst type_id, anon)
         | KRestrict \<Rightarrow> ret (TRestrict type_id, anon)
         | KFunc \<Rightarrow> keep anon (rbind (get_btf_str tab name_off) (\<lambda>n. ret (TFunc n type_id)))
         | KFuncProto \<Rightarrow> keep anon (load_func_proto tab t extra)
         | KVar \<Rightarrow> keep anon (load_var tab t extra)
         | KDatasec \<Rightarrow> keep anon (load_datasec tab t extra)
         | KDeclTag \<Rightarrow> keep anon (load_decl_tag tab t extra)
         | KTypeTag \<Rightarrow> keep anon (rbind (get_btf_str tab name_off) (\<lambda>n. ret (TTypeTag n type_id)))))"

text \<open>The size of a type in the section.\<close>

fun type_size :: "btf_type \<Rightarrow> nat" where
  "type_size TVoid = 0"
| "type_size (TInt _) = 12 + 4"
| "type_size (TVar _) = 12 + 4"
| "type_size (TArray _) = 12 + 12"
| "type_size (TStruct t) = 12 + length (comp_members t) * 12"
| "type_size (TUnion t) = 12 + length (comp_members t) * 12"
| "type_size (TEnum t) = 12 + length (enum_values t) * 8"
| "type_size (TFuncProto t) = 12 + length (proto_params t) * 8"
| "type_size (TDatasec t) = 12 + length (sec_vars t) * 12"
| "type_size (TDeclTag _ _ _) = 12 + 4"
| "type_size _ = 12"

lemma keep_ret: "keep anon m = ret (t, a) \<longleftrightarrow> m = ret t \<and> a = anon"
  by (cases m rule: run_cases) (auto simp: keep_def)

lemma load_type_pos:
  assumes "load_type tab anon data = ret (t, anon')"
  shows "0 < type_size t"
proof -
  obtain name_off info ty kind where r: "pread3 data 0 = ret (name_off, info, ty)" "kind_try_from (get_kind info) = ret kind"
    using assms by (auto simp: load_type_def rbind_ret_iff Let_def)
  have "t \<noteq> TVoid"
    using assms r by (cases kind) (auto simp: load_type_def rbind_ret_iff keep_ret Let_def load_int_def load_array_def
        load_enum_def load_func_proto_def load_var_def load_datasec_def load_decl_tag_def)
  then show ?thesis by (cases t) auto
qed

text \<open>The loop over the type section, from \<open>off\<close> on, with the types loaded so far.\<close>

function load_types :: "bytes \<Rightarrow> bytes \<Rightarrow> nat \<Rightarrow> u32 \<Rightarrow> btf_type list \<Rightarrow> (btf_type list \<times> u32) run" where
  "load_types tab type_data off anon acc =
     (if off < length type_data
      then rbind (load_type tab anon (drop off type_data)) (\<lambda>r.
        load_types tab type_data (off + type_size (fst r)) (snd r) (acc @ [fst r]))
      else ret (acc, anon))"
  by pat_completeness auto
termination
proof (relation "measure (\<lambda>(tab, d, off, a, acc). length d - off)", goal_cases)
  case (2 tab d off anon acc r)
  then have "0 < type_size (fst r)" using load_type_pos [of tab anon "drop off d" "fst r" "snd r"] by simp
  with 2 show ?case by simp
qed simp

declare load_types.simps [simp del]

section \<open>Opening the section of an object\<close>

text \<open>
  What libbpf returns: whether the object could be opened, whether it has BTF, whether the byte order
  could be set, the pointer size, and the raw section.
\<close>

record btf_object =
  bo_open :: bool
  bo_has_btf :: bool
  bo_endian_ok :: bool
  bo_ptr_size :: u32
  bo_raw :: "bytes option"

record btf =
  btf_types :: "btf_type list"
  btf_ptr_size :: u32
  btf_string_table :: bytes
  btf_anon_count :: u32

definition BTF_MAGIC :: u16 where "BTF_MAGIC = 0xEB9F"
definition BTF_VERSION :: u8 where "BTF_VERSION = 1"

definition slice :: "bytes \<Rightarrow> nat \<Rightarrow> nat \<Rightarrow> bytes" where
  "slice bs a n = take n (drop a bs)"

definition btf_parse :: "bool \<Rightarrow> u32 \<Rightarrow> bytes \<Rightarrow> btf run" where
  "btf_parse chk ptr_size data =
     ensure (24 \<le> length data)
     (ensure (le16 (data ! 0) (data ! 1) = BTF_MAGIC)
     (ensure (data ! 2 = BTF_VERSION)
     (rbind (pread_u32 data 4) (\<lambda>hdr_len. rbind (pread2 data 8) (\<lambda>(type_off, type_len). rbind (pread2 data 16) (\<lambda>(str_off, str_len).
      rbind (checked chk (unat hdr_len + unat str_off) :: u32 run) (\<lambda>str_at.
      ensure (unat str_at + unat str_len \<le> length data)
      (rbind (checked chk (unat hdr_len + unat type_off) :: u32 run) (\<lambda>type_at.
      ensure (unat type_at + unat type_len \<le> length data)
      (let tab = slice data (unat str_at) (unat str_len) in
       rbind (load_types tab (slice data (unat type_at) (unat type_len)) 0 0 [TVoid]) (\<lambda>(types, anon).
         ret \<lparr>btf_types = types, btf_ptr_size = ptr_size, btf_string_table = tab, btf_anon_count = anon\<rparr>)))))))))))"

definition btf_new :: "bool \<Rightarrow> btf_object \<Rightarrow> btf option run" where
  "btf_new chk obj =
     ensure (bo_open obj)
     (if \<not> bo_has_btf obj then ret None
      else ensure (bo_endian_ok obj)
       (ensure (bo_ptr_size obj \<noteq> 0)
       (case bo_raw obj of
          None \<Rightarrow> bail
        | Some data \<Rightarrow> ensure (data \<noteq> []) (rbind (btf_parse chk (bo_ptr_size obj) data) (\<lambda>b. ret (Some b))))))"

end
