(* ===== verification/Btf_Gen.thy ===== *)
theory Btf_Gen
  imports Btf
begin

text \<open>
  The second half of \<^verbatim>\<open>libbpf-cargo/src/btf/btf.rs\<close>: sizes and alignments of BTF types, and the Rust
  definitions generated from them, through which the front ends access the constants, variables and samples of
  a BPF program. The functions follow type references without a bound of their own, so they are partial:
  a cyclic chain of typedefs has no result.
\<close>

section \<open>Following type references\<close>

definition type_by_id :: "btf \<Rightarrow> u32 \<Rightarrow> btf_type run" where
  "type_by_id b ty_id = (if unat ty_id < length (btf_types b) then ret (btf_types b ! unat ty_id) else bail)"

partial_function (option) skip_mods_and_typedefs :: "btf \<Rightarrow> u32 \<Rightarrow> u32 run" where
  "skip_mods_and_typedefs b ty_id =
     rbind (type_by_id b ty_id) (\<lambda>t.
       case t of
         TVolatile i \<Rightarrow> skip_mods_and_typedefs b i
       | TConst i \<Rightarrow> skip_mods_and_typedefs b i
       | TRestrict i \<Rightarrow> skip_mods_and_typedefs b i
       | TTypedef _ i \<Rightarrow> skip_mods_and_typedefs b i
       | TTypeTag _ i \<Rightarrow> skip_mods_and_typedefs b i
       | _ \<Rightarrow> ret ty_id)"

section \<open>Sizes and alignments\<close>

text \<open>\<^verbatim>\<open>((t.bits + 7) / 8).into()\<close>, computed in a byte.\<close>

definition int_bytes :: "bool \<Rightarrow> btf_int \<Rightarrow> u32 run" where
  "int_bytes chk i = rbind (checked chk (unat (int_bits i) + 7) :: u8 run) (\<lambda>w. ret (ucast (w div 8)))"

partial_function (option) size_of :: "bool \<Rightarrow> btf \<Rightarrow> u32 \<Rightarrow> u32 run" where
  "size_of chk b ty_id =
     rbind (skip_mods_and_typedefs b ty_id) (\<lambda>s. rbind (type_by_id b s) (\<lambda>t.
       case t of
         TInt i \<Rightarrow> int_bytes chk i
       | TPtr _ \<Rightarrow> ret (btf_ptr_size b)
       | TArray a \<Rightarrow> rbind (size_of chk b (arr_val_type_id a)) (\<lambda>n. checked chk (unat (arr_nelems a) * unat n))
       | TStruct c \<Rightarrow> ret (comp_size c)
       | TUnion c \<Rightarrow> ret (comp_size c)
       | TEnum e \<Rightarrow> ret (enum_size e)
       | TVar v \<Rightarrow> size_of chk b (var_type_id v)
       | TDatasec d \<Rightarrow> ret (sec_size d)
       | TFloat f \<Rightarrow> ret (float_size f)
       | _ \<Rightarrow> bail))"

partial_function (option) align_of :: "bool \<Rightarrow> btf \<Rightarrow> u32 \<Rightarrow> u32 run" where
  "align_of chk b ty_id =
     rbind (skip_mods_and_typedefs b ty_id) (\<lambda>s. rbind (type_by_id b s) (\<lambda>t.
       case t of
         TInt i \<Rightarrow> rbind (int_bytes chk i) (\<lambda>n. ret (min (btf_ptr_size b) n))
       | TPtr _ \<Rightarrow> ret (btf_ptr_size b)
       | TArray a \<Rightarrow> align_of chk b (arr_val_type_id a)
       | TStruct c \<Rightarrow> rbind (rmap (\<lambda>m. align_of chk b (mem_type_id m)) (comp_members c)) (\<lambda>as. ret (fold max as 1))
       | TUnion c \<Rightarrow> rbind (rmap (\<lambda>m. align_of chk b (mem_type_id m)) (comp_members c)) (\<lambda>as. ret (fold max as 1))
       | TEnum e \<Rightarrow> ret (min (btf_ptr_size b) (enum_size e))
       | TVar v \<Rightarrow> align_of chk b (var_type_id v)
       | TDatasec d \<Rightarrow> ret (sec_size d)
       | TFloat f \<Rightarrow> ret (min (btf_ptr_size b) (float_size f))
       | _ \<Rightarrow> bail))"

declare skip_mods_and_typedefs.simps [code] size_of.simps [code] align_of.simps [code]

text \<open>The loop over the members: the first one that is not naturally aligned makes the structure packed.\<close>

fun misaligned :: "bool \<Rightarrow> btf \<Rightarrow> btf_member list \<Rightarrow> bool run" where
  "misaligned chk b [] = ret False"
| "misaligned chk b (m # ms) =
     rbind (align_of chk b (mem_type_id m)) (\<lambda>a. ensure (a \<noteq> 0)
       (if mem_bit_size m = 0
        then rbind (checked chk (unat a * 8) :: u32 run) (\<lambda>a8.
          if a8 = 0 then panic else if mem_bit_offset m mod a8 \<noteq> 0 then ret True else misaligned chk b ms)
        else misaligned chk b ms))"

definition is_struct_packed :: "bool \<Rightarrow> btf \<Rightarrow> u32 \<Rightarrow> btf_composite \<Rightarrow> bool run" where
  "is_struct_packed chk b ty_id t =
     (if \<not> comp_is_struct t then ret False
      else rbind (align_of chk b ty_id) (\<lambda>a. ensure (a \<noteq> 0)
        (if comp_size t mod a \<noteq> 0 then ret True else misaligned chk b (comp_members t))))"

text \<open>The padding before a member; offsets are \<^verbatim>\<open>usize\<close>.\<close>

definition required_padding :: "bool \<Rightarrow> btf \<Rightarrow> nat \<Rightarrow> nat \<Rightarrow> u32 \<Rightarrow> bool \<Rightarrow> nat run" where
  "required_padding chk b current required ty_id packed =
     ensure (current \<le> required)
       (rbind (if packed then ret 1
               else rbind (align_of chk b ty_id) (\<lambda>a. ensure (a \<noteq> 0) (ret (if 4 < unat a then 4 else unat a)))) (\<lambda>align.
         let aligned = (current + align - 1) div align * align
         in ret (if aligned = required then 0 else required - current)))"

section \<open>Types in Rust\<close>

definition int_width :: "nat \<Rightarrow> string run" where
  "int_width n = (if n = 1 then ret ''8'' else if n = 2 then ret ''16'' else if n = 4 then ret ''32''
     else if n = 8 then ret ''64'' else if n = 16 then ret ''128'' else bail)"

definition int_declaration :: "bool \<Rightarrow> btf_int \<Rightarrow> string run" where
  "int_declaration chk i =
     rbind (int_bytes chk i) (\<lambda>n. rbind (int_width (unat n)) (\<lambda>width.
       case int_encoding i of
         EncSigned \<Rightarrow> ret (''i'' @ width)
       | EncBool \<Rightarrow> if int_bits i = 8 then ret ''bool'' else panic
       | _ \<Rightarrow> ret (''u'' @ width)))"

partial_function (option) type_declaration :: "bool \<Rightarrow> btf \<Rightarrow> u32 \<Rightarrow> string run" where
  "type_declaration chk b ty_id =
     rbind (skip_mods_and_typedefs b ty_id) (\<lambda>s. rbind (type_by_id b s) (\<lambda>t.
       case t of
         TVoid \<Rightarrow> ret ''std::ffi::c_void''
       | TInt i \<Rightarrow> int_declaration chk i
       | TFloat f \<Rightarrow> if float_size f = 4 then ret ''f32'' else if float_size f = 8 then ret ''f64'' else bail
       | TPtr p \<Rightarrow> rbind (type_declaration chk b p) (\<lambda>d. ret (''*mut '' @ d))
       | TArray a \<Rightarrow> rbind (type_declaration chk b (arr_val_type_id a)) (\<lambda>d.
           ret (''['' @ d @ ''; '' @ dec (unat (arr_nelems a)) @ '']''))
       | TStruct c \<Rightarrow> ret (comp_name c)
       | TUnion c \<Rightarrow> ret (comp_name c)
       | TEnum e \<Rightarrow> ret (enum_name e)
       | TFunc _ _ \<Rightarrow> ret ''std::ffi::c_void''
       | TVar v \<Rightarrow> type_declaration chk b (var_type_id v)
       | _ \<Rightarrow> bail))"

partial_function (option) type_default :: "bool \<Rightarrow> btf \<Rightarrow> u32 \<Rightarrow> string run" where
  "type_default chk b ty_id =
     rbind (skip_mods_and_typedefs b ty_id) (\<lambda>s. rbind (type_by_id b s) (\<lambda>t.
       case t of
         TVoid \<Rightarrow> ret ''std::ffi::c_void::default()''
       | TInt _ \<Rightarrow> rbind (type_declaration chk b s) (\<lambda>d. ret (d @ ''::default()''))
       | TFloat _ \<Rightarrow> rbind (type_declaration chk b s) (\<lambda>d. ret (d @ ''::default()''))
       | TPtr _ \<Rightarrow> ret ''std::ptr::null_mut()''
       | TArray a \<Rightarrow> rbind (type_default chk b (arr_val_type_id a)) (\<lambda>d.
           ret (''['' @ d @ ''; '' @ dec (unat (arr_nelems a)) @ '']''))
       | TStruct c \<Rightarrow> ret (comp_name c @ ''::default()'')
       | TUnion c \<Rightarrow> ret (comp_name c @ ''::default()'')
       | TEnum e \<Rightarrow> ret (enum_name e @ ''::default()'')
       | TVar v \<Rightarrow> rbind (type_declaration chk b (var_type_id v)) (\<lambda>d. ret (d @ ''::default()''))
       | _ \<Rightarrow> bail))"

declare type_declaration.simps [code] type_default.simps [code]

section \<open>Definitions in Rust\<close>

text \<open>The next type that needs a definition of its own.\<close>

partial_function (option) next_type :: "btf \<Rightarrow> u32 \<Rightarrow> u32 option run" where
  "next_type b ty_id =
     rbind (type_by_id b ty_id) (\<lambda>t.
       case t of
         TStruct _ \<Rightarrow> ret (Some ty_id)
       | TUnion _ \<Rightarrow> ret (Some ty_id)
       | TEnum _ \<Rightarrow> ret (Some ty_id)
       | TDatasec _ \<Rightarrow> ret (Some ty_id)
       | TPtr i \<Rightarrow> next_type b i
       | TArray a \<Rightarrow> next_type b (arr_val_type_id a)
       | TVolatile i \<Rightarrow> next_type b i
       | TConst i \<Rightarrow> next_type b i
       | TRestrict i \<Rightarrow> next_type b i
       | TTypedef _ i \<Rightarrow> next_type b i
       | TDeclTag _ i _ \<Rightarrow> next_type b i
       | TTypeTag _ i \<Rightarrow> next_type b i
       | _ \<Rightarrow> ret None)"

declare next_type.simps [code]

definition is_terminal :: "btf \<Rightarrow> u32 \<Rightarrow> bool run" where
  "is_terminal b ty_id = rbind (type_by_id b ty_id) (\<lambda>t. ret (btf_kind_of t \<notin> {KStruct, KUnion, KEnum, KDatasec}))"

text \<open>A field of a generated aggregate: padding bytes with the offset in their name, or a member with its type.\<close>

datatype rust_field = PadField nat nat | PubField string string u32

text \<open>The variables of the loop over the members.\<close>

record agg =
  ag_offset :: nat
  ag_content :: "rust_field list"
  ag_default :: "string list"
  ag_gen :: bool
  ag_deps :: "u32 list"

text \<open>The default value of a member: an error is fatal only where the value is needed.\<close>

definition push_default :: "bool \<Rightarrow> string \<Rightarrow> string list \<Rightarrow> string run \<Rightarrow> string list run" where
  "push_default needed name ds m =
     Option.bind m (\<lambda>r. case r of
        Ok d \<Rightarrow> ret (ds @ [''            '' @ name @ '': '' @ d])
      | Err \<Rightarrow> if needed then bail else ret ds
      | Panic \<Rightarrow> panic)"

definition is_long_array :: "btf_type \<Rightarrow> bool" where
  "is_long_array t \<longleftrightarrow> (case t of TArray a \<Rightarrow> 32 < arr_nelems a | _ \<Rightarrow> False)"

definition step_member :: "bool \<Rightarrow> btf \<Rightarrow> bool \<Rightarrow> bool \<Rightarrow> btf_member \<Rightarrow> agg \<Rightarrow> agg run" where
  "step_member chk b is_struct packed m ag =
     ensure (mem_bit_size m = 0 \<and> mem_bit_offset m mod 8 = 0)
     (rbind (skip_mods_and_typedefs b (mem_type_id m)) (\<lambda>fid.
      rbind (next_type b fid) (\<lambda>nx.
      rbind (if is_struct then required_padding chk b (ag_offset ag) (unat (mem_bit_offset m) div 8) (mem_type_id m) packed
             else ret 0) (\<lambda>padding.
      rbind (type_by_id b fid) (\<lambda>ft.
      let pads = (if padding \<noteq> 0 then [PadField (ag_offset ag) padding] else []);
          pad_defaults = (if padding \<noteq> 0
            then [''            __pad_'' @ dec (ag_offset ag) @ '': [u8::default(); '' @ dec padding @ '']''] else []);
          gen = (ag_gen ag \<or> is_struct \<and> is_long_array ft)
      in rbind (push_default (gen \<or> \<not> is_struct) (mem_name m) (ag_default ag @ pad_defaults) (type_default chk b fid)) (\<lambda>defaults.
         rbind (size_of chk b fid) (\<lambda>sz.
         rbind (checked chk (unat (mem_bit_offset m) div 8 + unat sz) :: u32 run) (\<lambda>end_of.
         rbind (type_declaration chk b fid) (\<lambda>ty.
           ret \<lparr>ag_offset = unat end_of,
                ag_content = ag_content ag @ pads @ [PubField (if mem_name m \<noteq> [] then mem_name m else ty) ty fid],
                ag_default = defaults, ag_gen = gen,
                ag_deps = ag_deps ag @ (case nx of Some i \<Rightarrow> [i] | None \<Rightarrow> [])\<rparr>)))))))))"

fun step_members :: "bool \<Rightarrow> btf \<Rightarrow> bool \<Rightarrow> bool \<Rightarrow> btf_member list \<Rightarrow> agg \<Rightarrow> agg run" where
  "step_members chk b is_struct packed [] ag = ret ag"
| "step_members chk b is_struct packed (m # ms) ag =
     rbind (step_member chk b is_struct packed m ag) (step_members chk b is_struct packed ms)"

text \<open>A generated structure or union.\<close>

record rust_struct =
  rs_name :: string
  rs_is_struct :: bool
  rs_packed :: bool
  rs_agg :: agg

definition define_composite :: "bool \<Rightarrow> btf \<Rightarrow> u32 \<Rightarrow> btf_composite \<Rightarrow> rust_struct run" where
  "define_composite chk b ty_id t =
     rbind (is_struct_packed chk b ty_id t) (\<lambda>packed.
     rbind (step_members chk b (comp_is_struct t) packed (comp_members t)
              \<lparr>ag_offset = 0, ag_content = [], ag_default = [], ag_gen = False, ag_deps = []\<rparr>) (\<lambda>ag.
       ret \<lparr>rs_name = comp_name t, rs_is_struct = comp_is_struct t, rs_packed = packed, rs_agg = ag\<rparr>))"

text \<open>The text of a definition, line by line.\<close>

fun field_text :: "rust_field \<Rightarrow> string" where
  "field_text (PadField off n) = ''    __pad_'' @ dec off @ '': [u8; '' @ dec n @ ''],''"
| "field_text (PubField name ty i) = ''    pub '' @ name @ '': '' @ ty @ '',''"

definition impl_default_text :: "string \<Rightarrow> string list \<Rightarrow> string list" where
  "impl_default_text name ds =
     [''impl Default for '' @ name @ '' {'', ''    fn default() -> Self {'', ''        '' @ name @ '' {''] @
     map (\<lambda>d. d @ '','') ds @ [''        }'', ''    }'', ''}'']"

definition composite_text :: "rust_struct \<Rightarrow> string list run" where
  "composite_text r =
     (let ag = rs_agg r;
          body = [if \<not> rs_is_struct r then ''#[derive(Copy, Clone)]'' else if ag_gen ag then ''#[derive(Debug, Copy, Clone)]''
                    else ''#[derive(Debug, Default, Copy, Clone)]'',
                  ''#[repr(C'' @ (if rs_packed r then '', packed'' else []) @ '')]'',
                  ''pub '' @ (if rs_is_struct r then ''struct'' else ''union'') @ '' '' @ rs_name r @ '' {''] @
                 map field_text (ag_content ag) @ [''}'']
      in if ag_gen ag then ret (body @ impl_default_text (rs_name r) (ag_default ag))
         else if \<not> rs_is_struct r
         then case ag_default ag of
             [] \<Rightarrow> panic
           | d # _ \<Rightarrow> ret (body @
               [''impl std::fmt::Debug for '' @ rs_name r @ '' {'',
                ''    fn fmt(&self, f: &mut std::fmt::Formatter<'_>) -> std::fmt::Result {'',
                ''        write!(f, '' @ [CHR 0x22] @ ''(???)'' @ [CHR 0x22] @ '')'', ''    }'', ''}''] @ impl_default_text (rs_name r) [d])
         else ret body)"

definition i32_text :: "s32 \<Rightarrow> string" where
  "i32_text v = (if 0 \<le> sint v then dec (nat (sint v)) else CHR ''-'' # dec (nat (- sint v)))"

definition enum_text :: "btf_enum \<Rightarrow> string list run" where
  "enum_text e =
     rbind (int_width (unat (enum_size e))) (\<lambda>repr_size.
       let signed_rep = (if list_ex (\<lambda>(n, v). sint v < 0) (enum_values e) then ''i'' else ''u'') in
       ret ([''#[derive(Debug, Copy, Clone, PartialEq, Eq)]'', ''#[repr('' @ signed_rep @ repr_size @ '')]'', ''pub enum '' @ enum_name e @ '' {''] @
         map (\<lambda>(n, v). ''    '' @ n @ '' = '' @ i32_text v @ '','') (enum_values e) @ [''}''] @
         (case enum_values e of
            [] \<Rightarrow> []
          | v # _ \<Rightarrow> [''impl Default for '' @ enum_name e @ '' {'', ''    fn default() -> Self {'',
              ''        '' @ enum_name e @ ''::'' @ fst v, ''    }'', ''}''])))"

text \<open>A data section: the loop over its variables, with the offset behind the last one, the fields and the
  types that need a definition. Static variables are left out.\<close>

fun step_vars :: "bool \<Rightarrow> btf \<Rightarrow> btf_datasec_var list \<Rightarrow> nat \<Rightarrow> rust_field list \<Rightarrow> u32 list \<Rightarrow> (nat \<times> rust_field list \<times> u32 list) run" where
  "step_vars chk b [] off fs deps = ret (off, fs, deps)"
| "step_vars chk b (d # ds) off fs deps =
     rbind (type_by_id b (dv_type_id d)) (\<lambda>t.
       case t of
         TVar v \<Rightarrow>
           if var_linkage v = VStatic then step_vars chk b ds off fs deps
           else rbind (next_type b (var_type_id v)) (\<lambda>nx.
             rbind (required_padding chk b off (unat (dv_offset d)) (var_type_id v) False) (\<lambda>padding.
             rbind (checked chk (unat (dv_offset d) + unat (dv_size d)) :: u32 run) (\<lambda>off'.
             rbind (type_declaration chk b (var_type_id v)) (\<lambda>ty.
               step_vars chk b ds (unat off')
                 (fs @ (if padding \<noteq> 0 then [PadField off padding] else []) @ [PubField (var_name v) ty (var_type_id v)])
                 (deps @ (case nx of Some i \<Rightarrow> [i] | None \<Rightarrow> []))))))
       | _ \<Rightarrow> bail)"

definition define_datasec :: "bool \<Rightarrow> btf \<Rightarrow> btf_datasec \<Rightarrow> (string list \<times> u32 list) run" where
  "define_datasec chk b t =
     ensure (sec_name t \<noteq> [] \<and> hd (sec_name t) = CHR ''.'')
     (rbind (step_vars chk b (sec_vars t) 0 [] []) (\<lambda>(off, fs, deps).
        ret ([''#[derive(Debug, Copy, Clone)]'', ''#[repr(C)]'', ''pub struct '' @ tl (sec_name t) @ '' {''] @
             map field_text fs @ [''}''], deps)))"

text \<open>One type taken from the queue: its text and the types it depends on.\<close>

definition define_one :: "bool \<Rightarrow> btf \<Rightarrow> u32 \<Rightarrow> (string list \<times> u32 list) run" where
  "define_one chk b ty_id =
     rbind (type_by_id b ty_id) (\<lambda>t.
       case t of
         TStruct c \<Rightarrow> rbind (define_composite chk b ty_id c) (\<lambda>r. rbind (composite_text r) (\<lambda>txt. ret (txt, ag_deps (rs_agg r))))
       | TUnion c \<Rightarrow> rbind (define_composite chk b ty_id c) (\<lambda>r. rbind (composite_text r) (\<lambda>txt. ret (txt, ag_deps (rs_agg r))))
       | TEnum e \<Rightarrow> rbind (enum_text e) (\<lambda>txt. ret (txt, []))
       | TDatasec d \<Rightarrow> define_datasec chk b d
       | _ \<Rightarrow> bail)"

partial_function (option) define_all :: "bool \<Rightarrow> btf \<Rightarrow> u32 list \<Rightarrow> u32 list \<Rightarrow> string list \<Rightarrow> string list run" where
  "define_all chk b queue processed def =
     (case queue of
        [] \<Rightarrow> ret def
      | ty_id # rest \<Rightarrow>
          if ty_id \<in> set processed then define_all chk b rest processed def
          else rbind (define_one chk b ty_id) (\<lambda>(txt, deps). define_all chk b (rest @ deps) (ty_id # processed) (def @ txt)))"

declare define_all.simps [code]

definition type_definition :: "bool \<Rightarrow> btf \<Rightarrow> u32 \<Rightarrow> string list run" where
  "type_definition chk b ty_id =
     rbind (is_terminal b ty_id) (\<lambda>terminal. ensure (\<not> terminal) (define_all chk b [ty_id] [] []))"

end
