(* ===== verification/Btf_Termination.thy ===== *)
theory Btf_Termination
  imports Btf_Gen
begin

text \<open>
  Termination of the generator of \<^verbatim>\<open>libbpf-cargo\<close>. Its functions follow type references until they reach a
  type of a certain kind. They return exactly when these references do not run in circles; a C compiler
  emits such tables: a type cannot contain itself by value, and only a structure can mention itself
  through a pointer.
\<close>

section \<open>References\<close>

text \<open>The types a type refers to: as a modifier, by value, and by name.\<close>

fun mod_refs :: "btf_type \<Rightarrow> u32 list" where
  "mod_refs (TVolatile i) = [i]"
| "mod_refs (TConst i) = [i]"
| "mod_refs (TRestrict i) = [i]"
| "mod_refs (TTypedef _ i) = [i]"
| "mod_refs (TTypeTag _ i) = [i]"
| "mod_refs _ = []"

fun value_refs :: "btf_type \<Rightarrow> u32 list" where
  "value_refs (TArray a) = [arr_val_type_id a]"
| "value_refs (TStruct c) = map mem_type_id (comp_members c)"
| "value_refs (TUnion c) = map mem_type_id (comp_members c)"
| "value_refs (TVar v) = [var_type_id v]"
| "value_refs t = mod_refs t"

fun name_refs :: "btf_type \<Rightarrow> u32 list" where
  "name_refs (TArray a) = [arr_val_type_id a]"
| "name_refs (TPtr i) = [i]"
| "name_refs (TVar v) = [var_type_id v]"
| "name_refs (TDeclTag _ i _) = [i]"
| "name_refs t = mod_refs t"

text \<open>A rank that every reference lowers.\<close>

definition ranked :: "(btf_type \<Rightarrow> u32 list) \<Rightarrow> (u32 \<Rightarrow> nat) \<Rightarrow> btf \<Rightarrow> bool" where
  "ranked refs rank b \<longleftrightarrow>
     list_all (\<lambda>i. list_all (\<lambda>j. rank j < rank (of_nat i)) (refs (btf_types b ! i))) [0..<length (btf_types b)]"

section \<open>Lemmas\<close>

lemma type_by_id_ret: "type_by_id b i = ret t \<longleftrightarrow> unat i < length (btf_types b) \<and> t = btf_types b ! unat i"
  by (auto simp: type_by_id_def)

lemma type_by_id_returns [simp]: "returns (type_by_id b i)"
  by (simp add: type_by_id_def)

lemma int_returns [simp]: "returns (int_bytes chk i)" "returns (int_width n)" "returns (int_declaration chk i)"
  by (auto simp: int_bytes_def int_width_def int_declaration_def intro!: rbind_returns split: btf_int_encoding.splits)

lemma rankedD:
  assumes "ranked refs rank b" and "type_by_id b i = ret t" and "j \<in> set (refs t)"
  shows "rank j < rank i"
proof -
  have i: "unat i < length (btf_types b)" "t = btf_types b ! unat i" using assms(2) by (auto simp: type_by_id_ret)
  have "(of_nat (unat i) :: u32) = i" by simp
  with i assms(1,3) show ?thesis unfolding ranked_def list_all_iff by (metis atLeast0LessThan lessThan_iff set_upt)
qed

lemma ranked_mono: "ranked refs rank b \<Longrightarrow> (\<And>t. set (refs' t) \<subseteq> set (refs t)) \<Longrightarrow> ranked refs' rank b"
  unfolding ranked_def list_all_iff by blast

lemma mod_refs_subset: "set (mod_refs t) \<subseteq> set (value_refs t)" "set (mod_refs t) \<subseteq> set (name_refs t)"
  by (cases t; simp)+

lemma skip_unfold:
  "skip_mods_and_typedefs b i =
     rbind (type_by_id b i) (\<lambda>t. case mod_refs t of j # _ \<Rightarrow> skip_mods_and_typedefs b j | [] \<Rightarrow> ret i)"
  by (subst skip_mods_and_typedefs.simps, rule rbind_cong [OF refl]) (auto split: btf_type.splits)

lemma skip_cyclic:
  assumes "\<And>i. i \<in> C \<Longrightarrow> \<exists>t j. type_by_id b i = ret t \<and> mod_refs t = [j] \<and> j \<in> C" and "i \<in> C"
  shows "skip_mods_and_typedefs b i = None"
proof (rule ccontr)
  assume "skip_mods_and_typedefs b i \<noteq> None"
  then obtain r where "skip_mods_and_typedefs b i = Some r" by auto
  then have "b = b \<longrightarrow> i \<notin> C"
  proof (rule skip_mods_and_typedefs.raw_induct [where P = "\<lambda>b' i' r. b' = b \<longrightarrow> i' \<notin> C", rotated], intro impI notI)
    fix f b' i' r
    assume hyp: "\<And>b' i' r. f b' i' = Some r \<Longrightarrow> b' = b \<longrightarrow> i' \<notin> C"
      and eq: "rbind (type_by_id b' i')
        (\<lambda>t. case t of TTypedef x i \<Rightarrow> f b' i | TVolatile i \<Rightarrow> f b' i | TConst i \<Rightarrow> f b' i | TRestrict i \<Rightarrow> f b' i
             | TTypeTag x i \<Rightarrow> f b' i | _ \<Rightarrow> ret i') = Some r"
      and "b' = b" and "i' \<in> C"
    then obtain t j where "type_by_id b i' = ret t" "mod_refs t = [j]" "j \<in> C" using assms(1) by blast
    with eq \<open>b' = b\<close> have "f b j = Some r" by (cases t) auto
    with hyp \<open>j \<in> C\<close> show False by blast
  qed
  with assms(2) show False by simp
qed

lemma skip_unfold_ret:
  "skip_mods_and_typedefs b i = ret s \<Longrightarrow> \<exists>t. type_by_id b s = ret t \<and> mod_refs t = []"
proof -
  assume "skip_mods_and_typedefs b i = ret s"
  then have "skip_mods_and_typedefs b i = Some (Ok s)" by (simp add: ret_def)
  then have "\<forall>s'. Ok s = Ok s' \<longrightarrow> (\<exists>t. type_by_id b s' = ret t \<and> mod_refs t = [])"
  proof (rule skip_mods_and_typedefs.raw_induct [where
        P = "\<lambda>b' i' r. \<forall>s'. r = Ok s' \<longrightarrow> (\<exists>t. type_by_id b' s' = ret t \<and> mod_refs t = [])", rotated], intro allI impI)
    fix f b' i' r s'
    assume hyp: "\<And>b' i' r. f b' i' = Some r \<Longrightarrow> \<forall>s'. r = Ok s' \<longrightarrow> (\<exists>t. type_by_id b' s' = ret t \<and> mod_refs t = [])"
      and eq: "rbind (type_by_id b' i')
        (\<lambda>t. case t of TTypedef x i \<Rightarrow> f b' i | TVolatile i \<Rightarrow> f b' i | TConst i \<Rightarrow> f b' i | TRestrict i \<Rightarrow> f b' i
             | TTypeTag x i \<Rightarrow> f b' i | _ \<Rightarrow> ret i') = Some r"
      and r: "r = Ok s'"
    note eq = eq [unfolded r, folded ret_def]
    then obtain t where t: "type_by_id b' i' = ret t" by (auto simp: rbind_ret_iff)
    show "\<exists>t. type_by_id b' s' = ret t \<and> mod_refs t = []"
    proof (cases "mod_refs t")
      case Nil
      then show ?thesis using eq t by (cases t) auto
    next
      case (Cons j js)
      then have "f b' j = ret s'" using eq t by (cases t) auto
      then show ?thesis using hyp [of b' j "Ok s'"] by (simp add: ret_def)
    qed
  qed
  then show ?thesis by simp
qed

lemma skip_ret:
  assumes "skip_mods_and_typedefs b i = ret s"
  shows "skip_mods_and_typedefs b s = ret s" and "\<exists>t. type_by_id b s = ret t \<and> mod_refs t = []"
  using skip_unfold_ret [OF assms] by (auto simp: skip_unfold [of b s])

lemma skip_returns_iff:
  "returns (skip_mods_and_typedefs b i) \<longleftrightarrow>
     \<not> (\<exists>C. i \<in> C \<and> (\<forall>k \<in> C. \<exists>t j. type_by_id b k = ret t \<and> mod_refs t = [j] \<and> j \<in> C))"
proof
  assume "returns (skip_mods_and_typedefs b i)"
  then have "skip_mods_and_typedefs b i \<noteq> None" unfolding returns_def .
  then show "\<not> (\<exists>C. i \<in> C \<and> (\<forall>k \<in> C. \<exists>t j. type_by_id b k = ret t \<and> mod_refs t = [j] \<and> j \<in> C))"
    using skip_cyclic [of _ b i] by metis
next
  let ?C = "{k. \<not> returns (skip_mods_and_typedefs b k)}"
  have closed: "\<exists>t j. type_by_id b k = ret t \<and> mod_refs t = [j] \<and> j \<in> ?C" if "k \<in> ?C" for k
  proof -
    from that have n: "\<not> returns (rbind (type_by_id b k) (\<lambda>t. case mod_refs t of j # _ \<Rightarrow> skip_mods_and_typedefs b j | [] \<Rightarrow> ret k))"
      by (simp only: mem_Collect_eq skip_unfold [of b k] not_False_eq_True)
    then obtain t where t: "type_by_id b k = ret t"
      by (cases "type_by_id b k" rule: run_cases) (auto simp: type_by_id_def split: if_splits)
    have "mod_refs t = [] \<or> (\<exists>j. mod_refs t = [j])" by (cases t) auto
    with n t show ?thesis by auto
  qed
  assume none: "\<not> (\<exists>C. i \<in> C \<and> (\<forall>k \<in> C. \<exists>t j. type_by_id b k = ret t \<and> mod_refs t = [j] \<and> j \<in> C))"
  have "i \<notin> ?C"
  proof
    assume "i \<in> ?C"
    with closed have "i \<in> ?C \<and> (\<forall>k \<in> ?C. \<exists>t j. type_by_id b k = ret t \<and> mod_refs t = [j] \<and> j \<in> ?C)" by (intro conjI ballI)
    with none show False by (elim notE) (rule exI)
  qed
  then show "returns (skip_mods_and_typedefs b i)" by (simp only: mem_Collect_eq not_not)
qed

lemma skip_ranked:
  assumes "ranked mod_refs rank b"
  shows "returns (skip_mods_and_typedefs b i) \<and> (\<forall>s. skip_mods_and_typedefs b i = ret s \<longrightarrow> rank s \<le> rank i)"
proof (induction "rank i" arbitrary: i rule: less_induct)
  case less
  show ?case
  proof (cases "type_by_id b i" rule: run_cases)
    case (ret t)
    show ?thesis
    proof (cases "mod_refs t")
      case Nil
      then show ?thesis by (simp add: skip_unfold [of b i] ret)
    next
      case (Cons j js)
      then have "rank j < rank i" using rankedD [OF assms ret, of j] by simp
      with less [of j] Cons show ?thesis by (auto simp: skip_unfold [of b i] ret)
    qed
  qed (simp_all add: skip_unfold [of b i] type_by_id_def split: if_splits)
qed

lemma value_queries_return:
  assumes "ranked value_refs rank b"
  shows "returns (size_of chk b i)" and "returns (align_of chk b i)"
proof -
  note skip = skip_ranked [OF ranked_mono [OF assms mod_refs_subset(1)]]
  have ref: "rank j < rank i" if "skip_mods_and_typedefs b i = ret s" "type_by_id b s = ret t" "j \<in> set (value_refs t)" for i j s t
    using skip [of i] rankedD [OF assms that(2,3)] that(1) by (auto intro: less_le_trans)
  note refs = ref [where t = "TArray a" for a, simplified]
    ref [where t = "TVar v" for v, simplified]
  show "returns (size_of chk b i)"
  proof (induction "rank i" arbitrary: i rule: less_induct)
    case less
    show ?case
      by (subst size_of.simps) (auto intro!: rbind_returns less intro: refs simp: skip split: btf_type.splits)
  qed
  show "returns (align_of chk b i)"
  proof (induction "rank i" arbitrary: i rule: less_induct)
    case less
    show ?case
      by (subst align_of.simps) (auto intro!: rbind_returns rmap_returns less simp: skip split: btf_type.splits; fastforce intro: ref)
  qed
qed

lemmas size_of_returns = value_queries_return(1)

lemmas align_of_returns = value_queries_return(2)

lemma name_queries_return:
  assumes "ranked name_refs rank b"
  shows "returns (type_declaration chk b i)" and "returns (type_default chk b i)" and "returns (next_type b i)"
proof -
  note skip = skip_ranked [OF ranked_mono [OF assms mod_refs_subset(2)]]
  have ref: "rank j < rank i" if "skip_mods_and_typedefs b i = ret s" "type_by_id b s = ret t" "j \<in> set (name_refs t)" for i j s t
    using skip [of i] rankedD [OF assms that(2,3)] that(1) by (auto intro: less_le_trans)
  note refs = ref [where t = "TArray a" for a, simplified]
    ref [where t = "TVar v" for v, simplified]
    ref [where t = "TPtr p" for p, simplified]
  show decl: "returns (type_declaration chk b i)" for i
  proof (induction "rank i" arbitrary: i rule: less_induct)
    case less
    show ?case
      by (subst type_declaration.simps) (auto intro!: rbind_returns less intro: refs simp: skip split: btf_type.splits)
  qed
  show "returns (type_default chk b i)"
  proof (induction "rank i" arbitrary: i rule: less_induct)
    case less
    show ?case
      by (subst type_default.simps) (auto intro!: rbind_returns less decl intro: refs simp: skip split: btf_type.splits)
  qed
  show "returns (next_type b i)"
  proof (induction "rank i" arbitrary: i rule: less_induct)
    case less
    show ?case
      by (subst next_type.simps) (auto intro!: rbind_returns less split: btf_type.splits; fastforce intro: rankedD [OF assms])
  qed
qed

lemmas type_declaration_returns = name_queries_return(1)

lemmas type_default_returns = name_queries_return(2)

lemmas next_type_returns = name_queries_return(3)

lemma misaligned_returns: "ranked value_refs rank b \<Longrightarrow> returns (misaligned chk b ms)"
  by (induction ms) (auto intro!: rbind_returns ensure_returns align_of_returns)

lemma required_padding_returns: "ranked value_refs rank b \<Longrightarrow> returns (required_padding chk b c r i packed)"
  unfolding required_padding_def by (auto intro!: ensure_returns rbind_returns align_of_returns simp: Let_def)

lemma push_default_returns: "returns m \<Longrightarrow> returns (push_default needed n ds m)"
  by (cases m rule: run_cases) (auto simp: push_default_def ret_def bail_def panic_def returns_def)

lemma step_member_returns:
  assumes v: "ranked value_refs rank_v b" and n: "ranked name_refs rank_n b"
  shows "returns (step_member chk b is_struct packed m ag)"
  unfolding step_member_def
  by (auto intro!: ensure_returns rbind_returns push_default_returns next_type_returns [OF n] required_padding_returns [OF v]
      size_of_returns [OF v] type_default_returns [OF n] type_declaration_returns [OF n]
      simp: Let_def skip_ranked [OF ranked_mono [OF v mod_refs_subset(1)]])

lemma step_members_returns:
  assumes v: "ranked value_refs rank_v b" and n: "ranked name_refs rank_n b"
  shows "returns (step_members chk b is_struct packed ms ag)"
  by (induction ms arbitrary: ag) (auto intro!: rbind_returns step_member_returns [OF v n])

lemma step_vars_returns:
  assumes v: "ranked value_refs rank_v b" and n: "ranked name_refs rank_n b"
  shows "returns (step_vars chk b ds off fs deps)"
  by (induction ds arbitrary: off fs deps)
    (auto intro!: rbind_returns next_type_returns [OF n] required_padding_returns [OF v] type_declaration_returns [OF n] split: btf_type.splits)

lemma define_one_returns:
  assumes v: "ranked value_refs rank_v b" and n: "ranked name_refs rank_n b"
  shows "returns (define_one chk b i)"
proof -
  have "returns (define_composite chk b i c)" for c
    unfolding define_composite_def is_struct_packed_def
    by (auto intro!: rbind_returns ensure_returns step_members_returns [OF v n] align_of_returns [OF v] misaligned_returns [OF v])
  moreover have "returns (composite_text r)" for r
    by (auto simp: composite_text_def Let_def split: list.splits)
  moreover have "returns (enum_text e)" for e
    by (auto simp: enum_text_def Let_def intro!: rbind_returns)
  moreover have "returns (define_datasec chk b d)" for d
    by (auto simp: define_datasec_def intro!: rbind_returns ensure_returns step_vars_returns [OF v n] split: prod.splits)
  ultimately show ?thesis
    unfolding define_one_def by (auto intro!: rbind_returns split: btf_type.splits)
qed

text \<open>The queue of types: every turn processes a new type of the table or shortens the queue.\<close>

lemma define_all_returns:
  assumes v: "ranked value_refs rank_v b" and n: "ranked name_refs rank_n b"
  shows "returns (define_all chk b queue processed def)"
proof (induction "card (UNIV - set processed)" arbitrary: queue processed def rule: less_induct)
  case less
  show ?case
  proof (induction queue)
    case Nil
    show ?case by (subst define_all.simps) simp
  next
    case (Cons i rest)
    show ?case
    proof (cases "i \<in> set processed")
      case True
      with Cons show ?thesis by (subst define_all.simps) simp
    next
      case False
      then have "card (UNIV - set (i # processed)) < card (UNIV - set processed)"
        by (intro psubset_card_mono) auto
      then have "returns (define_all chk b q (i # processed) d)" for q d by (rule less)
      with False show ?thesis
        by (subst define_all.simps) (auto intro!: rbind_returns define_one_returns [OF v n] split: prod.splits)
    qed
  qed
qed

section \<open>Properties\<close>

text \<open>C11: the generator terminates. When no type contains itself by value and no chain of pointers, arrays and
  modifiers is circular, the size, the alignment and the definition of every type, with all the types it depends on,
  are computed in finitely many steps, also for structures that refer to themselves.
  Resolving typedefs and qualifiers, which every one of these functions does first, returns if and
  only if they do not form a circle: on a circular typedef the build hangs.\<close>

theorem generator_terminates:
  "(ranked value_refs rank_v b \<and> ranked name_refs rank_n b \<longrightarrow>
     returns (type_definition chk b i) \<and> returns (size_of chk b i) \<and> returns (align_of chk b i)) \<and>
   (returns (skip_mods_and_typedefs b i) \<longleftrightarrow>
     \<not> (\<exists>C. i \<in> C \<and> (\<forall>k \<in> C. \<exists>t j. type_by_id b k = ret t \<and> mod_refs t = [j] \<and> j \<in> C)))"
proof (intro conjI impI)
  assume a: "ranked value_refs rank_v b \<and> ranked name_refs rank_n b"
  then have "returns (define_all chk b [i] [] [])" by (intro define_all_returns) auto
  then show "returns (type_definition chk b i)"
    unfolding type_definition_def is_terminal_def by (auto intro!: rbind_returns ensure_returns)
  show "returns (size_of chk b i)" "returns (align_of chk b i)" using a by (auto intro: size_of_returns align_of_returns)
qed (rule skip_returns_iff)

text \<open>A linked list.\<close>

definition list_btf :: btf where
  "list_btf = \<lparr>btf_types = [TVoid, TInt \<lparr>int_name = ''int'', int_bits = 32, int_offset = 0, int_encoding = EncSigned\<rparr>,
     TStruct \<lparr>comp_name = ''node'', comp_is_struct = True, comp_size = 16,
       comp_members = [\<lparr>mem_name = ''v'', mem_type_id = 1, mem_bit_offset = 0, mem_bit_size = 0\<rparr>,
                       \<lparr>mem_name = ''next'', mem_type_id = 3, mem_bit_offset = 64, mem_bit_size = 0\<rparr>]\<rparr>,
     TPtr 2], btf_ptr_size = 8, btf_string_table = [], btf_anon_count = 0\<rparr>"

theorem generator_terminates_witness: "returns (type_definition True list_btf 2)"
proof -
  have "ranked value_refs (\<lambda>i. if i = 2 then 1 else 0) list_btf" "ranked name_refs (\<lambda>i. if i = 3 then 1 else 0) list_btf"
    by code_simp+
  then show ?thesis
    using generator_terminates [of "\<lambda>i. if i = 2 then 1 else 0" list_btf "\<lambda>i. if i = 3 then 1 else 0" True 2] by blast
qed

end
