(* ===== verification/Btf_Layout.thy ===== *)
theory Btf_Layout
  imports Btf_Termination Layout
begin

text \<open>
  The layout of the generated definitions. A \<^verbatim>\<open>#[repr(C)]\<close> structure has its fields at the next multiple of
  their alignment, a packed one without gaps. The generator inserts padding where that would not give the
  offset BTF records: the theory shows that then every member lies where the BPF program has it, and when the size
  is the same.
\<close>

section \<open>Structures in Rust\<close>

text \<open>Fields of sizes \<open>sz\<close> and alignments \<open>al\<close>, from the offset \<open>p\<close> on: the members with their offsets, and the end.\<close>

fun place :: "bool \<Rightarrow> (u32 \<Rightarrow> nat) \<Rightarrow> (u32 \<Rightarrow> nat) \<Rightarrow> nat \<Rightarrow> rust_field list \<Rightarrow> (string \<times> nat) list" where
  "place packed sz al p [] = []"
| "place packed sz al p (PadField o' n # fs) = place packed sz al (p + n) fs"
| "place packed sz al p (PubField name ty i # fs) =
     (let q = (if packed then p else round_up (al i) p) in (name, q) # place packed sz al (q + sz i) fs)"

fun place_end :: "bool \<Rightarrow> (u32 \<Rightarrow> nat) \<Rightarrow> (u32 \<Rightarrow> nat) \<Rightarrow> nat \<Rightarrow> rust_field list \<Rightarrow> nat" where
  "place_end packed sz al p [] = p"
| "place_end packed sz al p (PadField o' n # fs) = place_end packed sz al (p + n) fs"
| "place_end packed sz al p (PubField name ty i # fs) =
     place_end packed sz al ((if packed then p else round_up (al i) p) + sz i) fs"

fun field_align :: "(u32 \<Rightarrow> nat) \<Rightarrow> rust_field \<Rightarrow> nat" where
  "field_align al (PadField o' n) = 1"
| "field_align al (PubField name ty i) = al i"

definition rust_align :: "(u32 \<Rightarrow> nat) \<Rightarrow> rust_struct \<Rightarrow> nat" where
  "rust_align al r = (if rs_packed r then 1 else fold max (map (field_align al) (ag_content (rs_agg r))) 1)"

definition rust_size :: "(u32 \<Rightarrow> nat) \<Rightarrow> (u32 \<Rightarrow> nat) \<Rightarrow> rust_struct \<Rightarrow> nat" where
  "rust_size sz al r = round_up (rust_align al r) (place_end (rs_packed r) sz al 0 (ag_content (rs_agg r)))"

definition rust_members :: "(u32 \<Rightarrow> nat) \<Rightarrow> (u32 \<Rightarrow> nat) \<Rightarrow> rust_struct \<Rightarrow> (string \<times> nat) list" where
  "rust_members sz al r = place (rs_packed r) sz al 0 (ag_content (rs_agg r))"

text \<open>The sizes and alignments of the member types, as BTF records them.\<close>

definition member_natural :: "btf \<Rightarrow> (u32 \<Rightarrow> nat) \<Rightarrow> (u32 \<Rightarrow> nat) \<Rightarrow> btf_member \<Rightarrow> bool" where
  "member_natural b sz al m \<longleftrightarrow> (\<forall>i. skip_mods_and_typedefs b (mem_type_id m) = ret i \<longrightarrow>
     (\<forall>s. size_of True b i = ret s \<longrightarrow> sz i = unat s) \<and> (\<forall>a. align_of True b i = ret a \<longrightarrow> al i = unat a))"

definition member_aligned :: "btf \<Rightarrow> btf_member \<Rightarrow> bool" where
  "member_aligned b m \<longleftrightarrow>
     (\<exists>a. align_of True b (mem_type_id m) = ret a \<and> 0 < unat a \<and> unat a dvd unat (mem_bit_offset m) div 8)"

section \<open>Lemmas\<close>

lemma place_append:
  "place packed sz al p (fs @ gs) = place packed sz al p fs @ place packed sz al (place_end packed sz al p fs) gs"
  "place_end packed sz al p (fs @ gs) = place_end packed sz al (place_end packed sz al p fs) gs"
  by (induction packed sz al p fs rule: place.induct) (simp_all add: Let_def)

lemma round_up_eq:
  assumes "0 < a" and "a dvd r" and "p \<le> r" and "r < p + a"
  shows "round_up a p = r"
proof -
  obtain k where k: "r = a * k" using assms(2) by blast
  have "(p + (a - 1)) div a = k"
  proof (rule div_nat_eqI)
    show "a * k \<le> p + (a - 1)" using assms k by linarith
    show "p + (a - 1) < a * Suc k" using assms k by simp
  qed
  then show ?thesis by (simp add: round_up_def k mult.commute)
qed

lemma checked_ret: "(checked True n :: 'w::len word run) = ret w \<Longrightarrow> unat w = n"
  by (auto simp: checked_def unat_of_nat take_bit_nat_eq_self split: if_splits)

lemma align_of_skip: "skip_mods_and_typedefs b i = ret s \<Longrightarrow> align_of chk b i = align_of chk b s"
  by (subst (1 2) align_of.simps) (simp add: skip_ret)

text \<open>In a structure that is not packed every member offset is a multiple of the alignment of its type.\<close>

lemma not_misaligned:
  "misaligned True b ms = ret False \<Longrightarrow> m \<in> set ms \<Longrightarrow> mem_bit_size m = 0 \<Longrightarrow>
   member_aligned b m"
proof (induction ms)
  case (Cons n ms)
  from Cons.prems(1) obtain a where a: "align_of True b (mem_type_id n) = ret a" "a \<noteq> 0"
    by (auto simp: rbind_ret_iff ensure_ret_iff)
  show ?case
  proof (cases "m = n")
    case True
    with Cons.prems(1,3) a obtain a8 where a8: "(checked True (unat a * 8) :: u32 run) = ret a8"
      and r: "(if a8 = 0 then panic else if mem_bit_offset m mod a8 \<noteq> 0 then ret True else misaligned True b ms) = ret False"
      by (auto simp: rbind_ret_iff simp del: if_split)
    from r have mod: "mem_bit_offset m mod a8 = 0" by (rule contrapos_pp) simp
    from checked_ret [OF a8] have u: "unat a8 = unat a * 8" .
    have "unat (mem_bit_offset m) mod (unat a * 8) = 0" using mod u by (metis unat_mod_distrib unat_0)
    then have "unat a * 8 dvd unat (mem_bit_offset m)" by auto
    then have "unat a dvd unat (mem_bit_offset m) div 8" by (metis dvd_mult_div_cancel dvd_mult_right dvd_times_right_cancel_iff mult.commute zero_neq_numeral)
    with a True show ?thesis by (auto simp: member_aligned_def unat_gt_0)
  next
    case False
    with Cons.prems a have "misaligned True b ms = ret False"
      by (auto simp: rbind_ret_iff split: if_splits)
    with False Cons show ?thesis by simp
  qed
qed simp

text \<open>The padding puts a field of the alignment BTF computes at the offset asked for.\<close>

lemma padding_places:
  assumes "required_padding True b c r i False = ret pad" and "align_of True b i = ret a" and "0 < unat a" and "unat a dvd r"
  shows "round_up (unat a) (c + pad) = r"
proof -
  let ?a' = "if 4 < unat a then 4 else unat a"
  have le: "c \<le> r" using assms(1) by (auto simp: required_padding_def ensure_ret_iff)
  have "a \<noteq> 0" using assms(3) by auto
  then have "pad = (if (c + ?a' - 1) div ?a' * ?a' = r then 0 else r - c)"
    using assms le by (auto simp: required_padding_def Let_def split: if_splits)
  moreover have "(c + ?a' - 1) div ?a' * ?a' = round_up ?a' c" using assms(3) by (simp add: round_up_def)
  ultimately have pad: "pad = (if round_up ?a' c = r then 0 else r - c)" by simp
  have pos: "0 < ?a'" "?a' \<le> unat a" using assms(3) by auto
  show ?thesis
  proof (rule round_up_eq [OF assms(3,4)])
    show "c + pad \<le> r" "r < c + pad + unat a"
      using pad le pos round_up_lt [OF pos(1), of c] by (auto split: if_splits)
  qed
qed

text \<open>One member: padding and field put it at the offset asked for.\<close>

lemma step_member_place:
  assumes step: "step_member True b True packed m ag = ret ag'"
    and natural: "member_natural b sz al m" and aligned: "packed \<or> member_aligned b m"
  shows "\<exists>fs n. ag_content ag' = ag_content ag @ fs \<and> place packed sz al (ag_offset ag) fs = [(n, unat (mem_bit_offset m) div 8)] \<and>
    place_end packed sz al (ag_offset ag) fs = ag_offset ag' \<and> (mem_name m \<noteq> [] \<longrightarrow> n = mem_name m) \<and>
    (\<not> packed \<longrightarrow> (\<exists>a. align_of True b (mem_type_id m) = ret a \<and> fold max (map (field_align al) fs) 1 = max 1 (unat a)))"
proof -
  let ?r = "unat (mem_bit_offset m) div 8" and ?c = "ag_offset ag"
  from step obtain i pad s e ty where
    i: "skip_mods_and_typedefs b (mem_type_id m) = ret i"
    and pad: "required_padding True b ?c ?r (mem_type_id m) packed = ret pad"
    and s: "size_of True b i = ret s" and e: "(checked True (?r + unat s) :: u32 run) = ret e"
    and content: "ag_content ag' = ag_content ag @ ((if pad \<noteq> 0 then [PadField ?c pad] else []) @
        [PubField (if mem_name m \<noteq> [] then mem_name m else ty) ty i])"
    and off: "ag_offset ag' = unat e"
    by (auto simp: step_member_def rbind_ret_iff ensure_ret_iff Let_def simp del: not_None_eq)
  let ?fs = "(if pad \<noteq> 0 then [PadField ?c pad] else []) @ [PubField (if mem_name m \<noteq> [] then mem_name m else ty) ty i]"
  have sz: "sz i = unat s" and end_of: "unat e = ?r + unat s" using natural i s checked_ret [OF e] by (auto simp: member_natural_def)
  have le: "?c \<le> ?r" using pad by (auto simp: required_padding_def ensure_ret_iff)
  have q: "(if packed then ?c + pad else round_up (al i) (?c + pad)) = ?r"
  proof (cases packed)
    case True
    then show ?thesis using pad le by (auto simp: required_padding_def split: if_splits)
  next
    case False
    then obtain a where a: "align_of True b (mem_type_id m) = ret a" "0 < unat a" "unat a dvd ?r" using aligned by (auto simp: member_aligned_def)
    then have al: "al i = unat a" using natural i align_of_skip [OF i] by (auto simp: member_natural_def)
    have "round_up (unat a) (?c + pad) = ?r" using padding_places [OF _ a] pad False by simp
    then show ?thesis using False al by simp
  qed
  have "place packed sz al ?c ?fs = [(if mem_name m \<noteq> [] then mem_name m else ty, ?r)] \<and> place_end packed sz al ?c ?fs = ?r + unat s"
    using q sz by (cases "pad = 0") (auto simp: Let_def split: if_splits)
  moreover have "\<exists>a. align_of True b (mem_type_id m) = ret a \<and> fold max (map (field_align al) ?fs) 1 = max 1 (unat a)" if "\<not> packed"
    using aligned that natural i align_of_skip [OF i] by (auto simp: member_aligned_def member_natural_def max.commute)
  ultimately show ?thesis using content off end_of by (intro exI [of _ ?fs] exI [of _ "if mem_name m \<noteq> [] then mem_name m else ty"]) auto
qed

lemma fold_max_eq: "fold max xs a = max a (fold max xs (1 :: nat))" if "1 \<le> a" for a :: nat
  using that
proof (induction xs arbitrary: a)
  case (Cons x xs)
  have "fold max xs (max x a) = max (max x a) (fold max xs 1)" using Cons.prems by (intro Cons.IH) simp
  moreover have "fold max xs (max x 1) = max (max x 1) (fold max xs 1)" by (intro Cons.IH) simp
  ultimately show ?case using Cons.prems by (simp only: fold_simps) linarith
qed simp

lemma step_members_place:
  assumes "step_members True b True packed ms ag = ret ag'"
    and "list_all (member_natural b sz al) ms" and "packed \<or> list_all (member_aligned b) ms"
  shows "\<exists>fs. ag_content ag' = ag_content ag @ fs \<and>
    list_all2 (\<lambda>m (n, off). off = unat (mem_bit_offset m) div 8 \<and> (mem_name m \<noteq> [] \<longrightarrow> n = mem_name m)) ms (place packed sz al (ag_offset ag) fs) \<and>
    place_end packed sz al (ag_offset ag) fs = ag_offset ag' \<and>
    (\<not> packed \<longrightarrow> (\<exists>as. rmap (\<lambda>m. align_of True b (mem_type_id m)) ms = ret as \<and>
       fold max (map (field_align al) fs) 1 = fold max (map unat as) 1))"
  using assms
proof (induction ms arbitrary: ag)
  case Nil
  then show ?case by auto
next
  case (Cons m ms)
  from Cons.prems(1) obtain ag1 where s1: "step_member True b True packed m ag = ret ag1"
    and s2: "step_members True b True packed ms ag1 = ret ag'" by (auto simp: rbind_ret_iff)
  have "member_natural b sz al m" "packed \<or> member_aligned b m" using Cons.prems(2,3) by auto
  from step_member_place [OF s1 this] obtain fs n where
    fs: "ag_content ag1 = ag_content ag @ fs" "place packed sz al (ag_offset ag) fs = [(n, unat (mem_bit_offset m) div 8)]"
      "place_end packed sz al (ag_offset ag) fs = ag_offset ag1" "mem_name m \<noteq> [] \<longrightarrow> n = mem_name m"
      "\<not> packed \<longrightarrow> (\<exists>a. align_of True b (mem_type_id m) = ret a \<and> fold max (map (field_align al) fs) 1 = max 1 (unat a))"
    by blast
  have "list_all (member_natural b sz al) ms" "packed \<or> list_all (member_aligned b) ms" using Cons.prems(2,3) by auto
  from Cons.IH [OF s2 this] obtain gs where
    gs: "ag_content ag' = ag_content ag1 @ gs"
      "list_all2 (\<lambda>m (n, off). off = unat (mem_bit_offset m) div 8 \<and> (mem_name m \<noteq> [] \<longrightarrow> n = mem_name m)) ms (place packed sz al (ag_offset ag1) gs)"
      "place_end packed sz al (ag_offset ag1) gs = ag_offset ag'"
      "\<not> packed \<longrightarrow> (\<exists>as. rmap (\<lambda>m. align_of True b (mem_type_id m)) ms = ret as \<and>
         fold max (map (field_align al) gs) 1 = fold max (map unat as) 1)"
    by blast
  have "\<exists>as. rmap (\<lambda>m. align_of True b (mem_type_id m)) (m # ms) = ret as \<and>
      fold max (map (field_align al) (fs @ gs)) 1 = fold max (map unat as) 1" if np: "\<not> packed"
  proof -
    obtain a as where a: "align_of True b (mem_type_id m) = ret a" "fold max (map (field_align al) fs) 1 = max 1 (unat a)"
      and as: "rmap (\<lambda>m. align_of True b (mem_type_id m)) ms = ret as" "fold max (map (field_align al) gs) 1 = fold max (map unat as) 1"
      using fs(5) gs(4) np by blast
    have "fold max (map (field_align al) (fs @ gs)) 1 = max (max 1 (unat a)) (fold max (map unat as) 1)"
      using a(2) as(2) fold_max_eq [of "max 1 (unat a)" "map (field_align al) gs"] by simp
    also have "\<dots> = fold max (map unat (a # as)) 1"
      using fold_max_eq [of "max (unat a) 1" "map unat as"] by (simp add: max.commute)
    finally show ?thesis using a(1) as(1) by (intro exI [of _ "a # as"]) simp
  qed
  then show ?case
    using fs gs by (intro exI [of _ "fs @ gs"]) (simp add: place_append)
qed

lemma step_members_bytes:
  "step_members chk b is_struct packed ms ag = ret ag' \<Longrightarrow> m \<in> set ms \<Longrightarrow> mem_bit_size m = 0"
  by (induction ms arbitrary: ag) (auto simp: rbind_ret_iff step_member_def ensure_ret_iff)

lemma unat_fold_max: "unat (fold max as (a :: u32)) = fold max (map unat as) (unat a)"
  by (induction as arbitrary: a) (simp_all add: max_def word_le_nat_alt)

lemma align_of_struct:
  "type_by_id b i = ret (TStruct c) \<Longrightarrow>
   align_of chk b i = rbind (rmap (\<lambda>m. align_of chk b (mem_type_id m)) (comp_members c)) (\<lambda>as. ret (fold max as 1))"
  by (subst align_of.simps) (simp add: skip_unfold [of b i])

text \<open>A generated structure: the places of its members, its end, and its alignment.\<close>

lemma define_composite_layout:
  assumes "define_composite True b i c = ret r" and "comp_is_struct c" and "list_all (member_natural b sz al) (comp_members c)"
    and "type_by_id b i = ret (TStruct c)"
  shows "list_all2 (\<lambda>m (n, off). off = unat (mem_bit_offset m) div 8 \<and> (mem_name m \<noteq> [] \<longrightarrow> n = mem_name m))
      (comp_members c) (rust_members sz al r)"
    and "place_end (rs_packed r) sz al 0 (ag_content (rs_agg r)) = ag_offset (rs_agg r)"
    and "0 < rust_align al r \<and> rust_align al r dvd unat (comp_size c)"
proof -
  let ?init = "\<lparr>ag_offset = 0, ag_content = [], ag_default = [], ag_gen = False, ag_deps = []\<rparr>"
  from assms(1,2) have p: "is_struct_packed True b i c = ret (rs_packed r)"
    and st: "step_members True b True (rs_packed r) (comp_members c) ?init = ret (rs_agg r)"
    by (auto simp: define_composite_def rbind_ret_iff)
  obtain a where a: "align_of True b i = ret a" "a \<noteq> 0"
    using p assms(2) by (auto simp: is_struct_packed_def rbind_ret_iff ensure_ret_iff)
  have np: "comp_size c mod a = 0 \<and> misaligned True b (comp_members c) = ret False" if "\<not> rs_packed r"
    using p a assms(2) that by (simp add: is_struct_packed_def split: if_splits)
  have "rs_packed r \<or> list_all (member_aligned b) (comp_members c)"
    using np not_misaligned step_members_bytes [OF st] by (auto simp: list_all_iff)
  from step_members_place [OF st assms(3) this] obtain as where
    l: "list_all2 (\<lambda>m (n, off). off = unat (mem_bit_offset m) div 8 \<and> (mem_name m \<noteq> [] \<longrightarrow> n = mem_name m))
        (comp_members c) (rust_members sz al r)"
    and e: "place_end (rs_packed r) sz al 0 (ag_content (rs_agg r)) = ag_offset (rs_agg r)"
    and as: "\<not> rs_packed r \<Longrightarrow> rmap (\<lambda>m. align_of True b (mem_type_id m)) (comp_members c) = ret as \<and>
       fold max (map (field_align al) (ag_content (rs_agg r))) 1 = fold max (map unat as) 1"
    by (auto simp: rust_members_def)
  show "list_all2 (\<lambda>m (n, off). off = unat (mem_bit_offset m) div 8 \<and> (mem_name m \<noteq> [] \<longrightarrow> n = mem_name m))
      (comp_members c) (rust_members sz al r)" by (rule l)
  show "place_end (rs_packed r) sz al 0 (ag_content (rs_agg r)) = ag_offset (rs_agg r)" by (rule e)
  show "0 < rust_align al r \<and> rust_align al r dvd unat (comp_size c)"
  proof (cases "rs_packed r")
    case True
    then show ?thesis by (simp add: rust_align_def)
  next
    case False
    then have "a = fold max as 1" using a(1) as align_of_struct [OF assms(4), of True] by simp
    then have "rust_align al r = unat a" using as False by (simp add: rust_align_def unat_fold_max)
    moreover have "unat (comp_size c) mod unat a = 0" using np [OF False] by (metis unat_mod_distrib unat_0)
    ultimately show ?thesis using a(2) by (auto simp: unat_gt_0)
  qed
qed

text \<open>A variable of a data section: its definition, and when it is as BTF describes it.\<close>

definition the_var :: "btf \<Rightarrow> btf_datasec_var \<Rightarrow> btf_var option" where
  "the_var b d = (case type_by_id b (dv_type_id d) of Some (Ok (TVar v)) \<Rightarrow> Some v | _ \<Rightarrow> None)"

definition var_natural :: "btf \<Rightarrow> (u32 \<Rightarrow> nat) \<Rightarrow> (u32 \<Rightarrow> nat) \<Rightarrow> btf_datasec_var \<Rightarrow> bool" where
  "var_natural b sz al d \<longleftrightarrow> (\<forall>v. the_var b d = Some v \<longrightarrow>
     sz (var_type_id v) = unat (dv_size d) \<and>
     (\<exists>a. align_of True b (var_type_id v) = ret a \<and> 0 < unat a \<and> al (var_type_id v) = unat a \<and> unat a dvd unat (dv_offset d)))"

definition is_global :: "btf \<Rightarrow> btf_datasec_var \<Rightarrow> bool" where
  "is_global b d \<longleftrightarrow> (case the_var b d of Some v \<Rightarrow> var_linkage v \<noteq> VStatic | None \<Rightarrow> False)"

lemma step_vars_place:
  assumes "step_vars True b ds off fs deps = ret (off', fs', deps')" and "list_all (var_natural b sz al) ds"
  shows "\<exists>gs. fs' = fs @ gs \<and>
    list_all2 (\<lambda>d (n, o'). o' = unat (dv_offset d) \<and> map_option var_name (the_var b d) = Some n) (filter (is_global b) ds)
      (place False sz al off gs)"
  using assms
proof (induction ds arbitrary: off fs deps)
  case Nil
  then show ?case by auto
next
  case (Cons d ds)
  from Cons.prems(1) obtain t where t: "type_by_id b (dv_type_id d) = ret t" by (auto simp: rbind_ret_iff)
  with Cons.prems(1) obtain v where v: "type_by_id b (dv_type_id d) = ret (TVar v)" by (cases t) auto
  then have tv: "the_var b d = Some v" by (simp add: the_var_def ret_def)
  show ?case
  proof (cases "var_linkage v = VStatic")
    case True
    with Cons v tv show ?thesis by (simp add: is_global_def)
  next
    case False
    from Cons.prems(1) v False obtain pad e ty deps1 where
      pad: "required_padding True b off (unat (dv_offset d)) (var_type_id v) False = ret pad"
      and e: "(checked True (unat (dv_offset d) + unat (dv_size d)) :: u32 run) = ret e"
      and rest: "step_vars True b ds (unat e)
        (fs @ (if pad \<noteq> 0 then [PadField off pad] else []) @ [PubField (var_name v) ty (var_type_id v)]) deps1 = ret (off', fs', deps')"
      by (auto simp: rbind_ret_iff simp del: append_assoc)
    from Cons.prems(2) tv obtain a where a: "align_of True b (var_type_id v) = ret a" "0 < unat a" "al (var_type_id v) = unat a"
      "unat a dvd unat (dv_offset d)" and sz: "sz (var_type_id v) = unat (dv_size d)"
      by (auto simp: var_natural_def)
    from padding_places [OF pad a(1,2,4)] have q: "round_up (al (var_type_id v)) (off + pad) = unat (dv_offset d)" by (simp add: a(3))
    let ?f = "(if pad \<noteq> 0 then [PadField off pad] else []) @ [PubField (var_name v) ty (var_type_id v)]"
    from Cons.IH [OF rest] Cons.prems(2) obtain gs where gs: "fs' = (fs @ ?f) @ gs"
      "list_all2 (\<lambda>d (n, o'). o' = unat (dv_offset d) \<and> map_option var_name (the_var b d) = Some n) (filter (is_global b) ds)
        (place False sz al (unat e) gs)" by auto
    have "place False sz al off ?f = [(var_name v, unat (dv_offset d))]" "place_end False sz al off ?f = unat e"
      using q sz checked_ret [OF e] by (cases "pad = 0"; simp add: Let_def)+
    moreover have "is_global b d" using tv False by (simp add: is_global_def)
    ultimately show ?thesis
      using gs tv by (intro exI [of _ "?f @ gs"]) (simp add: place_append)
  qed
qed

section \<open>Properties\<close>

text \<open>C10: the generated structures have the layout of the C ones. If the generator, with overflow checks, produces a Rust
  structure for a BTF structure whose member types have the size and alignment BTF says, then every
  member, in order and under its name, lies at exactly the offset BTF records, whether or not the
  structure is packed and whatever padding was needed. The whole structure has the size of the C one if and
  only if the C one has no more padding at its end than its alignment asks for: none is generated there.\<close>

theorem generated_struct_layout:
  assumes "define_composite True b i c = ret r" and "comp_is_struct c" and "type_by_id b i = ret (TStruct c)"
    and "list_all (member_natural b sz al) (comp_members c)" and "ag_offset (rs_agg r) \<le> unat (comp_size c)"
  shows "list_all2 (\<lambda>m (n, off). off = unat (mem_bit_offset m) div 8 \<and> (mem_name m \<noteq> [] \<longrightarrow> n = mem_name m))
      (comp_members c) (rust_members sz al r) \<and>
    (rust_size sz al r = unat (comp_size c) \<longleftrightarrow> unat (comp_size c) < ag_offset (rs_agg r) + rust_align al r)"
proof
  note layout = define_composite_layout [OF assms(1,2,4,3)]
  show "list_all2 (\<lambda>m (n, off). off = unat (mem_bit_offset m) div 8 \<and> (mem_name m \<noteq> [] \<longrightarrow> n = mem_name m))
      (comp_members c) (rust_members sz al r)" by (rule layout(1))
  have pos: "0 < rust_align al r" and dvd: "rust_align al r dvd unat (comp_size c)" using layout(3) by auto
  show "rust_size sz al r = unat (comp_size c) \<longleftrightarrow> unat (comp_size c) < ag_offset (rs_agg r) + rust_align al r"
    unfolding rust_size_def layout(2)
    using round_up_eq [OF pos dvd assms(5)] round_up_lt [OF pos, of "ag_offset (rs_agg r)"] by auto
qed

text \<open>C26: the generated data sections have the layout of the C ones. If the variables of a section are naturally
  aligned and of the size of their type, each global variable is a field, under its name, at the offset it has in the
  section: a constant that a front end sets through the skeleton is the one the BPF program reads.
  Static variables, which have no field, leave gaps that are padded.\<close>

theorem generated_datasec_layout:
  assumes "step_vars True b (sec_vars t) 0 [] [] = ret (off, fs, deps)" and "list_all (var_natural b sz al) (sec_vars t)"
  shows "list_all2 (\<lambda>d (n, o'). o' = unat (dv_offset d) \<and> map_option var_name (the_var b d) = Some n)
    (filter (is_global b) (sec_vars t)) (place False sz al 0 fs)"
  using step_vars_place [OF assms] by auto

text \<open>The node of a list, where four bytes of padding are needed.\<close>

definition node_struct :: btf_composite where
  "node_struct = \<lparr>comp_name = ''node'', comp_is_struct = True, comp_size = 16,
     comp_members = [\<lparr>mem_name = ''v'', mem_type_id = 1, mem_bit_offset = 0, mem_bit_size = 0\<rparr>,
                     \<lparr>mem_name = ''next'', mem_type_id = 3, mem_bit_offset = 64, mem_bit_size = 0\<rparr>]\<rparr>"

definition node_rust :: rust_struct where
  "node_rust = \<lparr>rs_name = ''node'', rs_is_struct = True, rs_packed = False,
     rs_agg = \<lparr>ag_offset = 16, ag_content = [PubField ''v'' ''i32'' 1, PadField 4 4, PubField ''next'' ''*mut node'' 3],
       ag_default = [''            v: i32::default()'', ''            __pad_4: [u8::default(); 4]'', ''            next: std::ptr::null_mut()''],
       ag_gen = False, ag_deps = [2]\<rparr>\<rparr>"

lemma node_types:
  "type_by_id list_btf 1 = ret (TInt \<lparr>int_name = ''int'', int_bits = 32, int_offset = 0, int_encoding = EncSigned\<rparr>)"
  "type_by_id list_btf 2 = ret (TStruct node_struct)" "type_by_id list_btf 3 = ret (TPtr 2)" "btf_ptr_size list_btf = 8"
  by (simp_all add: type_by_id_def list_btf_def node_struct_def)

lemma node_skip: "skip_mods_and_typedefs list_btf 1 = ret 1" "skip_mods_and_typedefs list_btf 2 = ret 2" "skip_mods_and_typedefs list_btf 3 = ret 3"
  by (simp_all add: skip_unfold [of list_btf 1] skip_unfold [of list_btf 2] skip_unfold [of list_btf 3] node_types)

lemma node_sizes: "size_of True list_btf 1 = ret 4" "size_of True list_btf 3 = ret 8"
  "align_of True list_btf 1 = ret 4" "align_of True list_btf 3 = ret 8"
proof -
  show "size_of True list_btf 1 = ret 4" "size_of True list_btf 3 = ret 8"
    by (subst size_of.simps, simp add: node_skip node_types int_bytes_def checked_def)+
  show "align_of True list_btf 1 = ret 4" "align_of True list_btf 3 = ret 8"
    by (subst align_of.simps, simp add: node_skip node_types int_bytes_def checked_def)+
qed

lemma node_align: "align_of True list_btf 2 = ret 8"
  by (simp add: align_of_struct [OF node_types(2)] node_sizes node_struct_def)

lemma node_texts: "type_declaration True list_btf 1 = ret ''i32''" "type_declaration True list_btf 3 = ret ''*mut node''"
  "type_default True list_btf 1 = ret ''i32::default()''" "type_default True list_btf 3 = ret ''std::ptr::null_mut()''"
  "next_type list_btf 1 = ret None" "next_type list_btf 3 = ret (Some 2)"
proof -
  have "type_declaration True list_btf 2 = ret ''node''"
    by (subst type_declaration.simps) (simp add: node_skip node_types node_struct_def)
  then show d: "type_declaration True list_btf 1 = ret ''i32''" "type_declaration True list_btf 3 = ret ''*mut node''"
    by (subst type_declaration.simps, simp add: node_skip node_types int_declaration_def int_bytes_def int_width_def checked_def)+
  show "type_default True list_btf 1 = ret ''i32::default()''" "type_default True list_btf 3 = ret ''std::ptr::null_mut()''"
    by (subst type_default.simps, simp add: node_skip node_types d)+
  have n: "next_type list_btf 2 = ret (Some 2)" by (subst next_type.simps) (simp add: node_types)
  show "next_type list_btf 1 = ret None" "next_type list_btf 3 = ret (Some 2)"
    by (subst next_type.simps, simp add: node_types n)+
qed

lemma push_default_ret: "push_default needed n ds (ret d) = ret (ds @ [''            '' @ n @ '': '' @ d])"
  by (simp add: push_default_def ret_def)

lemma node_generated: "define_composite True list_btf 2 node_struct = ret node_rust"
proof -
  have d: "dec 4 = ''4''" by code_simp
  have m: "comp_members node_struct = [\<lparr>mem_name = ''v'', mem_type_id = 1, mem_bit_offset = 0, mem_bit_size = 0\<rparr>,
      \<lparr>mem_name = ''next'', mem_type_id = 3, mem_bit_offset = 64, mem_bit_size = 0\<rparr>]" "comp_size node_struct = 16"
    "comp_is_struct node_struct" "comp_name node_struct = ''node''"
    by (simp_all add: node_struct_def)
  have "is_struct_packed True list_btf 2 node_struct = ret False"
    by (simp add: is_struct_packed_def node_align node_sizes m checked_def)
  then show ?thesis
    by (simp add: define_composite_def m step_member_def node_skip node_texts node_sizes node_types required_padding_def push_default_ret
        is_long_array_def checked_def d node_rust_def Let_def)
qed

theorem generated_struct_layout_witness:
  "\<exists>r. define_composite True list_btf 2 node_struct = ret r \<and>
     list_all2 (\<lambda>m (n, off). off = unat (mem_bit_offset m) div 8 \<and> (mem_name m \<noteq> [] \<longrightarrow> n = mem_name m)) (comp_members node_struct)
       (rust_members (\<lambda>i. if i = 1 then 4 else 8) (\<lambda>i. if i = 1 then 4 else 8) r) \<and>
     rust_size (\<lambda>i. if i = 1 then 4 else 8) (\<lambda>i. if i = 1 then 4 else 8) r = 16"
proof -
  let ?s = "\<lambda>i :: u32. if i = 1 then 4 else 8 :: nat"
  have nat: "list_all (member_natural list_btf ?s ?s) (comp_members node_struct)"
    by (simp add: node_struct_def member_natural_def node_skip node_sizes)
  have c: "comp_is_struct node_struct" "unat (comp_size node_struct) = 16" by (simp_all add: node_struct_def)
  have r: "ag_offset (rs_agg node_rust) \<le> unat (comp_size node_struct)" "rust_align ?s node_rust = 8" "ag_offset (rs_agg node_rust) = 16"
    by (simp_all add: node_struct_def node_rust_def rust_align_def)
  from generated_struct_layout [OF node_generated c(1) node_types(2) nat r(1)] show ?thesis
    using c r node_generated by (intro exI [of _ node_rust]) simp
qed

text \<open>The constants of a program: a byte, a static byte without a field, and a process id.\<close>

definition rodata_btf :: btf where
  "rodata_btf = \<lparr>btf_types = [TVoid, TInt \<lparr>int_name = ''int'', int_bits = 32, int_offset = 0, int_encoding = EncSigned\<rparr>,
     TInt \<lparr>int_name = ''bool'', int_bits = 8, int_offset = 0, int_encoding = EncBool\<rparr>,
     TVar \<lparr>var_name = ''verbose'', var_type_id = 2, var_linkage = VGlobalAlloc\<rparr>,
     TVar \<lparr>var_name = ''local'', var_type_id = 2, var_linkage = VStatic\<rparr>,
     TVar \<lparr>var_name = ''target_pid'', var_type_id = 1, var_linkage = VGlobalAlloc\<rparr>],
     btf_ptr_size = 8, btf_string_table = [], btf_anon_count = 0\<rparr>"

definition rodata_sec :: btf_datasec where
  "rodata_sec = \<lparr>sec_name = ''.rodata'', sec_size = 12, sec_vars =
     [\<lparr>dv_type_id = 3, dv_offset = 0, dv_size = 1\<rparr>, \<lparr>dv_type_id = 4, dv_offset = 1, dv_size = 1\<rparr>, \<lparr>dv_type_id = 5, dv_offset = 8, dv_size = 4\<rparr>]\<rparr>"

lemma rodata_types:
  "type_by_id rodata_btf 1 = ret (TInt \<lparr>int_name = ''int'', int_bits = 32, int_offset = 0, int_encoding = EncSigned\<rparr>)"
  "type_by_id rodata_btf 2 = ret (TInt \<lparr>int_name = ''bool'', int_bits = 8, int_offset = 0, int_encoding = EncBool\<rparr>)"
  "type_by_id rodata_btf 3 = ret (TVar \<lparr>var_name = ''verbose'', var_type_id = 2, var_linkage = VGlobalAlloc\<rparr>)"
  "type_by_id rodata_btf 4 = ret (TVar \<lparr>var_name = ''local'', var_type_id = 2, var_linkage = VStatic\<rparr>)"
  "type_by_id rodata_btf 5 = ret (TVar \<lparr>var_name = ''target_pid'', var_type_id = 1, var_linkage = VGlobalAlloc\<rparr>)"
  "btf_ptr_size rodata_btf = 8"
  by (simp_all add: type_by_id_def rodata_btf_def)

lemma rodata_facts:
  "align_of True rodata_btf 1 = ret 4" "align_of True rodata_btf 2 = ret 1" "type_declaration True rodata_btf 1 = ret ''i32''"
  "type_declaration True rodata_btf 2 = ret ''bool''" "next_type rodata_btf 1 = ret None" "next_type rodata_btf 2 = ret None"
proof -
  have s: "skip_mods_and_typedefs rodata_btf 1 = ret 1" "skip_mods_and_typedefs rodata_btf 2 = ret 2"
    by (simp_all add: skip_unfold [of rodata_btf 1] skip_unfold [of rodata_btf 2] rodata_types)
  show "align_of True rodata_btf 1 = ret 4" "align_of True rodata_btf 2 = ret 1"
    by (subst align_of.simps, simp add: s rodata_types int_bytes_def checked_def)+
  show "type_declaration True rodata_btf 1 = ret ''i32''" "type_declaration True rodata_btf 2 = ret ''bool''"
    by (subst type_declaration.simps, simp add: s rodata_types int_declaration_def int_bytes_def int_width_def checked_def)+
  show "next_type rodata_btf 1 = ret None" "next_type rodata_btf 2 = ret None"
    by (subst next_type.simps, simp add: rodata_types)+
qed

theorem generated_datasec_layout_witness:
  "list_all2 (\<lambda>d (n, o'). o' = unat (dv_offset d) \<and> map_option var_name (the_var rodata_btf d) = Some n)
     (filter (is_global rodata_btf) (sec_vars rodata_sec))
     (place False (\<lambda>i. if i = 1 then 4 else 1) (\<lambda>i. if i = 1 then 4 else 1) 0
       [PubField ''verbose'' ''bool'' 2, PadField 1 7, PubField ''target_pid'' ''i32'' 1])"
proof -
  have v: "the_var rodata_btf \<lparr>dv_type_id = 3, dv_offset = 0, dv_size = 1\<rparr> = Some \<lparr>var_name = ''verbose'', var_type_id = 2, var_linkage = VGlobalAlloc\<rparr>"
    "the_var rodata_btf \<lparr>dv_type_id = 4, dv_offset = 1, dv_size = 1\<rparr> = Some \<lparr>var_name = ''local'', var_type_id = 2, var_linkage = VStatic\<rparr>"
    "the_var rodata_btf \<lparr>dv_type_id = 5, dv_offset = 8, dv_size = 4\<rparr> = Some \<lparr>var_name = ''target_pid'', var_type_id = 1, var_linkage = VGlobalAlloc\<rparr>"
    by (simp_all add: the_var_def rodata_types) (simp_all add: ret_def)
  have "step_vars True rodata_btf (sec_vars rodata_sec) 0 [] [] =
      ret (12, [PubField ''verbose'' ''bool'' 2, PadField 1 7, PubField ''target_pid'' ''i32'' 1], [])"
    by (simp add: rodata_sec_def rodata_types rodata_facts required_padding_def checked_def)
  moreover have "list_all (var_natural rodata_btf (\<lambda>i. if i = 1 then 4 else 1) (\<lambda>i. if i = 1 then 4 else 1)) (sec_vars rodata_sec)"
    by (simp add: rodata_sec_def var_natural_def v rodata_facts)
  ultimately show ?thesis by (rule generated_datasec_layout)
qed

end
