(* ===== verification/Btf_Format.thy ===== *)
theory Btf_Format
  imports Btf
begin

text \<open>
  The BTF format as the kernel documents it, as an encoder for type records, and the correctness of the
  reader of \<^verbatim>\<open>libbpf-cargo\<close> with respect to it: what was encoded is loaded, record by record and for whole
  sections, and a section that is cut short or has wrong names is an error or a panic but never hangs.
\<close>

section \<open>The format\<close>

text \<open>The second word of a record: kind, flag and number of entries.\<close>

definition info_word :: "u32 \<Rightarrow> bool \<Rightarrow> nat \<Rightarrow> u32" where
  "info_word kind flag vlen = push_bit 24 kind OR (if flag then push_bit 31 1 else 0) OR of_nat vlen"

definition enc_hdr :: "u32 \<Rightarrow> u32 \<Rightarrow> u32 \<Rightarrow> bytes" where
  "enc_hdr name_off info type_id = bytes_of_u32 name_off @ bytes_of_u32 info @ bytes_of_u32 type_id"

fun enc_encoding :: "btf_int_encoding \<Rightarrow> u32" where
  "enc_encoding EncNone = 0" | "enc_encoding EncSigned = 1" | "enc_encoding EncChar = 2" | "enc_encoding EncBool = 4"

fun enc_linkage :: "btf_var_linkage \<Rightarrow> u32" where
  "enc_linkage VStatic = 0" | "enc_linkage VGlobalAlloc = 1" | "enc_linkage VGlobalExtern = 2"

definition has_bitfields :: "btf_member list \<Rightarrow> bool" where
  "has_bitfields ms \<longleftrightarrow> list_ex (\<lambda>m. mem_bit_size m \<noteq> 0) ms"

definition enc_member :: "(string \<Rightarrow> u32) \<Rightarrow> bool \<Rightarrow> btf_member \<Rightarrow> bytes" where
  "enc_member noff flag m = enc_hdr (noff (mem_name m)) (mem_type_id m)
     (if flag then push_bit 24 (ucast (mem_bit_size m)) OR mem_bit_offset m else mem_bit_offset m)"

definition enc_pair :: "(string \<Rightarrow> u32) \<Rightarrow> string \<times> u32 \<Rightarrow> bytes" where
  "enc_pair noff p = bytes_of_u32 (noff (fst p)) @ bytes_of_u32 (snd p)"

definition enc_datasec_var :: "btf_datasec_var \<Rightarrow> bytes" where
  "enc_datasec_var v = enc_hdr (dv_type_id v) (dv_offset v) (dv_size v)"

fun encode_type :: "(string \<Rightarrow> u32) \<Rightarrow> btf_type \<Rightarrow> bytes" where
  "encode_type noff TVoid = []"
| "encode_type noff (TInt i) =
     enc_hdr (noff (int_name i)) (info_word 1 False 0) (ucast (drop_bit 3 (int_bits i))) @
     bytes_of_u32 (push_bit 24 (enc_encoding (int_encoding i)) OR push_bit 16 (ucast (int_offset i)) OR ucast (int_bits i))"
| "encode_type noff (TPtr t) = enc_hdr 0 (info_word 2 False 0) t"
| "encode_type noff (TArray a) =
     enc_hdr 0 (info_word 3 False 0) 0 @ enc_hdr (arr_val_type_id a) (arr_index_type_id a) (arr_nelems a)"
| "encode_type noff (TStruct c) =
     enc_hdr (noff (comp_name c)) (info_word 4 (has_bitfields (comp_members c)) (length (comp_members c))) (comp_size c) @
     concat (map (enc_member noff (has_bitfields (comp_members c))) (comp_members c))"
| "encode_type noff (TUnion c) =
     enc_hdr (noff (comp_name c)) (info_word 5 (has_bitfields (comp_members c)) (length (comp_members c))) (comp_size c) @
     concat (map (enc_member noff (has_bitfields (comp_members c))) (comp_members c))"
| "encode_type noff (TEnum e) =
     enc_hdr (noff (enum_name e)) (info_word 6 False (length (enum_values e))) (enum_size e) @
     concat (map (enc_pair noff) (enum_values e))"
| "encode_type noff (TFwd n k) = enc_hdr (noff n) (info_word 7 (k = FwdUnion) 0) 0"
| "encode_type noff (TTypedef n t) = enc_hdr (noff n) (info_word 8 False 0) t"
| "encode_type noff (TVolatile t) = enc_hdr 0 (info_word 9 False 0) t"
| "encode_type noff (TConst t) = enc_hdr 0 (info_word 10 False 0) t"
| "encode_type noff (TRestrict t) = enc_hdr 0 (info_word 11 False 0) t"
| "encode_type noff (TFunc n t) = enc_hdr (noff n) (info_word 12 False 0) t"
| "encode_type noff (TFuncProto p) =
     enc_hdr 0 (info_word 13 False (length (proto_params p))) (proto_ret_type_id p) @
     concat (map (enc_pair noff) (proto_params p))"
| "encode_type noff (TVar v) =
     enc_hdr (noff (var_name v)) (info_word 14 False 0) (var_type_id v) @ bytes_of_u32 (enc_linkage (var_linkage v))"
| "encode_type noff (TDatasec d) =
     enc_hdr (noff (sec_name d)) (info_word 15 False (length (sec_vars d))) (sec_size d) @
     concat (map enc_datasec_var (sec_vars d))"
| "encode_type noff (TFloat f) = enc_hdr (noff (float_name f)) (info_word 16 False 0) (float_size f)"
| "encode_type noff (TDeclTag n t i) = enc_hdr (noff n) (info_word 17 False 0) t @ bytes_of_u32 i"
| "encode_type noff (TTypeTag n t) = enc_hdr (noff n) (info_word 18 False 0) t"

text \<open>The names of a record, and when a record can be encoded: names in the table, lists that fit the count.\<close>

fun type_names :: "btf_type \<Rightarrow> string list" where
  "type_names (TInt i) = [int_name i]"
| "type_names (TStruct c) = comp_name c # map mem_name (comp_members c)"
| "type_names (TUnion c) = comp_name c # map mem_name (comp_members c)"
| "type_names (TEnum e) = enum_name e # map fst (enum_values e)"
| "type_names (TFwd n k) = [n]"
| "type_names (TTypedef n t) = [n]"
| "type_names (TFunc n t) = [n]"
| "type_names (TFuncProto p) = map fst (proto_params p)"
| "type_names (TVar v) = [var_name v]"
| "type_names (TDatasec d) = [sec_name d]"
| "type_names (TFloat f) = [float_name f]"
| "type_names (TDeclTag n t i) = [n]"
| "type_names (TTypeTag n t) = [n]"
| "type_names _ = []"

definition members_fit :: "btf_member list \<Rightarrow> bool" where
  "members_fit ms \<longleftrightarrow> length ms < 2 ^ 16 \<and> (has_bitfields ms \<longrightarrow> list_all (\<lambda>m. mem_bit_offset m < 2 ^ 24) ms)"

fun fits :: "btf_type \<Rightarrow> bool" where
  "fits TVoid = False"
| "fits (TStruct c) = (comp_is_struct c \<and> members_fit (comp_members c))"
| "fits (TUnion c) = (\<not> comp_is_struct c \<and> members_fit (comp_members c))"
| "fits (TEnum e) = (length (enum_values e) < 2 ^ 16)"
| "fits (TFuncProto p) = (length (proto_params p) < 2 ^ 16)"
| "fits (TDatasec d) = (length (sec_vars d) < 2 ^ 16)"
| "fits _ = True"

definition encodable :: "bytes \<Rightarrow> (string \<Rightarrow> u32) \<Rightarrow> btf_type \<Rightarrow> bool" where
  "encodable tab noff t \<longleftrightarrow> fits t \<and> list_all (\<lambda>n. get_btf_str tab (noff n) = ret n) (type_names t)"

text \<open>The numbering of unnamed types.\<close>

definition number_name :: "u32 \<Rightarrow> string \<Rightarrow> string \<times> u32" where
  "number_name anon n = (if n = [] then (ANON_PREFIX @ dec (unat (anon + 1)), anon + 1) else (n, anon))"

fun number_type :: "u32 \<Rightarrow> btf_type \<Rightarrow> btf_type \<times> u32" where
  "number_type anon (TStruct c) = (case number_name anon (comp_name c) of (n, a) \<Rightarrow> (TStruct (c\<lparr>comp_name := n\<rparr>), a))"
| "number_type anon (TUnion c) = (case number_name anon (comp_name c) of (n, a) \<Rightarrow> (TUnion (c\<lparr>comp_name := n\<rparr>), a))"
| "number_type anon (TEnum e) = (case number_name anon (enum_name e) of (n, a) \<Rightarrow> (TEnum (e\<lparr>enum_name := n\<rparr>), a))"
| "number_type anon t = (t, anon)"

fun number_types :: "u32 \<Rightarrow> btf_type list \<Rightarrow> btf_type list \<times> u32" where
  "number_types anon [] = ([], anon)"
| "number_types anon (t # ts) =
     (case number_type anon t of (t', a) \<Rightarrow> case number_types a ts of (ts', a') \<Rightarrow> (t' # ts', a'))"

section \<open>Words and sequences\<close>

lemma take_bit_small:
  fixes w :: "'a::len word"
  assumes "unat w < 2 ^ n"
  shows "take_bit n w = w"
proof -
  have "unat (take_bit n w) = take_bit n (unat w)" by (rule unsigned_take_bit_eq)
  also have "\<dots> = unat w" by (rule take_bit_nat_eq_self [OF assms])
  finally show ?thesis by (simp only: word_unat_eq_iff)
qed

lemma bit_small: "unat (w :: u32) < 2 ^ n \<Longrightarrow> bit w i \<Longrightarrow> i < n"
  using take_bit_small [of w n] by (metis bit_take_bit_iff)

lemma pread_bytes: "pread_u32 (pre @ bytes_of_u32 w @ post) (length pre) = ret w"
  using le32_bytes [of w] by (simp add: pread_u32_def bytes_of_u32_def nth_append)

lemma pread_bytes0: "pread_u32 (bytes_of_u32 w @ post) 0 = ret w"
  using pread_bytes [of "[]" w post] by simp

lemma pread2_bytes: "pread2 (pre @ bytes_of_u32 a @ bytes_of_u32 b @ post) (length pre) = ret (a, b)"
  using pread_bytes [of pre a "bytes_of_u32 b @ post"] pread_bytes [of "pre @ bytes_of_u32 a" b post]
  by (simp add: pread2_def)

lemma pread3_hdr: "pread3 (pre @ enc_hdr a b c @ post) (length pre) = ret (a, b, c)"
  using pread_bytes [of pre a "bytes_of_u32 b @ bytes_of_u32 c @ post"] pread2_bytes [of "pre @ bytes_of_u32 a" b c post]
  by (simp add: pread3_def enc_hdr_def)

lemma pread3_hdr0: "pread3 (enc_hdr a b c @ post) 0 = ret (a, b, c)"
  using pread3_hdr [of "[]"] by simp

lemma length_enc_hdr [simp]: "length (enc_hdr a b c) = 12"
  by (simp add: enc_hdr_def)

lemma mask_ffff: "(0xffff :: u32) = mask 16" and mask_1f: "(0x1f :: u32) = mask 5" and mask_ffffff: "(0xffffff :: u32) = mask 24"
  and mask_f: "(0xf :: u32) = mask 4" and mask_ff: "(0xff :: u32) = mask 8"
  by (simp_all add: mask_eq_exp_minus_1)

lemma bit_flag: "bit (if f then push_bit 31 1 else 0 :: u32) n \<longleftrightarrow> f \<and> n = 31"
  by (simp only: bit_simps split: if_splits) auto

lemma bit_small5: "unat (k :: u32) < 32 \<Longrightarrow> bit k i \<Longrightarrow> i < 5"
  using bit_small [of k 5 i] by simp

lemma bit_info_word:
  assumes "unat k < 32" and "v < 65536"
  shows "bit (info_word k f v) n \<longleftrightarrow> (24 \<le> n \<and> bit k (n - 24)) \<or> (f \<and> n = 31) \<or> bit (of_nat v :: u32) n"
proof -
  have "24 \<le> n \<and> bit k (n - 24) \<Longrightarrow> n < 32" using bit_small5 [OF assms(1), of "n - 24"] by linarith
  then show ?thesis unfolding info_word_def bit_or_iff bit_flag bit_push_bit_iff by auto
qed

lemma bit_vlen: "v < 65536 \<Longrightarrow> bit (of_nat v :: u32) n \<Longrightarrow> n < 16"
proof (rule bit_small [of "of_nat v"])
  assume "v < 65536"
  then show "unat (of_nat v :: u32) < 2 ^ 16" by (simp add: unat_of_nat take_bit_nat_eq_self)
qed

lemma info_word_vlen: "unat k < 32 \<Longrightarrow> v < 65536 \<Longrightarrow> get_vlen (info_word k f v) = of_nat v"
  unfolding get_vlen_def mask_ffff
  by (rule bit_word_eqI, simp only: bit_and_iff bit_mask_iff bit_info_word) (auto dest: bit_vlen)

lemma info_word_kind: "unat k < 32 \<Longrightarrow> v < 65536 \<Longrightarrow> get_kind (info_word k f v) = k"
  unfolding get_kind_def mask_1f
  by (rule bit_word_eqI, simp only: bit_and_iff bit_mask_iff bit_drop_bit_eq comp_def bit_info_word)
    (auto dest: bit_vlen bit_small5)

lemma info_word_flag: "unat k < 32 \<Longrightarrow> v < 65536 \<Longrightarrow> get_kind_flag (info_word k f v) = f"
proof -
  assume a: "unat k < 32" "v < 65536"
  have "drop_bit 31 (info_word k f v) = (if f then 1 else 0)"
    by (rule bit_word_eqI, simp only: bit_drop_bit_eq comp_def bit_info_word [OF a])
      (auto simp: bit_1_iff dest: bit_vlen [OF a(2)] bit_small5 [OF a(1)])
  then show ?thesis by (simp add: get_kind_flag_def)
qed

section \<open>Loading what was encoded\<close>

lemma load_seq_concat:
  assumes "\<And>x pre post. x \<in> set xs \<Longrightarrow> entry (pre @ enc x @ post) (length pre) = ret x"
    and "\<And>x. x \<in> set xs \<Longrightarrow> length (enc x) = sz"
  shows "load_seq (entry (pre @ concat (map enc xs) @ post)) sz (length pre) (length xs) = ret xs"
  using assms
proof (induction xs arbitrary: pre)
  case (Cons x xs)
  have "load_seq (entry ((pre @ enc x) @ concat (map enc xs) @ post)) sz (length (pre @ enc x)) (length xs) = ret xs"
    by (rule Cons.IH) (use Cons.prems in auto)
  moreover have "entry (pre @ enc x @ concat (map enc xs) @ post) (length pre) = ret x"
    using Cons.prems(1) by simp
  ultimately show ?case using Cons.prems(2) by simp
qed simp

lemmas load_seq_concat0 = load_seq_concat [where pre = "[]", simplified]

lemma load_pairs:
  assumes "list_all (\<lambda>p. get_btf_str tab (noff (fst p)) = ret (fst p)) ps"
  shows "load_seq (\<lambda>off. rbind (pread2 (concat (map (enc_pair noff) ps) @ post) off)
      (\<lambda>(n, v). rbind (get_btf_str tab n) (\<lambda>s. ret (s, v)))) 8 0 (length ps) = ret ps"
  by (rule load_seq_concat0 [where entry = "\<lambda>e off. rbind (pread2 e off) (\<lambda>(n, v). rbind (get_btf_str tab n) (\<lambda>s. ret (s, v)))"])
    (use assms in \<open>auto simp: enc_pair_def pread2_bytes list_all_iff\<close>)

lemma load_datasec_vars:
  "load_seq (\<lambda>off. rbind (pread3 (concat (map enc_datasec_var vs) @ post) off)
      (\<lambda>(ty, o', sz). ret \<lparr>dv_type_id = ty, dv_offset = o', dv_size = sz\<rparr>)) 12 0 (length vs) = ret vs"
  by (rule load_seq_concat0 [where entry = "\<lambda>e off. rbind (pread3 e off) (\<lambda>(ty, o', sz). ret \<lparr>dv_type_id = ty, dv_offset = o', dv_size = sz\<rparr>)"])
    (auto simp: enc_datasec_var_def pread3_hdr)

text \<open>A member with its bit-field part, packed into one word and taken apart again.\<close>

lemma bitfield_word:
  assumes "unat (off :: u32) < 2 ^ 24"
  shows "(push_bit 24 (ucast (sz :: u8)) OR off) AND 0xffffff = off"
    and "ucast (drop_bit 24 (push_bit 24 (ucast sz) OR off)) = sz"
proof -
  show "(push_bit 24 (ucast sz) OR off) AND 0xffffff = off"
    unfolding mask_ffffff
    by (rule bit_word_eqI, simp only: bit_and_iff bit_or_iff bit_mask_iff bit_push_bit_iff)
      (auto dest: bit_small [OF assms])
  show "ucast (drop_bit 24 (push_bit 24 (ucast sz) OR off)) = sz"
    by (rule bit_word_eqI, simp only: bit_ucast_iff bit_drop_bit_eq bit_or_iff bit_push_bit_iff comp_def)
      (auto simp: bit_simps dest: bit_small [OF assms])
qed

lemma load_members_encoded:
  assumes "members_fit ms" and "list_all (\<lambda>n. get_btf_str tab (noff n) = ret n) (map mem_name ms)" and "unat k < 32"
  shows "load_members tab (info_word k (has_bitfields ms) (length ms)) (concat (map (enc_member noff (has_bitfields ms)) ms) @ post) = ret ms"
proof -
  let ?f = "has_bitfields ms" and ?i = "info_word k (has_bitfields ms) (length ms)"
  have len: "length ms < 65536" using assms(1) by (simp add: members_fit_def)
  have vlen: "unat (get_vlen ?i) = length ms"
    using len by (simp add: info_word_vlen [OF assms(3) len] unat_of_nat take_bit_nat_eq_self)
  have flag: "get_kind_flag ?i = ?f" by (rule info_word_flag [OF assms(3) len])
  let ?entry = "\<lambda>extra off. rbind (pread3 extra off) (\<lambda>(name_off, type_id, offset). rbind (get_btf_str tab name_off) (\<lambda>name.
      ret \<lparr>mem_name = name, mem_type_id = type_id, mem_bit_offset = (if ?f then offset AND 0xffffff else offset),
           mem_bit_size = (if ?f then ucast (drop_bit 24 offset) else 0)\<rparr>))"
  have "?entry (pre @ enc_member noff ?f m @ post) (length pre) = ret m" if "m \<in> set ms" for m pre post
  proof -
    have n: "get_btf_str tab (noff (mem_name m)) = ret (mem_name m)" using that assms(2) by (simp add: list_all_iff)
    show ?thesis
    proof (cases ?f)
      case True
      then have "mem_bit_offset m < 2 ^ 24" using assms(1) that by (simp add: members_fit_def list_all_iff)
      then have "unat (mem_bit_offset m) < 2 ^ 24" by (simp add: word_less_nat_alt)
      from bitfield_word [OF this] show ?thesis using True n by (simp add: enc_member_def pread3_hdr)
    next
      case False
      then have "mem_bit_size m = 0" using that by (simp add: has_bitfields_def list_ex_iff)
      with False n show ?thesis by (simp add: enc_member_def pread3_hdr)
    qed
  qed
  then have "load_seq (?entry (concat (map (enc_member noff ?f) ms) @ post)) 12 0 (length ms) = ret ms"
    by (rule load_seq_concat0 [where entry = ?entry]) (simp_all add: enc_member_def)
  then show ?thesis by (simp only: load_members_def vlen flag)
qed

lemma kind_numbers:
  "kind_try_from 1 = ret KInt" "kind_try_from 2 = ret KPtr" "kind_try_from 3 = ret KArray" "kind_try_from 4 = ret KStruct"
  "kind_try_from 5 = ret KUnion" "kind_try_from 6 = ret KEnum" "kind_try_from 7 = ret KFwd" "kind_try_from 8 = ret KTypedef"
  "kind_try_from 9 = ret KVolatile" "kind_try_from 10 = ret KConst" "kind_try_from 11 = ret KRestrict" "kind_try_from 12 = ret KFunc"
  "kind_try_from 13 = ret KFuncProto" "kind_try_from 14 = ret KVar" "kind_try_from 15 = ret KDatasec" "kind_try_from 16 = ret KFloat"
  "kind_try_from 17 = ret KDeclTag" "kind_try_from 18 = ret KTypeTag"
  by (simp_all add: kind_try_from_def BTF_KINDS_def)

lemma int_word:
  fixes e :: u32 and bits off :: u8
  assumes "unat e < 16"
  defines "w \<equiv> push_bit 24 e OR push_bit 16 (ucast off) OR ucast bits"
  shows "ucast (drop_bit 24 w AND 0xf) = (ucast e :: u8)" and "ucast (drop_bit 16 w AND 0xff) = off" and "ucast (w AND 0xff) = bits"
proof -
  have e: "bit e i \<Longrightarrow> i < 4" for i using bit_small [of e 4] assms(1) by simp
  note b = bit_ucast_iff bit_drop_bit_eq bit_or_iff bit_and_iff bit_mask_iff bit_push_bit_iff comp_def
  show "ucast (drop_bit 24 w AND 0xf) = (ucast e :: u8)" "ucast (drop_bit 16 w AND 0xff) = off" "ucast (w AND 0xff) = bits"
    unfolding w_def mask_f mask_ff
    by (rule bit_word_eqI, simp only: b, auto simp: bit_simps bit_u8_high dest: e)+
qed

lemma enc_encoding_inverse: "unat (enc_encoding e) < 16" "encoding_try_from (ucast (enc_encoding e)) = ret e"
  by (cases e; simp add: encoding_try_from_def)+

lemma enc_linkage_inverse: "linkage_try_from (enc_linkage l) = ret l"
  by (cases l) (simp_all add: linkage_try_from_def)

lemma load_int_encoded:
  "get_btf_str tab n = ret (int_name i) \<Longrightarrow>
   load_int tab n (bytes_of_u32 (push_bit 24 (enc_encoding (int_encoding i)) OR push_bit 16 (ucast (int_offset i)) OR ucast (int_bits i)) @ r) =
     ret (TInt i)"
  by (simp only: load_int_def pread_bytes0 rbind_simps int_word [OF enc_encoding_inverse(1)] enc_encoding_inverse(2) Let_def) simp

lemma load_type_hdr:
  assumes "unat k < 32" and "v < 65536"
  shows "pread3 (enc_hdr n (info_word k f v) ty @ r) 0 = ret (n, info_word k f v, ty)"
    and "drop 12 (enc_hdr n (info_word k f v) ty @ r) = r"
    and "kind_try_from (get_kind (info_word k f v)) = kind_try_from k"
    and "get_kind_flag (info_word k f v) = f"
    and "unat (get_vlen (info_word k f v)) = v"
  using assms by (simp_all add: pread3_hdr0 info_word_kind info_word_flag info_word_vlen unat_of_nat take_bit_nat_eq_self)

lemmas load_type_enc = load_type_def load_type_hdr kind_numbers keep_def Let_def

lemma load_composite_encoded:
  assumes "members_fit (comp_members c)" and "list_all (\<lambda>n. get_btf_str tab (noff n) = ret n) (comp_name c # map mem_name (comp_members c))"
    and "unat k < 32" and "comp_is_struct c = b"
  shows "load_composite b tab anon (noff (comp_name c), info_word k (has_bitfields (comp_members c)) (length (comp_members c)), comp_size c)
      (concat (map (enc_member noff (has_bitfields (comp_members c))) (comp_members c)) @ r) =
    (case number_name anon (comp_name c) of (n, a) \<Rightarrow> ret (c\<lparr>comp_name := n\<rparr>, a))"
  using load_members_encoded [OF assms(1) _ assms(3), of tab noff r] assms(2,4)
  by (simp add: load_composite_def composite_name_def number_name_def)

lemma load_type_encoded:
  assumes "encodable tab noff t"
  shows "load_type tab anon (encode_type noff t @ r) = ret (number_type anon t)"
proof (cases t)
  case (TStruct c)
  then have "load_composite True tab anon (noff (comp_name c), info_word 4 (has_bitfields (comp_members c)) (length (comp_members c)), comp_size c)
      (concat (map (enc_member noff (has_bitfields (comp_members c))) (comp_members c)) @ r) =
    (case number_name anon (comp_name c) of (n, a) \<Rightarrow> ret (c\<lparr>comp_name := n\<rparr>, a))"
    using assms by (intro load_composite_encoded) (auto simp: encodable_def)
  then show ?thesis using assms TStruct by (simp add: load_type_enc encodable_def members_fit_def split: prod.splits)
next
  case (TUnion c)
  then have "load_composite False tab anon (noff (comp_name c), info_word 5 (has_bitfields (comp_members c)) (length (comp_members c)), comp_size c)
      (concat (map (enc_member noff (has_bitfields (comp_members c))) (comp_members c)) @ r) =
    (case number_name anon (comp_name c) of (n, a) \<Rightarrow> ret (c\<lparr>comp_name := n\<rparr>, a))"
    using assms by (intro load_composite_encoded) (auto simp: encodable_def)
  then show ?thesis using assms TUnion by (simp add: load_type_enc encodable_def members_fit_def split: prod.splits)
next
  case (TEnum e)
  then show ?thesis using assms load_pairs [of tab noff "enum_values e" r]
    by (simp add: load_type_enc encodable_def load_enum_def composite_name_def number_name_def list_all_iff)
next
  case (TFuncProto p)
  then show ?thesis using assms load_pairs [of tab noff "proto_params p" r]
    by (simp add: load_type_enc encodable_def load_func_proto_def list_all_iff)
next
  case (TDatasec d)
  then show ?thesis using assms load_datasec_vars [of "sec_vars d" r]
    by (simp add: load_type_enc encodable_def load_datasec_def)
next
  case (TFwd n k)
  then show ?thesis using assms by (cases k) (simp_all add: load_type_enc encodable_def)
qed (use assms in \<open>simp_all add: load_type_enc encodable_def load_int_encoded load_array_def pread3_hdr0 load_var_def pread_bytes0
    enc_linkage_inverse load_decl_tag_def\<close>)

lemma length_concat_const: "(\<And>x. x \<in> set xs \<Longrightarrow> length (f x) = k) \<Longrightarrow> length (concat (map f xs)) = length xs * k"
  by (induction xs) auto

lemma type_size_number: "type_size (fst (number_type anon t)) = type_size t"
  by (cases t) (auto split: prod.splits)

lemma type_size_encoded: "fits t \<Longrightarrow> type_size t = length (encode_type noff t)"
  by (cases t) (simp_all add: length_concat_const [where k = 12] length_concat_const [where k = 8] enc_member_def enc_pair_def enc_datasec_var_def)

lemma load_types_encoded:
  assumes "list_all (encodable tab noff) ts"
  shows "load_types tab (pre @ concat (map (encode_type noff) ts)) (length pre) anon acc =
    (case number_types anon ts of (ts', a) \<Rightarrow> ret (acc @ ts', a))"
  using assms
proof (induction ts arbitrary: pre anon acc)
  case Nil
  show ?case by (subst load_types.simps) simp
next
  case (Cons t ts)
  obtain t' a where n: "number_type anon t = (t', a)" by fastforce
  have size: "type_size t' = length (encode_type noff t)"
    using type_size_number [of anon t] type_size_encoded [of t noff] Cons.prems n by (simp add: encodable_def)
  have pos: "0 < length (encode_type noff t)"
    using Cons.prems type_size_encoded [of t noff] by (cases t) (auto simp: encodable_def)
  have "load_type tab anon (drop (length pre) (pre @ concat (map (encode_type noff) (t # ts)))) = ret (t', a)"
    using load_type_encoded [of tab noff t anon] Cons.prems n by simp
  then have "load_types tab (pre @ concat (map (encode_type noff) (t # ts))) (length pre) anon acc =
      load_types tab ((pre @ encode_type noff t) @ concat (map (encode_type noff) ts)) (length (pre @ encode_type noff t)) a (acc @ [t'])"
    using pos by (subst load_types.simps) (simp add: size)
  also have "\<dots> = (case number_types a ts of (ts', a') \<Rightarrow> ret ((acc @ [t']) @ ts', a'))"
    using Cons.prems by (intro Cons.IH) simp
  finally show ?case by (simp add: n split: prod.splits)
qed

section \<open>Reading never leaves the section\<close>

lemma get_btf_str_returns: "tab = [] \<or> last tab = 0 \<Longrightarrow> returns (get_btf_str tab off)"
proof -
  assume "tab = [] \<or> last tab = 0"
  then have "unat off < length tab \<Longrightarrow> 0 \<in> set (drop (unat off) tab)"
    by (metis drop_eq_Nil last_drop last_in_set length_0_conv not_less not_less_zero)
  then show ?thesis by (auto simp: get_btf_str_def Let_def)
qed

lemma pread_returns [simp]: "returns (pread_u32 bs off)" "returns (pread2 bs off)" "returns (pread3 bs off)"
proof -
  show u: "returns (pread_u32 bs off)" for bs off by (simp add: pread_u32_def)
  then show p2: "returns (pread2 bs off)" for bs off by (auto simp: pread2_def intro!: rbind_returns)
  show "returns (pread3 bs off)" using u p2 by (auto simp: pread3_def intro!: rbind_returns split: prod.splits)
qed

lemma try_from_returns [simp]: "returns (kind_try_from k)" "returns (encoding_try_from e)" "returns (linkage_try_from l)"
  by (simp_all add: kind_try_from_def encoding_try_from_def linkage_try_from_def)

lemma load_seq_returns: "(\<And>o'. returns (entry o')) \<Longrightarrow> returns (load_seq entry sz off n)"
  by (induction n arbitrary: off) (auto intro!: rbind_returns)

lemma load_type_returns:
  assumes "tab = [] \<or> last tab = 0"
  shows "returns (load_type tab anon data)"
proof -
  note s = get_btf_str_returns [OF assms]
  have ms: "returns (load_members tab info extra)" for info extra
    unfolding load_members_def by (intro load_seq_returns) (auto intro!: rbind_returns s)
  have "returns (load_composite b tab anon t extra)" "returns (load_enum tab anon t extra)" "returns (load_func_proto tab t extra)"
    "returns (load_var tab t extra)" "returns (load_datasec tab t extra)" "returns (load_decl_tag tab t extra)"
    "returns (load_int tab n extra)" "returns (load_array extra)" for b t extra n
    unfolding load_composite_def load_enum_def load_func_proto_def load_var_def load_datasec_def load_decl_tag_def load_int_def
      load_array_def composite_name_def
    by (auto intro!: rbind_returns load_seq_returns s ms simp: Let_def split: prod.splits)
  then show ?thesis
    unfolding load_type_def keep_def by (auto intro!: rbind_returns s simp: Let_def split: prod.splits btf_kind.splits)
qed

lemma load_types_returns: "tab = [] \<or> last tab = 0 \<Longrightarrow> returns (load_types tab d off anon acc)"
proof (induction tab d off anon acc rule: load_types.induct)
  case (1 tab d off anon acc)
  show ?case
  proof (subst load_types.simps, cases "off < length d")
    case True
    then show "returns (if off < length d
        then rbind (load_type tab anon (drop off d)) (\<lambda>r. load_types tab d (off + type_size (fst r)) (snd r) (acc @ [fst r]))
        else ret (acc, anon))"
      using 1 by (auto intro!: rbind_returns load_type_returns)
  qed simp
qed

section \<open>Properties\<close>

text \<open>A section: the header, the records, the string table.\<close>

definition btf_section :: "(string \<Rightarrow> u32) \<Rightarrow> bytes \<Rightarrow> btf_type list \<Rightarrow> bytes" where
  "btf_section noff tab ts =
     (let types = concat (map (encode_type noff) ts) in
      [0x9F, 0xEB, 1, 0] @ bytes_of_u32 24 @ bytes_of_u32 0 @ bytes_of_u32 (of_nat (length types)) @
      bytes_of_u32 (of_nat (length types)) @ bytes_of_u32 (of_nat (length tab)) @ types @ tab)"

text \<open>C8: the BTF reader inverts the format. Any list of records that the format can hold, with names from the string
  table, encoded as a section, is read back as exactly these records behind the reserved \<^verbatim>\<open>void\<close>, with unnamed
  structures, unions and enumerations numbered in order, whether or not overflow checks are on.\<close>

theorem btf_section_loaded:
  assumes "list_all (encodable tab noff) ts"
    and "24 + length (concat (map (encode_type noff) ts)) + length tab < 2 ^ 32"
  shows "btf_parse chk ptr_size (btf_section noff tab ts) =
    ret \<lparr>btf_types = TVoid # fst (number_types 0 ts), btf_ptr_size = ptr_size, btf_string_table = tab,
         btf_anon_count = snd (number_types 0 ts)\<rparr>"
proof -
  let ?types = "concat (map (encode_type noff) ts)" and ?d = "btf_section noff tab ts"
  let ?tl = "of_nat (length ?types) :: u32" and ?sl = "of_nat (length tab) :: u32"
  let ?h = "[0x9F, 0xEB, 1, 0] :: bytes"
  have d: "?d = ?h @ bytes_of_u32 24 @ bytes_of_u32 0 @ bytes_of_u32 ?tl @ bytes_of_u32 ?tl @ bytes_of_u32 ?sl @ ?types @ tab"
    by (simp add: btf_section_def Let_def)
  have u: "unat ?tl = length ?types" "unat ?sl = length tab" "unat (of_nat (24 + length ?types) :: u32) = 24 + length ?types"
    using assms(2) by (simp_all only: unat_of_nat) (simp_all add: take_bit_nat_eq_self)
  have hl: "pread_u32 ?d 4 = ret 24"
    using pread_bytes [of ?h 24] unfolding d by (simp add: eval_nat_numeral)
  have t: "pread2 ?d 8 = ret (0, ?tl)"
    using pread2_bytes [of "?h @ bytes_of_u32 24" 0 ?tl] unfolding d by simp
  have st: "pread2 ?d 16 = ret (?tl, ?sl)"
    using pread2_bytes [of "?h @ bytes_of_u32 24 @ bytes_of_u32 0 @ bytes_of_u32 ?tl" ?tl ?sl] unfolding d by simp
  have first: "?d ! 0 = 0x9F" "?d ! Suc 0 = 0xEB" "?d ! 2 = 1" unfolding d by simp_all
  have magic: "le16 0x9F 0xEB = BTF_MAGIC" by code_simp
  have len: "length ?d = 24 + length ?types + length tab" unfolding d by simp
  let ?pre = "?h @ bytes_of_u32 24 @ bytes_of_u32 0 @ bytes_of_u32 ?tl @ bytes_of_u32 ?tl @ bytes_of_u32 ?sl"
  have "drop 24 ?d = ?types @ tab" using append_eq_conv_conj [of ?pre "?types @ tab" ?d] unfolding d by simp
  then have dr: "drop (24 + n) ?d = drop n (?types @ tab)" for n by (metis add.commute drop_drop)
  have tab: "slice ?d (24 + length ?types) (length tab) = tab" by (simp add: slice_def dr)
  have types: "slice ?d 24 (length ?types) = ?types" using dr [of 0] by (simp add: slice_def)
  have c: "(checked chk (24 + length ?types) :: u32 run) = ret (of_nat (24 + length ?types))" "(checked chk 24 :: u32 run) = ret 24"
    using assms(2) by (simp_all add: checked_def)
  have l: "load_types tab ?types 0 0 [TVoid] = (case number_types 0 ts of (ts', a) \<Rightarrow> ret (TVoid # ts', a))"
    using load_types_encoded [OF assms(1), of "[]"] by simp
  show ?thesis
    unfolding btf_parse_def
    by (simp add: len hl t st first magic BTF_VERSION_def u c tab types l Let_def del: of_nat_add split: prod.splits)
qed

text \<open>A table with the names of a structure with an unnamed union.\<close>

definition sample_noff :: "string \<Rightarrow> u32" where
  "sample_noff n = (if n = [] then 0 else if n = ''event'' then 1 else 7)"

definition sample_tab :: bytes where
  "sample_tab = 0 # as_bytes ''event'' @ 0 # as_bytes ''ip'' @ [0]"

definition sample_types :: "btf_type list" where
  "sample_types =
     [TInt \<lparr>int_name = ''ip'', int_bits = 32, int_offset = 0, int_encoding = EncNone\<rparr>,
      TUnion \<lparr>comp_name = [], comp_is_struct = False, comp_size = 4,
        comp_members = [\<lparr>mem_name = ''ip'', mem_type_id = 1, mem_bit_offset = 0, mem_bit_size = 0\<rparr>]\<rparr>,
      TStruct \<lparr>comp_name = ''event'', comp_is_struct = True, comp_size = 4,
        comp_members = [\<lparr>mem_name = [], mem_type_id = 2, mem_bit_offset = 0, mem_bit_size = 0\<rparr>]\<rparr>]"

theorem btf_section_loaded_witness:
  "btf_parse True 8 (btf_section sample_noff sample_tab sample_types) =
     ret \<lparr>btf_types = TVoid # fst (number_types 0 sample_types), btf_ptr_size = 8, btf_string_table = sample_tab, btf_anon_count = 1\<rparr>"
proof -
  have "get_btf_str sample_tab (sample_noff []) = ret []" "get_btf_str sample_tab (sample_noff ''event'') = ret ''event''"
    "get_btf_str sample_tab (sample_noff ''ip'') = ret ''ip''" by code_simp+
  then have "list_all (encodable sample_tab sample_noff) sample_types"
    by (simp add: sample_types_def encodable_def members_fit_def has_bitfields_def)
  moreover have "length (concat (map (encode_type sample_noff) sample_types)) = 64"
    by (simp add: sample_types_def enc_member_def)
  moreover have "length sample_tab = 10" by (simp add: sample_tab_def as_bytes_def)
  moreover have "snd (number_types 0 sample_types) = 1" by code_simp
  ultimately show ?thesis using btf_section_loaded [of sample_tab sample_noff sample_types True 8] by simp
qed

text \<open>The string table a section describes.\<close>

definition string_table_of :: "bool \<Rightarrow> bytes \<Rightarrow> bytes run" where
  "string_table_of chk data =
     rbind (pread_u32 data 4) (\<lambda>hdr_len. rbind (pread2 data 16) (\<lambda>(str_off, str_len).
     rbind (checked chk (unat hdr_len + unat str_off) :: u32 run) (\<lambda>str_at.
     ensure (unat str_at + unat str_len \<le> length data) (ret (slice data (unat str_at) (unat str_len))))))"

text \<open>C9: reading ends and stays inside the section. For any bytes, whatever kinds, counts, offsets and lengths they
  claim, the reader returns, with the types, an error or a panic, as long as the string table the header
  describes ends with a NUL, which libbpf checks.\<close>

theorem btf_parse_returns:
  assumes "\<And>tab. string_table_of chk data = ret tab \<Longrightarrow> tab = [] \<or> last tab = 0"
  shows "returns (btf_parse chk ptr_size data)"
proof -
  have "returns (load_types tab d 0 0 [TVoid])"
    if "pread_u32 data 4 = ret hl" "pread2 data 16 = ret (so, sl)" "(checked chk (unat hl + unat so) :: u32 run) = ret sa"
      "unat sa + unat sl \<le> length data" "tab = slice data (unat sa) (unat sl)" for hl so sl sa tab d
    using assms [of tab] that by (intro load_types_returns) (auto simp: string_table_of_def)
  then show ?thesis
    unfolding btf_parse_def by (auto intro!: ensure_returns rbind_returns simp: Let_def split: prod.splits)
qed

definition tiny_section :: bytes where
  "tiny_section = [0x9F, 0xEB, 1, 0, 24, 0, 0, 0, 0, 0, 0, 0, 0, 0, 0, 0, 0, 0, 0, 0, 1, 0, 0, 0, 0]"

theorem btf_parse_returns_witness: "returns (btf_parse True 8 tiny_section)"
proof (rule btf_parse_returns)
  have "le32 0 0 0 0 = 0" "le32 24 0 0 0 = 24" "le32 1 0 0 0 = 1" by code_simp+
  then have "string_table_of True tiny_section = ret [0]"
    by (simp add: string_table_of_def tiny_section_def pread_u32_def pread2_def checked_def slice_def)
  then show "string_table_of True tiny_section = ret tab \<Longrightarrow> tab = [] \<or> last tab = 0" for tab by auto
qed

end
