(* ===== verification/Spec2Isabelle.thy ===== *)
theory Spec2Isabelle
  imports Pod_Resize_Events Front_Ends Tracecon_Main Profile_Main Bpf_Query Monitoring Capable_Race Probes Loaders Abi
    Libbpf_Object Btf_Layout Btf_Format
begin

text \<open>
  A verification development for the eBPF playground: the eBPF programs of the repository, written in
  C, the C and Rust programs that load them, and the Rust libraries between the two.

  \<^bold>\<open>The program.\<close> The repository holds a collection of tracing and networking programs. Each consists of
  a BPF part that the kernel runs on an event (a tracepoint, a probe, a packet, a timer), which keeps
  its state in maps and sends samples through perf or ring buffers, and of a user-space part that
  opens, loads and attaches it, sets its parameters and prints its samples. Several programs come with a
  generated kernel header (\<^verbatim>\<open>vmlinux.h\<close>). The Rust programs use \<^verbatim>\<open>libbpf-rs\<close>, a library around the C library libbpf, and
  \<^verbatim>\<open>libbpf-cargo\<close>, which reads the type information (BTF) of a compiled BPF program and generates Rust code for its maps,
  sections and structures.

  \<^bold>\<open>Theories.\<close>
  \<^item> \<^verbatim>\<open>Prelude\<close>: machine words, byte order, process ids, C strings, decimal notation, trace lines.
  \<^item> \<^verbatim>\<open>Bpf_Helpers\<close>: the kernel helpers as interfaces. The kernel is not part of the repository: maps, ring
    buffers and perf buffers are records of operations, passed to every handler, with the documented
    behaviour as the assumptions of the locales \<open>bpf_map\<close>, \<open>bpf_hash_map\<close>, \<open>bpf_array_map\<close>, \<open>bpf_ringbuf\<close> and
    \<open>bpf_perf\<close>, and an executable instance of each. \<open>event_source\<close> is the contract of a tracer, with what
    follows for runs of any length.
  \<^item> \<^verbatim>\<open>Layout\<close>: size, alignment and member offsets of C declarations, bit-fields and anonymous members
    included. \<^verbatim>\<open>Vmlinux_508\<close>, \<^verbatim>\<open>Vmlinux_515\<close>, \<^verbatim>\<open>Vmlinux_516\<close>, \<^verbatim>\<open>Vmlinux_pod\<close>, \<^verbatim>\<open>Vmlinux_cargo\<close>: the declarations of
    the five kernel headers that the programs use, with everything they embed, and the enumerations of
    the BPF interface.
  \<^item> \<^verbatim>\<open>Podsnoop\<close>: \<^verbatim>\<open>podsnoop.bpf.c\<close> and \<^verbatim>\<open>podsnoop.h\<close> of \<^verbatim>\<open>ebpf-pod-resize-libbpf-co-re\<close>, and the map update of
    \<^verbatim>\<open>main.rs\<close>. \<^verbatim>\<open>Rust_Std\<close>, \<^verbatim>\<open>Pod_Resize\<close>: the controller, \<^verbatim>\<open>main.rs\<close>, with what it uses of the Rust standard
    library: the watch over the pods, the event callbacks, the perf thread, start-up. A call yields its
    output and the scripts it starts, the new map, and \<open>Ok\<close>, \<open>Err\<close> or \<open>Panic\<close>. The JSON library, the
    Kubernetes client and the processes it starts are the fields of a record \<open>host\<close>.
    \<^verbatim>\<open>Pod_Resize_Events\<close>: the events between the two (locale \<open>plain_copy\<close>), and the tool as a whole.
  \<^item> \<^verbatim>\<open>Packet\<close>: direct packet access, where a load outside the packet has no result. \<^verbatim>\<open>Netprogs\<close>:
    \<^verbatim>\<open>bpf_network_stats.c\<close> of \<^verbatim>\<open>ebpf-pod-network-stats\<close>, \<^verbatim>\<open>tc_ingress.c\<close> and \<^verbatim>\<open>xdp_ingress.c\<close> of \<^verbatim>\<open>tc-vs-xdp-perf\<close>,
    \<^verbatim>\<open>tc.bpf.c\<close>, \<^verbatim>\<open>tc-unit.bpf.c\<close> and \<^verbatim>\<open>xdppass.bpf.c\<close>. \<^verbatim>\<open>Port_Whitelist\<close>: \<^verbatim>\<open>tc_port_whitelist/src/bpf/tc.bpf.c\<close>.
  \<^item> \<^verbatim>\<open>Bootstrap\<close>, \<^verbatim>\<open>Runqslower\<close>, \<^verbatim>\<open>Capable\<close>, \<^verbatim>\<open>Tracecon\<close>: the stateful tracers \<^verbatim>\<open>bootstrap.bpf.c\<close>,
    \<^verbatim>\<open>runqslower.bpf.c\<close>, \<^verbatim>\<open>capable.bpf.c\<close> and \<^verbatim>\<open>tracecon.bpf.c\<close>. \<^verbatim>\<open>Sockfilter\<close>: \<^verbatim>\<open>sockfilter.bpf.c\<close> and the
    printing part of \<^verbatim>\<open>sockfilter.c\<close>. \<^verbatim>\<open>Profile\<close>: \<^verbatim>\<open>profile.bpf.c\<close> and \<^verbatim>\<open>profile.c\<close>. \<^verbatim>\<open>Probes\<close>: the small
    programs \<^verbatim>\<open>minimal\<close>, \<^verbatim>\<open>minimal_legacy\<close>, \<^verbatim>\<open>fentry\<close>, \<^verbatim>\<open>kprobe\<close>, \<^verbatim>\<open>uprobe\<close>, \<^verbatim>\<open>usdt\<close> and the test programs of
    \<^verbatim>\<open>libbpf-rs\<close>.
  \<^item> \<^verbatim>\<open>Userspace\<close>, \<^verbatim>\<open>Loaders\<close>, \<^verbatim>\<open>Bootstrap_Main\<close>: the \<^verbatim>\<open>main\<close> functions of the examples as traces of actions,
    with a monitor for their resources (locale \<open>disciplined\<close>).
  \<^item> \<^verbatim>\<open>Capable_Race\<close>: the capability tracer on several CPUs, as a step relation over its helper calls.
    \<^verbatim>\<open>Monitoring\<close>: the BPF program, the signal handler and the polling loop of \<^verbatim>\<open>bootstrap\<close> and \<^verbatim>\<open>sockfilter\<close>,
    interleaved by a step relation, on top of \<open>event_source\<close>. What \<^verbatim>\<open>ring_buffer__poll\<close> of libbpf does is a parameter; its
    documented behaviour is the locale \<open>ring_consumer\<close>.
  \<^item> \<^verbatim>\<open>Btf\<close>: the reader of \<^verbatim>\<open>libbpf-cargo/src/btf\<close>; a call has the type \<open>run\<close> of \<^verbatim>\<open>Rust_Std\<close>: a value, an error, a panic, or no
    result at all. \<^verbatim>\<open>Btf_Format\<close>: the format it reads, as an encoder. \<^verbatim>\<open>Btf_Gen\<close>: the code generator of \<^verbatim>\<open>btf.rs\<close>, whose functions
    recurse over type ids and are partial functions. \<^verbatim>\<open>Btf_Termination\<close>: for which tables they return.
    \<^verbatim>\<open>Btf_Layout\<close>: where the Rust compiler puts the generated fields.
  \<^item> \<^verbatim>\<open>Libbpf_Map\<close>: \<^verbatim>\<open>util.rs\<close> and \<^verbatim>\<open>map.rs\<close> of \<^verbatim>\<open>libbpf-rs\<close> over the system calls (locale \<open>sys_map\<close>); through it a map of bytes becomes a
    typed map with the laws of \<open>bpf_map\<close> and \<open>bpf_array_map\<close> (locales \<open>typed_map\<close> and \<open>typed_array\<close>). \<^verbatim>\<open>Libbpf_Query\<close>: \<^verbatim>\<open>query.rs\<close>.
    \<^verbatim>\<open>Libbpf_Attach\<close>: \<^verbatim>\<open>ringbuf.rs\<close>, \<^verbatim>\<open>perf_buffer.rs\<close>, \<^verbatim>\<open>program.rs\<close>, \<^verbatim>\<open>link.rs\<close> and \<^verbatim>\<open>tc.rs\<close>. \<^verbatim>\<open>Libbpf_Object\<close>: \<^verbatim>\<open>object.rs\<close>,
    \<^verbatim>\<open>skeleton.rs\<close>, and the skeletons that \<^verbatim>\<open>gen.rs\<close> of \<^verbatim>\<open>libbpf-cargo\<close> generates.
  \<^item> \<^verbatim>\<open>Tracecon_Main\<close>, \<^verbatim>\<open>Profile_Main\<close>, \<^verbatim>\<open>Bpf_Query\<close>: the Rust programs \<^verbatim>\<open>tracecon\<close>, \<^verbatim>\<open>xdp\<close>, \<^verbatim>\<open>profile\<close> and \<^verbatim>\<open>bpf_query\<close>.
  \<^item> \<^verbatim>\<open>Front_Ends\<close>: the Rust programs that load \<^verbatim>\<open>runqslower\<close>, \<^verbatim>\<open>capable\<close> and \<^verbatim>\<open>tc_port_whitelist\<close>, from their options to
    the constants and maps of the BPF program and from its records to the printed line.
  \<^item> \<^verbatim>\<open>Abi\<close>: what the programs rely on across the kernel headers: the members they read, with their types and places, and the
    numbering of the BPF interface.
  This theory holds results that span a loader, or a library, and the BPF program it loads.

  \<^bold>\<open>State and operations.\<close> A BPF handler is a function from its configuration (the global constants), the
  invocation context (\<open>task_env\<close> and its extensions: what the helpers without a map argument return) and
  its state (a record with one field per map or buffer) to the new state and the return code. A
  sequence of events is \<open>run_steps\<close>. A \<^verbatim>\<open>main\<close> function takes the results of its calls into libbpf, libc
  and the kernel, and the rounds its loop makes, and yields the trace and the outcome; a loop that is
  still running when the given rounds are used up is \<open>Running\<close>. There is no fuel: every other loop of the C
  sources is bounded and its definition total. The loops of the Rust libraries that follow type ids, object ids or
  keys are \<^theory_text>\<open>partial_function\<close>s, where not returning is a value of its own; that they return is proved
  (\<open>generator_terminates\<close>, \<open>query_lists_objects\<close>, \<open>keys_enumerated\<close>), and so is where they do not.

  \<^bold>\<open>Results.\<close> For every program: the exact behaviour of a handler on all branches, and invariants over
  sequences of events of any length. The pod snooper detects exactly the stored ASCII commands of at
  most 15 characters; together with the controller it starts the patch script of a pod exactly when a task of its cgroup
  enters \<^verbatim>\<open>execve\<close> under the name of the last command of its annotation (the name it has before the new program replaces it), and one pod with an overlong command or an
  unknown cgroup stops the controller. The packet programs never read outside a packet, for any packet, and compute
  the specified verdict. The process tracer refines the map of live processes, and its user-space part prints how long each one lived;
  the run queue and capability tracers report only what their filters allow; the connection tracer
  keeps threads apart and reports a looked-up host by name. On several CPUs the capability tracer reports
  a capability of a process at most once per CPU. The polling loop of the process tracer ends within one round of a signal,
  whatever libbpf delivers; given the documented consumer, user space handles every event once and in order.
  The socket filter prints one address where source and destination should stand. The port list of the whitelist decides exactly which packets pass, the
  process option of \<^verbatim>\<open>runqslower\<close> filters threads, and a task name that is not UTF-8 ends \<^verbatim>\<open>capable\<close>. The profiler reads neither a stack nor
  the answer of the symbolizer out of bounds, and prints every captured frame. The loaders release what they acquire, but for the raw
  socket of \<^verbatim>\<open>sockfilter\<close> and for what \<^verbatim>\<open>bpf_tc_hook_destroy\<close> leaves behind in \<^verbatim>\<open>tc\<close>; the offset \<^verbatim>\<open>uprobe\<close> computes is the one in the file; their exit statuses are characterised, with the cases where an
  error is reported as success. Every member the programs read is in each header, with the type they expect; the kernel interface of the headers is append-only, and \<^verbatim>\<open>libbpf-rs\<close> names its types as the headers do.
  The BTF reader inverts the format and returns on any bytes; the structures and sections generated from it have every
  member where the C program has it, and the generator terminates exactly when the type references it follows are not
  circular. Per-CPU values, keys and object lists of \<^verbatim>\<open>libbpf-rs\<close> are complete; its ring buffers leak on errors; a generated
  skeleton closes its object once, unless opening fails half-way and leaves it open, and through the library an object is
  closed twice when it was loaded without one of its maps. The C and the Rust profiler print the same frames of a sample, after headers
  that differ, and the Rust copies of the C structures have every member where the originals have it.

  \<^bold>\<open>Not modelled.\<close> The build and command line tools of \<^verbatim>\<open>libbpf-cargo\<close>, the text around the generated skeletons, and accessors of
  \<^verbatim>\<open>libbpf-rs\<close> that pass a value on to libbpf; the vendored library \<^verbatim>\<open>kube\<close>; the
  Python and shell scripts, Kubernetes manifests and build files; the kernel, libbpf, the symbolizer and
  the crates \<^verbatim>\<open>main.rs\<close> calls, which are parameters; the BPF verifier. Apart from the capability tracer,
  whose handler reads and then writes a key that another CPU may share, concurrent invocations are not
  interleaved inside a handler: each invocation is one step. Declarations of the kernel headers that no
  program here uses are left out, and so are the copies of a program that are identical to one that is
  modelled (\<^verbatim>\<open>ebpf-pod-network-stats/systemd_version\<close>, \<^verbatim>\<open>runqslower\<close> under \<^verbatim>\<open>libbpf-rs/tests\<close>).
\<close>

section \<open>The uprobe example, from the traced functions to the trace pipe\<close>

text \<open>
  One round of the loop of \<^verbatim>\<open>uprobe.c\<close>, seen by the four attached programs of \<^verbatim>\<open>uprobe.bpf.c\<close>: entry and
  return of \<^verbatim>\<open>uprobed_add(i, i + 1)\<close>, then of \<^verbatim>\<open>uprobed_sub(i * i, i)\<close>.
\<close>

definition uprobe_round_traced :: "nat \<Rightarrow> printk list \<Rightarrow> printk list" where
  "uprobe_round_traced k log =
     (let i = of_nat k :: s32;
          log1 = fst (uprobe_add i (i + 1) log);
          log2 = fst (uretprobe_add (uprobed_add i (i + 1)) log1);
          log3 = fst (uprobe_sub (i * i) i log2)
      in fst (uretprobe_sub (uprobed_sub (i * i) i) log3))"

text \<open>The signed values of the numbers in the lines of a log.\<close>

definition line_ints :: "printk \<Rightarrow> int list" where
  "line_ints l = concat (map (\<lambda>a. case a of PInt w \<Rightarrow> [sint w] | _ \<Rightarrow> []) (snd l))"

lemma sint_small: "n < 2 ^ 31 \<Longrightarrow> sint (of_nat n :: s32) = int n"
  by (simp add: sint_uint uint_nat unat_of_nat signed_take_bit_int_eq_self)

text \<open>The uprobe example traces the calls it makes. As long as the square of the round number fits a
  C \<^verbatim>\<open>int\<close>, that is for the first 46341 rounds, the four lines a round adds to the trace pipe hold the
  mathematical arguments and results of the two functions; in the next round they no longer do, the
  product overflows.\<close>

lemma uprobe_rounds_traced:
  "(k \<le> 46340 \<longrightarrow>
     (\<exists>ls. uprobe_round_traced k log = log @ ls \<and>
       map line_ints ls = [[int k, int k + 1], [2 * int k + 1], [int k * int k, int k], [int k * int k - int k]])) \<and>
   (\<exists>ls. uprobe_round_traced 46341 log = log @ ls \<and> line_ints (ls ! 2) = [46341 * 46341 - 2 ^ 32, 46341])"
proof (intro conjI impI)
  assume k: "k \<le> 46340"
  have "k * k \<le> 46340 * 46340" using k by (intro mult_mono) auto
  then have kk: "k * k < 2 ^ 31" by simp
  have "int k * int k - int k = int (k * k - k)" by (cases k) (auto simp: algebra_simps)
  moreover have "(of_nat k * of_nat k - of_nat k :: s32) = of_nat (k * k - k)" by (cases k) (auto simp: algebra_simps)
  ultimately have sub: "sint (of_nat k * of_nat k - of_nat k :: s32) = int k * int k - int k"
    using kk sint_small [of "k * k - k"] by simp
  have "sint (of_nat (2 * k + 1) :: s32) = int (2 * k + 1)" using k by (intro sint_small) simp
  then have add: "sint (2 * of_nat k + 1 :: s32) = 2 * int k + 1" by (simp add: add.commute)
  have v: "sint (of_nat k :: s32) = int k" "sint (of_nat k + 1 :: s32) = int k + 1"
    "sint (of_nat k * of_nat k :: s32) = int k * int k"
    using k kk sint_small [of k] sint_small [of "k + 1"] sint_small [of "k * k"] by (simp_all add: algebra_simps)
  show "\<exists>ls. uprobe_round_traced k log = log @ ls \<and>
      map line_ints ls = [[int k, int k + 1], [2 * int k + 1], [int k * int k, int k], [int k * int k - int k]]"
    by (simp add: uprobe_round_traced_def Let_def uprobe_add_def uretprobe_add_def uprobe_sub_def uretprobe_sub_def
        uprobed_add_def uprobed_sub_def line_ints_def v add sub)
next
  show "\<exists>ls. uprobe_round_traced 46341 log = log @ ls \<and> line_ints (ls ! 2) = [46341 * 46341 - 2 ^ 32, 46341]"
    by (simp add: uprobe_round_traced_def Let_def uprobe_add_def uretprobe_add_def uprobe_sub_def uretprobe_sub_def
        line_ints_def)
qed

lemma uprobe_rounds_traced_example:
  "\<exists>ls. uprobe_round_traced 3 [] = [] @ ls \<and> map line_ints ls = [[3, 4], [7], [9, 3], [6]]"
  using uprobe_rounds_traced [of 3 "[]"] by simp

section \<open>The port list through libbpf-rs\<close>

text \<open>
  The front end writes the ports with \<^verbatim>\<open>Map::update\<close>, as bytes; the BPF program reads the elements of the array that the kernel
  keeps. Whatever the kernel's array, if it holds bytes (locale \<open>typed_array\<close>) and was zero before, the ports that the
  front end was given, and 0 unless there are ten of them, are the ones the BPF program finds.
\<close>

lemma whitelist_ports_through_library:
  assumes "typed_array sops mp bytes_of_u32 bytes_of_u16 u16_of_bytes MAX_PORTS"
    and "\<And>i. i < MAX_PORTS \<Longrightarrow> sys_lookup sops m (bytes_of_u32 (of_nat i)) 0 = Inr [0, 0]"
    and "length ports \<le> MAX_PORTS" and "classify (pkt_bytes skb) = Ports src dst"
    and "\<And>m k. map_lookup kops m k = (case sys_lookup sops m (bytes_of_u32 k) 0 of Inr bs \<Rightarrow> Some (u16_of_bytes bs) | Inl e \<Rightarrow> None)"
  shows "map_option snd (handle_tc kops (fst (set_ports (lib_ops sops mp bytes_of_u32 bytes_of_u16 u16_of_bytes) 0 ports m)) g skb tr) =
    Some (if (\<exists>p \<in> {src, dst}. p \<in> set ports \<or> p = 0 \<and> length ports < MAX_PORTS) then uint (rc_allow g) else uint (rc_disallow g))"
proof -
  let ?ops = "lib_ops sops mp bytes_of_u32 bytes_of_u16 u16_of_bytes"
  have look: "map_lookup ?ops m k = map_lookup kops m k" for m k
    using typed_map.lib_lookup [OF typed_array.axioms(1) [OF assms(1)]] assms(5) by simp
  have "u16_of_bytes [0, 0] = 0" by code_simp
  then have zero: "map_lookup ?ops m (of_nat i) = Some 0" if "i < MAX_PORTS" for i
    using assms(2) [OF that] by (simp add: look assms(5))
  have "port_set kops m' p = port_set ?ops m' p" for m' p by (simp add: port_set_def look)
  then show ?thesis
    using port_set_of [OF typed_array.array_contract [OF assms(1)] assms(3) zero] assms(4)
    unfolding handle_tc_eq by (simp add: verdict_def)
qed

text \<open>The array of the kernel keeps these laws.\<close>

lemma whitelist_library_example:
  "map_option snd (handle_tc (lib_ops (barray_ops MAX_PORTS 2) ports_map bytes_of_u32 bytes_of_u16 u16_of_bytes)
     (fst (set_ports (lib_ops (barray_ops MAX_PORTS 2) ports_map bytes_of_u32 bytes_of_u16 u16_of_bytes) 0 [443] []))
     whitelist_init tcp_packet []) = Some 255"
proof -
  have "classify tcp_bytes = Ports 443 1024" by code_simp
  then have "classify (pkt_bytes tcp_packet) = Ports 443 1024"
    by (simp add: tcp_packet_def mk_packet_bytes tcp_bytes_def)
  moreover have "sys_lookup (barray_ops MAX_PORTS 2) [] (bytes_of_u32 (of_nat i)) 0 = Inr [0, 0]" if "i < MAX_PORTS" for i
  proof -
    have "replicate 2 (0 :: u8) = [0, 0]" by code_simp
    then show ?thesis using that by (simp add: barray_ops_def unat_of_nat MAX_PORTS_def)
  qed
  moreover have "uint (rc_allow whitelist_init) = 255" by code_simp
  ultimately show ?thesis
    using whitelist_ports_through_library [OF barray.typed_array_axioms, of "[]" "[443]" tcp_packet 443 1024
      "lib_ops (barray_ops MAX_PORTS 2) ports_map bytes_of_u32 bytes_of_u16 u16_of_bytes" whitelist_init "[]"]
    by (simp add: barray.lib_lookup MAX_PORTS_def)
qed

end
